(* ===== verification/Prelude.thy ===== *)
theory Prelude
  imports Main "HOL-Library.Word" "HOL-Library.AList"
begin

text \<open>
  Shared vocabulary of the development: machine integers, error values, the
  result-and-state programs the components are written in, the parts of Rust's standard
  library the sources use (string slicing and splitting, decimal and hexadecimal
  formatting, paths, hash maps, IPv4 addresses) and the lemma collections that carry the
  component proofs.

  A Rust string is a sequence of UTF-8 bytes, so \<open>string\<close> (a list of 8-bit characters)
  is its byte sequence. Whitespace is the ASCII whitespace of Rust's
  \<^verbatim>\<open>char::is_whitespace\<close>.
\<close>

unbundle bit_operations_syntax

named_theorems prog_simps \<open>evaluation of programs one operation at a time\<close>
named_theorems frame_rules \<open>programs that only extend the call history\<close>
named_theorems plain_rules \<open>programs that neither panic nor diverge\<close>
named_theorems makes_rules \<open>programs all of whose calls satisfy a predicate\<close>
named_theorems wp_rules \<open>rules of the Hoare triples\<close>
named_theorems inr_elims \<open>what a successful run of a construct consists of\<close>
named_theorems inr_simps \<open>when a basic operation succeeds\<close>

type_synonym u8 = "8 word"
type_synonym u16 = "16 word"
type_synonym u32 = "32 word"
type_synonym u64 = "64 word"
type_synonym u128 = "128 word"
type_synonym bytes = "u8 list"
type_synonym path = string

section \<open>Errors\<close>

text \<open>
  \<open>Fail cs n\<close> is an \<^verbatim>\<open>anyhow::Error\<close> (or a plain error value): \<open>cs\<close> is its chain of
  messages, outermost context first, and \<open>n\<close> the operating system error number at its root,
  when it has one. \<open>Panic\<close> is a panic and \<open>Diverge\<close> a loop that did not finish within the
  fuel the environment grants.
\<close>

datatype err = Fail (err_chain: "string list") (err_os: "nat option") | Panic string | Diverge

text \<open>An error of the operating system: its number, when it has one, and its text.\<close>

type_synonym os_err = "nat option \<times> string"

definition of_os :: "os_err \<Rightarrow> err" where
  "of_os e = Fail [snd e] (fst e)"

text \<open>\<^verbatim>\<open>bail!\<close> and \<^verbatim>\<open>anyhow!\<close>: an error with one message and no cause.\<close>

definition msg :: "string \<Rightarrow> err" where
  "msg m = Fail [m] None"

fun add_ctx :: "string \<Rightarrow> err \<Rightarrow> err" where
  "add_ctx c (Fail cs n) = Fail (c # cs) n"
| "add_ctx c e = e"

fun join_str :: "string \<Rightarrow> string list \<Rightarrow> string" where
  "join_str sep [] = []"
| "join_str sep [x] = x"
| "join_str sep (x # y # zs) = x @ sep @ join_str sep (y # zs)"

text \<open>\<^verbatim>\<open>{e}\<close> prints the outermost message only; \<^verbatim>\<open>{e:#}\<close> prints the whole chain.\<close>

fun show_err :: "err \<Rightarrow> string" where
  "show_err (Fail cs n) = (case cs of [] \<Rightarrow> [] | c # _ \<Rightarrow> c)"
| "show_err (Panic m) = m"
| "show_err Diverge = []"

fun show_chain :: "err \<Rightarrow> string" where
  "show_chain (Fail cs n) = join_str '': '' cs"
| "show_chain (Panic m) = m"
| "show_chain Diverge = []"

section \<open>Programs\<close>

text \<open>
  A fallible operation on a state \<open>'s\<close> returns an error or a value and the state it leaves,
  also when it fails: nothing is rolled back on an early return.
\<close>

type_synonym ('s, 'a) prog = "'s \<Rightarrow> (err + 'a) \<times> 's"

definition retE :: "'a \<Rightarrow> ('s, 'a) prog" where
  "retE x s = (Inr x, s)"

definition failE :: "err \<Rightarrow> ('s, 'a) prog" where
  "failE e s = (Inl e, s)"

text \<open>\<^verbatim>\<open>let x = m?; f\<close>\<close>

definition bindE :: "('s, 'a) prog \<Rightarrow> ('a \<Rightarrow> ('s, 'b) prog) \<Rightarrow> ('s, 'b) prog" where
  "bindE m f s = (case m s of (Inl e, s') \<Rightarrow> (Inl e, s') | (Inr x, s') \<Rightarrow> f x s')"

definition thenE :: "('s, 'a) prog \<Rightarrow> ('s, 'b) prog \<Rightarrow> ('s, 'b) prog" where
  "thenE m n = bindE m (\<lambda>_. n)"

text \<open>\<^verbatim>\<open>m.context(c)\<close>\<close>

definition ctxE :: "string \<Rightarrow> ('s, 'a) prog \<Rightarrow> ('s, 'a) prog" where
  "ctxE c m s = (case m s of (Inl e, s') \<Rightarrow> (Inl (add_ctx c e), s') | (Inr x, s') \<Rightarrow> (Inr x, s'))"

text \<open>
  \<^verbatim>\<open>match m { Ok(..) => .., Err(..) => .. }\<close>: the error becomes a value; a panic or an
  endless loop is not caught.
\<close>

definition catchE :: "('s, 'a) prog \<Rightarrow> ('s, err + 'a) prog" where
  "catchE m s = (case m s of
      (Inl (Fail cs n), s') \<Rightarrow> (Inr (Inl (Fail cs n)), s')
    | (Inl e, s') \<Rightarrow> (Inl e, s')
    | (Inr x, s') \<Rightarrow> (Inr (Inr x), s'))"

text \<open>\<^verbatim>\<open>let _ = m;\<close> drops an error.\<close>

definition ignoreE :: "('s, 'a) prog \<Rightarrow> ('s, unit) prog" where
  "ignoreE m = bindE (catchE m) (\<lambda>_. retE ())"

definition getE :: "('s \<Rightarrow> 'a) \<Rightarrow> ('s, 'a) prog" where
  "getE f s = (Inr (f s), s)"

definition modE :: "('s \<Rightarrow> 's) \<Rightarrow> ('s, unit) prog" where
  "modE f s = (Inr (), f s)"

text \<open>An \<open>Option\<close> turned into a result: \<^verbatim>\<open>o.context(..)?\<close>, \<^verbatim>\<open>o.ok_or_else(..)?\<close>\<close>

definition ofOptE :: "err \<Rightarrow> 'a option \<Rightarrow> ('s, 'a) prog" where
  "ofOptE e x = (case x of None \<Rightarrow> failE e | Some v \<Rightarrow> retE v)"

definition ofSumE :: "err + 'a \<Rightarrow> ('s, 'a) prog" where
  "ofSumE x s = (x, s)"

text \<open>
  A drop guard: \<open>fin\<close> runs when \<open>m\<close> is left, by a value, an error or a panic, and does not change
  the outcome.
\<close>

definition finallyE :: "('s, 'a) prog \<Rightarrow> ('s, unit) prog \<Rightarrow> ('s, 'a) prog" where
  "finallyE m fin s = (case m s of (r, s') \<Rightarrow> if r = Inl Diverge then (r, s') else (r, snd (fin s')))"

text \<open>
  \<^verbatim>\<open>spawn_blocking(m).await.context(c)?\<close>: a panic of the task is an error of the one who waits for it.
\<close>

definition blockingE :: "string \<Rightarrow> ('s, 'a) prog \<Rightarrow> ('s, 'a) prog" where
  "blockingE c m s = (case m s of (Inl (Panic p), s') \<Rightarrow> (Inl (Fail [c, ''task panicked''] None), s') | x \<Rightarrow> x)"

text \<open>\<^verbatim>\<open>m.map_err(|e| format!(..))\<close>: an error becomes one text; a panic stays a panic.\<close>

definition map_err :: "(err \<Rightarrow> string) \<Rightarrow> ('s, 'a) prog \<Rightarrow> ('s, 'a) prog" where
  "map_err f m s = (case m s of (Inl (Fail cs n), s') \<Rightarrow> (Inl (msg (f (Fail cs n))), s') | x \<Rightarrow> x)"

lemma retE_apply [prog_simps]: "retE x s = (Inr x, s)"
  by (simp add: retE_def)

lemma failE_apply [prog_simps]: "failE e s = (Inl e, s)"
  by (simp add: failE_def)

lemma getE_apply [prog_simps]: "getE f s = (Inr (f s), s)"
  by (simp add: getE_def)

lemma modE_apply [prog_simps]: "modE f s = (Inr (), f s)"
  by (simp add: modE_def)

lemmas prog_unfold = bindE_def thenE_def ctxE_def catchE_def ignoreE_def ofOptE_def ofSumE_def
lemmas prog_ops_defs = prog_unfold retE_def failE_def getE_def modE_def

lemma thenE_apply: "thenE m n s = (case m s of (Inl e, s') \<Rightarrow> (Inl e, s') | (Inr x, s') \<Rightarrow> n s')"
  by (simp add: thenE_def bindE_def)

declare finallyE_def [prog_simps] blockingE_def [prog_simps]

declare bindE_def [prog_simps] thenE_apply [prog_simps] ctxE_def [prog_simps] catchE_def [prog_simps]
  ignoreE_def [prog_simps] ofOptE_def [prog_simps] ofSumE_def [prog_simps]

text \<open>
  Evaluation of a program on a concrete state goes left to right: the continuation is not
  looked at before the operation in front of it has been evaluated.
\<close>

lemma prog_congs:
  "m = m' \<Longrightarrow> bindE m f = bindE m' f"
  "m = m' \<Longrightarrow> thenE m n = thenE m' n"
  by simp_all

lemma bindE_InrE [inr_elims]:
  assumes "bindE m f s = (Inr y, s')"
  obtains x s1 where "m s = (Inr x, s1)" and "f x s1 = (Inr y, s')"
  using assms by (auto simp: bindE_def split: prod.splits sum.splits)

lemma thenE_InrE [inr_elims]:
  assumes "thenE m n s = (Inr y, s')"
  obtains x s1 where "m s = (Inr x, s1)" and "n s1 = (Inr y, s')"
  using assms unfolding thenE_def by (rule bindE_InrE)

lemma ctxE_Inr [inr_simps]: "ctxE c m s = (Inr y, s') \<longleftrightarrow> m s = (Inr y, s')"
  by (auto simp: ctxE_def split: prod.splits sum.splits)

lemma map_err_Inr [inr_simps]: "map_err f m s = (Inr x, s') \<longleftrightarrow> m s = (Inr x, s')"
  by (auto simp: map_err_def split: prod.splits sum.splits err.splits)

lemma basic_Inr [inr_simps]:
  "retE x s = (Inr y, s') \<longleftrightarrow> y = x \<and> s' = s"
  "failE e s = (Inr y, s') \<longleftrightarrow> False"
  "getE f s = (Inr y, s') \<longleftrightarrow> y = f s \<and> s' = s"
  "modE g s = (Inr u, s') \<longleftrightarrow> s' = g s"
  "ofOptE e xo s = (Inr y, s') \<longleftrightarrow> xo = Some y \<and> s' = s"
  "ofSumE r s = (Inr y, s') \<longleftrightarrow> r = Inr y \<and> s' = s"
  by (cases xo; auto simp: prog_ops_defs)+

text \<open>
  \<open>valid P m Q\<close>: from a state with \<open>P\<close>, \<open>m\<close> leaves a result and a state with \<open>Q\<close>, on every
  branch, errors included.
\<close>

definition valid :: "('s \<Rightarrow> bool) \<Rightarrow> ('s, 'a) prog \<Rightarrow> (err + 'a \<Rightarrow> 's \<Rightarrow> bool) \<Rightarrow> bool" where
  "valid P m Q \<longleftrightarrow> (\<forall>s. P s \<longrightarrow> Q (fst (m s)) (snd (m s)))"

lemma validI: "(\<And>s. P s \<Longrightarrow> Q (fst (m s)) (snd (m s))) \<Longrightarrow> valid P m Q"
  by (simp add: valid_def)

lemma validD: "valid P m Q \<Longrightarrow> P s \<Longrightarrow> m s = (r, s') \<Longrightarrow> Q r s'"
  by (force simp: valid_def)

lemma valid_bindE:
  assumes "valid P m R" and "\<And>x. valid (R (Inr x)) (f x) Q" and "\<And>e s. R (Inl e) s \<Longrightarrow> Q (Inl e) s"
  shows "valid P (bindE m f) Q"
proof (rule validI)
  fix s assume P: "P s"
  obtain r s' where m: "m s = (r, s')" by (cases "m s")
  with assms(1) P have R: "R r s'" by (rule validD)
  show "Q (fst (bindE m f s)) (snd (bindE m f s))"
  proof (cases r)
    case (Inl e)
    with R m show ?thesis by (simp add: bindE_def assms(3))
  next
    case (Inr x)
    with R m assms(2) [of x] show ?thesis by (simp add: bindE_def valid_def)
  qed
qed

text \<open>An invariant of a program: it holds afterwards whatever the outcome.\<close>

definition preserves :: "('s \<Rightarrow> bool) \<Rightarrow> ('s, 'a) prog \<Rightarrow> bool" where
  "preserves P m \<longleftrightarrow> (\<forall>s. P s \<longrightarrow> P (snd (m s)))"

lemma preservesI: "(\<And>s. P s \<Longrightarrow> P (snd (m s))) \<Longrightarrow> preserves P m"
  by (simp add: preserves_def)

lemma preservesD: "preserves P m \<Longrightarrow> P s \<Longrightarrow> P (snd (m s))"
  by (simp add: preserves_def)

lemma preserves_retE [wp_rules]: "preserves P (retE x)"
  and preserves_failE [wp_rules]: "preserves P (failE e)"
  and preserves_getE [wp_rules]: "preserves P (getE f)"
  and preserves_ofSumE [wp_rules]: "preserves P (ofSumE r)"
  by (simp_all add: preserves_def prog_ops_defs)

lemma preserves_ofOptE [wp_rules]: "preserves P (ofOptE e x)"
  by (cases x) (simp_all add: preserves_def prog_ops_defs)

lemma preserves_modE [wp_rules]: "(\<And>s. P s \<Longrightarrow> P (f s)) \<Longrightarrow> preserves P (modE f)"
  by (simp add: preserves_def modE_def)

lemma snd_ctxE [simp]: "snd (ctxE c m s) = snd (m s)"
  by (simp add: ctxE_def split: prod.split sum.split)

lemma snd_catchE [simp]: "snd (catchE m s) = snd (m s)"
  by (simp add: catchE_def split: prod.split sum.split err.split)

lemma snd_ignoreE [simp]: "snd (ignoreE m s) = snd (m s)"
  by (simp add: ignoreE_def bindE_def catchE_def retE_def split: prod.split sum.split err.split)

lemma snd_map_err [simp]: "snd (map_err f m s) = snd (m s)"
  by (simp add: map_err_def split: prod.split sum.split err.split)

lemma snd_blockingE [simp]: "snd (blockingE c m s) = snd (m s)"
  by (simp add: blockingE_def split: prod.split sum.split err.split)

lemma snd_finallyE: "snd (finallyE m fin s) = (if fst (m s) = Inl Diverge then snd (m s) else snd (fin (snd (m s))))"
  by (simp add: finallyE_def split: prod.split)

lemma snd_bindE:
  "snd (bindE m f s) = (case fst (m s) of Inl e \<Rightarrow> snd (m s) | Inr x \<Rightarrow> snd (f x (snd (m s))))"
  by (simp add: bindE_def split: prod.split sum.split)

lemma preserves_bindE [wp_rules]:
  "preserves P m \<Longrightarrow> (\<And>x. preserves P (f x)) \<Longrightarrow> preserves P (bindE m f)"
  by (simp add: preserves_def snd_bindE split: sum.split)

lemma preserves_thenE [wp_rules]:
  "preserves P m \<Longrightarrow> preserves P n \<Longrightarrow> preserves P (thenE m n)"
  unfolding thenE_def by (rule preserves_bindE)

lemma preserves_ctxE [wp_rules]: "preserves P m \<Longrightarrow> preserves P (ctxE c m)"
  by (simp add: preserves_def)

lemma preserves_catchE [wp_rules]: "preserves P m \<Longrightarrow> preserves P (catchE m)"
  by (simp add: preserves_def)

lemma preserves_ignoreE [wp_rules]: "preserves P m \<Longrightarrow> preserves P (ignoreE m)"
  by (simp add: preserves_def)

lemma preserves_blockingE [wp_rules]: "preserves P m \<Longrightarrow> preserves P (blockingE c m)"
  by (simp add: preserves_def)

lemma preserves_map_err [wp_rules]: "preserves P m \<Longrightarrow> preserves P (map_err f m)"
  by (simp add: preserves_def)

lemma preserves_finallyE [wp_rules]: "preserves P m \<Longrightarrow> preserves P fin \<Longrightarrow> preserves P (finallyE m fin)"
  by (simp add: preserves_def snd_finallyE)

lemma preserves_if [wp_rules]:
  "(b \<Longrightarrow> preserves P m) \<Longrightarrow> (\<not> b \<Longrightarrow> preserves P n) \<Longrightarrow> preserves P (if b then m else n)"
  by simp

lemma preserves_case_sum [wp_rules]:
  "(\<And>e. r = Inl e \<Longrightarrow> preserves P (f e)) \<Longrightarrow> (\<And>x. r = Inr x \<Longrightarrow> preserves P (g x)) \<Longrightarrow>
   preserves P (case r of Inl e \<Rightarrow> f e | Inr x \<Rightarrow> g x)"
  by (simp split: sum.split)

lemma preserves_case_option [wp_rules]:
  "(x = None \<Longrightarrow> preserves P m) \<Longrightarrow> (\<And>y. x = Some y \<Longrightarrow> preserves P (f y)) \<Longrightarrow>
   preserves P (case x of None \<Rightarrow> m | Some y \<Rightarrow> f y)"
  by (simp split: option.split)

lemma preserves_case_prod [wp_rules]:
  "(\<And>a b. x = (a, b) \<Longrightarrow> preserves P (f a b)) \<Longrightarrow> preserves P (case x of (a, b) \<Rightarrow> f a b)"
  by (simp split: prod.split)

section \<open>Programs that always return\<close>

text \<open>\<open>plain m\<close>: \<open>m\<close> returns a value or an ordinary error; it never panics and never runs forever.\<close>

definition plain :: "('s, 'a) prog \<Rightarrow> bool" where
  "plain m \<longleftrightarrow> (\<forall>s e. fst (m s) = Inl e \<longrightarrow> (\<exists>cs n. e = Fail cs n))"

lemma plain_basic [plain_rules]:
  "plain (retE x)" "plain (failE (Fail cs n))" "plain (getE f)" "plain (modE g)" "plain (ofOptE (Fail cs n) v)"
  by (cases v; simp add: plain_def prog_ops_defs)+

lemma plain_msg [plain_rules]: "plain (failE (msg m))" "plain (ofOptE (msg m) v)"
  by (simp_all add: msg_def plain_rules)

lemma plain_bindE [plain_rules]:
  assumes "plain m" and "\<And>x. plain (f x)" shows "plain (bindE m f)"
  unfolding plain_def
proof (intro allI impI)
  fix s e assume e: "fst (bindE m f s) = Inl e"
  show "\<exists>cs n. e = Fail cs n"
  proof (cases "fst (m s)")
    case (Inl e')
    then have "fst (bindE m f s) = Inl e'" by (cases "m s") (simp add: bindE_def)
    then show ?thesis using assms(1) e Inl by (simp add: plain_def)
  next
    case (Inr x)
    then have "fst (bindE m f s) = fst (f x (snd (m s)))" by (cases "m s") (simp add: bindE_def)
    then show ?thesis using assms(2) [of x] e by (simp add: plain_def)
  qed
qed

lemma plain_thenE [plain_rules]: "plain m \<Longrightarrow> plain n \<Longrightarrow> plain (thenE m n)"
  unfolding thenE_def by (rule plain_bindE)

lemma fst_ctxE: "fst (ctxE c m s) = map_sum (add_ctx c) id (fst (m s))"
  by (simp add: ctxE_def split: prod.split sum.split)

lemma plain_ctxE [plain_rules]: "plain m \<Longrightarrow> plain (ctxE c m)"
  by (fastforce simp: plain_def fst_ctxE map_sum_def split: sum.splits)

lemma plain_map_err [plain_rules]:
  assumes "plain m" shows "plain (map_err f m)"
  unfolding plain_def
proof (intro allI impI)
  fix s e assume e: "fst (map_err f m s) = Inl e"
  obtain r s' where run: "m s = (r, s')" by (cases "m s")
  show "\<exists>cs n. e = Fail cs n"
  proof (cases r)
    case (Inl e')
    then obtain cs n where "e' = Fail cs n" using assms run unfolding plain_def by (metis fst_conv)
    then show ?thesis using e run Inl by (auto simp: map_err_def msg_def)
  qed (use e run in \<open>simp add: map_err_def\<close>)
qed

lemma plain_catchE_Inr: "plain m \<Longrightarrow> fst (catchE m s) = Inr (fst (m s))"
proof -
  assume m: "plain m"
  obtain r s' where run: "m s = (r, s')" by (cases "m s")
  show ?thesis
  proof (cases r)
    case (Inl e)
    then obtain cs n where "e = Fail cs n" using m run unfolding plain_def by (metis fst_conv)
    then show ?thesis using run Inl by (simp add: catchE_def)
  qed (use run in \<open>simp add: catchE_def\<close>)
qed

lemma plain_catchE [plain_rules]: "plain m \<Longrightarrow> plain (catchE m)"
  unfolding plain_def [of "catchE m"] by (simp add: plain_catchE_Inr)

lemma plain_ignoreE_Inr: "plain m \<Longrightarrow> fst (ignoreE m s) = Inr ()"
  using plain_catchE_Inr [of m s] by (cases "catchE m s") (simp add: ignoreE_def bindE_def retE_def)

lemma plain_ignoreE [plain_rules]: "plain m \<Longrightarrow> plain (ignoreE m)"
  unfolding plain_def [of "ignoreE m"] by (simp add: plain_ignoreE_Inr)

lemma plain_cases [plain_rules]:
  "(b \<Longrightarrow> plain m) \<Longrightarrow> (\<not> b \<Longrightarrow> plain n) \<Longrightarrow> plain (if b then m else n)"
  "(\<And>e. r = Inl e \<Longrightarrow> plain (f e)) \<Longrightarrow> (\<And>x. r = Inr x \<Longrightarrow> plain (g x)) \<Longrightarrow> plain (case r of Inl e \<Rightarrow> f e | Inr x \<Rightarrow> g x)"
  "(xo = None \<Longrightarrow> plain m) \<Longrightarrow> (\<And>y. xo = Some y \<Longrightarrow> plain (h y)) \<Longrightarrow> plain (case xo of None \<Rightarrow> m | Some y \<Rightarrow> h y)"
  "(\<And>a c. p = (a, c) \<Longrightarrow> plain (k a c)) \<Longrightarrow> plain (case p of (a, c) \<Rightarrow> k a c)"
  by (simp_all split: sum.split option.split prod.split)

section \<open>Bounded resources\<close>

text \<open>
  An invariant with a budget: \<open>I n s\<close> says that \<open>s\<close> is fine and leaves room for \<open>n\<close> more steps of
  some resource that can run out, such as a counter that would wrap. \<open>costs I c m\<close>: \<open>m\<close> keeps the
  invariant and uses up at most \<open>c\<close>.
\<close>

definition costs :: "(nat \<Rightarrow> 's \<Rightarrow> bool) \<Rightarrow> nat \<Rightarrow> ('s, 'a) prog \<Rightarrow> bool" where
  "costs I c m \<longleftrightarrow> (\<forall>k s. I (c + k) s \<longrightarrow> I k (snd (m s)))"

lemma costsI: "(\<And>k s. I (c + k) s \<Longrightarrow> I k (snd (m s))) \<Longrightarrow> costs I c m"
  by (simp add: costs_def)

lemma costsD: "costs I c m \<Longrightarrow> I (c + k) s \<Longrightarrow> I k (snd (m s))"
  by (simp add: costs_def)

lemma costs_0: "(\<And>n. preserves (I n) m) \<Longrightarrow> costs I 0 m"
  by (simp add: costs_def preserves_def)

lemma costs_0D: "costs I 0 m \<Longrightarrow> preserves (I n) m"
  by (simp add: costs_def preserves_def)

lemma costs_if: "costs I c m \<Longrightarrow> costs I c n \<Longrightarrow> costs I c (if b then m else n)"
  by simp

locale budget =
  fixes I :: "nat \<Rightarrow> 's \<Rightarrow> bool"
  assumes budget_mono: "I n s \<Longrightarrow> m \<le> n \<Longrightarrow> I m s"
begin

lemma costs_mono: "costs I a m \<Longrightarrow> a \<le> c \<Longrightarrow> costs I c m"
  unfolding costs_def by (metis add_le_mono1 budget_mono)

lemma costs_bindE:
  assumes m: "costs I a m" and f: "\<And>x. costs I b (f x)" shows "costs I (a + b) (bindE m f)"
proof (rule costsI)
  fix k s assume "I (a + b + k) s"
  then have ok: "I (b + k) (snd (m s))" by (intro costsD [OF m]) (simp add: add.assoc)
  then show "I k (snd (bindE m f s))"
    using costsD [OF f] budget_mono [OF ok, of k] by (simp add: snd_bindE split: sum.split)
qed

lemma costs_thenE: "costs I a m \<Longrightarrow> costs I b n \<Longrightarrow> costs I (a + b) (thenE m n)"
  unfolding thenE_def by (rule costs_bindE)

lemma costs_ctxE: "costs I c m \<Longrightarrow> costs I c (ctxE x m)"
  and costs_catchE: "costs I c m \<Longrightarrow> costs I c (catchE m)"
  and costs_ignoreE: "costs I c m \<Longrightarrow> costs I c (ignoreE m)"
  by (simp_all add: costs_def)

lemma costs_free: "(\<And>n. preserves (I n) m) \<Longrightarrow> costs I c m"
  using costs_mono [OF costs_0] by blast

end

end
