(* ===== verification/RustStd.thy ===== *)
theory RustStd
  imports Prelude
begin

text \<open>
  The operations of Rust's standard library the sources use on strings, paths, numbers,
  addresses and hash maps, as executable functions, with the laws the components need:
  splitting and joining, decimal and hexadecimal formatting and parsing with their round
  trips, path joining, slices that panic off a character boundary, IPv4 addresses, and the
  interface of a hash map with its interpretation on association lists.
\<close>

section \<open>Strings\<close>

definition starts_with :: "string \<Rightarrow> string \<Rightarrow> bool" where
  "starts_with p s \<longleftrightarrow> take (length p) s = p"

fun contains_str :: "string \<Rightarrow> string \<Rightarrow> bool" where
  "contains_str p [] \<longleftrightarrow> p = []"
| "contains_str p (c # s) \<longleftrightarrow> starts_with p (c # s) \<or> contains_str p s"

text \<open>\<^verbatim>\<open>s.split(c)\<close>: the pieces between the separators, at least one.\<close>

fun split_on :: "char \<Rightarrow> string \<Rightarrow> string list" where
  "split_on c [] = [[]]"
| "split_on c (x # xs) =
     (if x = c then [] # split_on c xs
      else (case split_on c xs of [] \<Rightarrow> [[x]] | y # ys \<Rightarrow> (x # y) # ys))"

definition is_space :: "char \<Rightarrow> bool" where
  "is_space c \<longleftrightarrow> c \<in> {CHR '' '', CHR 0x09, CHR 0x0A, CHR 0x0B, CHR 0x0C, CHR 0x0D}"

text \<open>\<^verbatim>\<open>s.split_whitespace()\<close>: the maximal runs of non-space characters.\<close>

fun split_ws_acc :: "string \<Rightarrow> string \<Rightarrow> string list" where
  "split_ws_acc acc [] = (if acc = [] then [] else [rev acc])"
| "split_ws_acc acc (x # xs) =
     (if is_space x then (if acc = [] then split_ws_acc [] xs else rev acc # split_ws_acc [] xs)
      else split_ws_acc (x # acc) xs)"

definition split_ws :: "string \<Rightarrow> string list" where
  "split_ws s = split_ws_acc [] s"

text \<open>
  \<^verbatim>\<open>lines()\<close>: split at line feeds, a carriage return right before one dropped, no empty last line.
\<close>

definition str_lines :: "string \<Rightarrow> string list" where
  "str_lines s =
     (let ls = split_on (CHR 0x0A) s
      in map (\<lambda>l. if l \<noteq> [] \<and> last l = CHR 0x0D then butlast l else l) (butlast ls) @
         (if last ls = [] then [] else [last ls]))"

text \<open>\<^verbatim>\<open>s.trim()\<close>\<close>

definition trim :: "string \<Rightarrow> string" where
  "trim s = rev (dropWhile is_space (rev (dropWhile is_space s)))"

text \<open>\<^verbatim>\<open>s.strip_suffix(t)\<close>\<close>

definition strip_suffix :: "string \<Rightarrow> string \<Rightarrow> string option" where
  "strip_suffix t s =
     (if length t \<le> length s \<and> drop (length s - length t) s = t
      then Some (take (length s - length t) s) else None)"

text \<open>
  A byte slice \<^verbatim>\<open>&s[..n]\<close> of a string: the bytes up to \<open>n\<close>, a panic when \<open>n\<close> is past the end
  or splits a character (the byte at \<open>n\<close> is a UTF-8 continuation byte).
\<close>

definition is_char_boundary :: "string \<Rightarrow> nat \<Rightarrow> bool" where
  "is_char_boundary s n \<longleftrightarrow>
     n = length s \<or> (n < length s \<and> \<not> (128 \<le> (of_char (s ! n) :: nat) \<and> (of_char (s ! n) :: nat) < 192))"

definition slice_to :: "nat \<Rightarrow> string \<Rightarrow> err + string" where
  "slice_to n s = (if is_char_boundary s n then Inr (take n s)
                   else Inl (Panic ''byte index is not a char boundary''))"

text \<open>A string whose bytes are all below 128.\<close>

definition ascii :: "string \<Rightarrow> bool" where
  "ascii s \<longleftrightarrow> (\<forall>c \<in> set s. of_char c < (128 :: nat))"

lemma slice_to_ascii:
  assumes "ascii s" shows "slice_to (min n (length s)) s = Inr (take n s)"
proof -
  have "of_char (s ! n) < (128 :: nat)" if "n < length s"
    using assms that by (simp add: ascii_def)
  then have "is_char_boundary s (min n (length s))"
    by (cases "n < length s") (auto simp: is_char_boundary_def min_def)
  then show ?thesis by (simp add: slice_to_def min_def)
qed

lemma slice_to_no_error: "slice_to n s = Inr t \<Longrightarrow> t = take n s"
  by (simp add: slice_to_def split: if_splits)

lemma split_on_not_Nil [simp]: "split_on c s \<noteq> []"
  by (induction c s rule: split_on.induct) (auto split: list.splits)

lemma split_on_free: "c \<notin> set s \<Longrightarrow> split_on c s = [s]"
  by (induction s) auto

lemma split_on_append:
  "c \<notin> set s \<Longrightarrow> split_on c (s @ c # t) = s # split_on c t"
  by (induction s) (auto split: list.splits)

lemma split_on_sep: "split_on c (s @ c # t) = split_on c s @ split_on c t"
proof (induction s)
  case (Cons x xs)
  then show ?case by (cases "split_on c xs") auto
qed simp

lemma split_on_pieces: "p \<in> set (split_on c s) \<Longrightarrow> c \<notin> set p"
proof (induction s arbitrary: p)
  case Nil then show ?case by simp
next
  case (Cons x xs)
  then show ?case by (cases "split_on c xs") (auto split: if_splits)
qed

lemma join_split: "join_str [c] (split_on c s) = s"
proof (induction s)
  case Nil then show ?case by simp
next
  case (Cons x xs)
  obtain y ys where "split_on c xs = y # ys"
    using split_on_not_Nil [of c xs] by (cases "split_on c xs") auto
  with Cons show ?case by (cases ys) auto
qed

lemma join_str_Cons: "ps \<noteq> [] \<Longrightarrow> join_str sep (p # ps) = p @ sep @ join_str sep ps"
  by (cases ps) auto

lemma split_join:
  "ps \<noteq> [] \<Longrightarrow> (\<And>p. p \<in> set ps \<Longrightarrow> c \<notin> set p) \<Longrightarrow> split_on c (join_str [c] ps) = ps"
proof (induction ps)
  case (Cons p ps)
  then show ?case
    by (cases "ps = []") (simp_all add: split_on_free split_on_append join_str_Cons)
qed simp

lemma starts_with_append [simp]: "starts_with p (p @ s)"
  by (simp add: starts_with_def)

lemma starts_withE: "starts_with p s \<Longrightarrow> \<exists>t. s = p @ t"
  unfolding starts_with_def by (metis append_take_drop_id)

lemma contains_str_append: "contains_str p (s @ p @ t)"
proof (induction s)
  case Nil
  show ?case
  proof (cases "p @ t")
    case (Cons a l)
    then have "take (length p) (a # l) = p" by (metis append_eq_conv_conj)
    with Cons show ?thesis by (simp add: starts_with_def)
  qed simp
next
  case (Cons c s) then show ?case by simp
qed

lemma contains_str_append2: "contains_str p s \<Longrightarrow> contains_str p (t @ s)"
  by (induction t) auto

lemma split_ws_acc_tokens:
  "\<forall>c \<in> set acc. \<not> is_space c \<Longrightarrow> w \<in> set (split_ws_acc acc s) \<Longrightarrow>
   w \<noteq> [] \<and> (\<forall>c \<in> set w. \<not> is_space c)"
proof (induction s arbitrary: acc)
  case Nil
  then show ?case by (simp split: if_splits)
next
  case (Cons x xs)
  show ?case
  proof (cases "is_space x")
    case True
    from Cons.prems(2) True have "w = rev acc \<and> acc \<noteq> [] \<or> w \<in> set (split_ws_acc [] xs)"
      by (simp split: if_splits)
    with Cons.IH [of "[]"] Cons.prems(1) show ?thesis by auto
  next
    case False
    with Cons.IH [of "x # acc"] Cons.prems show ?thesis by simp
  qed
qed

lemma split_ws_tokens:
  "w \<in> set (split_ws s) \<Longrightarrow> w \<noteq> [] \<and> (\<forall>c \<in> set w. \<not> is_space c)"
  unfolding split_ws_def by (rule split_ws_acc_tokens) auto

lemma split_ws_acc_word:
  "\<forall>c \<in> set w. \<not> is_space c \<Longrightarrow> split_ws_acc acc (w @ s) = split_ws_acc (rev w @ acc) s"
  by (induction w arbitrary: acc) auto

lemma split_ws_join:
  "(\<And>w. w \<in> set ws \<Longrightarrow> w \<noteq> [] \<and> (\<forall>c \<in> set w. \<not> is_space c)) \<Longrightarrow>
   split_ws (join_str '' '' ws) = ws"
proof (induction ws)
  case Nil
  then show ?case by (simp add: split_ws_def)
next
  case (Cons w ws)
  have w: "w \<noteq> []" "\<forall>c \<in> set w. \<not> is_space c" using Cons.prems by auto
  have IH: "split_ws (join_str '' '' ws) = ws" using Cons by auto
  show ?case
  proof (cases "ws = []")
    case True
    with w split_ws_acc_word [of w "[]" "[]"] show ?thesis by (simp add: split_ws_def)
  next
    case False
    have "is_space (CHR '' '')" by (simp add: is_space_def)
    with w False IH split_ws_acc_word [of w "[]"] show ?thesis
      by (simp add: split_ws_def join_str_Cons)
  qed
qed

section \<open>Numbers as text\<close>

definition digit :: "nat \<Rightarrow> char" where
  "digit n = char_of (48 + n)"

definition is_digit :: "char \<Rightarrow> bool" where
  "is_digit c \<longleftrightarrow> 48 \<le> (of_char c :: nat) \<and> (of_char c :: nat) \<le> 57"

definition digit_val :: "char \<Rightarrow> nat" where
  "digit_val c = of_char c - 48"

text \<open>Decimal formatting of an unsigned integer, \<^verbatim>\<open>n.to_string()\<close>.\<close>

fun dec :: "nat \<Rightarrow> string" where
  "dec n = (if n < 10 then [digit n] else dec (n div 10) @ [digit (n mod 10)])"

declare dec.simps [simp del]

fun dec_val :: "nat \<Rightarrow> string \<Rightarrow> nat" where
  "dec_val acc [] = acc"
| "dec_val acc (c # cs) = dec_val (10 * acc + digit_val c) cs"

text \<open>
  \<^verbatim>\<open>s.parse::<uN>()\<close> for an \<open>N\<close>-bit unsigned type: an optional plus sign and at least one
  digit, nothing else, and a value that fits.
\<close>

definition parse_uint :: "nat \<Rightarrow> string \<Rightarrow> nat option" where
  "parse_uint bits s =
     (let t = (if s \<noteq> [] \<and> hd s = CHR ''+'' then tl s else s)
      in if t \<noteq> [] \<and> list_all is_digit t \<and> dec_val 0 t < 2 ^ bits then Some (dec_val 0 t) else None)"

lemma of_char_digit [simp]: "n < 10 \<Longrightarrow> of_char (digit n) = (48 + n :: nat)"
  by (simp add: digit_def)

lemma is_digit_digit [simp]: "n < 10 \<Longrightarrow> is_digit (digit n)"
  by (simp add: is_digit_def)

lemma digit_val_digit [simp]: "n < 10 \<Longrightarrow> digit_val (digit n) = n"
  by (simp add: digit_val_def)

lemma dec_val_append: "dec_val acc (s @ t) = dec_val (dec_val acc s) t"
  by (induction s arbitrary: acc) auto

lemma dec_digits: "c \<in> set (dec n) \<Longrightarrow> is_digit c"
proof (induction n rule: dec.induct)
  case (1 n)
  then show ?case by (auto simp: dec.simps [of n] split: if_splits)
qed

lemma dec_not_Nil [simp]: "dec n \<noteq> []"
  by (subst dec.simps) simp

lemma dec_val_dec [simp]: "dec_val 0 (dec n) = n"
proof (induction n rule: dec.induct)
  case (1 n)
  then show ?case by (cases "n < 10") (simp_all add: dec.simps [of n] dec_val_append)
qed

lemma dec_inject [simp]: "dec m = dec n \<longleftrightarrow> m = n"
  by (metis dec_val_dec)

lemma digit_not_special:
  "is_digit c \<Longrightarrow> c \<noteq> CHR ''-'' \<and> c \<noteq> CHR ''+'' \<and> c \<noteq> CHR ''.'' \<and> c \<noteq> CHR ''/'' \<and> \<not> is_space c"
  by (auto simp: is_digit_def is_space_def)

lemma dec_free:
  "CHR ''-'' \<notin> set (dec n)" "CHR ''.'' \<notin> set (dec n)" "CHR ''/'' \<notin> set (dec n)"
  using dec_digits digit_not_special by blast+

lemma parse_uint_dec_if: "parse_uint bits (dec n) = (if n < 2 ^ bits then Some n else None)"
proof -
  obtain c cs where c: "dec n = c # cs" using dec_not_Nil [of n] by (cases "dec n") auto
  then have "c \<noteq> CHR ''+''" using dec_digits [of c n] digit_not_special by auto
  moreover have "list_all is_digit (dec n)" using dec_digits by (auto simp: list_all_iff)
  moreover have "dec_val 0 (c # cs) = n" using dec_val_dec [of n] unfolding c .
  ultimately show ?thesis unfolding parse_uint_def c Let_def by simp
qed

lemma parse_uint_dec: "n < 2 ^ bits \<Longrightarrow> parse_uint bits (dec n) = Some n"
  by (simp add: parse_uint_dec_if)

lemma parse_uint_bound: "parse_uint bits s = Some n \<Longrightarrow> n < 2 ^ bits"
  unfolding parse_uint_def Let_def by (simp split: if_splits)

lemma length_dec_ge: "10 ^ k \<le> n \<Longrightarrow> k < length (dec n)"
proof (induction k arbitrary: n)
  case 0
  then show ?case by simp
next
  case (Suc k)
  then have n: "10 \<le> n" and "10 ^ k \<le> n div 10"
    using order_trans [OF _ Suc.prems, of 10] by (auto simp: less_eq_div_iff_mult_less_eq mult.commute)
  with Suc.IH [of "n div 10"] show ?case by (simp add: dec.simps [of n])
qed

lemma dec_ascii: "ascii (dec n)"
  using dec_digits by (force simp: ascii_def is_digit_def)

lemma ascii_append [simp]: "ascii (s @ t) \<longleftrightarrow> ascii s \<and> ascii t"
  by (auto simp: ascii_def)

lemma ascii_Cons: "ascii (c # s) \<longleftrightarrow> of_char c < (128 :: nat) \<and> ascii s"
  by (auto simp: ascii_def)

lemma ascii_Nil [simp]: "ascii []"
  by (simp add: ascii_def)

text \<open>Lower-case hexadecimal, \<^verbatim>\<open>{n:0w$x}\<close>: \<open>w\<close> digits, most significant first.\<close>

definition hex_digit :: "nat \<Rightarrow> char" where
  "hex_digit n = (if n < 10 then char_of (48 + n) else char_of (87 + n))"

fun hex_fixed :: "nat \<Rightarrow> nat \<Rightarrow> string" where
  "hex_fixed 0 n = []"
| "hex_fixed (Suc w) n = hex_fixed w (n div 16) @ [hex_digit (n mod 16)]"

lemma length_hex_fixed [simp]: "length (hex_fixed w n) = w"
  by (induction w arbitrary: n) auto

lemma of_char_hex_digit: "n < 16 \<Longrightarrow> of_char (hex_digit n) = (if n < 10 then 48 + n else 87 + n :: nat)"
  by (simp add: hex_digit_def)

lemma hex_digit_inj:
  assumes "m < 16" "n < 16" "hex_digit m = hex_digit n"
  shows "m = n"
proof -
  have "(of_char (hex_digit m) :: nat) = of_char (hex_digit n)" using assms(3) by simp
  then have "(if m < 10 then 48 + m else 87 + m) = (if n < 10 then 48 + n else 87 + n)"
    by (simp only: of_char_hex_digit [OF assms(1)] of_char_hex_digit [OF assms(2)])
  then show ?thesis by (simp split: if_splits)
qed

lemma hex_fixed_inj:
  "m < 16 ^ w \<Longrightarrow> n < 16 ^ w \<Longrightarrow> hex_fixed w m = hex_fixed w n \<Longrightarrow> m = n"
proof (induction w arbitrary: m n)
  case 0
  then show ?case by simp
next
  case (Suc w)
  from Suc.prems have "m div 16 < 16 ^ w" "n div 16 < 16 ^ w" by (auto simp: less_mult_imp_div_less)
  moreover from Suc.prems(3) have "hex_fixed w (m div 16) = hex_fixed w (n div 16)"
    and "hex_digit (m mod 16) = hex_digit (n mod 16)" by auto
  ultimately have "m div 16 = n div 16" and "m mod 16 = n mod 16"
    using Suc.IH hex_digit_inj [of "m mod 16" "n mod 16"] by auto
  then show ?case by (metis div_mult_mod_eq)
qed

definition is_hex :: "char \<Rightarrow> bool" where
  "is_hex c \<longleftrightarrow> is_digit c \<or> (97 \<le> (of_char c :: nat) \<and> (of_char c :: nat) \<le> 102)"

lemma is_hex_hex_digit: "n < 16 \<Longrightarrow> is_hex (hex_digit n)"
  by (simp add: is_hex_def is_digit_def of_char_hex_digit)

lemma hex_fixed_chars: "c \<in> set (hex_fixed w n) \<Longrightarrow> is_hex c"
  by (induction w arbitrary: n) (auto simp: is_hex_hex_digit)

lemma hex_fixed_ascii: "ascii (hex_fixed w n)"
  using hex_fixed_chars by (force simp: ascii_def is_hex_def is_digit_def)

section \<open>Bytes and text\<close>

definition str_bytes :: "string \<Rightarrow> bytes" where
  "str_bytes s = map (\<lambda>c. word_of_nat (of_char c)) s"

definition bytes_str :: "bytes \<Rightarrow> string" where
  "bytes_str bs = map (\<lambda>b. char_of (unat b)) bs"

text \<open>
  \<^verbatim>\<open>String::from_utf8_lossy\<close>: a well-formed UTF-8 sequence is kept, every maximal ill-formed prefix
  of one becomes U+FFFD. \<open>utf8_cont\<close> counts the continuation bytes that fit after the lead byte
  \<open>b\<close>; the first of them has a narrower range after some lead bytes.
\<close>

definition utf8_second :: "nat \<Rightarrow> nat \<Rightarrow> bool" where
  "utf8_second b c \<longleftrightarrow>
     (if b = 0xE0 then 0xA0 else if b = 0xF0 then 0x90 else 0x80) \<le> c \<and>
     c \<le> (if b = 0xED then 0x9F else if b = 0xF4 then 0x8F else 0xBF)"

definition utf8_need :: "nat \<Rightarrow> nat" where
  "utf8_need b = (if 0xC2 \<le> b \<and> b \<le> 0xDF then 1 else if 0xE0 \<le> b \<and> b \<le> 0xEF then 2
                  else if 0xF0 \<le> b \<and> b \<le> 0xF4 then 3 else 0)"

definition utf8_cont :: "nat \<Rightarrow> nat list \<Rightarrow> nat" where
  "utf8_cont b cs = (case cs of [] \<Rightarrow> 0 | c # cs' \<Rightarrow>
     if 0 < utf8_need b \<and> utf8_second b c
     then Suc (length (takeWhile (\<lambda>x. 0x80 \<le> x \<and> x \<le> 0xBF) (take (utf8_need b - 1) cs'))) else 0)"

function utf8_lossy :: "nat list \<Rightarrow> nat list" where
  "utf8_lossy [] = []"
| "utf8_lossy (b # cs) =
     (let k = utf8_cont b cs in
      (if b < 0x80 \<or> (0 < utf8_need b \<and> k = utf8_need b) then b # take k cs else [0xEF, 0xBF, 0xBD])
      @ utf8_lossy (drop k cs))"
  by pat_completeness auto
termination by (relation "measure length") auto

definition from_utf8_lossy :: "bytes \<Rightarrow> string" where
  "from_utf8_lossy bs = map char_of (utf8_lossy (map unat bs))"

text \<open>\<^verbatim>\<open>s.trim_end_matches(c)\<close>\<close>

definition trim_end_char :: "char \<Rightarrow> string \<Rightarrow> string" where
  "trim_end_char c s = rev (dropWhile (\<lambda>x. x = c) (rev s))"

text \<open>
  \<^verbatim>\<open>to_lowercase\<close> on the ASCII letters. Its uses compare the result with text that is ASCII, and no
  other letter has one of the compared characters as its lower case.
\<close>

definition lower_char :: "char \<Rightarrow> char" where
  "lower_char c = (if 65 \<le> (of_char c :: nat) \<and> (of_char c :: nat) \<le> 90 then char_of ((of_char c :: nat) + 32) else c)"

definition to_lowercase :: "string \<Rightarrow> string" where
  "to_lowercase s = map lower_char s"

lemma utf8_cont_ascii [simp]: "b < 0x80 \<Longrightarrow> utf8_cont b cs = 0"
  by (simp add: utf8_cont_def utf8_need_def split: list.split)

lemma utf8_lossy_ascii: "(\<And>b. b \<in> set bs \<Longrightarrow> b < 0x80) \<Longrightarrow> utf8_lossy bs = bs"
  by (induction bs) (simp_all add: Let_def)

lemma from_utf8_lossy_ascii:
  assumes "ascii s" shows "from_utf8_lossy (str_bytes s) = s"
proof -
  have b: "map unat (str_bytes s) = map of_char s"
    by (simp add: str_bytes_def unat_of_nat)
  have "utf8_lossy (map of_char s) = map of_char s"
    using assms by (intro utf8_lossy_ascii) (auto simp: ascii_def)
  then show ?thesis unfolding from_utf8_lossy_def b by (simp add: comp_def)
qed

lemma length_str_bytes [simp]: "length (str_bytes s) = length s"
  by (simp add: str_bytes_def)

section \<open>Paths\<close>

text \<open>
  \<^verbatim>\<open>PathBuf::join\<close>: an absolute argument replaces the base; otherwise one separator is put
  between the two.
\<close>

definition join_path :: "path \<Rightarrow> path \<Rightarrow> path" where
  "join_path a b =
     (if starts_with ''/'' b then b
      else if a = [] \<or> last a = CHR ''/'' then a @ b
      else a @ ''/'' @ b)"

text \<open>The components of a path: empty and \<^verbatim>\<open>.\<close> components are dropped, \<^verbatim>\<open>..\<close> is kept.\<close>

definition path_comps :: "path \<Rightarrow> string list" where
  "path_comps p = filter (\<lambda>c. c \<noteq> [] \<and> c \<noteq> ''.'') (split_on (CHR ''/'') p)"

definition file_name :: "path \<Rightarrow> string option" where
  "file_name p = (let cs = path_comps p in
     if cs = [] \<or> last cs = ''..'' then None else Some (last cs))"

text \<open>\<^verbatim>\<open>Path::parent\<close>, as a path without redundant separators.\<close>

definition path_parent :: "path \<Rightarrow> path option" where
  "path_parent p = (let cs = path_comps p in
     if cs = [] then None
     else Some ((if starts_with ''/'' p then ''/'' else []) @ join_str ''/'' (butlast cs)))"

text \<open>
  Where a path leads from a directory, following \<^verbatim>\<open>..\<close>: the stack of components, and \<open>None\<close>
  when it climbs above the directory it starts in.
\<close>

fun walk :: "string list \<Rightarrow> string list \<Rightarrow> string list option" where
  "walk st [] = Some (rev st)"
| "walk st (c # cs) =
     (if c = ''..'' then (case st of [] \<Rightarrow> None | _ # st' \<Rightarrow> walk st' cs) else walk (c # st) cs)"

lemma walk_plain: "''..'' \<notin> set cs \<Longrightarrow> walk st cs = Some (rev st @ cs)"
  by (induction cs arbitrary: st) auto

lemma join_path_rel:
  "\<not> starts_with ''/'' b \<Longrightarrow> a \<noteq> [] \<Longrightarrow> last a \<noteq> CHR ''/'' \<Longrightarrow> join_path a b = a @ ''/'' @ b"
  by (simp add: join_path_def)

lemma join_path_inj: "join_path a b = join_path a c \<Longrightarrow> \<not> starts_with ''/'' b \<Longrightarrow> \<not> starts_with ''/'' c \<Longrightarrow> b = c"
  by (simp add: join_path_def split: if_splits)

section \<open>IPv4 addresses\<close>

text \<open>\<^verbatim>\<open>u32::from(ip)\<close> and \<^verbatim>\<open>ip.octets()\<close>: an address is its 32 bits, octets most significant first.\<close>

type_synonym ipv4 = u32

definition octets :: "ipv4 \<Rightarrow> bytes" where
  "octets a = [ucast (drop_bit 24 a), ucast (drop_bit 16 a), ucast (drop_bit 8 a), ucast a]"

definition ipv4_new :: "u8 \<Rightarrow> u8 \<Rightarrow> u8 \<Rightarrow> u8 \<Rightarrow> ipv4" where
  "ipv4_new a b c d = word_of_nat (((unat a * 256 + unat b) * 256 + unat c) * 256 + unat d)"

definition show_ipv4 :: "ipv4 \<Rightarrow> string" where
  "show_ipv4 a = join_str ''.'' (map (dec \<circ> unat) (octets a))"

text \<open>
  An octet of \<^verbatim>\<open>Ipv4Addr::from_str\<close>: one to three digits, no leading zero, at most 255.
\<close>

definition parse_octet :: "string \<Rightarrow> u8 option" where
  "parse_octet s =
     (if s \<noteq> [] \<and> length s \<le> 3 \<and> list_all is_digit s \<and> (hd s = CHR ''0'' \<longrightarrow> length s = 1)
         \<and> dec_val 0 s \<le> 255
      then Some (word_of_nat (dec_val 0 s)) else None)"

definition parse_ipv4 :: "string \<Rightarrow> ipv4 option" where
  "parse_ipv4 s =
     (case map parse_octet (split_on (CHR ''.'') s) of
        [Some a, Some b, Some c, Some d] \<Rightarrow> Some (ipv4_new a b c d)
      | _ \<Rightarrow> None)"

lemma unat_octet:
  "unat (ucast (a :: 32 word) :: 8 word) = unat a mod 256"
  "unat (drop_bit k a) = unat a div 2 ^ k"
  by (simp_all add: unsigned_ucast_eq take_bit_eq_mod unat_drop_bit_eq drop_bit_eq_div [where 'a = nat])

lemma base256: "((n div 16777216 mod 256 * 256 + n div 65536 mod 256) * 256 + n div 256 mod 256) * 256
     + n mod 256 = n mod (4294967296 :: nat)"
proof -
  have "n div 65536 = n div 256 div 256" "n div 16777216 = n div 256 div 256 div 256"
    by (simp_all add: div_mult2_eq [symmetric])
  moreover have "n mod 4294967296 = 256 * (n div 256 mod 16777216) + n mod 256"
    using mod_mult2_eq [of n 256 16777216] by simp
  moreover have "n div 256 mod 16777216 = 256 * (n div 256 div 256 mod 65536) + n div 256 mod 256"
    using mod_mult2_eq [of "n div 256" 256 65536] by simp
  moreover have "n div 256 div 256 mod 65536 = 256 * (n div 256 div 256 div 256 mod 256) + n div 256 div 256 mod 256"
    using mod_mult2_eq [of "n div 256 div 256" 256 256] by simp
  ultimately show ?thesis by (simp only:) (simp add: algebra_simps)
qed

lemma ipv4_new_octets:
  "ipv4_new (ucast (drop_bit 24 a)) (ucast (drop_bit 16 a)) (ucast (drop_bit 8 a)) (ucast a) = a"
proof -
  have "unat a < 4294967296" using unsigned_less [of a] by simp
  then have "((unat (ucast (drop_bit 24 a) :: u8) * 256 + unat (ucast (drop_bit 16 a) :: u8)) * 256
      + unat (ucast (drop_bit 8 a) :: u8)) * 256 + unat (ucast a :: u8) = unat a"
    using base256 [of "unat a"] unfolding unat_octet by simp
  then show ?thesis unfolding ipv4_new_def by simp
qed

lemma length_octets [simp]: "length (octets a) = 4"
  by (simp add: octets_def)

lemma length_dec_le: "n < 10 ^ Suc k \<Longrightarrow> length (dec n) \<le> Suc k"
proof (induction k arbitrary: n)
  case 0
  then show ?case by (simp add: dec.simps [of n])
next
  case (Suc k)
  show ?case
  proof (cases "n < 10")
    case True
    then show ?thesis by (simp add: dec.simps [of n])
  next
    case False
    have "n div 10 < 10 ^ Suc k" using Suc.prems by (simp add: less_mult_imp_div_less)
    with Suc.IH False show ?thesis by (simp add: dec.simps [of n])
  qed
qed

lemma hd_dec: "10 \<le> n \<Longrightarrow> hd (dec n) \<noteq> CHR ''0''"
proof (induction n rule: dec.induct)
  case (1 n)
  show ?case
  proof (cases "n div 10 < 10")
    case True
    then have "hd (dec n) = digit (n div 10)" and "0 < n div 10"
      using "1.prems" by (simp_all add: dec.simps [of n] dec.simps [of "n div 10"])
    moreover from this True have "(of_char (digit (n div 10)) :: nat) \<noteq> of_char (CHR ''0'')"
      by simp
    ultimately show ?thesis by metis
  next
    case False
    with "1.IH" "1.prems" show ?thesis by (simp add: dec.simps [of n])
  qed
qed

lemma parse_octet_dec: "parse_octet (dec (unat o8)) = Some (o8 :: u8)"
proof -
  have b: "unat o8 < 256" using unsigned_less [of o8] by simp
  then have "length (dec (unat o8)) \<le> 3" using length_dec_le [of "unat o8" 2] by simp
  moreover have "list_all is_digit (dec (unat o8))" using dec_digits by (auto simp: list_all_iff)
  moreover have "length (dec (unat o8)) = 1" if "hd (dec (unat o8)) = CHR ''0''"
  proof -
    from that have "unat o8 < 10" using hd_dec [of "unat o8"] by (cases "unat o8 < 10") auto
    then show ?thesis by (simp add: dec.simps [of "unat o8"])
  qed
  ultimately show ?thesis using b by (simp add: parse_octet_def)
qed

text \<open>Printing and parsing an address are inverse.\<close>

lemma parse_show_ipv4: "parse_ipv4 (show_ipv4 a) = Some a"
proof -
  have "split_on (CHR ''.'') (show_ipv4 a) = map (dec \<circ> unat) (octets a)"
    unfolding show_ipv4_def by (rule split_join) (auto simp: octets_def dec_free)
  moreover have "parse_octet \<circ> (dec \<circ> unat) = Some" by (rule ext) (simp add: parse_octet_dec)
  ultimately have "map parse_octet (split_on (CHR ''.'') (show_ipv4 a)) = map Some (octets a)"
    by simp
  then show ?thesis unfolding parse_ipv4_def by (simp add: octets_def ipv4_new_octets)
qed

section \<open>Hash maps\<close>

text \<open>
  The contract of \<^verbatim>\<open>std::collections::HashMap\<close> the components rely on: what a lookup returns
  after an insertion or a removal, and how the length changes.
\<close>

locale hash_map =
  fixes empty :: "'m" and get :: "'m \<Rightarrow> 'k \<Rightarrow> 'v option" and ins :: "'k \<Rightarrow> 'v \<Rightarrow> 'm \<Rightarrow> 'm"
    and rem :: "'k \<Rightarrow> 'm \<Rightarrow> 'm" and len :: "'m \<Rightarrow> nat" and ok :: "'m \<Rightarrow> bool"
  assumes get_empty: "get empty k = None"
    and get_ins: "get (ins k v m) = (get m)(k \<mapsto> v)"
    and get_rem: "get (rem k m) = (get m)(k := None)"
    and ok_empty: "ok empty"
    and ok_ins: "ok m \<Longrightarrow> ok (ins k v m)"
    and ok_rem: "ok m \<Longrightarrow> ok (rem k m)"
    and finite_get: "ok m \<Longrightarrow> finite (dom (get m))"
    and len_card: "ok m \<Longrightarrow> len m = card (dom (get m))"
begin

lemma len_ins_fresh: "ok m \<Longrightarrow> get m k = None \<Longrightarrow> len (ins k v m) = Suc (len m)"
  by (simp add: len_card ok_ins get_ins finite_get domIff)

lemma len_ins_present: "ok m \<Longrightarrow> get m k \<noteq> None \<Longrightarrow> len (ins k v m) = len m"
  by (simp add: len_card ok_ins get_ins insert_absorb domIff)

lemma len_rem_present: "ok m \<Longrightarrow> get m k \<noteq> None \<Longrightarrow> Suc (len (rem k m)) = len m"
  using card_Suc_Diff1 [OF finite_get, of m k] by (simp add: len_card ok_rem get_rem domIff)

lemma len_rem_absent: "ok m \<Longrightarrow> get m k = None \<Longrightarrow> len (rem k m) = len m"
  by (simp add: len_card ok_rem get_rem domIff)

lemma rem_ins_fresh: "get m k = None \<Longrightarrow> get (rem k (ins k v m)) = get m"
  by (simp add: get_rem get_ins fun_upd_idem)

end

text \<open>
  The models keep a hash map as an association list with distinct keys; the order of the list
  stands for the unspecified iteration order of the map.
\<close>

type_synonym 'v hmap = "(string \<times> 'v) list"

abbreviation hm_ok :: "'v hmap \<Rightarrow> bool" where
  "hm_ok m \<equiv> distinct (map fst m)"

interpretation hm: hash_map "[] :: ('k \<times> 'v) list" map_of AList.update AList.delete length
  "\<lambda>m. distinct (map fst m)"
proof unfold_locales
  fix m :: "('k \<times> 'v) list"
  assume "distinct (map fst m)"
  then have "card (fst ` set m) = length m" by (metis distinct_card length_map set_map)
  then show "length m = card (dom (map_of m))" by (simp add: dom_map_of_conv_image_fst)
qed (auto simp: update_conv' delete_conv' distinct_update distinct_delete finite_dom_map_of)

lemmas hm_simps = hm.get_ins hm.get_rem hm.ok_ins hm.ok_rem

end
