(* ===== verification/Protobuf.thy ===== *)
theory Protobuf
  imports RustStd
begin

text \<open>
  The interface between the generated message code and the protobuf runtime it is compiled against.
  The runtime is a third-party crate and so a parameter: \<open>pb_runtime\<close> has the operations of
  \<^verbatim>\<open>CodedInputStream\<close>, \<^verbatim>\<open>CodedOutputStream\<close> and \<^verbatim>\<open>protobuf::rt\<close> that the generated code calls, and the
  locale \<open>protobuf_runtime\<close> states what the code relies on: reading a field gives back what was
  written, the size functions count the bytes of the writers, reads never move backwards. The wire
  format of the protobuf documentation (\<open>wire\<close>) is shown to satisfy it.

  A stream is the list of the bytes it still holds (input) or has received (output). The message a
  \<^verbatim>\<open>merge_from\<close> fills and the stream it reads are its state, kept also when it fails.
\<close>

named_theorems shrink_rules \<open>readers that never give bytes back\<close>
named_theorems emit_rules \<open>writers that append to the output\<close>

section \<open>The runtime\<close>

text \<open>\<^verbatim>\<open>protobuf::SpecialFields\<close>: the fields a message does not know, and the size that \<^verbatim>\<open>compute_size\<close> found.\<close>

record 'u SpecialFields =
  sf_unknown_fields :: 'u
  sf_cached_size :: u32

text \<open>
  \<open>rt_read_limited\<close> is the part of \<^verbatim>\<open>read_message\<close> before the message is read: it takes the length
  prefix and yields the bytes up to the limit, leaving those after it. \<open>rt_write_header\<close> is the part
  of \<^verbatim>\<open>write_message_field_with_cached_size\<close> before the message: tag and length.
\<close>

record 'u pb_runtime =
  rt_read_raw_tag_or_eof :: "(bytes, u32 option) prog"
  rt_read_string :: "(bytes, string) prog"
  rt_read_bytes :: "(bytes, bytes) prog"
  rt_read_bool :: "(bytes, bool) prog"
  rt_read_uint32 :: "(bytes, u32) prog"
  rt_read_uint64 :: "(bytes, u64) prog"
  rt_read_enum_or_unknown :: "(bytes, u32) prog"
  rt_read_limited :: "(bytes, bytes) prog"
  rt_read_unknown_or_skip_group :: "u32 \<Rightarrow> ('u \<times> bytes, unit) prog"
  rt_write_string :: "u32 \<Rightarrow> string \<Rightarrow> (bytes, unit) prog"
  rt_write_bytes :: "u32 \<Rightarrow> bytes \<Rightarrow> (bytes, unit) prog"
  rt_write_bool :: "u32 \<Rightarrow> bool \<Rightarrow> (bytes, unit) prog"
  rt_write_uint32 :: "u32 \<Rightarrow> u32 \<Rightarrow> (bytes, unit) prog"
  rt_write_uint64 :: "u32 \<Rightarrow> u64 \<Rightarrow> (bytes, unit) prog"
  rt_write_enum :: "u32 \<Rightarrow> u32 \<Rightarrow> (bytes, unit) prog"
  rt_write_header :: "u32 \<Rightarrow> u32 \<Rightarrow> (bytes, unit) prog"
  rt_write_unknown_fields :: "'u \<Rightarrow> (bytes, unit) prog"
  rt_string_size :: "u32 \<Rightarrow> string \<Rightarrow> u64"
  rt_bytes_size :: "u32 \<Rightarrow> bytes \<Rightarrow> u64"
  rt_uint32_size :: "u32 \<Rightarrow> u32 \<Rightarrow> u64"
  rt_uint64_size :: "u32 \<Rightarrow> u64 \<Rightarrow> u64"
  rt_int32_size :: "u32 \<Rightarrow> u32 \<Rightarrow> u64"
  rt_compute_raw_varint64_size :: "u64 \<Rightarrow> u64"
  rt_unknown_fields_size :: "'u \<Rightarrow> u64"
  rt_new_unknown_fields :: 'u
  rt_clear_special :: "'u SpecialFields \<Rightarrow> 'u SpecialFields"

definition SpecialFields_new :: "'u pb_runtime \<Rightarrow> 'u SpecialFields" where
  "SpecialFields_new rt = \<lparr>sf_unknown_fields = rt_new_unknown_fields rt, sf_cached_size = 0\<rparr>"

section \<open>The idioms of the generated code\<close>

text \<open>An operation on the input stream, inside a method that also holds the message.\<close>

definition on_is :: "(bytes, 'a) prog \<Rightarrow> ('m \<times> bytes, 'a) prog" where
  "on_is rd s = (case rd (snd s) of (r, is) \<Rightarrow> (r, (fst s, is)))"

text \<open>\<^verbatim>\<open>self.field = is.read()?;\<close> and \<^verbatim>\<open>self.field.push(is.read()?);\<close>\<close>

definition set_field :: "(bytes, 'v) prog \<Rightarrow> ('v \<Rightarrow> 'm \<Rightarrow> 'm) \<Rightarrow> ('m \<times> bytes, unit) prog" where
  "set_field rd upd = bindE (on_is rd) (\<lambda>v. modE (\<lambda>s. (upd v (fst s), snd s)))"

text \<open>\<^verbatim>\<open>read_unknown_or_skip_group(tag, is, self.special_fields.mut_unknown_fields())?\<close>\<close>

definition keep_unknown :: "'u pb_runtime \<Rightarrow> u32 \<Rightarrow> ('m \<Rightarrow> 'u SpecialFields) \<Rightarrow>
    (('u SpecialFields \<Rightarrow> 'u SpecialFields) \<Rightarrow> 'm \<Rightarrow> 'm) \<Rightarrow> ('m \<times> bytes, unit) prog" where
  "keep_unknown rt tag sf sf_update s =
     (case rt_read_unknown_or_skip_group rt tag (sf_unknown_fields (sf (fst s)), snd s) of
        (r, (u, is)) \<Rightarrow> (r, (sf_update (\<lambda>f. f\<lparr>sf_unknown_fields := u\<rparr>) (fst s), is)))"

text \<open>
  \<^verbatim>\<open>while let Some(tag) = is.read_raw_tag_or_eof()? { .. }\<close>. Every round takes a tag from the
  stream, so as many rounds as there are bytes, and one for the end of the stream, are enough.
\<close>

fun while_tag :: "'u pb_runtime \<Rightarrow> nat \<Rightarrow> (u32 \<Rightarrow> ('m \<times> bytes, unit) prog) \<Rightarrow> ('m \<times> bytes, unit) prog" where
  "while_tag rt 0 body s = (Inl Diverge, s)"
| "while_tag rt (Suc k) body s =
     bindE (on_is (rt_read_raw_tag_or_eof rt))
       (\<lambda>t. case t of None \<Rightarrow> retE () | Some tag \<Rightarrow> thenE (body tag) (while_tag rt k body)) s"

definition merge_loop :: "'u pb_runtime \<Rightarrow> (u32 \<Rightarrow> ('m \<times> bytes, unit) prog) \<Rightarrow> ('m \<times> bytes, unit) prog" where
  "merge_loop rt body s = while_tag rt (Suc (length (snd s))) body s"

text \<open>\<^verbatim>\<open>is.read_message()?\<close>: a new message, merged from the bytes up to the limit.\<close>

definition read_message :: "'u pb_runtime \<Rightarrow> 'm \<Rightarrow> ('m \<times> bytes, unit) prog \<Rightarrow> (bytes, 'm) prog" where
  "read_message rt new merge is =
     (case rt_read_limited rt is of
        (Inl e, is1) \<Rightarrow> (Inl e, is1)
      | (Inr w, rest) \<Rightarrow>
          (case merge (new, w) of
             (Inl e, (_, w1)) \<Rightarrow> (Inl e, w1 @ rest)
           | (Inr _, (m, w1)) \<Rightarrow> (Inr m, w1 @ rest)))"

text \<open>\<^verbatim>\<open>if c { os.write(..)?; }\<close>, \<^verbatim>\<open>for v in &self.field { os.write(..)?; }\<close> and statements in sequence\<close>

definition whenE :: "bool \<Rightarrow> ('s, unit) prog \<Rightarrow> ('s, unit) prog" where
  "whenE c w = (if c then w else retE ())"

fun seqE :: "('s, unit) prog list \<Rightarrow> ('s, unit) prog" where
  "seqE [] = retE ()"
| "seqE (w # ws) = thenE w (seqE ws)"

definition forE :: "'a list \<Rightarrow> ('a \<Rightarrow> ('s, unit) prog) \<Rightarrow> ('s, unit) prog" where
  "forE xs f = seqE (map f xs)"

text \<open>\<^verbatim>\<open>write_message_field_with_cached_size(n, v, os)?\<close>\<close>

definition write_message_field :: "'u pb_runtime \<Rightarrow> u32 \<Rightarrow> u32 \<Rightarrow> (bytes, unit) prog \<Rightarrow> (bytes, unit) prog" where
  "write_message_field rt n cached w = thenE (rt_write_header rt n cached) w"

text \<open>The fields that are counted only when they differ from the default of their type.\<close>

definition size_if :: "bool \<Rightarrow> u64 \<Rightarrow> u64" where
  "size_if c n = (if c then n else 0)"

text \<open>\<^verbatim>\<open>let len = value.compute_size(); my_size += 1 + compute_raw_varint64_size(len) + len;\<close> for every value\<close>

definition messages_size :: "'u pb_runtime \<Rightarrow> u64 list \<Rightarrow> u64" where
  "messages_size rt lens = sum_list (map (\<lambda>len. 1 + rt_compute_raw_varint64_size rt len + len) lens)"

section \<open>What the generated code relies on\<close>

text \<open>A Rust \<^verbatim>\<open>String\<close> holds well-formed UTF-8, which the lossy conversion leaves as it is.\<close>

definition utf8 :: "string \<Rightarrow> bool" where
  "utf8 s \<longleftrightarrow> from_utf8_lossy (str_bytes s) = s"

text \<open>What a writer appends to an empty output, and that it appends the same to every output.\<close>

definition written :: "(bytes, unit) prog \<Rightarrow> bytes" where
  "written w = snd (w [])"

definition emits :: "(bytes, unit) prog \<Rightarrow> bool" where
  "emits w \<longleftrightarrow> (\<forall>os. w os = (Inr (), os @ written w))"

text \<open>Reading never gives bytes back.\<close>

definition consumes :: "(bytes, 'a) prog \<Rightarrow> bool" where
  "consumes rd \<longleftrightarrow> (\<forall>is. length (snd (rd is)) \<le> length is)"

definition shrinks :: "('m \<times> bytes, 'a) prog \<Rightarrow> bool" where
  "shrinks p \<longleftrightarrow> (\<forall>s. length (snd (snd (p s))) \<le> length (snd s))"

text \<open>
  The field \<open>v\<close> as \<open>w\<close> writes it: \<open>sz\<close> is its length, its tag is \<open>tag\<close> and \<open>rd\<close> reads it back,
  whatever follows.
\<close>

definition field_law :: "'u pb_runtime \<Rightarrow> u32 \<Rightarrow> (bytes, 'v) prog \<Rightarrow> (bytes, unit) prog \<Rightarrow> u64 \<Rightarrow> 'v \<Rightarrow> bool" where
  "field_law rt tag rd w sz v \<longleftrightarrow>
     emits w \<and> sz = of_nat (length (written w)) \<and>
     (\<exists>e. \<forall>rest. rt_read_raw_tag_or_eof rt (written w @ rest) = (Inr (Some tag), e @ rest) \<and>
                 rd (e @ rest) = (Inr v, rest))"

text \<open>The field numbers of the interface: their tags take one byte.\<close>

definition field_number :: "u32 \<Rightarrow> bool" where
  "field_number n \<longleftrightarrow> 0 < n \<and> n < 16"

locale protobuf_runtime =
  fixes rt :: "'u pb_runtime"
  assumes tag_eof: "rt_read_raw_tag_or_eof rt [] = (Inr None, [])"
    and tag_consumes: "consumes (rt_read_raw_tag_or_eof rt)"
    and tag_progress: "rt_read_raw_tag_or_eof rt is = (Inr (Some tag), is') \<Longrightarrow> length is' < length is"
    and string_field: "field_number n \<Longrightarrow> utf8 s \<Longrightarrow> length s < 2 ^ 32 \<Longrightarrow>
          field_law rt (n * 8 + 2) (rt_read_string rt) (rt_write_string rt n s) (rt_string_size rt n s) s"
    and bytes_field: "field_number n \<Longrightarrow> length b < 2 ^ 32 \<Longrightarrow>
          field_law rt (n * 8 + 2) (rt_read_bytes rt) (rt_write_bytes rt n b) (rt_bytes_size rt n b) b"
    and bool_field: "field_number n \<Longrightarrow>
          field_law rt (n * 8) (rt_read_bool rt) (rt_write_bool rt n c) (1 + 1) c"
    and uint32_field: "field_number n \<Longrightarrow>
          field_law rt (n * 8) (rt_read_uint32 rt) (rt_write_uint32 rt n x) (rt_uint32_size rt n x) x"
    and uint64_field: "field_number n \<Longrightarrow>
          field_law rt (n * 8) (rt_read_uint64 rt) (rt_write_uint64 rt n y) (rt_uint64_size rt n y) y"
    and enum_field: "field_number n \<Longrightarrow>
          field_law rt (n * 8) (rt_read_enum_or_unknown rt) (rt_write_enum rt n i) (rt_int32_size rt n i) i"
    and header: "field_number n \<Longrightarrow> length w < 2 ^ 32 \<Longrightarrow>
          emits (rt_write_header rt n (of_nat (length w))) \<and>
          of_nat (length (written (rt_write_header rt n (of_nat (length w))))) =
            1 + rt_compute_raw_varint64_size rt (of_nat (length w)) \<and>
          (\<exists>e. \<forall>rest. rt_read_raw_tag_or_eof rt (written (rt_write_header rt n (of_nat (length w))) @ w @ rest) =
                       (Inr (Some (n * 8 + 2)), e @ w @ rest) \<and>
                     rt_read_limited rt (e @ w @ rest) = (Inr w, rest))"
    and no_unknown: "rt_write_unknown_fields rt (rt_new_unknown_fields rt) os = (Inr (), os)"
      "rt_unknown_fields_size rt (rt_new_unknown_fields rt) = 0"
    and clear_unknown: "sf_unknown_fields (rt_clear_special rt sf) = rt_new_unknown_fields rt"
    and readers_consume [shrink_rules]: "consumes (rt_read_string rt)" "consumes (rt_read_bytes rt)" "consumes (rt_read_bool rt)"
      "consumes (rt_read_uint32 rt)" "consumes (rt_read_uint64 rt)" "consumes (rt_read_enum_or_unknown rt)"
      "consumes (rt_read_limited rt)" "shrinks (rt_read_unknown_or_skip_group rt tag)"
    and limited_window: "rt_read_limited rt is = (Inr w, rest) \<Longrightarrow> length w + length rest \<le> length is"
    and readers_plain [plain_rules]: "plain (rt_read_raw_tag_or_eof rt)" "plain (rt_read_string rt)" "plain (rt_read_bytes rt)"
      "plain (rt_read_bool rt)" "plain (rt_read_uint32 rt)" "plain (rt_read_uint64 rt)"
      "plain (rt_read_enum_or_unknown rt)" "plain (rt_read_limited rt)"
      "plain (rt_read_unknown_or_skip_group rt tag)"

section \<open>Writers\<close>

lemma written_retE [simp]: "written (retE ()) = []"
  by (simp add: written_def retE_def)

lemma emits_retE [emit_rules]: "emits (retE ())"
  by (simp add: emits_def retE_def written_def)

lemma written_thenE: "emits v \<Longrightarrow> emits w \<Longrightarrow> written (thenE v w) = written v @ written w"
  unfolding written_def [of "thenE v w"] by (simp add: emits_def thenE_apply)

lemma emits_thenE [emit_rules]: "emits v \<Longrightarrow> emits w \<Longrightarrow> emits (thenE v w)"
  using written_thenE [of v w] by (simp add: emits_def thenE_apply)

lemma emits_whenE [emit_rules]: "(c \<Longrightarrow> emits w) \<Longrightarrow> emits (whenE c w)"
  by (simp add: whenE_def emits_retE)

lemma written_whenE: "written (whenE c w) = (if c then written w else [])"
  by (simp add: whenE_def)

lemma emits_seqE: "(\<And>w. w \<in> set ws \<Longrightarrow> emits w) \<Longrightarrow> emits (seqE ws)"
  by (induction ws) (simp_all add: emit_rules)

lemma written_seqE: "(\<And>w. w \<in> set ws \<Longrightarrow> emits w) \<Longrightarrow> written (seqE ws) = concat (map written ws)"
  by (induction ws) (simp_all add: written_thenE emits_seqE)

lemma emits_seqE_Nil [emit_rules]: "emits (seqE [])"
  by (simp add: emit_rules)

lemma emits_seqE_Cons [emit_rules]: "emits w \<Longrightarrow> emits (seqE ws) \<Longrightarrow> emits (seqE (w # ws))"
  by (simp add: emit_rules)

lemma written_seqE_Cons: "emits w \<Longrightarrow> emits (seqE ws) \<Longrightarrow> written (seqE (w # ws)) = written w @ written (seqE ws)"
  by (simp add: written_thenE)

lemma emits_forE [emit_rules]: "(\<And>x. x \<in> set xs \<Longrightarrow> emits (f x)) \<Longrightarrow> emits (forE xs f)"
  unfolding forE_def by (rule emits_seqE) auto

lemma written_forE: "(\<And>x. x \<in> set xs \<Longrightarrow> emits (f x)) \<Longrightarrow> written (forE xs f) = concat (map (written \<circ> f) xs)"
  unfolding forE_def by (subst written_seqE) auto

lemma field_law_emits: "field_law rt tag rd w sz v \<Longrightarrow> emits w"
  and field_law_size: "field_law rt tag rd w sz v \<Longrightarrow> of_nat (length (written w)) = sz"
  by (simp_all add: field_law_def)

section \<open>Readers\<close>

lemma shrinksI: "(\<And>s. length (snd (snd (p s))) \<le> length (snd s)) \<Longrightarrow> shrinks p"
  unfolding shrinks_def by blast

lemma shrinksD: "shrinks p \<Longrightarrow> length (snd (snd (p s))) \<le> length (snd s)"
  unfolding shrinks_def by blast

lemma fst_on_is [simp]: "fst (on_is rd s) = fst (rd (snd s))"
  and snd_on_is [simp]: "snd (on_is rd s) = (fst s, snd (rd (snd s)))"
  by (simp_all add: on_is_def split: prod.split)

lemma shrinks_on_is [shrink_rules]: "consumes rd \<Longrightarrow> shrinks (on_is rd)"
  by (rule shrinksI) (simp add: consumes_def)

lemma shrinks_bindE:
  assumes "shrinks p" and "\<And>x. shrinks (q x)" shows "shrinks (bindE p q)"
proof (rule shrinksI)
  fix s
  show "length (snd (snd (bindE p q s))) \<le> length (snd s)"
    using shrinksD [OF assms(1), of s] le_trans [OF shrinksD [OF assms(2)]] by (simp add: snd_bindE split: sum.split)
qed

lemma shrinks_thenE [shrink_rules]: "shrinks p \<Longrightarrow> shrinks q \<Longrightarrow> shrinks (thenE p q)"
  unfolding thenE_def by (rule shrinks_bindE)

lemma shrinks_set_field [shrink_rules]: "consumes rd \<Longrightarrow> shrinks (set_field rd upd)"
  unfolding set_field_def by (intro shrinks_bindE shrinks_on_is) (simp_all add: shrinks_def modE_def)

lemma shrinks_if [shrink_rules]: "shrinks p \<Longrightarrow> shrinks q \<Longrightarrow> shrinks (if c then p else q)"
  by simp

lemma plain_on_is [plain_rules]: "plain rd \<Longrightarrow> plain (on_is rd)"
  unfolding plain_def by auto

lemma plain_set_field [plain_rules]: "plain rd \<Longrightarrow> plain (set_field rd upd)"
  unfolding set_field_def by (intro plain_rules)

lemma set_field_run: "rd is = (Inr v, is') \<Longrightarrow> set_field rd upd (m, is) = (Inr (), (upd v m, is'))"
  by (simp add: set_field_def on_is_def bindE_def modE_def)
section \<open>The loop of merge-from\<close>

text \<open>
  \<open>absorbs rt body bs m m'\<close>: with the bytes \<open>bs\<close> in front of the stream, the loop turns \<open>m\<close> into \<open>m'\<close>
  and goes on with the bytes after them.
\<close>

definition absorbs :: "'u pb_runtime \<Rightarrow> (u32 \<Rightarrow> ('m \<times> bytes, unit) prog) \<Rightarrow> bytes \<Rightarrow> 'm \<Rightarrow> 'm \<Rightarrow> bool" where
  "absorbs rt body bs m m' \<longleftrightarrow> (\<forall>rest. merge_loop rt body (m, bs @ rest) = merge_loop rt body (m', rest))"

lemma absorbs_Nil: "absorbs rt body [] m m"
  by (simp add: absorbs_def)

lemma absorbs_append: "absorbs rt body bs m m1 \<Longrightarrow> absorbs rt body cs m1 m2 \<Longrightarrow> absorbs rt body (bs @ cs) m m2"
  by (simp add: absorbs_def)

lemma bindE_cong_run: "(\<And>x s1. m s = (Inr x, s1) \<Longrightarrow> f x s1 = g x s1) \<Longrightarrow> bindE m f s = bindE m g s"
  by (simp add: bindE_def split: prod.split sum.split)

lemma plainD: "plain m \<Longrightarrow> m s = (Inl e, s') \<Longrightarrow> \<exists>cs n. e = Fail cs n"
  unfolding plain_def by (metis fst_conv)

context protobuf_runtime
begin

lemma tag_run_shorter:
  assumes "on_is (rt_read_raw_tag_or_eof rt) s = (Inr (Some tag), s1)"
  shows "length (snd s1) < length (snd s)"
  using assms tag_progress [of "snd s" tag "snd s1"] by (cases s1) (auto simp: on_is_def split: prod.splits)

lemma body_run_shorter:
  assumes "shrinks p" and "p s = (r, s1)"
  shows "length (snd s1) \<le> length (snd s)"
  using shrinksD [OF assms(1), of s] assms(2) by simp

lemma while_tag_enough:
  assumes body: "\<And>tag. shrinks (body tag)"
  shows "length (snd s) < k \<Longrightarrow> k \<le> k' \<Longrightarrow> while_tag rt k' body s = while_tag rt k body s"
proof (induction k arbitrary: s k')
  case (Suc k)
  then obtain j where j: "k' = Suc j" "k \<le> j" by (cases k') auto
  show ?case unfolding j(1) while_tag.simps
  proof (rule bindE_cong_run)
    fix t s1 assume t: "on_is (rt_read_raw_tag_or_eof rt) s = (Inr t, s1)"
    show "(case t of None \<Rightarrow> retE () | Some tag \<Rightarrow> thenE (body tag) (while_tag rt j body)) s1 =
          (case t of None \<Rightarrow> retE () | Some tag \<Rightarrow> thenE (body tag) (while_tag rt k body)) s1"
    proof (cases t)
      case (Some tag)
      have "length (snd s1) < k" using tag_run_shorter [of s tag s1] t Some Suc.prems(1) by simp
      then have "while_tag rt j body s2 = while_tag rt k body s2" if "body tag s1 = (Inr x, s2)" for x s2
        using body_run_shorter [OF body that] Suc.IH [OF _ j(2)] by simp
      with Some show ?thesis by (simp add: thenE_def) (rule bindE_cong_run, simp)
    qed simp
  qed
qed simp

text \<open>The loop, one round at a time.\<close>

lemma merge_loop_unfold:
  assumes body: "\<And>tag. shrinks (body tag)"
  shows "merge_loop rt body s =
           bindE (on_is (rt_read_raw_tag_or_eof rt))
             (\<lambda>t. case t of None \<Rightarrow> retE () | Some tag \<Rightarrow> thenE (body tag) (merge_loop rt body)) s"
  unfolding merge_loop_def [of rt body s] while_tag.simps
proof (rule bindE_cong_run)
  fix t s1 assume t: "on_is (rt_read_raw_tag_or_eof rt) s = (Inr t, s1)"
  show "(case t of None \<Rightarrow> retE () | Some tag \<Rightarrow> thenE (body tag) (while_tag rt (length (snd s)) body)) s1 =
        (case t of None \<Rightarrow> retE () | Some tag \<Rightarrow> thenE (body tag) (merge_loop rt body)) s1"
  proof (cases t)
    case (Some tag)
    have "length (snd s1) < length (snd s)" using tag_run_shorter [of s tag s1] t Some by simp
    then have "while_tag rt (length (snd s)) body s2 = merge_loop rt body s2" if "body tag s1 = (Inr x, s2)" for x s2
      unfolding merge_loop_def using body_run_shorter [OF body that] by (intro while_tag_enough [OF body]) simp_all
    with Some show ?thesis by (simp add: thenE_def) (rule bindE_cong_run, simp)
  qed simp
qed

lemma merge_loop_eof:
  assumes "\<And>tag. shrinks (body tag)" shows "merge_loop rt body (m, []) = (Inr (), (m, []))"
  by (simp add: merge_loop_unfold [OF assms] bindE_def on_is_def tag_eof retE_def)

lemma merge_loop_field:
  assumes "\<And>tag. shrinks (body tag)"
    and "rt_read_raw_tag_or_eof rt is = (Inr (Some tag), is1)" and "body tag (m, is1) = (Inr (), (m', is2))"
  shows "merge_loop rt body (m, is) = merge_loop rt body (m', is2)"
  by (simp add: merge_loop_unfold [OF assms(1), where s = "(m, is)"] bindE_def thenE_def on_is_def assms(2,3))

lemma shrinks_while_tag:
  assumes "\<And>tag. shrinks (body tag)" shows "shrinks (while_tag rt k body)"
proof (induction k)
  case 0
  show ?case by (rule shrinksI) simp
next
  case (Suc k)
  have "shrinks (case t of None \<Rightarrow> retE () | Some tag \<Rightarrow> thenE (body tag) (while_tag rt k body))" for t
    using shrinks_thenE [OF assms Suc] by (cases t) (simp_all add: shrinks_def retE_def)
  then have "shrinks (bindE (on_is (rt_read_raw_tag_or_eof rt))
      (\<lambda>t. case t of None \<Rightarrow> retE () | Some tag \<Rightarrow> thenE (body tag) (while_tag rt k body)))"
    by (intro shrinks_bindE shrinks_on_is tag_consumes)
  then show ?case unfolding shrinks_def by simp
qed

lemma shrinks_merge_loop [shrink_rules]: "(\<And>tag. shrinks (body tag)) \<Longrightarrow> shrinks (merge_loop rt body)"
  by (rule shrinksI) (unfold merge_loop_def, rule shrinksD [OF shrinks_while_tag])

text \<open>Whatever the bytes are, the loop ends, with a message or an error: it neither panics nor runs on.\<close>

lemma while_tag_plain:
  assumes body: "\<And>tag. shrinks (body tag)" and p: "\<And>tag. plain (body tag)"
  shows "length (snd s) < k \<Longrightarrow> fst (while_tag rt k body s) = Inl e \<Longrightarrow> \<exists>cs n. e = Fail cs n"
proof (induction k arbitrary: s)
  case (Suc k)
  obtain r s1 where t: "on_is (rt_read_raw_tag_or_eof rt) s = (r, s1)" by (rule prod.exhaust)
  show ?case
  proof (cases r)
    case (Inl e')
    then have "e' = e" using t Suc.prems(2) by (simp add: bindE_def)
    then show ?thesis using plainD [OF plain_on_is [OF readers_plain(1)]] t Inl by metis
  next
    case (Inr t')
    then obtain tag where tag: "t' = Some tag" using t Suc.prems(2) by (cases t') (auto simp: bindE_def retE_def)
    obtain r2 s2 where b: "body tag s1 = (r2, s2)" by (rule prod.exhaust)
    have "length (snd s2) < k"
      using tag_run_shorter [of s tag s1] body_run_shorter [OF body b] t Inr tag Suc.prems(1) by simp
    moreover have "fst (thenE (body tag) (while_tag rt k body) s1) = Inl e"
      using Suc.prems(2) t Inr tag by (simp add: bindE_def)
    ultimately show ?thesis
      using b Suc.IH [of s2] plainD [OF p, of tag s1] by (cases r2) (auto simp: thenE_def bindE_def)
  qed
qed simp

lemma plain_merge_loop [plain_rules]:
  "(\<And>tag. shrinks (body tag)) \<Longrightarrow> (\<And>tag. plain (body tag)) \<Longrightarrow> plain (merge_loop rt body)"
  unfolding plain_def [of "merge_loop rt body"] merge_loop_def by (intro allI impI) (rule while_tag_plain [OF _ _ lessI])

end

section \<open>Fields of a message\<close>

text \<open>\<open>sized w n\<close>: \<open>w\<close> appends \<open>n\<close> bytes, counted in 64 bits as \<^verbatim>\<open>compute_size\<close> counts them.\<close>

definition sized :: "(bytes, unit) prog \<Rightarrow> u64 \<Rightarrow> bool" where
  "sized w n \<longleftrightarrow> emits w \<and> n = of_nat (length (written w))"

named_theorems sized_rules \<open>how many bytes a writer appends\<close>

lemma sized_emits: "sized w n \<Longrightarrow> emits w"
  and sized_length: "sized w n \<Longrightarrow> n = of_nat (length (written w))"
  by (simp_all add: sized_def)

lemma sized_field: "field_law rt tag rd w n v \<Longrightarrow> sized w n"
  by (simp add: sized_def field_law_def)

lemma sized_thenE: "sized v a \<Longrightarrow> sized w b \<Longrightarrow> sized (thenE v w) (a + b)"
  by (simp add: sized_def emit_rules written_thenE)

lemma sized_when [sized_rules]: "(c \<Longrightarrow> sized w n) \<Longrightarrow> sized (whenE c w) (size_if c n)"
  by (cases c) (simp_all add: sized_def size_if_def whenE_def emit_rules)

lemma sized_Nil [sized_rules]: "sized (seqE []) 0"
  by (simp add: sized_def emit_rules)

lemma sized_Cons [sized_rules]: "sized w a \<Longrightarrow> sized (seqE ws) b \<Longrightarrow> sized (seqE (w # ws)) (a + b)"
  by (simp add: sized_thenE)

lemma sized_for [sized_rules]:
  "(\<And>x. x \<in> set xs \<Longrightarrow> sized (f x) (g x)) \<Longrightarrow> sized (forE xs f) (sum_list (map g xs))"
  unfolding forE_def
proof (induction xs)
  case (Cons x xs)
  then have "sized (seqE (map f xs)) (sum_list (map g xs))" and "sized (f x) (g x)" by simp_all
  from sized_thenE [OF this(2,1)] show ?case by simp
qed (simp add: sized_def emit_rules)

lemma absorbs_when:
  "(c \<Longrightarrow> absorbs rt body (written w) m m') \<Longrightarrow> (\<not> c \<Longrightarrow> m' = m) \<Longrightarrow> absorbs rt body (written (whenE c w)) m m'"
  by (simp add: written_whenE absorbs_Nil)

lemma absorbs_Cons:
  "sized w a \<Longrightarrow> sized (seqE ws) b \<Longrightarrow> absorbs rt body (written w) m m1 \<Longrightarrow> absorbs rt body (written (seqE ws)) m1 m2 \<Longrightarrow>
   absorbs rt body (written (seqE (w # ws))) m m2"
  by (simp add: written_thenE sized_emits absorbs_append)

lemma absorbs_for:
  assumes "\<And>x. x \<in> set xs \<Longrightarrow> emits (f x)" and "\<And>x m. x \<in> set xs \<Longrightarrow> absorbs rt body (written (f x)) m (push x m)"
  shows "absorbs rt body (written (forE xs f)) m (fold push xs m)"
  using assms unfolding forE_def
proof (induction xs arbitrary: m)
  case (Cons x xs)
  then have "emits (seqE (map f xs))" by (intro emits_seqE) auto
  moreover have "absorbs rt body (written (f x) @ written (seqE (map f xs))) m (fold push xs (push x m))"
    by (rule absorbs_append [OF Cons.prems(2) Cons.IH]) (use Cons.prems in simp_all)
  ultimately show ?case using Cons.prems(1) by (simp add: written_thenE)
qed (simp add: absorbs_Nil)

context protobuf_runtime
begin

lemma absorbs_field:
  assumes "\<And>tag. shrinks (body tag)" and law: "field_law rt tag rd w n v" and "body tag = set_field rd upd"
  shows "absorbs rt body (written w) m (upd v m)"
  unfolding absorbs_def
proof
  fix rest
  obtain e where e: "\<And>rest. rt_read_raw_tag_or_eof rt (written w @ rest) = (Inr (Some tag), e @ rest)"
      "\<And>rest. rd (e @ rest) = (Inr v, rest)"
    using law unfolding field_law_def by blast
  show "merge_loop rt body (m, written w @ rest) = merge_loop rt body (upd v m, rest)"
    by (rule merge_loop_field [OF assms(1) e(1)]) (simp add: assms(3) set_field_run e(2))
qed

text \<open>A field that is written only when it differs from its default, which it has in the new message.\<close>

lemma absorbs_opt:
  assumes "\<And>tag. shrinks (body tag)" and "field_law rt tag rd w n v" and "body tag = set_field rd upd"
    and "\<not> c \<Longrightarrow> upd v m = m"
  shows "absorbs rt body (written (whenE c w)) m (upd v m)"
proof (rule absorbs_when)
  show "absorbs rt body (written w) m (upd v m)"
    by (rule absorbs_field [where body = body and tag = tag and upd = upd]) (fact assms)+
qed (fact assms(4))

lemma consumes_read_message [shrink_rules]:
  assumes "shrinks merge" shows "consumes (read_message rt new merge)"
  unfolding consumes_def
proof
  fix "is"
  obtain r rest where lim: "rt_read_limited rt is = (r, rest)" by (rule prod.exhaust)
  have rest: "length rest \<le> length is" using readers_consume(7) lim by (simp add: consumes_def) (metis snd_conv)
  show "length (snd (read_message rt new merge is)) \<le> length is"
  proof (cases r)
    case (Inr w)
    then have "length w + length rest \<le> length is" using limited_window lim by simp
    moreover have "length (snd (snd (merge (new, w)))) \<le> length w" using shrinksD [OF assms, of "(new, w)"] by simp
    ultimately show ?thesis using Inr lim
      by (cases "merge (new, w)"; cases "fst (merge (new, w))") (simp_all add: read_message_def case_prod_beta)
  qed (use lim rest in \<open>simp add: read_message_def\<close>)
qed

lemma plain_read_message [plain_rules]:
  assumes "plain merge" shows "plain (read_message rt new merge)"
  unfolding plain_def
proof (intro allI impI)
  fix "is" e assume e: "fst (read_message rt new merge is) = Inl e"
  obtain r rest where lim: "rt_read_limited rt is = (r, rest)" by (rule prod.exhaust)
  show "\<exists>cs n. e = Fail cs n"
  proof (cases r)
    case (Inl e')
    then show ?thesis using e lim plainD [OF readers_plain(8)] by (simp add: read_message_def)
  next
    case (Inr w)
    then have "fst (merge (new, w)) = Inl e" using e lim by (auto simp: read_message_def split: prod.splits sum.splits)
    then show ?thesis using assms by (simp add: plain_def)
  qed
qed

lemma shrinks_keep_unknown [shrink_rules]: "shrinks (keep_unknown rt tag sf sf_update)"
proof (rule shrinksI)
  fix s
  show "length (snd (snd (keep_unknown rt tag sf sf_update s))) \<le> length (snd s)"
    using shrinksD [OF readers_consume(8), of tag "(sf_unknown_fields (sf (fst s)), snd s)"]
    by (cases "rt_read_unknown_or_skip_group rt tag (sf_unknown_fields (sf (fst s)), snd s)") (simp add: keep_unknown_def case_prod_beta)
qed

lemma plain_keep_unknown [plain_rules]: "plain (keep_unknown rt tag sf sf_update)"
  using readers_plain(9) [of tag] unfolding plain_def keep_unknown_def by (simp add: case_prod_beta)

text \<open>A message field: the header and then the bytes of the message.\<close>

lemma message_field:
  assumes n: "field_number n" and len: "length (written w) < 2 ^ 32" and w: "emits w"
    and merge: "merge (new, written w) = (Inr (), (v, []))"
  shows "field_law rt (n * 8 + 2) (read_message rt new merge) (write_message_field rt n (of_nat (length (written w))) w)
           (1 + rt_compute_raw_varint64_size rt (of_nat (length (written w))) + of_nat (length (written w))) v"
proof -
  let ?h = "rt_write_header rt n (of_nat (length (written w)))"
  obtain e where h: "emits ?h" and sz: "(of_nat (length (written ?h)) :: u64) = 1 + rt_compute_raw_varint64_size rt (of_nat (length (written w)))"
    and tag: "\<And>rest. rt_read_raw_tag_or_eof rt (written ?h @ written w @ rest) = (Inr (Some (n * 8 + 2)), e @ written w @ rest)"
    and lim: "\<And>rest. rt_read_limited rt (e @ written w @ rest) = (Inr (written w), rest)"
    using header [OF n len] by blast
  have out: "written (write_message_field rt n (of_nat (length (written w))) w) = written ?h @ written w"
    unfolding write_message_field_def by (rule written_thenE [OF h w])
  have "read_message rt new merge ((e @ written w) @ rest) = (Inr v, rest)" for rest
    using lim [of rest] merge by (simp add: read_message_def)
  then show ?thesis
    unfolding field_law_def out using tag sz emits_thenE [OF h w] by (auto simp: write_message_field_def)
qed

lemma unknown_none:
  "sized (rt_write_unknown_fields rt (rt_new_unknown_fields rt)) (rt_unknown_fields_size rt (rt_new_unknown_fields rt))"
  "written (rt_write_unknown_fields rt (rt_new_unknown_fields rt)) = []"
  by (simp_all add: sized_def emits_def written_def no_unknown)

end

section \<open>A message as the sequence of its fields\<close>

text \<open>The values a field can carry on the wire.\<close>

definition string_ok :: "string \<Rightarrow> bool" where
  "string_ok s \<longleftrightarrow> utf8 s \<and> length s < 2 ^ 32"

definition bytes_ok :: "bytes \<Rightarrow> bool" where
  "bytes_ok b \<longleftrightarrow> length b < 2 ^ 32"

text \<open>
  \<open>codec rt body ws n m m'\<close>: the writers \<open>ws\<close> append \<open>n\<close> bytes together, and the loop that meets
  those bytes turns \<open>m\<close> into \<open>m'\<close>. One rule per kind of field builds it for a message.
\<close>

definition codec :: "'u pb_runtime \<Rightarrow> (u32 \<Rightarrow> ('m \<times> bytes, unit) prog) \<Rightarrow> (bytes, unit) prog list \<Rightarrow> u64 \<Rightarrow> 'm \<Rightarrow> 'm \<Rightarrow> bool" where
  "codec rt body ws n m m' \<longleftrightarrow>
     (\<forall>w \<in> set ws. emits w) \<and> n = of_nat (length (concat (map written ws))) \<and>
     absorbs rt body (concat (map written ws)) m m'"

definition message_codec :: "'u pb_runtime \<Rightarrow> (u32 \<Rightarrow> ('m \<times> bytes, unit) prog) \<Rightarrow> (bytes, unit) prog \<Rightarrow> u64 \<Rightarrow> 'm \<Rightarrow> 'm \<Rightarrow> bool" where
  "message_codec rt body w n m m' \<longleftrightarrow> sized w n \<and> absorbs rt body (written w) m m'"

named_theorems codec_rules \<open>one rule per kind of field\<close>

lemma message_codecI:
  assumes "codec rt body ws k m m1" and "k = n" and "m1 = m'"
  shows "message_codec rt body (seqE ws) n m m'"
  using assms by (auto simp: codec_def message_codec_def sized_def written_seqE emits_seqE)

lemma codec_Cons:
  assumes "sized w a" and "absorbs rt body (written w) m m1" and "codec rt body ws b m1 m2"
  shows "codec rt body (w # ws) (a + b) m m2"
  using assms by (auto simp: codec_def sized_def intro: absorbs_append)

lemma codec_Nil: "codec rt body [] 0 m m"
  by (simp add: codec_def absorbs_Nil)

context protobuf_runtime
begin

lemma codec_opt:
  assumes "\<And>tag. shrinks (body tag)" and "field_law rt tag rd w k v" and "body tag = set_field rd upd"
    and "\<not> c \<Longrightarrow> upd v m = m" and "codec rt body ws b (upd v m) m'"
  shows "codec rt body (whenE c w # ws) (size_if c k + b) m m'"
proof (rule codec_Cons)
  show "sized (whenE c w) (size_if c k)" using sized_field [OF assms(2)] by (rule sized_when)
  show "absorbs rt body (written (whenE c w)) m (upd v m)"
    by (rule absorbs_opt [where body = body and tag = tag and upd = upd]) (fact assms)+
qed (fact assms(5))

lemma codec_string [codec_rules]:
  "(\<And>tag. shrinks (body tag)) \<Longrightarrow> field_number n \<and> string_ok s \<Longrightarrow> body (n * 8 + 2) = set_field (rt_read_string rt) upd \<Longrightarrow>
   (\<not> c \<Longrightarrow> upd s m = m) \<Longrightarrow> codec rt body ws b (upd s m) m' \<Longrightarrow>
   codec rt body (whenE c (rt_write_string rt n s) # ws) (size_if c (rt_string_size rt n s) + b) m m'"
  by (rule codec_opt [OF _ string_field]) (auto simp: string_ok_def)

lemma codec_bytes [codec_rules]:
  "(\<And>tag. shrinks (body tag)) \<Longrightarrow> field_number n \<and> bytes_ok s \<Longrightarrow> body (n * 8 + 2) = set_field (rt_read_bytes rt) upd \<Longrightarrow>
   (\<not> c \<Longrightarrow> upd s m = m) \<Longrightarrow> codec rt body ws b (upd s m) m' \<Longrightarrow>
   codec rt body (whenE c (rt_write_bytes rt n s) # ws) (size_if c (rt_bytes_size rt n s) + b) m m'"
  by (rule codec_opt [OF _ bytes_field]) (auto simp: bytes_ok_def)

lemma codec_bool [codec_rules]:
  "(\<And>tag. shrinks (body tag)) \<Longrightarrow> field_number n \<Longrightarrow> body (n * 8) = set_field (rt_read_bool rt) upd \<Longrightarrow>
   (\<not> c \<Longrightarrow> upd s m = m) \<Longrightarrow> codec rt body ws b (upd s m) m' \<Longrightarrow>
   codec rt body (whenE c (rt_write_bool rt n s) # ws) (size_if c (1 + 1) + b) m m'"
  by (rule codec_opt [OF _ bool_field])

lemma codec_uint32 [codec_rules]:
  "(\<And>tag. shrinks (body tag)) \<Longrightarrow> field_number n \<Longrightarrow> body (n * 8) = set_field (rt_read_uint32 rt) upd \<Longrightarrow>
   (\<not> c \<Longrightarrow> upd s m = m) \<Longrightarrow> codec rt body ws b (upd s m) m' \<Longrightarrow>
   codec rt body (whenE c (rt_write_uint32 rt n s) # ws) (size_if c (rt_uint32_size rt n s) + b) m m'"
  by (rule codec_opt [OF _ uint32_field])

lemma codec_uint64 [codec_rules]:
  "(\<And>tag. shrinks (body tag)) \<Longrightarrow> field_number n \<Longrightarrow> body (n * 8) = set_field (rt_read_uint64 rt) upd \<Longrightarrow>
   (\<not> c \<Longrightarrow> upd s m = m) \<Longrightarrow> codec rt body ws b (upd s m) m' \<Longrightarrow>
   codec rt body (whenE c (rt_write_uint64 rt n s) # ws) (size_if c (rt_uint64_size rt n s) + b) m m'"
  by (rule codec_opt [OF _ uint64_field])

lemma codec_enum [codec_rules]:
  "(\<And>tag. shrinks (body tag)) \<Longrightarrow> field_number n \<Longrightarrow> body (n * 8) = set_field (rt_read_enum_or_unknown rt) upd \<Longrightarrow>
   (\<not> c \<Longrightarrow> upd s m = m) \<Longrightarrow> codec rt body ws b (upd s m) m' \<Longrightarrow>
   codec rt body (whenE c (rt_write_enum rt n s) # ws) (size_if c (rt_int32_size rt n s) + b) m m'"
  by (rule codec_opt [OF _ enum_field])

text \<open>A repeated field: every element is written and pushed in turn.\<close>

lemma codec_for:
  assumes shr: "\<And>tag. shrinks (body tag)"
    and law: "\<And>x. x \<in> set xs \<Longrightarrow> field_law rt tag rd (f x) (g x) (h x)" and tag: "body tag = set_field rd push"
    and rest: "codec rt body ws b (fold (\<lambda>x. push (h x)) xs m) m'"
  shows "codec rt body (forE xs f # ws) (sum_list (map g xs) + b) m m'"
proof (rule codec_Cons)
  show "sized (forE xs f) (sum_list (map g xs))" by (intro sized_for sized_field [OF law])
  show "absorbs rt body (written (forE xs f)) m (fold (\<lambda>x. push (h x)) xs m)"
  proof (rule absorbs_for)
    fix x m assume "x \<in> set xs"
    then show "absorbs rt body (written (f x)) m (push (h x) m)"
      using absorbs_field [where body = body and upd = push] shr law tag by blast
  qed (rule field_law_emits [OF law])
qed (fact rest)

lemma codec_unknown [codec_rules]:
  "u = rt_new_unknown_fields rt \<Longrightarrow> codec rt body [rt_write_unknown_fields rt u] (rt_unknown_fields_size rt u + 0) m m"
  by (simp only:) (rule codec_Cons [OF unknown_none(1) _ codec_Nil], simp add: unknown_none(2) absorbs_Nil)

text \<open>What a message that has a codec gives: the whole stream is read, into the message.\<close>

lemma message_codec_merge:
  assumes "\<And>tag. shrinks (body tag)" and "message_codec rt body w n m m'"
  shows "merge_loop rt body (m, written w) = (Inr (), (m', []))"
proof -
  have "merge_loop rt body (m, written w @ []) = merge_loop rt body (m', [])"
    using assms(2) unfolding message_codec_def absorbs_def by blast
  then show ?thesis using merge_loop_eof [OF assms(1)] by simp
qed

lemma message_codec_size: "message_codec rt body w n m m' \<Longrightarrow> n = of_nat (length (written w))"
  and message_codec_emits: "message_codec rt body w n m m' \<Longrightarrow> emits w"
  by (simp_all add: message_codec_def sized_def)

end

section \<open>Repeated fields\<close>

lemma forE_map: "forE (map g xs) f = forE xs (\<lambda>x. f (g x))"
  by (simp add: forE_def comp_def)

context protobuf_runtime
begin

lemma codec_strings [codec_rules]:
  assumes "\<And>tag. shrinks (body tag)" and "field_number n \<and> (\<forall>s \<in> set xs. string_ok s)"
    and "body (n * 8 + 2) = set_field (rt_read_string rt) push"
    and "fold push xs m = m1" and "codec rt body ws b m1 m'"
  shows "codec rt body (forE xs (\<lambda>v. rt_write_string rt n v) # ws) (sum_list (map (rt_string_size rt n) xs) + b) m m'"
proof (rule codec_for [where body = body and push = push and h = "\<lambda>x. x"])
  show "field_law rt (n * 8 + 2) (rt_read_string rt) (rt_write_string rt n x) (rt_string_size rt n x) x" if "x \<in> set xs" for x
    using assms(2) that by (intro string_field) (simp_all add: string_ok_def)
qed (use assms in simp_all)

text \<open>A message in a field: its length is the size that \<^verbatim>\<open>compute_size\<close> left in it.\<close>

lemma message_codec_field:
  assumes n: "field_number n" and sub: "\<And>tag. shrinks (sub tag)" and c: "message_codec rt sub w sz new v"
    and len: "length (written w) < 2 ^ 32" and cached: "cached = ucast sz"
  shows "field_law rt (n * 8 + 2) (read_message rt new (merge_loop rt sub)) (write_message_field rt n cached w)
           (1 + rt_compute_raw_varint64_size rt sz + sz) v"
proof -
  have sz: "sz = of_nat (length (written w))" by (rule message_codec_size [OF c])
  then have "cached = of_nat (length (written w))" using cached len by (simp add: unsigned_of_nat take_bit_eq_mod)
  then show ?thesis unfolding sz
    using message_field [where merge = "merge_loop rt sub", OF n len message_codec_emits [OF c] message_codec_merge [OF sub c]] by simp
qed

lemma codec_messages:
  assumes "\<And>tag. shrinks (body tag)" and "\<And>tag. shrinks (sub tag)" and "field_number n"
    and sub: "\<And>x. x \<in> set xs \<Longrightarrow> message_codec rt sub (w x) (sz x) new (h x) \<and> length (written (w x)) < 2 ^ 32 \<and> cached x = ucast (sz x)"
    and "body (n * 8 + 2) = set_field (read_message rt new (merge_loop rt sub)) push"
    and "fold (\<lambda>x. push (h x)) xs m = m1" and "codec rt body ws b m1 m'"
  shows "codec rt body (forE xs (\<lambda>v. write_message_field rt n (cached v) (w v)) # ws) (messages_size rt (map sz xs) + b) m m'"
proof -
  have size: "messages_size rt (map sz xs) = sum_list (map (\<lambda>x. 1 + rt_compute_raw_varint64_size rt (sz x) + sz x) xs)"
    by (simp add: messages_size_def comp_def)
  show ?thesis unfolding size
  proof (rule codec_for [where body = body and push = push and h = h])
    show "field_law rt (n * 8 + 2) (read_message rt new (merge_loop rt sub)) (write_message_field rt n (cached x) (w x))
            (1 + rt_compute_raw_varint64_size rt (sz x) + sz x) (h x)" if "x \<in> set xs" for x
      using sub [OF that] by (intro message_codec_field assms(2,3)) simp_all
  qed (use assms in simp_all)
qed

end

end
