(* ===== verification/Messages.thy ===== *)
theory Messages
  imports Protobuf
begin

text \<open>
  The messages of the container life cycle as \<^verbatim>\<open>generated/agent.rs\<close> has them: per message its fields
  (\<open>XMsg\<close>), \<^verbatim>\<open>new\<close>, the \<^verbatim>\<open>match\<close> and the loop of \<^verbatim>\<open>merge_from\<close>, \<^verbatim>\<open>compute_size\<close> (the size, and the
  message with the sizes cached in it and in the messages it contains),
  \<^verbatim>\<open>write_to_with_cached_sizes\<close>, \<^verbatim>\<open>clear\<close> and \<^verbatim>\<open>default_instance\<close>. An enum field holds the
  number of its value, known or not, as \<^verbatim>\<open>EnumOrUnknown\<close> does.

  \<open>X_write\<close> computes the sizes and writes; \<open>X_ok\<close> says that the strings are UTF-8, that lengths fit 32
  bits and that there are no unknown fields; \<open>X_fresh\<close> is the message with no size cached. For every
  message, \<open>X_codec\<close> shows that \<^verbatim>\<open>compute_size\<close> counts the bytes written and that \<^verbatim>\<open>merge_from\<close> reads
  them back; \<open>X_merge_plain\<close>, that parsing any bytes returns.
\<close>

section \<open>Kinds of volumes\<close>

datatype VolumeTypeEnum = VolumeType_FILESYSTEM | VolumeType_BLOCK

definition VolumeType_value :: "VolumeTypeEnum \<Rightarrow> u32" where
  "VolumeType_value e = (case e of VolumeType_FILESYSTEM \<Rightarrow> 0 | VolumeType_BLOCK \<Rightarrow> 1)"

definition VolumeType_from_i32 :: "u32 \<Rightarrow> VolumeTypeEnum option" where
  "VolumeType_from_i32 value =
    (if value = 0 then Some VolumeType_FILESYSTEM
     else if value = 1 then Some VolumeType_BLOCK else None)"

definition VolumeType_from_str :: "string \<Rightarrow> VolumeTypeEnum option" where
  "VolumeType_from_str str =
    (if str = ''FILESYSTEM'' then Some VolumeType_FILESYSTEM
     else if str = ''BLOCK'' then Some VolumeType_BLOCK else None)"

definition VolumeType_VALUES :: "VolumeTypeEnum list" where
  "VolumeType_VALUES = [VolumeType_FILESYSTEM, VolumeType_BLOCK]"

section \<open>The container to create\<close>

record 'u InlineFileMsg =
  inl_path :: string
  inl_content :: bytes
  inl_mode :: u32
  inl_special_fields :: "'u SpecialFields"

definition InlineFile_new :: "'u pb_runtime \<Rightarrow> 'u InlineFileMsg" where
  "InlineFile_new rt =
     \<lparr>inl_path = [],
      inl_content = [],
      inl_mode = 0,
      inl_special_fields = SpecialFields_new rt\<rparr>"

definition InlineFile_merge_body :: "'u pb_runtime \<Rightarrow> u32 \<Rightarrow> ('u InlineFileMsg \<times> bytes, unit) prog" where
  "InlineFile_merge_body rt tag =
    (if tag = 10 then set_field (rt_read_string rt) (\<lambda>v m. m\<lparr>inl_path := v\<rparr>)
     else if tag = 18 then set_field (rt_read_bytes rt) (\<lambda>v m. m\<lparr>inl_content := v\<rparr>)
     else if tag = 24 then set_field (rt_read_uint32 rt) (\<lambda>v m. m\<lparr>inl_mode := v\<rparr>)
     else keep_unknown rt tag inl_special_fields inl_special_fields_update)"

definition InlineFile_merge_from :: "'u pb_runtime \<Rightarrow> ('u InlineFileMsg \<times> bytes, unit) prog" where
  "InlineFile_merge_from rt = merge_loop rt (InlineFile_merge_body rt)"

definition InlineFile_compute_size :: "'u pb_runtime \<Rightarrow> 'u InlineFileMsg \<Rightarrow> u64 \<times> 'u InlineFileMsg" where
  "InlineFile_compute_size rt m =
    (let my_size = 0;
         my_size = my_size + size_if (inl_path m \<noteq> []) (rt_string_size rt 1 (inl_path m));
         my_size = my_size + size_if (inl_content m \<noteq> []) (rt_bytes_size rt 2 (inl_content m));
         my_size = my_size + size_if (inl_mode m \<noteq> 0) (rt_uint32_size rt 3 (inl_mode m));
         my_size = my_size + rt_unknown_fields_size rt (sf_unknown_fields (inl_special_fields m))
     in (my_size, m\<lparr>inl_special_fields := (inl_special_fields m)\<lparr>sf_cached_size := ucast my_size\<rparr>\<rparr>))"

definition InlineFile_write_to_with_cached_sizes :: "'u pb_runtime \<Rightarrow> 'u InlineFileMsg \<Rightarrow> (bytes, unit) prog" where
  "InlineFile_write_to_with_cached_sizes rt m = seqE
     [whenE (inl_path m \<noteq> []) (rt_write_string rt 1 (inl_path m)),
      whenE (inl_content m \<noteq> []) (rt_write_bytes rt 2 (inl_content m)),
      whenE (inl_mode m \<noteq> 0) (rt_write_uint32 rt 3 (inl_mode m)),
      rt_write_unknown_fields rt (sf_unknown_fields (inl_special_fields m))]"

definition InlineFile_clear :: "'u pb_runtime \<Rightarrow> 'u InlineFileMsg \<Rightarrow> 'u InlineFileMsg" where
  "InlineFile_clear rt m = m\<lparr>inl_path := [],
       inl_content := [],
       inl_mode := 0,
       inl_special_fields := rt_clear_special rt (inl_special_fields m)\<rparr>"

definition InlineFile_default_instance :: "'u pb_runtime \<Rightarrow> 'u InlineFileMsg" where
  "InlineFile_default_instance rt =
     \<lparr>inl_path = [],
      inl_content = [],
      inl_mode = 0,
      inl_special_fields = SpecialFields_new rt\<rparr>"

definition InlineFile_write :: "'u pb_runtime \<Rightarrow> 'u InlineFileMsg \<Rightarrow> (bytes, unit) prog" where
  "InlineFile_write rt m = InlineFile_write_to_with_cached_sizes rt (snd (InlineFile_compute_size rt m))"

definition InlineFile_ok :: "'u pb_runtime \<Rightarrow> 'u InlineFileMsg \<Rightarrow> bool" where
  "InlineFile_ok rt m \<longleftrightarrow> string_ok (inl_path m) \<and>
     bytes_ok (inl_content m) \<and>
     sf_unknown_fields (inl_special_fields m) = rt_new_unknown_fields rt"

definition InlineFile_fresh :: "'u pb_runtime \<Rightarrow> 'u InlineFileMsg \<Rightarrow> 'u InlineFileMsg" where
  "InlineFile_fresh rt m = m\<lparr>inl_special_fields := SpecialFields_new rt\<rparr>"

record 'u VolumeMountMsg =
  vmm_destination :: string
  vmm_source :: string
  vmm_options :: "string list"
  vmm_readonly :: bool
  vmm_volume_type :: u32
  vmm_fs_type :: string
  vmm_files :: "'u InlineFileMsg list"
  vmm_special_fields :: "'u SpecialFields"

definition VolumeMount_new :: "'u pb_runtime \<Rightarrow> 'u VolumeMountMsg" where
  "VolumeMount_new rt =
     \<lparr>vmm_destination = [],
      vmm_source = [],
      vmm_options = [],
      vmm_readonly = False,
      vmm_volume_type = 0,
      vmm_fs_type = [],
      vmm_files = [],
      vmm_special_fields = SpecialFields_new rt\<rparr>"

definition VolumeMount_merge_body :: "'u pb_runtime \<Rightarrow> u32 \<Rightarrow> ('u VolumeMountMsg \<times> bytes, unit) prog" where
  "VolumeMount_merge_body rt tag =
    (if tag = 10 then set_field (rt_read_string rt) (\<lambda>v m. m\<lparr>vmm_destination := v\<rparr>)
     else if tag = 18 then set_field (rt_read_string rt) (\<lambda>v m. m\<lparr>vmm_source := v\<rparr>)
     else if tag = 26 then set_field (rt_read_string rt) (\<lambda>v m. m\<lparr>vmm_options := vmm_options m @ [v]\<rparr>)
     else if tag = 32 then set_field (rt_read_bool rt) (\<lambda>v m. m\<lparr>vmm_readonly := v\<rparr>)
     else if tag = 40 then set_field (rt_read_enum_or_unknown rt) (\<lambda>v m. m\<lparr>vmm_volume_type := v\<rparr>)
     else if tag = 50 then set_field (rt_read_string rt) (\<lambda>v m. m\<lparr>vmm_fs_type := v\<rparr>)
     else if tag = 58 then set_field (read_message rt (InlineFile_new rt) (InlineFile_merge_from rt)) (\<lambda>v m. m\<lparr>vmm_files := vmm_files m @ [v]\<rparr>)
     else keep_unknown rt tag vmm_special_fields vmm_special_fields_update)"

definition VolumeMount_merge_from :: "'u pb_runtime \<Rightarrow> ('u VolumeMountMsg \<times> bytes, unit) prog" where
  "VolumeMount_merge_from rt = merge_loop rt (VolumeMount_merge_body rt)"

definition VolumeMount_compute_size :: "'u pb_runtime \<Rightarrow> 'u VolumeMountMsg \<Rightarrow> u64 \<times> 'u VolumeMountMsg" where
  "VolumeMount_compute_size rt m =
    (let my_size = 0;
         my_size = my_size + size_if (vmm_destination m \<noteq> []) (rt_string_size rt 1 (vmm_destination m));
         my_size = my_size + size_if (vmm_source m \<noteq> []) (rt_string_size rt 2 (vmm_source m));
         my_size = my_size + sum_list (map (rt_string_size rt 3) (vmm_options m));
         my_size = my_size + size_if (vmm_readonly m \<noteq> False) (1 + 1);
         my_size = my_size + size_if (vmm_volume_type m \<noteq> VolumeType_value VolumeType_FILESYSTEM) (rt_int32_size rt 5 (vmm_volume_type m));
         my_size = my_size + size_if (vmm_fs_type m \<noteq> []) (rt_string_size rt 6 (vmm_fs_type m));
         sized = map (InlineFile_compute_size rt) (vmm_files m);
         my_size = my_size + messages_size rt (map fst sized);
         my_size = my_size + rt_unknown_fields_size rt (sf_unknown_fields (vmm_special_fields m))
     in (my_size, m\<lparr>vmm_files := map snd sized, vmm_special_fields := (vmm_special_fields m)\<lparr>sf_cached_size := ucast my_size\<rparr>\<rparr>))"

definition VolumeMount_write_to_with_cached_sizes :: "'u pb_runtime \<Rightarrow> 'u VolumeMountMsg \<Rightarrow> (bytes, unit) prog" where
  "VolumeMount_write_to_with_cached_sizes rt m = seqE
     [whenE (vmm_destination m \<noteq> []) (rt_write_string rt 1 (vmm_destination m)),
      whenE (vmm_source m \<noteq> []) (rt_write_string rt 2 (vmm_source m)),
      forE (vmm_options m) (\<lambda>v. rt_write_string rt 3 v),
      whenE (vmm_readonly m \<noteq> False) (rt_write_bool rt 4 (vmm_readonly m)),
      whenE (vmm_volume_type m \<noteq> VolumeType_value VolumeType_FILESYSTEM) (rt_write_enum rt 5 (vmm_volume_type m)),
      whenE (vmm_fs_type m \<noteq> []) (rt_write_string rt 6 (vmm_fs_type m)),
      forE (vmm_files m) (\<lambda>v. write_message_field rt 7 (sf_cached_size (inl_special_fields v))
                            (InlineFile_write_to_with_cached_sizes rt v)),
      rt_write_unknown_fields rt (sf_unknown_fields (vmm_special_fields m))]"

definition VolumeMount_clear :: "'u pb_runtime \<Rightarrow> 'u VolumeMountMsg \<Rightarrow> 'u VolumeMountMsg" where
  "VolumeMount_clear rt m = m\<lparr>vmm_destination := [],
       vmm_source := [],
       vmm_options := [],
       vmm_readonly := False,
       vmm_volume_type := VolumeType_value VolumeType_FILESYSTEM,
       vmm_fs_type := [],
       vmm_files := [],
       vmm_special_fields := rt_clear_special rt (vmm_special_fields m)\<rparr>"

definition VolumeMount_default_instance :: "'u pb_runtime \<Rightarrow> 'u VolumeMountMsg" where
  "VolumeMount_default_instance rt =
     \<lparr>vmm_destination = [],
      vmm_source = [],
      vmm_options = [],
      vmm_readonly = False,
      vmm_volume_type = 0,
      vmm_fs_type = [],
      vmm_files = [],
      vmm_special_fields = SpecialFields_new rt\<rparr>"

definition VolumeMount_write :: "'u pb_runtime \<Rightarrow> 'u VolumeMountMsg \<Rightarrow> (bytes, unit) prog" where
  "VolumeMount_write rt m = VolumeMount_write_to_with_cached_sizes rt (snd (VolumeMount_compute_size rt m))"

definition VolumeMount_ok :: "'u pb_runtime \<Rightarrow> 'u VolumeMountMsg \<Rightarrow> bool" where
  "VolumeMount_ok rt m \<longleftrightarrow> string_ok (vmm_destination m) \<and>
     string_ok (vmm_source m) \<and>
     (\<forall>s \<in> set (vmm_options m). string_ok s) \<and>
     string_ok (vmm_fs_type m) \<and>
     (\<forall>v \<in> set (vmm_files m). InlineFile_ok rt v \<and> length (written (InlineFile_write rt v)) < 2 ^ 32) \<and>
     sf_unknown_fields (vmm_special_fields m) = rt_new_unknown_fields rt"

definition VolumeMount_fresh :: "'u pb_runtime \<Rightarrow> 'u VolumeMountMsg \<Rightarrow> 'u VolumeMountMsg" where
  "VolumeMount_fresh rt m = m\<lparr>vmm_files := map (InlineFile_fresh rt) (vmm_files m), vmm_special_fields := SpecialFields_new rt\<rparr>"

record 'u CreateContainerRequestMsg =
  ccr_container_id :: string
  ccr_bundle_path :: string
  ccr_stdin :: string
  ccr_stdout :: string
  ccr_stderr :: string
  ccr_terminal :: bool
  ccr_volumes :: "'u VolumeMountMsg list"
  ccr_config_json :: bytes
  ccr_rootfs_preattached :: bool
  ccr_erofs_layers :: u32
  ccr_special_fields :: "'u SpecialFields"

definition CreateContainerRequest_new :: "'u pb_runtime \<Rightarrow> 'u CreateContainerRequestMsg" where
  "CreateContainerRequest_new rt =
     \<lparr>ccr_container_id = [],
      ccr_bundle_path = [],
      ccr_stdin = [],
      ccr_stdout = [],
      ccr_stderr = [],
      ccr_terminal = False,
      ccr_volumes = [],
      ccr_config_json = [],
      ccr_rootfs_preattached = False,
      ccr_erofs_layers = 0,
      ccr_special_fields = SpecialFields_new rt\<rparr>"

definition CreateContainerRequest_merge_body :: "'u pb_runtime \<Rightarrow> u32 \<Rightarrow> ('u CreateContainerRequestMsg \<times> bytes, unit) prog" where
  "CreateContainerRequest_merge_body rt tag =
    (if tag = 10 then set_field (rt_read_string rt) (\<lambda>v m. m\<lparr>ccr_container_id := v\<rparr>)
     else if tag = 18 then set_field (rt_read_string rt) (\<lambda>v m. m\<lparr>ccr_bundle_path := v\<rparr>)
     else if tag = 26 then set_field (rt_read_string rt) (\<lambda>v m. m\<lparr>ccr_stdin := v\<rparr>)
     else if tag = 34 then set_field (rt_read_string rt) (\<lambda>v m. m\<lparr>ccr_stdout := v\<rparr>)
     else if tag = 42 then set_field (rt_read_string rt) (\<lambda>v m. m\<lparr>ccr_stderr := v\<rparr>)
     else if tag = 48 then set_field (rt_read_bool rt) (\<lambda>v m. m\<lparr>ccr_terminal := v\<rparr>)
     else if tag = 58 then set_field (read_message rt (VolumeMount_new rt) (VolumeMount_merge_from rt)) (\<lambda>v m. m\<lparr>ccr_volumes := ccr_volumes m @ [v]\<rparr>)
     else if tag = 66 then set_field (rt_read_bytes rt) (\<lambda>v m. m\<lparr>ccr_config_json := v\<rparr>)
     else if tag = 80 then set_field (rt_read_bool rt) (\<lambda>v m. m\<lparr>ccr_rootfs_preattached := v\<rparr>)
     else if tag = 88 then set_field (rt_read_uint32 rt) (\<lambda>v m. m\<lparr>ccr_erofs_layers := v\<rparr>)
     else keep_unknown rt tag ccr_special_fields ccr_special_fields_update)"

definition CreateContainerRequest_merge_from :: "'u pb_runtime \<Rightarrow> ('u CreateContainerRequestMsg \<times> bytes, unit) prog" where
  "CreateContainerRequest_merge_from rt = merge_loop rt (CreateContainerRequest_merge_body rt)"

definition CreateContainerRequest_compute_size :: "'u pb_runtime \<Rightarrow> 'u CreateContainerRequestMsg \<Rightarrow> u64 \<times> 'u CreateContainerRequestMsg" where
  "CreateContainerRequest_compute_size rt m =
    (let my_size = 0;
         my_size = my_size + size_if (ccr_container_id m \<noteq> []) (rt_string_size rt 1 (ccr_container_id m));
         my_size = my_size + size_if (ccr_bundle_path m \<noteq> []) (rt_string_size rt 2 (ccr_bundle_path m));
         my_size = my_size + size_if (ccr_stdin m \<noteq> []) (rt_string_size rt 3 (ccr_stdin m));
         my_size = my_size + size_if (ccr_stdout m \<noteq> []) (rt_string_size rt 4 (ccr_stdout m));
         my_size = my_size + size_if (ccr_stderr m \<noteq> []) (rt_string_size rt 5 (ccr_stderr m));
         my_size = my_size + size_if (ccr_terminal m \<noteq> False) (1 + 1);
         sized = map (VolumeMount_compute_size rt) (ccr_volumes m);
         my_size = my_size + messages_size rt (map fst sized);
         my_size = my_size + size_if (ccr_config_json m \<noteq> []) (rt_bytes_size rt 8 (ccr_config_json m));
         my_size = my_size + size_if (ccr_rootfs_preattached m \<noteq> False) (1 + 1);
         my_size = my_size + size_if (ccr_erofs_layers m \<noteq> 0) (rt_uint32_size rt 11 (ccr_erofs_layers m));
         my_size = my_size + rt_unknown_fields_size rt (sf_unknown_fields (ccr_special_fields m))
     in (my_size, m\<lparr>ccr_volumes := map snd sized, ccr_special_fields := (ccr_special_fields m)\<lparr>sf_cached_size := ucast my_size\<rparr>\<rparr>))"

definition CreateContainerRequest_write_to_with_cached_sizes :: "'u pb_runtime \<Rightarrow> 'u CreateContainerRequestMsg \<Rightarrow> (bytes, unit) prog" where
  "CreateContainerRequest_write_to_with_cached_sizes rt m = seqE
     [whenE (ccr_container_id m \<noteq> []) (rt_write_string rt 1 (ccr_container_id m)),
      whenE (ccr_bundle_path m \<noteq> []) (rt_write_string rt 2 (ccr_bundle_path m)),
      whenE (ccr_stdin m \<noteq> []) (rt_write_string rt 3 (ccr_stdin m)),
      whenE (ccr_stdout m \<noteq> []) (rt_write_string rt 4 (ccr_stdout m)),
      whenE (ccr_stderr m \<noteq> []) (rt_write_string rt 5 (ccr_stderr m)),
      whenE (ccr_terminal m \<noteq> False) (rt_write_bool rt 6 (ccr_terminal m)),
      forE (ccr_volumes m) (\<lambda>v. write_message_field rt 7 (sf_cached_size (vmm_special_fields v))
                            (VolumeMount_write_to_with_cached_sizes rt v)),
      whenE (ccr_config_json m \<noteq> []) (rt_write_bytes rt 8 (ccr_config_json m)),
      whenE (ccr_rootfs_preattached m \<noteq> False) (rt_write_bool rt 10 (ccr_rootfs_preattached m)),
      whenE (ccr_erofs_layers m \<noteq> 0) (rt_write_uint32 rt 11 (ccr_erofs_layers m)),
      rt_write_unknown_fields rt (sf_unknown_fields (ccr_special_fields m))]"

definition CreateContainerRequest_clear :: "'u pb_runtime \<Rightarrow> 'u CreateContainerRequestMsg \<Rightarrow> 'u CreateContainerRequestMsg" where
  "CreateContainerRequest_clear rt m = m\<lparr>ccr_container_id := [],
       ccr_bundle_path := [],
       ccr_stdin := [],
       ccr_stdout := [],
       ccr_stderr := [],
       ccr_terminal := False,
       ccr_volumes := [],
       ccr_config_json := [],
       ccr_rootfs_preattached := False,
       ccr_erofs_layers := 0,
       ccr_special_fields := rt_clear_special rt (ccr_special_fields m)\<rparr>"

definition CreateContainerRequest_default_instance :: "'u pb_runtime \<Rightarrow> 'u CreateContainerRequestMsg" where
  "CreateContainerRequest_default_instance rt =
     \<lparr>ccr_container_id = [],
      ccr_bundle_path = [],
      ccr_stdin = [],
      ccr_stdout = [],
      ccr_stderr = [],
      ccr_terminal = False,
      ccr_volumes = [],
      ccr_config_json = [],
      ccr_rootfs_preattached = False,
      ccr_erofs_layers = 0,
      ccr_special_fields = SpecialFields_new rt\<rparr>"

definition CreateContainerRequest_write :: "'u pb_runtime \<Rightarrow> 'u CreateContainerRequestMsg \<Rightarrow> (bytes, unit) prog" where
  "CreateContainerRequest_write rt m = CreateContainerRequest_write_to_with_cached_sizes rt (snd (CreateContainerRequest_compute_size rt m))"

definition CreateContainerRequest_ok :: "'u pb_runtime \<Rightarrow> 'u CreateContainerRequestMsg \<Rightarrow> bool" where
  "CreateContainerRequest_ok rt m \<longleftrightarrow> string_ok (ccr_container_id m) \<and>
     string_ok (ccr_bundle_path m) \<and>
     string_ok (ccr_stdin m) \<and>
     string_ok (ccr_stdout m) \<and>
     string_ok (ccr_stderr m) \<and>
     (\<forall>v \<in> set (ccr_volumes m). VolumeMount_ok rt v \<and> length (written (VolumeMount_write rt v)) < 2 ^ 32) \<and>
     bytes_ok (ccr_config_json m) \<and>
     sf_unknown_fields (ccr_special_fields m) = rt_new_unknown_fields rt"

definition CreateContainerRequest_fresh :: "'u pb_runtime \<Rightarrow> 'u CreateContainerRequestMsg \<Rightarrow> 'u CreateContainerRequestMsg" where
  "CreateContainerRequest_fresh rt m = m\<lparr>ccr_volumes := map (VolumeMount_fresh rt) (ccr_volumes m), ccr_special_fields := SpecialFields_new rt\<rparr>"

record 'u CreateContainerResponseMsg =
  ccs_pid :: u32
  ccs_special_fields :: "'u SpecialFields"

definition CreateContainerResponse_new :: "'u pb_runtime \<Rightarrow> 'u CreateContainerResponseMsg" where
  "CreateContainerResponse_new rt =
     \<lparr>ccs_pid = 0,
      ccs_special_fields = SpecialFields_new rt\<rparr>"

definition CreateContainerResponse_merge_body :: "'u pb_runtime \<Rightarrow> u32 \<Rightarrow> ('u CreateContainerResponseMsg \<times> bytes, unit) prog" where
  "CreateContainerResponse_merge_body rt tag =
    (if tag = 8 then set_field (rt_read_uint32 rt) (\<lambda>v m. m\<lparr>ccs_pid := v\<rparr>)
     else keep_unknown rt tag ccs_special_fields ccs_special_fields_update)"

definition CreateContainerResponse_merge_from :: "'u pb_runtime \<Rightarrow> ('u CreateContainerResponseMsg \<times> bytes, unit) prog" where
  "CreateContainerResponse_merge_from rt = merge_loop rt (CreateContainerResponse_merge_body rt)"

definition CreateContainerResponse_compute_size :: "'u pb_runtime \<Rightarrow> 'u CreateContainerResponseMsg \<Rightarrow> u64 \<times> 'u CreateContainerResponseMsg" where
  "CreateContainerResponse_compute_size rt m =
    (let my_size = 0;
         my_size = my_size + size_if (ccs_pid m \<noteq> 0) (rt_uint32_size rt 1 (ccs_pid m));
         my_size = my_size + rt_unknown_fields_size rt (sf_unknown_fields (ccs_special_fields m))
     in (my_size, m\<lparr>ccs_special_fields := (ccs_special_fields m)\<lparr>sf_cached_size := ucast my_size\<rparr>\<rparr>))"

definition CreateContainerResponse_write_to_with_cached_sizes :: "'u pb_runtime \<Rightarrow> 'u CreateContainerResponseMsg \<Rightarrow> (bytes, unit) prog" where
  "CreateContainerResponse_write_to_with_cached_sizes rt m = seqE
     [whenE (ccs_pid m \<noteq> 0) (rt_write_uint32 rt 1 (ccs_pid m)),
      rt_write_unknown_fields rt (sf_unknown_fields (ccs_special_fields m))]"

definition CreateContainerResponse_clear :: "'u pb_runtime \<Rightarrow> 'u CreateContainerResponseMsg \<Rightarrow> 'u CreateContainerResponseMsg" where
  "CreateContainerResponse_clear rt m = m\<lparr>ccs_pid := 0,
       ccs_special_fields := rt_clear_special rt (ccs_special_fields m)\<rparr>"

definition CreateContainerResponse_default_instance :: "'u pb_runtime \<Rightarrow> 'u CreateContainerResponseMsg" where
  "CreateContainerResponse_default_instance rt =
     \<lparr>ccs_pid = 0,
      ccs_special_fields = SpecialFields_new rt\<rparr>"

definition CreateContainerResponse_write :: "'u pb_runtime \<Rightarrow> 'u CreateContainerResponseMsg \<Rightarrow> (bytes, unit) prog" where
  "CreateContainerResponse_write rt m = CreateContainerResponse_write_to_with_cached_sizes rt (snd (CreateContainerResponse_compute_size rt m))"

definition CreateContainerResponse_ok :: "'u pb_runtime \<Rightarrow> 'u CreateContainerResponseMsg \<Rightarrow> bool" where
  "CreateContainerResponse_ok rt m \<longleftrightarrow> sf_unknown_fields (ccs_special_fields m) = rt_new_unknown_fields rt"

definition CreateContainerResponse_fresh :: "'u pb_runtime \<Rightarrow> 'u CreateContainerResponseMsg \<Rightarrow> 'u CreateContainerResponseMsg" where
  "CreateContainerResponse_fresh rt m = m\<lparr>ccs_special_fields := SpecialFields_new rt\<rparr>"

section \<open>Start, kill, delete and wait\<close>

record 'u StartContainerRequestMsg =
  scr_container_id :: string
  scr_special_fields :: "'u SpecialFields"

definition StartContainerRequest_new :: "'u pb_runtime \<Rightarrow> 'u StartContainerRequestMsg" where
  "StartContainerRequest_new rt =
     \<lparr>scr_container_id = [],
      scr_special_fields = SpecialFields_new rt\<rparr>"

definition StartContainerRequest_merge_body :: "'u pb_runtime \<Rightarrow> u32 \<Rightarrow> ('u StartContainerRequestMsg \<times> bytes, unit) prog" where
  "StartContainerRequest_merge_body rt tag =
    (if tag = 10 then set_field (rt_read_string rt) (\<lambda>v m. m\<lparr>scr_container_id := v\<rparr>)
     else keep_unknown rt tag scr_special_fields scr_special_fields_update)"

definition StartContainerRequest_merge_from :: "'u pb_runtime \<Rightarrow> ('u StartContainerRequestMsg \<times> bytes, unit) prog" where
  "StartContainerRequest_merge_from rt = merge_loop rt (StartContainerRequest_merge_body rt)"

definition StartContainerRequest_compute_size :: "'u pb_runtime \<Rightarrow> 'u StartContainerRequestMsg \<Rightarrow> u64 \<times> 'u StartContainerRequestMsg" where
  "StartContainerRequest_compute_size rt m =
    (let my_size = 0;
         my_size = my_size + size_if (scr_container_id m \<noteq> []) (rt_string_size rt 1 (scr_container_id m));
         my_size = my_size + rt_unknown_fields_size rt (sf_unknown_fields (scr_special_fields m))
     in (my_size, m\<lparr>scr_special_fields := (scr_special_fields m)\<lparr>sf_cached_size := ucast my_size\<rparr>\<rparr>))"

definition StartContainerRequest_write_to_with_cached_sizes :: "'u pb_runtime \<Rightarrow> 'u StartContainerRequestMsg \<Rightarrow> (bytes, unit) prog" where
  "StartContainerRequest_write_to_with_cached_sizes rt m = seqE
     [whenE (scr_container_id m \<noteq> []) (rt_write_string rt 1 (scr_container_id m)),
      rt_write_unknown_fields rt (sf_unknown_fields (scr_special_fields m))]"

definition StartContainerRequest_clear :: "'u pb_runtime \<Rightarrow> 'u StartContainerRequestMsg \<Rightarrow> 'u StartContainerRequestMsg" where
  "StartContainerRequest_clear rt m = m\<lparr>scr_container_id := [],
       scr_special_fields := rt_clear_special rt (scr_special_fields m)\<rparr>"

definition StartContainerRequest_default_instance :: "'u pb_runtime \<Rightarrow> 'u StartContainerRequestMsg" where
  "StartContainerRequest_default_instance rt =
     \<lparr>scr_container_id = [],
      scr_special_fields = SpecialFields_new rt\<rparr>"

definition StartContainerRequest_write :: "'u pb_runtime \<Rightarrow> 'u StartContainerRequestMsg \<Rightarrow> (bytes, unit) prog" where
  "StartContainerRequest_write rt m = StartContainerRequest_write_to_with_cached_sizes rt (snd (StartContainerRequest_compute_size rt m))"

definition StartContainerRequest_ok :: "'u pb_runtime \<Rightarrow> 'u StartContainerRequestMsg \<Rightarrow> bool" where
  "StartContainerRequest_ok rt m \<longleftrightarrow> string_ok (scr_container_id m) \<and>
     sf_unknown_fields (scr_special_fields m) = rt_new_unknown_fields rt"

definition StartContainerRequest_fresh :: "'u pb_runtime \<Rightarrow> 'u StartContainerRequestMsg \<Rightarrow> 'u StartContainerRequestMsg" where
  "StartContainerRequest_fresh rt m = m\<lparr>scr_special_fields := SpecialFields_new rt\<rparr>"

record 'u StartContainerResponseMsg =
  scs_pid :: u32
  scs_special_fields :: "'u SpecialFields"

definition StartContainerResponse_new :: "'u pb_runtime \<Rightarrow> 'u StartContainerResponseMsg" where
  "StartContainerResponse_new rt =
     \<lparr>scs_pid = 0,
      scs_special_fields = SpecialFields_new rt\<rparr>"

definition StartContainerResponse_merge_body :: "'u pb_runtime \<Rightarrow> u32 \<Rightarrow> ('u StartContainerResponseMsg \<times> bytes, unit) prog" where
  "StartContainerResponse_merge_body rt tag =
    (if tag = 8 then set_field (rt_read_uint32 rt) (\<lambda>v m. m\<lparr>scs_pid := v\<rparr>)
     else keep_unknown rt tag scs_special_fields scs_special_fields_update)"

definition StartContainerResponse_merge_from :: "'u pb_runtime \<Rightarrow> ('u StartContainerResponseMsg \<times> bytes, unit) prog" where
  "StartContainerResponse_merge_from rt = merge_loop rt (StartContainerResponse_merge_body rt)"

definition StartContainerResponse_compute_size :: "'u pb_runtime \<Rightarrow> 'u StartContainerResponseMsg \<Rightarrow> u64 \<times> 'u StartContainerResponseMsg" where
  "StartContainerResponse_compute_size rt m =
    (let my_size = 0;
         my_size = my_size + size_if (scs_pid m \<noteq> 0) (rt_uint32_size rt 1 (scs_pid m));
         my_size = my_size + rt_unknown_fields_size rt (sf_unknown_fields (scs_special_fields m))
     in (my_size, m\<lparr>scs_special_fields := (scs_special_fields m)\<lparr>sf_cached_size := ucast my_size\<rparr>\<rparr>))"

definition StartContainerResponse_write_to_with_cached_sizes :: "'u pb_runtime \<Rightarrow> 'u StartContainerResponseMsg \<Rightarrow> (bytes, unit) prog" where
  "StartContainerResponse_write_to_with_cached_sizes rt m = seqE
     [whenE (scs_pid m \<noteq> 0) (rt_write_uint32 rt 1 (scs_pid m)),
      rt_write_unknown_fields rt (sf_unknown_fields (scs_special_fields m))]"

definition StartContainerResponse_clear :: "'u pb_runtime \<Rightarrow> 'u StartContainerResponseMsg \<Rightarrow> 'u StartContainerResponseMsg" where
  "StartContainerResponse_clear rt m = m\<lparr>scs_pid := 0,
       scs_special_fields := rt_clear_special rt (scs_special_fields m)\<rparr>"

definition StartContainerResponse_default_instance :: "'u pb_runtime \<Rightarrow> 'u StartContainerResponseMsg" where
  "StartContainerResponse_default_instance rt =
     \<lparr>scs_pid = 0,
      scs_special_fields = SpecialFields_new rt\<rparr>"

definition StartContainerResponse_write :: "'u pb_runtime \<Rightarrow> 'u StartContainerResponseMsg \<Rightarrow> (bytes, unit) prog" where
  "StartContainerResponse_write rt m = StartContainerResponse_write_to_with_cached_sizes rt (snd (StartContainerResponse_compute_size rt m))"

definition StartContainerResponse_ok :: "'u pb_runtime \<Rightarrow> 'u StartContainerResponseMsg \<Rightarrow> bool" where
  "StartContainerResponse_ok rt m \<longleftrightarrow> sf_unknown_fields (scs_special_fields m) = rt_new_unknown_fields rt"

definition StartContainerResponse_fresh :: "'u pb_runtime \<Rightarrow> 'u StartContainerResponseMsg \<Rightarrow> 'u StartContainerResponseMsg" where
  "StartContainerResponse_fresh rt m = m\<lparr>scs_special_fields := SpecialFields_new rt\<rparr>"

record 'u KillContainerRequestMsg =
  kcr_container_id :: string
  kcr_signal :: u32
  kcr_all :: bool
  kcr_special_fields :: "'u SpecialFields"

definition KillContainerRequest_new :: "'u pb_runtime \<Rightarrow> 'u KillContainerRequestMsg" where
  "KillContainerRequest_new rt =
     \<lparr>kcr_container_id = [],
      kcr_signal = 0,
      kcr_all = False,
      kcr_special_fields = SpecialFields_new rt\<rparr>"

definition KillContainerRequest_merge_body :: "'u pb_runtime \<Rightarrow> u32 \<Rightarrow> ('u KillContainerRequestMsg \<times> bytes, unit) prog" where
  "KillContainerRequest_merge_body rt tag =
    (if tag = 10 then set_field (rt_read_string rt) (\<lambda>v m. m\<lparr>kcr_container_id := v\<rparr>)
     else if tag = 16 then set_field (rt_read_uint32 rt) (\<lambda>v m. m\<lparr>kcr_signal := v\<rparr>)
     else if tag = 24 then set_field (rt_read_bool rt) (\<lambda>v m. m\<lparr>kcr_all := v\<rparr>)
     else keep_unknown rt tag kcr_special_fields kcr_special_fields_update)"

definition KillContainerRequest_merge_from :: "'u pb_runtime \<Rightarrow> ('u KillContainerRequestMsg \<times> bytes, unit) prog" where
  "KillContainerRequest_merge_from rt = merge_loop rt (KillContainerRequest_merge_body rt)"

definition KillContainerRequest_compute_size :: "'u pb_runtime \<Rightarrow> 'u KillContainerRequestMsg \<Rightarrow> u64 \<times> 'u KillContainerRequestMsg" where
  "KillContainerRequest_compute_size rt m =
    (let my_size = 0;
         my_size = my_size + size_if (kcr_container_id m \<noteq> []) (rt_string_size rt 1 (kcr_container_id m));
         my_size = my_size + size_if (kcr_signal m \<noteq> 0) (rt_uint32_size rt 2 (kcr_signal m));
         my_size = my_size + size_if (kcr_all m \<noteq> False) (1 + 1);
         my_size = my_size + rt_unknown_fields_size rt (sf_unknown_fields (kcr_special_fields m))
     in (my_size, m\<lparr>kcr_special_fields := (kcr_special_fields m)\<lparr>sf_cached_size := ucast my_size\<rparr>\<rparr>))"

definition KillContainerRequest_write_to_with_cached_sizes :: "'u pb_runtime \<Rightarrow> 'u KillContainerRequestMsg \<Rightarrow> (bytes, unit) prog" where
  "KillContainerRequest_write_to_with_cached_sizes rt m = seqE
     [whenE (kcr_container_id m \<noteq> []) (rt_write_string rt 1 (kcr_container_id m)),
      whenE (kcr_signal m \<noteq> 0) (rt_write_uint32 rt 2 (kcr_signal m)),
      whenE (kcr_all m \<noteq> False) (rt_write_bool rt 3 (kcr_all m)),
      rt_write_unknown_fields rt (sf_unknown_fields (kcr_special_fields m))]"

definition KillContainerRequest_clear :: "'u pb_runtime \<Rightarrow> 'u KillContainerRequestMsg \<Rightarrow> 'u KillContainerRequestMsg" where
  "KillContainerRequest_clear rt m = m\<lparr>kcr_container_id := [],
       kcr_signal := 0,
       kcr_all := False,
       kcr_special_fields := rt_clear_special rt (kcr_special_fields m)\<rparr>"

definition KillContainerRequest_default_instance :: "'u pb_runtime \<Rightarrow> 'u KillContainerRequestMsg" where
  "KillContainerRequest_default_instance rt =
     \<lparr>kcr_container_id = [],
      kcr_signal = 0,
      kcr_all = False,
      kcr_special_fields = SpecialFields_new rt\<rparr>"

definition KillContainerRequest_write :: "'u pb_runtime \<Rightarrow> 'u KillContainerRequestMsg \<Rightarrow> (bytes, unit) prog" where
  "KillContainerRequest_write rt m = KillContainerRequest_write_to_with_cached_sizes rt (snd (KillContainerRequest_compute_size rt m))"

definition KillContainerRequest_ok :: "'u pb_runtime \<Rightarrow> 'u KillContainerRequestMsg \<Rightarrow> bool" where
  "KillContainerRequest_ok rt m \<longleftrightarrow> string_ok (kcr_container_id m) \<and>
     sf_unknown_fields (kcr_special_fields m) = rt_new_unknown_fields rt"

definition KillContainerRequest_fresh :: "'u pb_runtime \<Rightarrow> 'u KillContainerRequestMsg \<Rightarrow> 'u KillContainerRequestMsg" where
  "KillContainerRequest_fresh rt m = m\<lparr>kcr_special_fields := SpecialFields_new rt\<rparr>"

record 'u KillContainerResponseMsg =
  kcs_special_fields :: "'u SpecialFields"

definition KillContainerResponse_new :: "'u pb_runtime \<Rightarrow> 'u KillContainerResponseMsg" where
  "KillContainerResponse_new rt =
     \<lparr>kcs_special_fields = SpecialFields_new rt\<rparr>"

definition KillContainerResponse_merge_body :: "'u pb_runtime \<Rightarrow> u32 \<Rightarrow> ('u KillContainerResponseMsg \<times> bytes, unit) prog" where
  "KillContainerResponse_merge_body rt tag =
    (keep_unknown rt tag kcs_special_fields kcs_special_fields_update)"

definition KillContainerResponse_merge_from :: "'u pb_runtime \<Rightarrow> ('u KillContainerResponseMsg \<times> bytes, unit) prog" where
  "KillContainerResponse_merge_from rt = merge_loop rt (KillContainerResponse_merge_body rt)"

definition KillContainerResponse_compute_size :: "'u pb_runtime \<Rightarrow> 'u KillContainerResponseMsg \<Rightarrow> u64 \<times> 'u KillContainerResponseMsg" where
  "KillContainerResponse_compute_size rt m =
    (let my_size = 0;
         my_size = my_size + rt_unknown_fields_size rt (sf_unknown_fields (kcs_special_fields m))
     in (my_size, m\<lparr>kcs_special_fields := (kcs_special_fields m)\<lparr>sf_cached_size := ucast my_size\<rparr>\<rparr>))"

definition KillContainerResponse_write_to_with_cached_sizes :: "'u pb_runtime \<Rightarrow> 'u KillContainerResponseMsg \<Rightarrow> (bytes, unit) prog" where
  "KillContainerResponse_write_to_with_cached_sizes rt m = seqE
     [rt_write_unknown_fields rt (sf_unknown_fields (kcs_special_fields m))]"

definition KillContainerResponse_clear :: "'u pb_runtime \<Rightarrow> 'u KillContainerResponseMsg \<Rightarrow> 'u KillContainerResponseMsg" where
  "KillContainerResponse_clear rt m = m\<lparr>kcs_special_fields := rt_clear_special rt (kcs_special_fields m)\<rparr>"

definition KillContainerResponse_default_instance :: "'u pb_runtime \<Rightarrow> 'u KillContainerResponseMsg" where
  "KillContainerResponse_default_instance rt =
     \<lparr>kcs_special_fields = SpecialFields_new rt\<rparr>"

definition KillContainerResponse_write :: "'u pb_runtime \<Rightarrow> 'u KillContainerResponseMsg \<Rightarrow> (bytes, unit) prog" where
  "KillContainerResponse_write rt m = KillContainerResponse_write_to_with_cached_sizes rt (snd (KillContainerResponse_compute_size rt m))"

definition KillContainerResponse_ok :: "'u pb_runtime \<Rightarrow> 'u KillContainerResponseMsg \<Rightarrow> bool" where
  "KillContainerResponse_ok rt m \<longleftrightarrow> sf_unknown_fields (kcs_special_fields m) = rt_new_unknown_fields rt"

definition KillContainerResponse_fresh :: "'u pb_runtime \<Rightarrow> 'u KillContainerResponseMsg \<Rightarrow> 'u KillContainerResponseMsg" where
  "KillContainerResponse_fresh rt m = m\<lparr>kcs_special_fields := SpecialFields_new rt\<rparr>"

record 'u DeleteContainerRequestMsg =
  dcr_container_id :: string
  dcr_special_fields :: "'u SpecialFields"

definition DeleteContainerRequest_new :: "'u pb_runtime \<Rightarrow> 'u DeleteContainerRequestMsg" where
  "DeleteContainerRequest_new rt =
     \<lparr>dcr_container_id = [],
      dcr_special_fields = SpecialFields_new rt\<rparr>"

definition DeleteContainerRequest_merge_body :: "'u pb_runtime \<Rightarrow> u32 \<Rightarrow> ('u DeleteContainerRequestMsg \<times> bytes, unit) prog" where
  "DeleteContainerRequest_merge_body rt tag =
    (if tag = 10 then set_field (rt_read_string rt) (\<lambda>v m. m\<lparr>dcr_container_id := v\<rparr>)
     else keep_unknown rt tag dcr_special_fields dcr_special_fields_update)"

definition DeleteContainerRequest_merge_from :: "'u pb_runtime \<Rightarrow> ('u DeleteContainerRequestMsg \<times> bytes, unit) prog" where
  "DeleteContainerRequest_merge_from rt = merge_loop rt (DeleteContainerRequest_merge_body rt)"

definition DeleteContainerRequest_compute_size :: "'u pb_runtime \<Rightarrow> 'u DeleteContainerRequestMsg \<Rightarrow> u64 \<times> 'u DeleteContainerRequestMsg" where
  "DeleteContainerRequest_compute_size rt m =
    (let my_size = 0;
         my_size = my_size + size_if (dcr_container_id m \<noteq> []) (rt_string_size rt 1 (dcr_container_id m));
         my_size = my_size + rt_unknown_fields_size rt (sf_unknown_fields (dcr_special_fields m))
     in (my_size, m\<lparr>dcr_special_fields := (dcr_special_fields m)\<lparr>sf_cached_size := ucast my_size\<rparr>\<rparr>))"

definition DeleteContainerRequest_write_to_with_cached_sizes :: "'u pb_runtime \<Rightarrow> 'u DeleteContainerRequestMsg \<Rightarrow> (bytes, unit) prog" where
  "DeleteContainerRequest_write_to_with_cached_sizes rt m = seqE
     [whenE (dcr_container_id m \<noteq> []) (rt_write_string rt 1 (dcr_container_id m)),
      rt_write_unknown_fields rt (sf_unknown_fields (dcr_special_fields m))]"

definition DeleteContainerRequest_clear :: "'u pb_runtime \<Rightarrow> 'u DeleteContainerRequestMsg \<Rightarrow> 'u DeleteContainerRequestMsg" where
  "DeleteContainerRequest_clear rt m = m\<lparr>dcr_container_id := [],
       dcr_special_fields := rt_clear_special rt (dcr_special_fields m)\<rparr>"

definition DeleteContainerRequest_default_instance :: "'u pb_runtime \<Rightarrow> 'u DeleteContainerRequestMsg" where
  "DeleteContainerRequest_default_instance rt =
     \<lparr>dcr_container_id = [],
      dcr_special_fields = SpecialFields_new rt\<rparr>"

definition DeleteContainerRequest_write :: "'u pb_runtime \<Rightarrow> 'u DeleteContainerRequestMsg \<Rightarrow> (bytes, unit) prog" where
  "DeleteContainerRequest_write rt m = DeleteContainerRequest_write_to_with_cached_sizes rt (snd (DeleteContainerRequest_compute_size rt m))"

definition DeleteContainerRequest_ok :: "'u pb_runtime \<Rightarrow> 'u DeleteContainerRequestMsg \<Rightarrow> bool" where
  "DeleteContainerRequest_ok rt m \<longleftrightarrow> string_ok (dcr_container_id m) \<and>
     sf_unknown_fields (dcr_special_fields m) = rt_new_unknown_fields rt"

definition DeleteContainerRequest_fresh :: "'u pb_runtime \<Rightarrow> 'u DeleteContainerRequestMsg \<Rightarrow> 'u DeleteContainerRequestMsg" where
  "DeleteContainerRequest_fresh rt m = m\<lparr>dcr_special_fields := SpecialFields_new rt\<rparr>"

record 'u DeleteContainerResponseMsg =
  dcs_exit_status :: u32
  dcs_pid :: u32
  dcs_special_fields :: "'u SpecialFields"

definition DeleteContainerResponse_new :: "'u pb_runtime \<Rightarrow> 'u DeleteContainerResponseMsg" where
  "DeleteContainerResponse_new rt =
     \<lparr>dcs_exit_status = 0,
      dcs_pid = 0,
      dcs_special_fields = SpecialFields_new rt\<rparr>"

definition DeleteContainerResponse_merge_body :: "'u pb_runtime \<Rightarrow> u32 \<Rightarrow> ('u DeleteContainerResponseMsg \<times> bytes, unit) prog" where
  "DeleteContainerResponse_merge_body rt tag =
    (if tag = 8 then set_field (rt_read_uint32 rt) (\<lambda>v m. m\<lparr>dcs_exit_status := v\<rparr>)
     else if tag = 16 then set_field (rt_read_uint32 rt) (\<lambda>v m. m\<lparr>dcs_pid := v\<rparr>)
     else keep_unknown rt tag dcs_special_fields dcs_special_fields_update)"

definition DeleteContainerResponse_merge_from :: "'u pb_runtime \<Rightarrow> ('u DeleteContainerResponseMsg \<times> bytes, unit) prog" where
  "DeleteContainerResponse_merge_from rt = merge_loop rt (DeleteContainerResponse_merge_body rt)"

definition DeleteContainerResponse_compute_size :: "'u pb_runtime \<Rightarrow> 'u DeleteContainerResponseMsg \<Rightarrow> u64 \<times> 'u DeleteContainerResponseMsg" where
  "DeleteContainerResponse_compute_size rt m =
    (let my_size = 0;
         my_size = my_size + size_if (dcs_exit_status m \<noteq> 0) (rt_uint32_size rt 1 (dcs_exit_status m));
         my_size = my_size + size_if (dcs_pid m \<noteq> 0) (rt_uint32_size rt 2 (dcs_pid m));
         my_size = my_size + rt_unknown_fields_size rt (sf_unknown_fields (dcs_special_fields m))
     in (my_size, m\<lparr>dcs_special_fields := (dcs_special_fields m)\<lparr>sf_cached_size := ucast my_size\<rparr>\<rparr>))"

definition DeleteContainerResponse_write_to_with_cached_sizes :: "'u pb_runtime \<Rightarrow> 'u DeleteContainerResponseMsg \<Rightarrow> (bytes, unit) prog" where
  "DeleteContainerResponse_write_to_with_cached_sizes rt m = seqE
     [whenE (dcs_exit_status m \<noteq> 0) (rt_write_uint32 rt 1 (dcs_exit_status m)),
      whenE (dcs_pid m \<noteq> 0) (rt_write_uint32 rt 2 (dcs_pid m)),
      rt_write_unknown_fields rt (sf_unknown_fields (dcs_special_fields m))]"

definition DeleteContainerResponse_clear :: "'u pb_runtime \<Rightarrow> 'u DeleteContainerResponseMsg \<Rightarrow> 'u DeleteContainerResponseMsg" where
  "DeleteContainerResponse_clear rt m = m\<lparr>dcs_exit_status := 0,
       dcs_pid := 0,
       dcs_special_fields := rt_clear_special rt (dcs_special_fields m)\<rparr>"

definition DeleteContainerResponse_default_instance :: "'u pb_runtime \<Rightarrow> 'u DeleteContainerResponseMsg" where
  "DeleteContainerResponse_default_instance rt =
     \<lparr>dcs_exit_status = 0,
      dcs_pid = 0,
      dcs_special_fields = SpecialFields_new rt\<rparr>"

definition DeleteContainerResponse_write :: "'u pb_runtime \<Rightarrow> 'u DeleteContainerResponseMsg \<Rightarrow> (bytes, unit) prog" where
  "DeleteContainerResponse_write rt m = DeleteContainerResponse_write_to_with_cached_sizes rt (snd (DeleteContainerResponse_compute_size rt m))"

definition DeleteContainerResponse_ok :: "'u pb_runtime \<Rightarrow> 'u DeleteContainerResponseMsg \<Rightarrow> bool" where
  "DeleteContainerResponse_ok rt m \<longleftrightarrow> sf_unknown_fields (dcs_special_fields m) = rt_new_unknown_fields rt"

definition DeleteContainerResponse_fresh :: "'u pb_runtime \<Rightarrow> 'u DeleteContainerResponseMsg \<Rightarrow> 'u DeleteContainerResponseMsg" where
  "DeleteContainerResponse_fresh rt m = m\<lparr>dcs_special_fields := SpecialFields_new rt\<rparr>"

record 'u WaitContainerRequestMsg =
  wcr_container_id :: string
  wcr_special_fields :: "'u SpecialFields"

definition WaitContainerRequest_new :: "'u pb_runtime \<Rightarrow> 'u WaitContainerRequestMsg" where
  "WaitContainerRequest_new rt =
     \<lparr>wcr_container_id = [],
      wcr_special_fields = SpecialFields_new rt\<rparr>"

definition WaitContainerRequest_merge_body :: "'u pb_runtime \<Rightarrow> u32 \<Rightarrow> ('u WaitContainerRequestMsg \<times> bytes, unit) prog" where
  "WaitContainerRequest_merge_body rt tag =
    (if tag = 10 then set_field (rt_read_string rt) (\<lambda>v m. m\<lparr>wcr_container_id := v\<rparr>)
     else keep_unknown rt tag wcr_special_fields wcr_special_fields_update)"

definition WaitContainerRequest_merge_from :: "'u pb_runtime \<Rightarrow> ('u WaitContainerRequestMsg \<times> bytes, unit) prog" where
  "WaitContainerRequest_merge_from rt = merge_loop rt (WaitContainerRequest_merge_body rt)"

definition WaitContainerRequest_compute_size :: "'u pb_runtime \<Rightarrow> 'u WaitContainerRequestMsg \<Rightarrow> u64 \<times> 'u WaitContainerRequestMsg" where
  "WaitContainerRequest_compute_size rt m =
    (let my_size = 0;
         my_size = my_size + size_if (wcr_container_id m \<noteq> []) (rt_string_size rt 1 (wcr_container_id m));
         my_size = my_size + rt_unknown_fields_size rt (sf_unknown_fields (wcr_special_fields m))
     in (my_size, m\<lparr>wcr_special_fields := (wcr_special_fields m)\<lparr>sf_cached_size := ucast my_size\<rparr>\<rparr>))"

definition WaitContainerRequest_write_to_with_cached_sizes :: "'u pb_runtime \<Rightarrow> 'u WaitContainerRequestMsg \<Rightarrow> (bytes, unit) prog" where
  "WaitContainerRequest_write_to_with_cached_sizes rt m = seqE
     [whenE (wcr_container_id m \<noteq> []) (rt_write_string rt 1 (wcr_container_id m)),
      rt_write_unknown_fields rt (sf_unknown_fields (wcr_special_fields m))]"

definition WaitContainerRequest_clear :: "'u pb_runtime \<Rightarrow> 'u WaitContainerRequestMsg \<Rightarrow> 'u WaitContainerRequestMsg" where
  "WaitContainerRequest_clear rt m = m\<lparr>wcr_container_id := [],
       wcr_special_fields := rt_clear_special rt (wcr_special_fields m)\<rparr>"

definition WaitContainerRequest_default_instance :: "'u pb_runtime \<Rightarrow> 'u WaitContainerRequestMsg" where
  "WaitContainerRequest_default_instance rt =
     \<lparr>wcr_container_id = [],
      wcr_special_fields = SpecialFields_new rt\<rparr>"

definition WaitContainerRequest_write :: "'u pb_runtime \<Rightarrow> 'u WaitContainerRequestMsg \<Rightarrow> (bytes, unit) prog" where
  "WaitContainerRequest_write rt m = WaitContainerRequest_write_to_with_cached_sizes rt (snd (WaitContainerRequest_compute_size rt m))"

definition WaitContainerRequest_ok :: "'u pb_runtime \<Rightarrow> 'u WaitContainerRequestMsg \<Rightarrow> bool" where
  "WaitContainerRequest_ok rt m \<longleftrightarrow> string_ok (wcr_container_id m) \<and>
     sf_unknown_fields (wcr_special_fields m) = rt_new_unknown_fields rt"

definition WaitContainerRequest_fresh :: "'u pb_runtime \<Rightarrow> 'u WaitContainerRequestMsg \<Rightarrow> 'u WaitContainerRequestMsg" where
  "WaitContainerRequest_fresh rt m = m\<lparr>wcr_special_fields := SpecialFields_new rt\<rparr>"

record 'u WaitContainerResponseMsg =
  wcs_exit_status :: u32
  wcs_exited_at :: string
  wcs_special_fields :: "'u SpecialFields"

definition WaitContainerResponse_new :: "'u pb_runtime \<Rightarrow> 'u WaitContainerResponseMsg" where
  "WaitContainerResponse_new rt =
     \<lparr>wcs_exit_status = 0,
      wcs_exited_at = [],
      wcs_special_fields = SpecialFields_new rt\<rparr>"

definition WaitContainerResponse_merge_body :: "'u pb_runtime \<Rightarrow> u32 \<Rightarrow> ('u WaitContainerResponseMsg \<times> bytes, unit) prog" where
  "WaitContainerResponse_merge_body rt tag =
    (if tag = 8 then set_field (rt_read_uint32 rt) (\<lambda>v m. m\<lparr>wcs_exit_status := v\<rparr>)
     else if tag = 18 then set_field (rt_read_string rt) (\<lambda>v m. m\<lparr>wcs_exited_at := v\<rparr>)
     else keep_unknown rt tag wcs_special_fields wcs_special_fields_update)"

definition WaitContainerResponse_merge_from :: "'u pb_runtime \<Rightarrow> ('u WaitContainerResponseMsg \<times> bytes, unit) prog" where
  "WaitContainerResponse_merge_from rt = merge_loop rt (WaitContainerResponse_merge_body rt)"

definition WaitContainerResponse_compute_size :: "'u pb_runtime \<Rightarrow> 'u WaitContainerResponseMsg \<Rightarrow> u64 \<times> 'u WaitContainerResponseMsg" where
  "WaitContainerResponse_compute_size rt m =
    (let my_size = 0;
         my_size = my_size + size_if (wcs_exit_status m \<noteq> 0) (rt_uint32_size rt 1 (wcs_exit_status m));
         my_size = my_size + size_if (wcs_exited_at m \<noteq> []) (rt_string_size rt 2 (wcs_exited_at m));
         my_size = my_size + rt_unknown_fields_size rt (sf_unknown_fields (wcs_special_fields m))
     in (my_size, m\<lparr>wcs_special_fields := (wcs_special_fields m)\<lparr>sf_cached_size := ucast my_size\<rparr>\<rparr>))"

definition WaitContainerResponse_write_to_with_cached_sizes :: "'u pb_runtime \<Rightarrow> 'u WaitContainerResponseMsg \<Rightarrow> (bytes, unit) prog" where
  "WaitContainerResponse_write_to_with_cached_sizes rt m = seqE
     [whenE (wcs_exit_status m \<noteq> 0) (rt_write_uint32 rt 1 (wcs_exit_status m)),
      whenE (wcs_exited_at m \<noteq> []) (rt_write_string rt 2 (wcs_exited_at m)),
      rt_write_unknown_fields rt (sf_unknown_fields (wcs_special_fields m))]"

definition WaitContainerResponse_clear :: "'u pb_runtime \<Rightarrow> 'u WaitContainerResponseMsg \<Rightarrow> 'u WaitContainerResponseMsg" where
  "WaitContainerResponse_clear rt m = m\<lparr>wcs_exit_status := 0,
       wcs_exited_at := [],
       wcs_special_fields := rt_clear_special rt (wcs_special_fields m)\<rparr>"

definition WaitContainerResponse_default_instance :: "'u pb_runtime \<Rightarrow> 'u WaitContainerResponseMsg" where
  "WaitContainerResponse_default_instance rt =
     \<lparr>wcs_exit_status = 0,
      wcs_exited_at = [],
      wcs_special_fields = SpecialFields_new rt\<rparr>"

definition WaitContainerResponse_write :: "'u pb_runtime \<Rightarrow> 'u WaitContainerResponseMsg \<Rightarrow> (bytes, unit) prog" where
  "WaitContainerResponse_write rt m = WaitContainerResponse_write_to_with_cached_sizes rt (snd (WaitContainerResponse_compute_size rt m))"

definition WaitContainerResponse_ok :: "'u pb_runtime \<Rightarrow> 'u WaitContainerResponseMsg \<Rightarrow> bool" where
  "WaitContainerResponse_ok rt m \<longleftrightarrow> string_ok (wcs_exited_at m) \<and>
     sf_unknown_fields (wcs_special_fields m) = rt_new_unknown_fields rt"

definition WaitContainerResponse_fresh :: "'u pb_runtime \<Rightarrow> 'u WaitContainerResponseMsg \<Rightarrow> 'u WaitContainerResponseMsg" where
  "WaitContainerResponse_fresh rt m = m\<lparr>wcs_special_fields := SpecialFields_new rt\<rparr>"

text \<open>The numbers of the values are unambiguous, and all values are listed.\<close>

lemma VolumeType_from_value: "VolumeType_from_i32 (VolumeType_value e) = Some e"
  by (cases e) (simp_all add: VolumeType_from_i32_def VolumeType_value_def)

lemma VolumeType_from_known: "VolumeType_from_i32 v = Some e \<Longrightarrow> VolumeType_value e = v"
  by (auto simp: VolumeType_from_i32_def VolumeType_value_def split: if_splits)

lemma VolumeType_VALUES_all: "e \<in> set VolumeType_VALUES"
  by (cases e) (simp_all add: VolumeType_VALUES_def)

section \<open>Every message survives the wire\<close>

text \<open>Clearing a message leaves a new one (but for its special fields), and so does the default instance.\<close>

lemma push_options: "fold (\<lambda>x m. m\<lparr>vmm_options := vmm_options m @ [x]\<rparr>) xs m = m\<lparr>vmm_options := vmm_options m @ xs\<rparr>"
  by (induction xs arbitrary: m) simp_all

lemma push_files: "fold (\<lambda>x m. m\<lparr>vmm_files := vmm_files m @ [g x]\<rparr>) xs m = m\<lparr>vmm_files := vmm_files m @ map g xs\<rparr>"
  by (induction xs arbitrary: m) simp_all

lemma push_volumes: "fold (\<lambda>x m. m\<lparr>ccr_volumes := ccr_volumes m @ [g x]\<rparr>) xs m = m\<lparr>ccr_volumes := ccr_volumes m @ map g xs\<rparr>"
  by (induction xs arbitrary: m) simp_all

lemma VolumeMount_files: "vmm_files (snd (VolumeMount_compute_size rt m)) = map (\<lambda>v. snd (InlineFile_compute_size rt v)) (vmm_files m)"
  by (simp add: VolumeMount_compute_size_def Let_def)

lemma CreateContainerRequest_volumes:
  "ccr_volumes (snd (CreateContainerRequest_compute_size rt m)) = map (\<lambda>v. snd (VolumeMount_compute_size rt v)) (ccr_volumes m)"
  by (simp add: CreateContainerRequest_compute_size_def Let_def)

lemma InlineFile_clear_new: "InlineFile_clear rt m = (InlineFile_new rt)\<lparr>inl_special_fields := rt_clear_special rt (inl_special_fields m)\<rparr>"
  and InlineFile_default_new: "InlineFile_default_instance rt = InlineFile_new rt"
  by (simp_all add: InlineFile_clear_def InlineFile_new_def InlineFile_default_instance_def)

lemmas InlineFile_defs = InlineFile_ok_def InlineFile_new_def InlineFile_fresh_def InlineFile_compute_size_def Let_def field_number_def

lemma InlineFile_cached: "sf_cached_size (inl_special_fields (snd (InlineFile_compute_size rt m))) = ucast (fst (InlineFile_compute_size rt m))"
  by (simp add: InlineFile_compute_size_def Let_def)

lemma VolumeMount_clear_new: "VolumeMount_clear rt m = (VolumeMount_new rt)\<lparr>vmm_special_fields := rt_clear_special rt (vmm_special_fields m)\<rparr>"
  and VolumeMount_default_new: "VolumeMount_default_instance rt = VolumeMount_new rt"
  by (simp_all add: VolumeMount_clear_def VolumeMount_new_def VolumeMount_default_instance_def VolumeType_value_def)

lemmas VolumeMount_defs = VolumeMount_ok_def VolumeMount_new_def VolumeMount_fresh_def VolumeMount_compute_size_def Let_def field_number_def push_options push_files VolumeType_value_def

lemma VolumeMount_cached: "sf_cached_size (vmm_special_fields (snd (VolumeMount_compute_size rt m))) = ucast (fst (VolumeMount_compute_size rt m))"
  by (simp add: VolumeMount_compute_size_def Let_def)

lemma CreateContainerRequest_clear_new: "CreateContainerRequest_clear rt m = (CreateContainerRequest_new rt)\<lparr>ccr_special_fields := rt_clear_special rt (ccr_special_fields m)\<rparr>"
  and CreateContainerRequest_default_new: "CreateContainerRequest_default_instance rt = CreateContainerRequest_new rt"
  by (simp_all add: CreateContainerRequest_clear_def CreateContainerRequest_new_def CreateContainerRequest_default_instance_def)

lemmas CreateContainerRequest_defs = CreateContainerRequest_ok_def CreateContainerRequest_new_def CreateContainerRequest_fresh_def CreateContainerRequest_compute_size_def Let_def field_number_def push_volumes

lemma CreateContainerResponse_clear_new: "CreateContainerResponse_clear rt m = (CreateContainerResponse_new rt)\<lparr>ccs_special_fields := rt_clear_special rt (ccs_special_fields m)\<rparr>"
  and CreateContainerResponse_default_new: "CreateContainerResponse_default_instance rt = CreateContainerResponse_new rt"
  by (simp_all add: CreateContainerResponse_clear_def CreateContainerResponse_new_def CreateContainerResponse_default_instance_def)

lemmas CreateContainerResponse_defs = CreateContainerResponse_ok_def CreateContainerResponse_new_def CreateContainerResponse_fresh_def CreateContainerResponse_compute_size_def Let_def field_number_def

lemma StartContainerRequest_clear_new: "StartContainerRequest_clear rt m = (StartContainerRequest_new rt)\<lparr>scr_special_fields := rt_clear_special rt (scr_special_fields m)\<rparr>"
  and StartContainerRequest_default_new: "StartContainerRequest_default_instance rt = StartContainerRequest_new rt"
  by (simp_all add: StartContainerRequest_clear_def StartContainerRequest_new_def StartContainerRequest_default_instance_def)

lemmas StartContainerRequest_defs = StartContainerRequest_ok_def StartContainerRequest_new_def StartContainerRequest_fresh_def StartContainerRequest_compute_size_def Let_def field_number_def

lemma StartContainerResponse_clear_new: "StartContainerResponse_clear rt m = (StartContainerResponse_new rt)\<lparr>scs_special_fields := rt_clear_special rt (scs_special_fields m)\<rparr>"
  and StartContainerResponse_default_new: "StartContainerResponse_default_instance rt = StartContainerResponse_new rt"
  by (simp_all add: StartContainerResponse_clear_def StartContainerResponse_new_def StartContainerResponse_default_instance_def)

lemmas StartContainerResponse_defs = StartContainerResponse_ok_def StartContainerResponse_new_def StartContainerResponse_fresh_def StartContainerResponse_compute_size_def Let_def field_number_def

lemma KillContainerRequest_clear_new: "KillContainerRequest_clear rt m = (KillContainerRequest_new rt)\<lparr>kcr_special_fields := rt_clear_special rt (kcr_special_fields m)\<rparr>"
  and KillContainerRequest_default_new: "KillContainerRequest_default_instance rt = KillContainerRequest_new rt"
  by (simp_all add: KillContainerRequest_clear_def KillContainerRequest_new_def KillContainerRequest_default_instance_def)

lemmas KillContainerRequest_defs = KillContainerRequest_ok_def KillContainerRequest_new_def KillContainerRequest_fresh_def KillContainerRequest_compute_size_def Let_def field_number_def

lemma KillContainerResponse_clear_new: "KillContainerResponse_clear rt m = (KillContainerResponse_new rt)\<lparr>kcs_special_fields := rt_clear_special rt (kcs_special_fields m)\<rparr>"
  and KillContainerResponse_default_new: "KillContainerResponse_default_instance rt = KillContainerResponse_new rt"
  by (simp_all add: KillContainerResponse_clear_def KillContainerResponse_new_def KillContainerResponse_default_instance_def)

lemmas KillContainerResponse_defs = KillContainerResponse_ok_def KillContainerResponse_new_def KillContainerResponse_fresh_def KillContainerResponse_compute_size_def Let_def field_number_def

lemma DeleteContainerRequest_clear_new: "DeleteContainerRequest_clear rt m = (DeleteContainerRequest_new rt)\<lparr>dcr_special_fields := rt_clear_special rt (dcr_special_fields m)\<rparr>"
  and DeleteContainerRequest_default_new: "DeleteContainerRequest_default_instance rt = DeleteContainerRequest_new rt"
  by (simp_all add: DeleteContainerRequest_clear_def DeleteContainerRequest_new_def DeleteContainerRequest_default_instance_def)

lemmas DeleteContainerRequest_defs = DeleteContainerRequest_ok_def DeleteContainerRequest_new_def DeleteContainerRequest_fresh_def DeleteContainerRequest_compute_size_def Let_def field_number_def

lemma DeleteContainerResponse_clear_new: "DeleteContainerResponse_clear rt m = (DeleteContainerResponse_new rt)\<lparr>dcs_special_fields := rt_clear_special rt (dcs_special_fields m)\<rparr>"
  and DeleteContainerResponse_default_new: "DeleteContainerResponse_default_instance rt = DeleteContainerResponse_new rt"
  by (simp_all add: DeleteContainerResponse_clear_def DeleteContainerResponse_new_def DeleteContainerResponse_default_instance_def)

lemmas DeleteContainerResponse_defs = DeleteContainerResponse_ok_def DeleteContainerResponse_new_def DeleteContainerResponse_fresh_def DeleteContainerResponse_compute_size_def Let_def field_number_def

lemma WaitContainerRequest_clear_new: "WaitContainerRequest_clear rt m = (WaitContainerRequest_new rt)\<lparr>wcr_special_fields := rt_clear_special rt (wcr_special_fields m)\<rparr>"
  and WaitContainerRequest_default_new: "WaitContainerRequest_default_instance rt = WaitContainerRequest_new rt"
  by (simp_all add: WaitContainerRequest_clear_def WaitContainerRequest_new_def WaitContainerRequest_default_instance_def)

lemmas WaitContainerRequest_defs = WaitContainerRequest_ok_def WaitContainerRequest_new_def WaitContainerRequest_fresh_def WaitContainerRequest_compute_size_def Let_def field_number_def

lemma WaitContainerResponse_clear_new: "WaitContainerResponse_clear rt m = (WaitContainerResponse_new rt)\<lparr>wcs_special_fields := rt_clear_special rt (wcs_special_fields m)\<rparr>"
  and WaitContainerResponse_default_new: "WaitContainerResponse_default_instance rt = WaitContainerResponse_new rt"
  by (simp_all add: WaitContainerResponse_clear_def WaitContainerResponse_new_def WaitContainerResponse_default_instance_def)

lemmas WaitContainerResponse_defs = WaitContainerResponse_ok_def WaitContainerResponse_new_def WaitContainerResponse_fresh_def WaitContainerResponse_compute_size_def Let_def field_number_def

context protobuf_runtime
begin

lemma InlineFile_body_shrinks [shrink_rules]: "shrinks (InlineFile_merge_body rt tag)"
  unfolding InlineFile_merge_body_def by (intro shrink_rules)

lemma InlineFile_merge_shrinks [shrink_rules]: "shrinks (InlineFile_merge_from rt)"
  unfolding InlineFile_merge_from_def by (intro shrink_rules)

lemma InlineFile_merge_plain [plain_rules]: "plain (InlineFile_merge_from rt)"
  unfolding InlineFile_merge_from_def InlineFile_merge_body_def by (intro plain_rules shrink_rules)

lemma InlineFile_codec:
  assumes ok: "InlineFile_ok rt m"
  shows "message_codec rt (InlineFile_merge_body rt) (InlineFile_write rt m) (fst (InlineFile_compute_size rt m)) (InlineFile_new rt) (InlineFile_fresh rt m)"
  unfolding InlineFile_write_def InlineFile_write_to_with_cached_sizes_def
  by (rule message_codecI,
      (rule codec_rules, rule InlineFile_body_shrinks, use ok in \<open>simp add: InlineFile_defs\<close>,
        simp add: InlineFile_merge_body_def, simp add: InlineFile_defs)+,
      rule codec_unknown, use ok in \<open>simp add: InlineFile_defs\<close>, simp add: InlineFile_defs add.assoc, simp add: InlineFile_defs)

lemma InlineFile_roundtrip:
  "InlineFile_ok rt m \<Longrightarrow> InlineFile_merge_from rt (InlineFile_new rt, written (InlineFile_write rt m)) = (Inr (), (InlineFile_fresh rt m, []))"
  unfolding InlineFile_merge_from_def by (rule message_codec_merge [OF InlineFile_body_shrinks InlineFile_codec])

lemma InlineFile_emits: "InlineFile_ok rt m \<Longrightarrow> InlineFile_write rt m os = (Inr (), os @ written (InlineFile_write rt m))"
  using message_codec_emits [OF InlineFile_codec] unfolding emits_def by blast

lemma VolumeMount_body_shrinks [shrink_rules]: "shrinks (VolumeMount_merge_body rt tag)"
  unfolding VolumeMount_merge_body_def by (intro shrink_rules)

lemma VolumeMount_merge_shrinks [shrink_rules]: "shrinks (VolumeMount_merge_from rt)"
  unfolding VolumeMount_merge_from_def by (intro shrink_rules)

lemma VolumeMount_merge_plain [plain_rules]: "plain (VolumeMount_merge_from rt)"
  unfolding VolumeMount_merge_from_def VolumeMount_merge_body_def by (intro plain_rules shrink_rules)

lemma VolumeMount_codec:
  assumes ok: "VolumeMount_ok rt m"
  shows "message_codec rt (VolumeMount_merge_body rt) (VolumeMount_write rt m) (fst (VolumeMount_compute_size rt m)) (VolumeMount_new rt) (VolumeMount_fresh rt m)"
  unfolding VolumeMount_write_def VolumeMount_write_to_with_cached_sizes_def
  unfolding VolumeMount_files forE_map
  by (rule message_codecI,
      (rule codec_rules, rule VolumeMount_body_shrinks, use ok in \<open>simp add: VolumeMount_defs\<close>,
        simp add: VolumeMount_merge_body_def, simp add: VolumeMount_defs)+,
      rule codec_messages [where sub = "InlineFile_merge_body rt" and new = "InlineFile_new rt" and h = "InlineFile_fresh rt" and
        sz = "\<lambda>v. fst (InlineFile_compute_size rt v)"],
      rule VolumeMount_body_shrinks, rule InlineFile_body_shrinks, simp add: field_number_def,
      use ok in \<open>simp add: VolumeMount_defs InlineFile_codec [unfolded InlineFile_write_def] InlineFile_write_def InlineFile_cached\<close>,
      simp add: VolumeMount_merge_body_def InlineFile_merge_from_def, simp add: VolumeMount_defs,
      rule codec_unknown, use ok in \<open>simp add: VolumeMount_defs\<close>, simp add: VolumeMount_defs comp_def add.assoc, simp add: VolumeMount_defs)

lemma VolumeMount_roundtrip:
  "VolumeMount_ok rt m \<Longrightarrow> VolumeMount_merge_from rt (VolumeMount_new rt, written (VolumeMount_write rt m)) = (Inr (), (VolumeMount_fresh rt m, []))"
  unfolding VolumeMount_merge_from_def by (rule message_codec_merge [OF VolumeMount_body_shrinks VolumeMount_codec])

lemma VolumeMount_emits: "VolumeMount_ok rt m \<Longrightarrow> VolumeMount_write rt m os = (Inr (), os @ written (VolumeMount_write rt m))"
  using message_codec_emits [OF VolumeMount_codec] unfolding emits_def by blast

lemma CreateContainerRequest_body_shrinks [shrink_rules]: "shrinks (CreateContainerRequest_merge_body rt tag)"
  unfolding CreateContainerRequest_merge_body_def by (intro shrink_rules)

lemma CreateContainerRequest_merge_shrinks [shrink_rules]: "shrinks (CreateContainerRequest_merge_from rt)"
  unfolding CreateContainerRequest_merge_from_def by (intro shrink_rules)

lemma CreateContainerRequest_merge_plain [plain_rules]: "plain (CreateContainerRequest_merge_from rt)"
  unfolding CreateContainerRequest_merge_from_def CreateContainerRequest_merge_body_def by (intro plain_rules shrink_rules)

lemma CreateContainerRequest_codec:
  assumes ok: "CreateContainerRequest_ok rt m"
  shows "message_codec rt (CreateContainerRequest_merge_body rt) (CreateContainerRequest_write rt m) (fst (CreateContainerRequest_compute_size rt m)) (CreateContainerRequest_new rt) (CreateContainerRequest_fresh rt m)"
  unfolding CreateContainerRequest_write_def CreateContainerRequest_write_to_with_cached_sizes_def
  unfolding CreateContainerRequest_volumes forE_map
  by (rule message_codecI,
      (rule codec_rules, rule CreateContainerRequest_body_shrinks, use ok in \<open>simp add: CreateContainerRequest_defs\<close>,
        simp add: CreateContainerRequest_merge_body_def, simp add: CreateContainerRequest_defs)+,
      rule codec_messages [where sub = "VolumeMount_merge_body rt" and new = "VolumeMount_new rt" and h = "VolumeMount_fresh rt" and
        sz = "\<lambda>v. fst (VolumeMount_compute_size rt v)"],
      rule CreateContainerRequest_body_shrinks, rule VolumeMount_body_shrinks, simp add: field_number_def,
      use ok in \<open>simp add: CreateContainerRequest_defs VolumeMount_codec [unfolded VolumeMount_write_def] VolumeMount_write_def VolumeMount_cached\<close>,
      simp add: CreateContainerRequest_merge_body_def VolumeMount_merge_from_def, simp add: CreateContainerRequest_defs,
      (rule codec_rules, rule CreateContainerRequest_body_shrinks, use ok in \<open>simp add: CreateContainerRequest_defs\<close>,
        simp add: CreateContainerRequest_merge_body_def, simp add: CreateContainerRequest_defs)+,
      rule codec_unknown, use ok in \<open>simp add: CreateContainerRequest_defs\<close>, simp add: CreateContainerRequest_defs comp_def add.assoc, simp add: CreateContainerRequest_defs)

lemma CreateContainerRequest_roundtrip:
  "CreateContainerRequest_ok rt m \<Longrightarrow> CreateContainerRequest_merge_from rt (CreateContainerRequest_new rt, written (CreateContainerRequest_write rt m)) = (Inr (), (CreateContainerRequest_fresh rt m, []))"
  unfolding CreateContainerRequest_merge_from_def by (rule message_codec_merge [OF CreateContainerRequest_body_shrinks CreateContainerRequest_codec])

lemma CreateContainerRequest_emits: "CreateContainerRequest_ok rt m \<Longrightarrow> CreateContainerRequest_write rt m os = (Inr (), os @ written (CreateContainerRequest_write rt m))"
  using message_codec_emits [OF CreateContainerRequest_codec] unfolding emits_def by blast

lemma CreateContainerResponse_body_shrinks [shrink_rules]: "shrinks (CreateContainerResponse_merge_body rt tag)"
  unfolding CreateContainerResponse_merge_body_def by (intro shrink_rules)

lemma CreateContainerResponse_merge_shrinks [shrink_rules]: "shrinks (CreateContainerResponse_merge_from rt)"
  unfolding CreateContainerResponse_merge_from_def by (intro shrink_rules)

lemma CreateContainerResponse_merge_plain [plain_rules]: "plain (CreateContainerResponse_merge_from rt)"
  unfolding CreateContainerResponse_merge_from_def CreateContainerResponse_merge_body_def by (intro plain_rules shrink_rules)

lemma CreateContainerResponse_codec:
  assumes ok: "CreateContainerResponse_ok rt m"
  shows "message_codec rt (CreateContainerResponse_merge_body rt) (CreateContainerResponse_write rt m) (fst (CreateContainerResponse_compute_size rt m)) (CreateContainerResponse_new rt) (CreateContainerResponse_fresh rt m)"
  unfolding CreateContainerResponse_write_def CreateContainerResponse_write_to_with_cached_sizes_def
  by (rule message_codecI,
      (rule codec_rules, rule CreateContainerResponse_body_shrinks, use ok in \<open>simp add: CreateContainerResponse_defs\<close>,
        simp add: CreateContainerResponse_merge_body_def, simp add: CreateContainerResponse_defs)+,
      rule codec_unknown, use ok in \<open>simp add: CreateContainerResponse_defs\<close>, simp add: CreateContainerResponse_defs add.assoc, simp add: CreateContainerResponse_defs)

lemma CreateContainerResponse_roundtrip:
  "CreateContainerResponse_ok rt m \<Longrightarrow> CreateContainerResponse_merge_from rt (CreateContainerResponse_new rt, written (CreateContainerResponse_write rt m)) = (Inr (), (CreateContainerResponse_fresh rt m, []))"
  unfolding CreateContainerResponse_merge_from_def by (rule message_codec_merge [OF CreateContainerResponse_body_shrinks CreateContainerResponse_codec])

lemma CreateContainerResponse_emits: "CreateContainerResponse_ok rt m \<Longrightarrow> CreateContainerResponse_write rt m os = (Inr (), os @ written (CreateContainerResponse_write rt m))"
  using message_codec_emits [OF CreateContainerResponse_codec] unfolding emits_def by blast

lemma StartContainerRequest_body_shrinks [shrink_rules]: "shrinks (StartContainerRequest_merge_body rt tag)"
  unfolding StartContainerRequest_merge_body_def by (intro shrink_rules)

lemma StartContainerRequest_merge_shrinks [shrink_rules]: "shrinks (StartContainerRequest_merge_from rt)"
  unfolding StartContainerRequest_merge_from_def by (intro shrink_rules)

lemma StartContainerRequest_merge_plain [plain_rules]: "plain (StartContainerRequest_merge_from rt)"
  unfolding StartContainerRequest_merge_from_def StartContainerRequest_merge_body_def by (intro plain_rules shrink_rules)

lemma StartContainerRequest_codec:
  assumes ok: "StartContainerRequest_ok rt m"
  shows "message_codec rt (StartContainerRequest_merge_body rt) (StartContainerRequest_write rt m) (fst (StartContainerRequest_compute_size rt m)) (StartContainerRequest_new rt) (StartContainerRequest_fresh rt m)"
  unfolding StartContainerRequest_write_def StartContainerRequest_write_to_with_cached_sizes_def
  by (rule message_codecI,
      (rule codec_rules, rule StartContainerRequest_body_shrinks, use ok in \<open>simp add: StartContainerRequest_defs\<close>,
        simp add: StartContainerRequest_merge_body_def, simp add: StartContainerRequest_defs)+,
      rule codec_unknown, use ok in \<open>simp add: StartContainerRequest_defs\<close>, simp add: StartContainerRequest_defs add.assoc, simp add: StartContainerRequest_defs)

lemma StartContainerRequest_roundtrip:
  "StartContainerRequest_ok rt m \<Longrightarrow> StartContainerRequest_merge_from rt (StartContainerRequest_new rt, written (StartContainerRequest_write rt m)) = (Inr (), (StartContainerRequest_fresh rt m, []))"
  unfolding StartContainerRequest_merge_from_def by (rule message_codec_merge [OF StartContainerRequest_body_shrinks StartContainerRequest_codec])

lemma StartContainerRequest_emits: "StartContainerRequest_ok rt m \<Longrightarrow> StartContainerRequest_write rt m os = (Inr (), os @ written (StartContainerRequest_write rt m))"
  using message_codec_emits [OF StartContainerRequest_codec] unfolding emits_def by blast

lemma StartContainerResponse_body_shrinks [shrink_rules]: "shrinks (StartContainerResponse_merge_body rt tag)"
  unfolding StartContainerResponse_merge_body_def by (intro shrink_rules)

lemma StartContainerResponse_merge_shrinks [shrink_rules]: "shrinks (StartContainerResponse_merge_from rt)"
  unfolding StartContainerResponse_merge_from_def by (intro shrink_rules)

lemma StartContainerResponse_merge_plain [plain_rules]: "plain (StartContainerResponse_merge_from rt)"
  unfolding StartContainerResponse_merge_from_def StartContainerResponse_merge_body_def by (intro plain_rules shrink_rules)

lemma StartContainerResponse_codec:
  assumes ok: "StartContainerResponse_ok rt m"
  shows "message_codec rt (StartContainerResponse_merge_body rt) (StartContainerResponse_write rt m) (fst (StartContainerResponse_compute_size rt m)) (StartContainerResponse_new rt) (StartContainerResponse_fresh rt m)"
  unfolding StartContainerResponse_write_def StartContainerResponse_write_to_with_cached_sizes_def
  by (rule message_codecI,
      (rule codec_rules, rule StartContainerResponse_body_shrinks, use ok in \<open>simp add: StartContainerResponse_defs\<close>,
        simp add: StartContainerResponse_merge_body_def, simp add: StartContainerResponse_defs)+,
      rule codec_unknown, use ok in \<open>simp add: StartContainerResponse_defs\<close>, simp add: StartContainerResponse_defs add.assoc, simp add: StartContainerResponse_defs)

lemma StartContainerResponse_roundtrip:
  "StartContainerResponse_ok rt m \<Longrightarrow> StartContainerResponse_merge_from rt (StartContainerResponse_new rt, written (StartContainerResponse_write rt m)) = (Inr (), (StartContainerResponse_fresh rt m, []))"
  unfolding StartContainerResponse_merge_from_def by (rule message_codec_merge [OF StartContainerResponse_body_shrinks StartContainerResponse_codec])

lemma StartContainerResponse_emits: "StartContainerResponse_ok rt m \<Longrightarrow> StartContainerResponse_write rt m os = (Inr (), os @ written (StartContainerResponse_write rt m))"
  using message_codec_emits [OF StartContainerResponse_codec] unfolding emits_def by blast

lemma KillContainerRequest_body_shrinks [shrink_rules]: "shrinks (KillContainerRequest_merge_body rt tag)"
  unfolding KillContainerRequest_merge_body_def by (intro shrink_rules)

lemma KillContainerRequest_merge_shrinks [shrink_rules]: "shrinks (KillContainerRequest_merge_from rt)"
  unfolding KillContainerRequest_merge_from_def by (intro shrink_rules)

lemma KillContainerRequest_merge_plain [plain_rules]: "plain (KillContainerRequest_merge_from rt)"
  unfolding KillContainerRequest_merge_from_def KillContainerRequest_merge_body_def by (intro plain_rules shrink_rules)

lemma KillContainerRequest_codec:
  assumes ok: "KillContainerRequest_ok rt m"
  shows "message_codec rt (KillContainerRequest_merge_body rt) (KillContainerRequest_write rt m) (fst (KillContainerRequest_compute_size rt m)) (KillContainerRequest_new rt) (KillContainerRequest_fresh rt m)"
  unfolding KillContainerRequest_write_def KillContainerRequest_write_to_with_cached_sizes_def
  by (rule message_codecI,
      (rule codec_rules, rule KillContainerRequest_body_shrinks, use ok in \<open>simp add: KillContainerRequest_defs\<close>,
        simp add: KillContainerRequest_merge_body_def, simp add: KillContainerRequest_defs)+,
      rule codec_unknown, use ok in \<open>simp add: KillContainerRequest_defs\<close>, simp add: KillContainerRequest_defs add.assoc, simp add: KillContainerRequest_defs)

lemma KillContainerRequest_roundtrip:
  "KillContainerRequest_ok rt m \<Longrightarrow> KillContainerRequest_merge_from rt (KillContainerRequest_new rt, written (KillContainerRequest_write rt m)) = (Inr (), (KillContainerRequest_fresh rt m, []))"
  unfolding KillContainerRequest_merge_from_def by (rule message_codec_merge [OF KillContainerRequest_body_shrinks KillContainerRequest_codec])

lemma KillContainerRequest_emits: "KillContainerRequest_ok rt m \<Longrightarrow> KillContainerRequest_write rt m os = (Inr (), os @ written (KillContainerRequest_write rt m))"
  using message_codec_emits [OF KillContainerRequest_codec] unfolding emits_def by blast

lemma KillContainerResponse_body_shrinks [shrink_rules]: "shrinks (KillContainerResponse_merge_body rt tag)"
  unfolding KillContainerResponse_merge_body_def by (intro shrink_rules)

lemma KillContainerResponse_merge_shrinks [shrink_rules]: "shrinks (KillContainerResponse_merge_from rt)"
  unfolding KillContainerResponse_merge_from_def by (intro shrink_rules)

lemma KillContainerResponse_merge_plain [plain_rules]: "plain (KillContainerResponse_merge_from rt)"
  unfolding KillContainerResponse_merge_from_def KillContainerResponse_merge_body_def by (intro plain_rules shrink_rules)

lemma KillContainerResponse_codec:
  assumes ok: "KillContainerResponse_ok rt m"
  shows "message_codec rt (KillContainerResponse_merge_body rt) (KillContainerResponse_write rt m) (fst (KillContainerResponse_compute_size rt m)) (KillContainerResponse_new rt) (KillContainerResponse_fresh rt m)"
  unfolding KillContainerResponse_write_def KillContainerResponse_write_to_with_cached_sizes_def
  by (rule message_codecI, rule codec_unknown, use ok in \<open>simp_all add: KillContainerResponse_defs\<close>)

lemma KillContainerResponse_roundtrip:
  "KillContainerResponse_ok rt m \<Longrightarrow> KillContainerResponse_merge_from rt (KillContainerResponse_new rt, written (KillContainerResponse_write rt m)) = (Inr (), (KillContainerResponse_fresh rt m, []))"
  unfolding KillContainerResponse_merge_from_def by (rule message_codec_merge [OF KillContainerResponse_body_shrinks KillContainerResponse_codec])

lemma KillContainerResponse_emits: "KillContainerResponse_ok rt m \<Longrightarrow> KillContainerResponse_write rt m os = (Inr (), os @ written (KillContainerResponse_write rt m))"
  using message_codec_emits [OF KillContainerResponse_codec] unfolding emits_def by blast

lemma DeleteContainerRequest_body_shrinks [shrink_rules]: "shrinks (DeleteContainerRequest_merge_body rt tag)"
  unfolding DeleteContainerRequest_merge_body_def by (intro shrink_rules)

lemma DeleteContainerRequest_merge_shrinks [shrink_rules]: "shrinks (DeleteContainerRequest_merge_from rt)"
  unfolding DeleteContainerRequest_merge_from_def by (intro shrink_rules)

lemma DeleteContainerRequest_merge_plain [plain_rules]: "plain (DeleteContainerRequest_merge_from rt)"
  unfolding DeleteContainerRequest_merge_from_def DeleteContainerRequest_merge_body_def by (intro plain_rules shrink_rules)

lemma DeleteContainerRequest_codec:
  assumes ok: "DeleteContainerRequest_ok rt m"
  shows "message_codec rt (DeleteContainerRequest_merge_body rt) (DeleteContainerRequest_write rt m) (fst (DeleteContainerRequest_compute_size rt m)) (DeleteContainerRequest_new rt) (DeleteContainerRequest_fresh rt m)"
  unfolding DeleteContainerRequest_write_def DeleteContainerRequest_write_to_with_cached_sizes_def
  by (rule message_codecI,
      (rule codec_rules, rule DeleteContainerRequest_body_shrinks, use ok in \<open>simp add: DeleteContainerRequest_defs\<close>,
        simp add: DeleteContainerRequest_merge_body_def, simp add: DeleteContainerRequest_defs)+,
      rule codec_unknown, use ok in \<open>simp add: DeleteContainerRequest_defs\<close>, simp add: DeleteContainerRequest_defs add.assoc, simp add: DeleteContainerRequest_defs)

lemma DeleteContainerRequest_roundtrip:
  "DeleteContainerRequest_ok rt m \<Longrightarrow> DeleteContainerRequest_merge_from rt (DeleteContainerRequest_new rt, written (DeleteContainerRequest_write rt m)) = (Inr (), (DeleteContainerRequest_fresh rt m, []))"
  unfolding DeleteContainerRequest_merge_from_def by (rule message_codec_merge [OF DeleteContainerRequest_body_shrinks DeleteContainerRequest_codec])

lemma DeleteContainerRequest_emits: "DeleteContainerRequest_ok rt m \<Longrightarrow> DeleteContainerRequest_write rt m os = (Inr (), os @ written (DeleteContainerRequest_write rt m))"
  using message_codec_emits [OF DeleteContainerRequest_codec] unfolding emits_def by blast

lemma DeleteContainerResponse_body_shrinks [shrink_rules]: "shrinks (DeleteContainerResponse_merge_body rt tag)"
  unfolding DeleteContainerResponse_merge_body_def by (intro shrink_rules)

lemma DeleteContainerResponse_merge_shrinks [shrink_rules]: "shrinks (DeleteContainerResponse_merge_from rt)"
  unfolding DeleteContainerResponse_merge_from_def by (intro shrink_rules)

lemma DeleteContainerResponse_merge_plain [plain_rules]: "plain (DeleteContainerResponse_merge_from rt)"
  unfolding DeleteContainerResponse_merge_from_def DeleteContainerResponse_merge_body_def by (intro plain_rules shrink_rules)

lemma DeleteContainerResponse_codec:
  assumes ok: "DeleteContainerResponse_ok rt m"
  shows "message_codec rt (DeleteContainerResponse_merge_body rt) (DeleteContainerResponse_write rt m) (fst (DeleteContainerResponse_compute_size rt m)) (DeleteContainerResponse_new rt) (DeleteContainerResponse_fresh rt m)"
  unfolding DeleteContainerResponse_write_def DeleteContainerResponse_write_to_with_cached_sizes_def
  by (rule message_codecI,
      (rule codec_rules, rule DeleteContainerResponse_body_shrinks, use ok in \<open>simp add: DeleteContainerResponse_defs\<close>,
        simp add: DeleteContainerResponse_merge_body_def, simp add: DeleteContainerResponse_defs)+,
      rule codec_unknown, use ok in \<open>simp add: DeleteContainerResponse_defs\<close>, simp add: DeleteContainerResponse_defs add.assoc, simp add: DeleteContainerResponse_defs)

lemma DeleteContainerResponse_roundtrip:
  "DeleteContainerResponse_ok rt m \<Longrightarrow> DeleteContainerResponse_merge_from rt (DeleteContainerResponse_new rt, written (DeleteContainerResponse_write rt m)) = (Inr (), (DeleteContainerResponse_fresh rt m, []))"
  unfolding DeleteContainerResponse_merge_from_def by (rule message_codec_merge [OF DeleteContainerResponse_body_shrinks DeleteContainerResponse_codec])

lemma DeleteContainerResponse_emits: "DeleteContainerResponse_ok rt m \<Longrightarrow> DeleteContainerResponse_write rt m os = (Inr (), os @ written (DeleteContainerResponse_write rt m))"
  using message_codec_emits [OF DeleteContainerResponse_codec] unfolding emits_def by blast

lemma WaitContainerRequest_body_shrinks [shrink_rules]: "shrinks (WaitContainerRequest_merge_body rt tag)"
  unfolding WaitContainerRequest_merge_body_def by (intro shrink_rules)

lemma WaitContainerRequest_merge_shrinks [shrink_rules]: "shrinks (WaitContainerRequest_merge_from rt)"
  unfolding WaitContainerRequest_merge_from_def by (intro shrink_rules)

lemma WaitContainerRequest_merge_plain [plain_rules]: "plain (WaitContainerRequest_merge_from rt)"
  unfolding WaitContainerRequest_merge_from_def WaitContainerRequest_merge_body_def by (intro plain_rules shrink_rules)

lemma WaitContainerRequest_codec:
  assumes ok: "WaitContainerRequest_ok rt m"
  shows "message_codec rt (WaitContainerRequest_merge_body rt) (WaitContainerRequest_write rt m) (fst (WaitContainerRequest_compute_size rt m)) (WaitContainerRequest_new rt) (WaitContainerRequest_fresh rt m)"
  unfolding WaitContainerRequest_write_def WaitContainerRequest_write_to_with_cached_sizes_def
  by (rule message_codecI,
      (rule codec_rules, rule WaitContainerRequest_body_shrinks, use ok in \<open>simp add: WaitContainerRequest_defs\<close>,
        simp add: WaitContainerRequest_merge_body_def, simp add: WaitContainerRequest_defs)+,
      rule codec_unknown, use ok in \<open>simp add: WaitContainerRequest_defs\<close>, simp add: WaitContainerRequest_defs add.assoc, simp add: WaitContainerRequest_defs)

lemma WaitContainerRequest_roundtrip:
  "WaitContainerRequest_ok rt m \<Longrightarrow> WaitContainerRequest_merge_from rt (WaitContainerRequest_new rt, written (WaitContainerRequest_write rt m)) = (Inr (), (WaitContainerRequest_fresh rt m, []))"
  unfolding WaitContainerRequest_merge_from_def by (rule message_codec_merge [OF WaitContainerRequest_body_shrinks WaitContainerRequest_codec])

lemma WaitContainerRequest_emits: "WaitContainerRequest_ok rt m \<Longrightarrow> WaitContainerRequest_write rt m os = (Inr (), os @ written (WaitContainerRequest_write rt m))"
  using message_codec_emits [OF WaitContainerRequest_codec] unfolding emits_def by blast

lemma WaitContainerResponse_body_shrinks [shrink_rules]: "shrinks (WaitContainerResponse_merge_body rt tag)"
  unfolding WaitContainerResponse_merge_body_def by (intro shrink_rules)

lemma WaitContainerResponse_merge_shrinks [shrink_rules]: "shrinks (WaitContainerResponse_merge_from rt)"
  unfolding WaitContainerResponse_merge_from_def by (intro shrink_rules)

lemma WaitContainerResponse_merge_plain [plain_rules]: "plain (WaitContainerResponse_merge_from rt)"
  unfolding WaitContainerResponse_merge_from_def WaitContainerResponse_merge_body_def by (intro plain_rules shrink_rules)

lemma WaitContainerResponse_codec:
  assumes ok: "WaitContainerResponse_ok rt m"
  shows "message_codec rt (WaitContainerResponse_merge_body rt) (WaitContainerResponse_write rt m) (fst (WaitContainerResponse_compute_size rt m)) (WaitContainerResponse_new rt) (WaitContainerResponse_fresh rt m)"
  unfolding WaitContainerResponse_write_def WaitContainerResponse_write_to_with_cached_sizes_def
  by (rule message_codecI,
      (rule codec_rules, rule WaitContainerResponse_body_shrinks, use ok in \<open>simp add: WaitContainerResponse_defs\<close>,
        simp add: WaitContainerResponse_merge_body_def, simp add: WaitContainerResponse_defs)+,
      rule codec_unknown, use ok in \<open>simp add: WaitContainerResponse_defs\<close>, simp add: WaitContainerResponse_defs add.assoc, simp add: WaitContainerResponse_defs)

lemma WaitContainerResponse_roundtrip:
  "WaitContainerResponse_ok rt m \<Longrightarrow> WaitContainerResponse_merge_from rt (WaitContainerResponse_new rt, written (WaitContainerResponse_write rt m)) = (Inr (), (WaitContainerResponse_fresh rt m, []))"
  unfolding WaitContainerResponse_merge_from_def by (rule message_codec_merge [OF WaitContainerResponse_body_shrinks WaitContainerResponse_codec])

lemma WaitContainerResponse_emits: "WaitContainerResponse_ok rt m \<Longrightarrow> WaitContainerResponse_write rt m os = (Inr (), os @ written (WaitContainerResponse_write rt m))"
  using message_codec_emits [OF WaitContainerResponse_codec] unfolding emits_def by blast

end

end
