(* ===== verification/GuestMessages.thy ===== *)
theory GuestMessages
  imports Messages
begin

text \<open>
  The other messages of \<^verbatim>\<open>generated/agent.rs\<close>, in the same form as those of \<open>Messages\<close>: exec, state,
  health, memory, logs, network and adoption.
\<close>

section \<open>States of a container\<close>

datatype ContainerStateEnum = ContainerState_UNKNOWN | ContainerState_CREATED | ContainerState_RUNNING | ContainerState_STOPPED | ContainerState_PAUSED

definition ContainerState_value :: "ContainerStateEnum \<Rightarrow> u32" where
  "ContainerState_value e = (case e of ContainerState_UNKNOWN \<Rightarrow> 0 | ContainerState_CREATED \<Rightarrow> 1 | ContainerState_RUNNING \<Rightarrow> 2 | ContainerState_STOPPED \<Rightarrow> 3 | ContainerState_PAUSED \<Rightarrow> 4)"

definition ContainerState_from_i32 :: "u32 \<Rightarrow> ContainerStateEnum option" where
  "ContainerState_from_i32 value =
    (if value = 0 then Some ContainerState_UNKNOWN
     else if value = 1 then Some ContainerState_CREATED
     else if value = 2 then Some ContainerState_RUNNING
     else if value = 3 then Some ContainerState_STOPPED
     else if value = 4 then Some ContainerState_PAUSED else None)"

definition ContainerState_from_str :: "string \<Rightarrow> ContainerStateEnum option" where
  "ContainerState_from_str str =
    (if str = ''UNKNOWN'' then Some ContainerState_UNKNOWN
     else if str = ''CREATED'' then Some ContainerState_CREATED
     else if str = ''RUNNING'' then Some ContainerState_RUNNING
     else if str = ''STOPPED'' then Some ContainerState_STOPPED
     else if str = ''PAUSED'' then Some ContainerState_PAUSED else None)"

definition ContainerState_VALUES :: "ContainerStateEnum list" where
  "ContainerState_VALUES = [ContainerState_UNKNOWN, ContainerState_CREATED, ContainerState_RUNNING, ContainerState_STOPPED, ContainerState_PAUSED]"

section \<open>Exec and state\<close>

record 'u ExecProcessRequestMsg =
  epr_container_id :: string
  epr_exec_id :: string
  epr_spec_json :: string
  epr_stdin :: string
  epr_stdout :: string
  epr_stderr :: string
  epr_terminal :: bool
  epr_special_fields :: "'u SpecialFields"

definition ExecProcessRequest_new :: "'u pb_runtime \<Rightarrow> 'u ExecProcessRequestMsg" where
  "ExecProcessRequest_new rt =
     \<lparr>epr_container_id = [],
      epr_exec_id = [],
      epr_spec_json = [],
      epr_stdin = [],
      epr_stdout = [],
      epr_stderr = [],
      epr_terminal = False,
      epr_special_fields = SpecialFields_new rt\<rparr>"

definition ExecProcessRequest_merge_body :: "'u pb_runtime \<Rightarrow> u32 \<Rightarrow> ('u ExecProcessRequestMsg \<times> bytes, unit) prog" where
  "ExecProcessRequest_merge_body rt tag =
    (if tag = 10 then set_field (rt_read_string rt) (\<lambda>v m. m\<lparr>epr_container_id := v\<rparr>)
     else if tag = 18 then set_field (rt_read_string rt) (\<lambda>v m. m\<lparr>epr_exec_id := v\<rparr>)
     else if tag = 26 then set_field (rt_read_string rt) (\<lambda>v m. m\<lparr>epr_spec_json := v\<rparr>)
     else if tag = 34 then set_field (rt_read_string rt) (\<lambda>v m. m\<lparr>epr_stdin := v\<rparr>)
     else if tag = 42 then set_field (rt_read_string rt) (\<lambda>v m. m\<lparr>epr_stdout := v\<rparr>)
     else if tag = 50 then set_field (rt_read_string rt) (\<lambda>v m. m\<lparr>epr_stderr := v\<rparr>)
     else if tag = 56 then set_field (rt_read_bool rt) (\<lambda>v m. m\<lparr>epr_terminal := v\<rparr>)
     else keep_unknown rt tag epr_special_fields epr_special_fields_update)"

definition ExecProcessRequest_merge_from :: "'u pb_runtime \<Rightarrow> ('u ExecProcessRequestMsg \<times> bytes, unit) prog" where
  "ExecProcessRequest_merge_from rt = merge_loop rt (ExecProcessRequest_merge_body rt)"

definition ExecProcessRequest_compute_size :: "'u pb_runtime \<Rightarrow> 'u ExecProcessRequestMsg \<Rightarrow> u64 \<times> 'u ExecProcessRequestMsg" where
  "ExecProcessRequest_compute_size rt m =
    (let my_size = 0;
         my_size = my_size + size_if (epr_container_id m \<noteq> []) (rt_string_size rt 1 (epr_container_id m));
         my_size = my_size + size_if (epr_exec_id m \<noteq> []) (rt_string_size rt 2 (epr_exec_id m));
         my_size = my_size + size_if (epr_spec_json m \<noteq> []) (rt_string_size rt 3 (epr_spec_json m));
         my_size = my_size + size_if (epr_stdin m \<noteq> []) (rt_string_size rt 4 (epr_stdin m));
         my_size = my_size + size_if (epr_stdout m \<noteq> []) (rt_string_size rt 5 (epr_stdout m));
         my_size = my_size + size_if (epr_stderr m \<noteq> []) (rt_string_size rt 6 (epr_stderr m));
         my_size = my_size + size_if (epr_terminal m \<noteq> False) (1 + 1);
         my_size = my_size + rt_unknown_fields_size rt (sf_unknown_fields (epr_special_fields m))
     in (my_size, m\<lparr>epr_special_fields := (epr_special_fields m)\<lparr>sf_cached_size := ucast my_size\<rparr>\<rparr>))"

definition ExecProcessRequest_write_to_with_cached_sizes :: "'u pb_runtime \<Rightarrow> 'u ExecProcessRequestMsg \<Rightarrow> (bytes, unit) prog" where
  "ExecProcessRequest_write_to_with_cached_sizes rt m = seqE
     [whenE (epr_container_id m \<noteq> []) (rt_write_string rt 1 (epr_container_id m)),
      whenE (epr_exec_id m \<noteq> []) (rt_write_string rt 2 (epr_exec_id m)),
      whenE (epr_spec_json m \<noteq> []) (rt_write_string rt 3 (epr_spec_json m)),
      whenE (epr_stdin m \<noteq> []) (rt_write_string rt 4 (epr_stdin m)),
      whenE (epr_stdout m \<noteq> []) (rt_write_string rt 5 (epr_stdout m)),
      whenE (epr_stderr m \<noteq> []) (rt_write_string rt 6 (epr_stderr m)),
      whenE (epr_terminal m \<noteq> False) (rt_write_bool rt 7 (epr_terminal m)),
      rt_write_unknown_fields rt (sf_unknown_fields (epr_special_fields m))]"

definition ExecProcessRequest_clear :: "'u pb_runtime \<Rightarrow> 'u ExecProcessRequestMsg \<Rightarrow> 'u ExecProcessRequestMsg" where
  "ExecProcessRequest_clear rt m = m\<lparr>epr_container_id := [],
       epr_exec_id := [],
       epr_spec_json := [],
       epr_stdin := [],
       epr_stdout := [],
       epr_stderr := [],
       epr_terminal := False,
       epr_special_fields := rt_clear_special rt (epr_special_fields m)\<rparr>"

definition ExecProcessRequest_default_instance :: "'u pb_runtime \<Rightarrow> 'u ExecProcessRequestMsg" where
  "ExecProcessRequest_default_instance rt =
     \<lparr>epr_container_id = [],
      epr_exec_id = [],
      epr_spec_json = [],
      epr_stdin = [],
      epr_stdout = [],
      epr_stderr = [],
      epr_terminal = False,
      epr_special_fields = SpecialFields_new rt\<rparr>"

definition ExecProcessRequest_write :: "'u pb_runtime \<Rightarrow> 'u ExecProcessRequestMsg \<Rightarrow> (bytes, unit) prog" where
  "ExecProcessRequest_write rt m = ExecProcessRequest_write_to_with_cached_sizes rt (snd (ExecProcessRequest_compute_size rt m))"

definition ExecProcessRequest_ok :: "'u pb_runtime \<Rightarrow> 'u ExecProcessRequestMsg \<Rightarrow> bool" where
  "ExecProcessRequest_ok rt m \<longleftrightarrow> string_ok (epr_container_id m) \<and>
     string_ok (epr_exec_id m) \<and>
     string_ok (epr_spec_json m) \<and>
     string_ok (epr_stdin m) \<and>
     string_ok (epr_stdout m) \<and>
     string_ok (epr_stderr m) \<and>
     sf_unknown_fields (epr_special_fields m) = rt_new_unknown_fields rt"

definition ExecProcessRequest_fresh :: "'u pb_runtime \<Rightarrow> 'u ExecProcessRequestMsg \<Rightarrow> 'u ExecProcessRequestMsg" where
  "ExecProcessRequest_fresh rt m = m\<lparr>epr_special_fields := SpecialFields_new rt\<rparr>"

record 'u ExecProcessResponseMsg =
  eps_pid :: u32
  eps_special_fields :: "'u SpecialFields"

definition ExecProcessResponse_new :: "'u pb_runtime \<Rightarrow> 'u ExecProcessResponseMsg" where
  "ExecProcessResponse_new rt =
     \<lparr>eps_pid = 0,
      eps_special_fields = SpecialFields_new rt\<rparr>"

definition ExecProcessResponse_merge_body :: "'u pb_runtime \<Rightarrow> u32 \<Rightarrow> ('u ExecProcessResponseMsg \<times> bytes, unit) prog" where
  "ExecProcessResponse_merge_body rt tag =
    (if tag = 8 then set_field (rt_read_uint32 rt) (\<lambda>v m. m\<lparr>eps_pid := v\<rparr>)
     else keep_unknown rt tag eps_special_fields eps_special_fields_update)"

definition ExecProcessResponse_merge_from :: "'u pb_runtime \<Rightarrow> ('u ExecProcessResponseMsg \<times> bytes, unit) prog" where
  "ExecProcessResponse_merge_from rt = merge_loop rt (ExecProcessResponse_merge_body rt)"

definition ExecProcessResponse_compute_size :: "'u pb_runtime \<Rightarrow> 'u ExecProcessResponseMsg \<Rightarrow> u64 \<times> 'u ExecProcessResponseMsg" where
  "ExecProcessResponse_compute_size rt m =
    (let my_size = 0;
         my_size = my_size + size_if (eps_pid m \<noteq> 0) (rt_uint32_size rt 1 (eps_pid m));
         my_size = my_size + rt_unknown_fields_size rt (sf_unknown_fields (eps_special_fields m))
     in (my_size, m\<lparr>eps_special_fields := (eps_special_fields m)\<lparr>sf_cached_size := ucast my_size\<rparr>\<rparr>))"

definition ExecProcessResponse_write_to_with_cached_sizes :: "'u pb_runtime \<Rightarrow> 'u ExecProcessResponseMsg \<Rightarrow> (bytes, unit) prog" where
  "ExecProcessResponse_write_to_with_cached_sizes rt m = seqE
     [whenE (eps_pid m \<noteq> 0) (rt_write_uint32 rt 1 (eps_pid m)),
      rt_write_unknown_fields rt (sf_unknown_fields (eps_special_fields m))]"

definition ExecProcessResponse_clear :: "'u pb_runtime \<Rightarrow> 'u ExecProcessResponseMsg \<Rightarrow> 'u ExecProcessResponseMsg" where
  "ExecProcessResponse_clear rt m = m\<lparr>eps_pid := 0,
       eps_special_fields := rt_clear_special rt (eps_special_fields m)\<rparr>"

definition ExecProcessResponse_default_instance :: "'u pb_runtime \<Rightarrow> 'u ExecProcessResponseMsg" where
  "ExecProcessResponse_default_instance rt =
     \<lparr>eps_pid = 0,
      eps_special_fields = SpecialFields_new rt\<rparr>"

definition ExecProcessResponse_write :: "'u pb_runtime \<Rightarrow> 'u ExecProcessResponseMsg \<Rightarrow> (bytes, unit) prog" where
  "ExecProcessResponse_write rt m = ExecProcessResponse_write_to_with_cached_sizes rt (snd (ExecProcessResponse_compute_size rt m))"

definition ExecProcessResponse_ok :: "'u pb_runtime \<Rightarrow> 'u ExecProcessResponseMsg \<Rightarrow> bool" where
  "ExecProcessResponse_ok rt m \<longleftrightarrow> sf_unknown_fields (eps_special_fields m) = rt_new_unknown_fields rt"

definition ExecProcessResponse_fresh :: "'u pb_runtime \<Rightarrow> 'u ExecProcessResponseMsg \<Rightarrow> 'u ExecProcessResponseMsg" where
  "ExecProcessResponse_fresh rt m = m\<lparr>eps_special_fields := SpecialFields_new rt\<rparr>"

record 'u StateContainerRequestMsg =
  stq_container_id :: string
  stq_special_fields :: "'u SpecialFields"

definition StateContainerRequest_new :: "'u pb_runtime \<Rightarrow> 'u StateContainerRequestMsg" where
  "StateContainerRequest_new rt =
     \<lparr>stq_container_id = [],
      stq_special_fields = SpecialFields_new rt\<rparr>"

definition StateContainerRequest_merge_body :: "'u pb_runtime \<Rightarrow> u32 \<Rightarrow> ('u StateContainerRequestMsg \<times> bytes, unit) prog" where
  "StateContainerRequest_merge_body rt tag =
    (if tag = 10 then set_field (rt_read_string rt) (\<lambda>v m. m\<lparr>stq_container_id := v\<rparr>)
     else keep_unknown rt tag stq_special_fields stq_special_fields_update)"

definition StateContainerRequest_merge_from :: "'u pb_runtime \<Rightarrow> ('u StateContainerRequestMsg \<times> bytes, unit) prog" where
  "StateContainerRequest_merge_from rt = merge_loop rt (StateContainerRequest_merge_body rt)"

definition StateContainerRequest_compute_size :: "'u pb_runtime \<Rightarrow> 'u StateContainerRequestMsg \<Rightarrow> u64 \<times> 'u StateContainerRequestMsg" where
  "StateContainerRequest_compute_size rt m =
    (let my_size = 0;
         my_size = my_size + size_if (stq_container_id m \<noteq> []) (rt_string_size rt 1 (stq_container_id m));
         my_size = my_size + rt_unknown_fields_size rt (sf_unknown_fields (stq_special_fields m))
     in (my_size, m\<lparr>stq_special_fields := (stq_special_fields m)\<lparr>sf_cached_size := ucast my_size\<rparr>\<rparr>))"

definition StateContainerRequest_write_to_with_cached_sizes :: "'u pb_runtime \<Rightarrow> 'u StateContainerRequestMsg \<Rightarrow> (bytes, unit) prog" where
  "StateContainerRequest_write_to_with_cached_sizes rt m = seqE
     [whenE (stq_container_id m \<noteq> []) (rt_write_string rt 1 (stq_container_id m)),
      rt_write_unknown_fields rt (sf_unknown_fields (stq_special_fields m))]"

definition StateContainerRequest_clear :: "'u pb_runtime \<Rightarrow> 'u StateContainerRequestMsg \<Rightarrow> 'u StateContainerRequestMsg" where
  "StateContainerRequest_clear rt m = m\<lparr>stq_container_id := [],
       stq_special_fields := rt_clear_special rt (stq_special_fields m)\<rparr>"

definition StateContainerRequest_default_instance :: "'u pb_runtime \<Rightarrow> 'u StateContainerRequestMsg" where
  "StateContainerRequest_default_instance rt =
     \<lparr>stq_container_id = [],
      stq_special_fields = SpecialFields_new rt\<rparr>"

definition StateContainerRequest_write :: "'u pb_runtime \<Rightarrow> 'u StateContainerRequestMsg \<Rightarrow> (bytes, unit) prog" where
  "StateContainerRequest_write rt m = StateContainerRequest_write_to_with_cached_sizes rt (snd (StateContainerRequest_compute_size rt m))"

definition StateContainerRequest_ok :: "'u pb_runtime \<Rightarrow> 'u StateContainerRequestMsg \<Rightarrow> bool" where
  "StateContainerRequest_ok rt m \<longleftrightarrow> string_ok (stq_container_id m) \<and>
     sf_unknown_fields (stq_special_fields m) = rt_new_unknown_fields rt"

definition StateContainerRequest_fresh :: "'u pb_runtime \<Rightarrow> 'u StateContainerRequestMsg \<Rightarrow> 'u StateContainerRequestMsg" where
  "StateContainerRequest_fresh rt m = m\<lparr>stq_special_fields := SpecialFields_new rt\<rparr>"

record 'u StateContainerResponseMsg =
  sts_container_id :: string
  sts_pid :: u32
  sts_status :: u32
  sts_exit_status :: u32
  sts_exited_at :: string
  sts_special_fields :: "'u SpecialFields"

definition StateContainerResponse_new :: "'u pb_runtime \<Rightarrow> 'u StateContainerResponseMsg" where
  "StateContainerResponse_new rt =
     \<lparr>sts_container_id = [],
      sts_pid = 0,
      sts_status = 0,
      sts_exit_status = 0,
      sts_exited_at = [],
      sts_special_fields = SpecialFields_new rt\<rparr>"

definition StateContainerResponse_merge_body :: "'u pb_runtime \<Rightarrow> u32 \<Rightarrow> ('u StateContainerResponseMsg \<times> bytes, unit) prog" where
  "StateContainerResponse_merge_body rt tag =
    (if tag = 10 then set_field (rt_read_string rt) (\<lambda>v m. m\<lparr>sts_container_id := v\<rparr>)
     else if tag = 16 then set_field (rt_read_uint32 rt) (\<lambda>v m. m\<lparr>sts_pid := v\<rparr>)
     else if tag = 24 then set_field (rt_read_enum_or_unknown rt) (\<lambda>v m. m\<lparr>sts_status := v\<rparr>)
     else if tag = 32 then set_field (rt_read_uint32 rt) (\<lambda>v m. m\<lparr>sts_exit_status := v\<rparr>)
     else if tag = 42 then set_field (rt_read_string rt) (\<lambda>v m. m\<lparr>sts_exited_at := v\<rparr>)
     else keep_unknown rt tag sts_special_fields sts_special_fields_update)"

definition StateContainerResponse_merge_from :: "'u pb_runtime \<Rightarrow> ('u StateContainerResponseMsg \<times> bytes, unit) prog" where
  "StateContainerResponse_merge_from rt = merge_loop rt (StateContainerResponse_merge_body rt)"

definition StateContainerResponse_compute_size :: "'u pb_runtime \<Rightarrow> 'u StateContainerResponseMsg \<Rightarrow> u64 \<times> 'u StateContainerResponseMsg" where
  "StateContainerResponse_compute_size rt m =
    (let my_size = 0;
         my_size = my_size + size_if (sts_container_id m \<noteq> []) (rt_string_size rt 1 (sts_container_id m));
         my_size = my_size + size_if (sts_pid m \<noteq> 0) (rt_uint32_size rt 2 (sts_pid m));
         my_size = my_size + size_if (sts_status m \<noteq> ContainerState_value ContainerState_UNKNOWN) (rt_int32_size rt 3 (sts_status m));
         my_size = my_size + size_if (sts_exit_status m \<noteq> 0) (rt_uint32_size rt 4 (sts_exit_status m));
         my_size = my_size + size_if (sts_exited_at m \<noteq> []) (rt_string_size rt 5 (sts_exited_at m));
         my_size = my_size + rt_unknown_fields_size rt (sf_unknown_fields (sts_special_fields m))
     in (my_size, m\<lparr>sts_special_fields := (sts_special_fields m)\<lparr>sf_cached_size := ucast my_size\<rparr>\<rparr>))"

definition StateContainerResponse_write_to_with_cached_sizes :: "'u pb_runtime \<Rightarrow> 'u StateContainerResponseMsg \<Rightarrow> (bytes, unit) prog" where
  "StateContainerResponse_write_to_with_cached_sizes rt m = seqE
     [whenE (sts_container_id m \<noteq> []) (rt_write_string rt 1 (sts_container_id m)),
      whenE (sts_pid m \<noteq> 0) (rt_write_uint32 rt 2 (sts_pid m)),
      whenE (sts_status m \<noteq> ContainerState_value ContainerState_UNKNOWN) (rt_write_enum rt 3 (sts_status m)),
      whenE (sts_exit_status m \<noteq> 0) (rt_write_uint32 rt 4 (sts_exit_status m)),
      whenE (sts_exited_at m \<noteq> []) (rt_write_string rt 5 (sts_exited_at m)),
      rt_write_unknown_fields rt (sf_unknown_fields (sts_special_fields m))]"

definition StateContainerResponse_clear :: "'u pb_runtime \<Rightarrow> 'u StateContainerResponseMsg \<Rightarrow> 'u StateContainerResponseMsg" where
  "StateContainerResponse_clear rt m = m\<lparr>sts_container_id := [],
       sts_pid := 0,
       sts_status := ContainerState_value ContainerState_UNKNOWN,
       sts_exit_status := 0,
       sts_exited_at := [],
       sts_special_fields := rt_clear_special rt (sts_special_fields m)\<rparr>"

definition StateContainerResponse_default_instance :: "'u pb_runtime \<Rightarrow> 'u StateContainerResponseMsg" where
  "StateContainerResponse_default_instance rt =
     \<lparr>sts_container_id = [],
      sts_pid = 0,
      sts_status = 0,
      sts_exit_status = 0,
      sts_exited_at = [],
      sts_special_fields = SpecialFields_new rt\<rparr>"

definition StateContainerResponse_write :: "'u pb_runtime \<Rightarrow> 'u StateContainerResponseMsg \<Rightarrow> (bytes, unit) prog" where
  "StateContainerResponse_write rt m = StateContainerResponse_write_to_with_cached_sizes rt (snd (StateContainerResponse_compute_size rt m))"

definition StateContainerResponse_ok :: "'u pb_runtime \<Rightarrow> 'u StateContainerResponseMsg \<Rightarrow> bool" where
  "StateContainerResponse_ok rt m \<longleftrightarrow> string_ok (sts_container_id m) \<and>
     string_ok (sts_exited_at m) \<and>
     sf_unknown_fields (sts_special_fields m) = rt_new_unknown_fields rt"

definition StateContainerResponse_fresh :: "'u pb_runtime \<Rightarrow> 'u StateContainerResponseMsg \<Rightarrow> 'u StateContainerResponseMsg" where
  "StateContainerResponse_fresh rt m = m\<lparr>sts_special_fields := SpecialFields_new rt\<rparr>"

section \<open>Health, memory and logs\<close>

record 'u CheckRequestMsg =
  chq_special_fields :: "'u SpecialFields"

definition CheckRequest_new :: "'u pb_runtime \<Rightarrow> 'u CheckRequestMsg" where
  "CheckRequest_new rt =
     \<lparr>chq_special_fields = SpecialFields_new rt\<rparr>"

definition CheckRequest_merge_body :: "'u pb_runtime \<Rightarrow> u32 \<Rightarrow> ('u CheckRequestMsg \<times> bytes, unit) prog" where
  "CheckRequest_merge_body rt tag =
    (keep_unknown rt tag chq_special_fields chq_special_fields_update)"

definition CheckRequest_merge_from :: "'u pb_runtime \<Rightarrow> ('u CheckRequestMsg \<times> bytes, unit) prog" where
  "CheckRequest_merge_from rt = merge_loop rt (CheckRequest_merge_body rt)"

definition CheckRequest_compute_size :: "'u pb_runtime \<Rightarrow> 'u CheckRequestMsg \<Rightarrow> u64 \<times> 'u CheckRequestMsg" where
  "CheckRequest_compute_size rt m =
    (let my_size = 0;
         my_size = my_size + rt_unknown_fields_size rt (sf_unknown_fields (chq_special_fields m))
     in (my_size, m\<lparr>chq_special_fields := (chq_special_fields m)\<lparr>sf_cached_size := ucast my_size\<rparr>\<rparr>))"

definition CheckRequest_write_to_with_cached_sizes :: "'u pb_runtime \<Rightarrow> 'u CheckRequestMsg \<Rightarrow> (bytes, unit) prog" where
  "CheckRequest_write_to_with_cached_sizes rt m = seqE
     [rt_write_unknown_fields rt (sf_unknown_fields (chq_special_fields m))]"

definition CheckRequest_clear :: "'u pb_runtime \<Rightarrow> 'u CheckRequestMsg \<Rightarrow> 'u CheckRequestMsg" where
  "CheckRequest_clear rt m = m\<lparr>chq_special_fields := rt_clear_special rt (chq_special_fields m)\<rparr>"

definition CheckRequest_default_instance :: "'u pb_runtime \<Rightarrow> 'u CheckRequestMsg" where
  "CheckRequest_default_instance rt =
     \<lparr>chq_special_fields = SpecialFields_new rt\<rparr>"

definition CheckRequest_write :: "'u pb_runtime \<Rightarrow> 'u CheckRequestMsg \<Rightarrow> (bytes, unit) prog" where
  "CheckRequest_write rt m = CheckRequest_write_to_with_cached_sizes rt (snd (CheckRequest_compute_size rt m))"

definition CheckRequest_ok :: "'u pb_runtime \<Rightarrow> 'u CheckRequestMsg \<Rightarrow> bool" where
  "CheckRequest_ok rt m \<longleftrightarrow> sf_unknown_fields (chq_special_fields m) = rt_new_unknown_fields rt"

definition CheckRequest_fresh :: "'u pb_runtime \<Rightarrow> 'u CheckRequestMsg \<Rightarrow> 'u CheckRequestMsg" where
  "CheckRequest_fresh rt m = m\<lparr>chq_special_fields := SpecialFields_new rt\<rparr>"

record 'u CheckResponseMsg =
  chs_ready :: bool
  chs_version :: string
  chs_special_fields :: "'u SpecialFields"

definition CheckResponse_new :: "'u pb_runtime \<Rightarrow> 'u CheckResponseMsg" where
  "CheckResponse_new rt =
     \<lparr>chs_ready = False,
      chs_version = [],
      chs_special_fields = SpecialFields_new rt\<rparr>"

definition CheckResponse_merge_body :: "'u pb_runtime \<Rightarrow> u32 \<Rightarrow> ('u CheckResponseMsg \<times> bytes, unit) prog" where
  "CheckResponse_merge_body rt tag =
    (if tag = 8 then set_field (rt_read_bool rt) (\<lambda>v m. m\<lparr>chs_ready := v\<rparr>)
     else if tag = 18 then set_field (rt_read_string rt) (\<lambda>v m. m\<lparr>chs_version := v\<rparr>)
     else keep_unknown rt tag chs_special_fields chs_special_fields_update)"

definition CheckResponse_merge_from :: "'u pb_runtime \<Rightarrow> ('u CheckResponseMsg \<times> bytes, unit) prog" where
  "CheckResponse_merge_from rt = merge_loop rt (CheckResponse_merge_body rt)"

definition CheckResponse_compute_size :: "'u pb_runtime \<Rightarrow> 'u CheckResponseMsg \<Rightarrow> u64 \<times> 'u CheckResponseMsg" where
  "CheckResponse_compute_size rt m =
    (let my_size = 0;
         my_size = my_size + size_if (chs_ready m \<noteq> False) (1 + 1);
         my_size = my_size + size_if (chs_version m \<noteq> []) (rt_string_size rt 2 (chs_version m));
         my_size = my_size + rt_unknown_fields_size rt (sf_unknown_fields (chs_special_fields m))
     in (my_size, m\<lparr>chs_special_fields := (chs_special_fields m)\<lparr>sf_cached_size := ucast my_size\<rparr>\<rparr>))"

definition CheckResponse_write_to_with_cached_sizes :: "'u pb_runtime \<Rightarrow> 'u CheckResponseMsg \<Rightarrow> (bytes, unit) prog" where
  "CheckResponse_write_to_with_cached_sizes rt m = seqE
     [whenE (chs_ready m \<noteq> False) (rt_write_bool rt 1 (chs_ready m)),
      whenE (chs_version m \<noteq> []) (rt_write_string rt 2 (chs_version m)),
      rt_write_unknown_fields rt (sf_unknown_fields (chs_special_fields m))]"

definition CheckResponse_clear :: "'u pb_runtime \<Rightarrow> 'u CheckResponseMsg \<Rightarrow> 'u CheckResponseMsg" where
  "CheckResponse_clear rt m = m\<lparr>chs_ready := False,
       chs_version := [],
       chs_special_fields := rt_clear_special rt (chs_special_fields m)\<rparr>"

definition CheckResponse_default_instance :: "'u pb_runtime \<Rightarrow> 'u CheckResponseMsg" where
  "CheckResponse_default_instance rt =
     \<lparr>chs_ready = False,
      chs_version = [],
      chs_special_fields = SpecialFields_new rt\<rparr>"

definition CheckResponse_write :: "'u pb_runtime \<Rightarrow> 'u CheckResponseMsg \<Rightarrow> (bytes, unit) prog" where
  "CheckResponse_write rt m = CheckResponse_write_to_with_cached_sizes rt (snd (CheckResponse_compute_size rt m))"

definition CheckResponse_ok :: "'u pb_runtime \<Rightarrow> 'u CheckResponseMsg \<Rightarrow> bool" where
  "CheckResponse_ok rt m \<longleftrightarrow> string_ok (chs_version m) \<and>
     sf_unknown_fields (chs_special_fields m) = rt_new_unknown_fields rt"

definition CheckResponse_fresh :: "'u pb_runtime \<Rightarrow> 'u CheckResponseMsg \<Rightarrow> 'u CheckResponseMsg" where
  "CheckResponse_fresh rt m = m\<lparr>chs_special_fields := SpecialFields_new rt\<rparr>"

record 'u GetMemInfoRequestMsg =
  gmr_special_fields :: "'u SpecialFields"

definition GetMemInfoRequest_new :: "'u pb_runtime \<Rightarrow> 'u GetMemInfoRequestMsg" where
  "GetMemInfoRequest_new rt =
     \<lparr>gmr_special_fields = SpecialFields_new rt\<rparr>"

definition GetMemInfoRequest_merge_body :: "'u pb_runtime \<Rightarrow> u32 \<Rightarrow> ('u GetMemInfoRequestMsg \<times> bytes, unit) prog" where
  "GetMemInfoRequest_merge_body rt tag =
    (keep_unknown rt tag gmr_special_fields gmr_special_fields_update)"

definition GetMemInfoRequest_merge_from :: "'u pb_runtime \<Rightarrow> ('u GetMemInfoRequestMsg \<times> bytes, unit) prog" where
  "GetMemInfoRequest_merge_from rt = merge_loop rt (GetMemInfoRequest_merge_body rt)"

definition GetMemInfoRequest_compute_size :: "'u pb_runtime \<Rightarrow> 'u GetMemInfoRequestMsg \<Rightarrow> u64 \<times> 'u GetMemInfoRequestMsg" where
  "GetMemInfoRequest_compute_size rt m =
    (let my_size = 0;
         my_size = my_size + rt_unknown_fields_size rt (sf_unknown_fields (gmr_special_fields m))
     in (my_size, m\<lparr>gmr_special_fields := (gmr_special_fields m)\<lparr>sf_cached_size := ucast my_size\<rparr>\<rparr>))"

definition GetMemInfoRequest_write_to_with_cached_sizes :: "'u pb_runtime \<Rightarrow> 'u GetMemInfoRequestMsg \<Rightarrow> (bytes, unit) prog" where
  "GetMemInfoRequest_write_to_with_cached_sizes rt m = seqE
     [rt_write_unknown_fields rt (sf_unknown_fields (gmr_special_fields m))]"

definition GetMemInfoRequest_clear :: "'u pb_runtime \<Rightarrow> 'u GetMemInfoRequestMsg \<Rightarrow> 'u GetMemInfoRequestMsg" where
  "GetMemInfoRequest_clear rt m = m\<lparr>gmr_special_fields := rt_clear_special rt (gmr_special_fields m)\<rparr>"

definition GetMemInfoRequest_default_instance :: "'u pb_runtime \<Rightarrow> 'u GetMemInfoRequestMsg" where
  "GetMemInfoRequest_default_instance rt =
     \<lparr>gmr_special_fields = SpecialFields_new rt\<rparr>"

definition GetMemInfoRequest_write :: "'u pb_runtime \<Rightarrow> 'u GetMemInfoRequestMsg \<Rightarrow> (bytes, unit) prog" where
  "GetMemInfoRequest_write rt m = GetMemInfoRequest_write_to_with_cached_sizes rt (snd (GetMemInfoRequest_compute_size rt m))"

definition GetMemInfoRequest_ok :: "'u pb_runtime \<Rightarrow> 'u GetMemInfoRequestMsg \<Rightarrow> bool" where
  "GetMemInfoRequest_ok rt m \<longleftrightarrow> sf_unknown_fields (gmr_special_fields m) = rt_new_unknown_fields rt"

definition GetMemInfoRequest_fresh :: "'u pb_runtime \<Rightarrow> 'u GetMemInfoRequestMsg \<Rightarrow> 'u GetMemInfoRequestMsg" where
  "GetMemInfoRequest_fresh rt m = m\<lparr>gmr_special_fields := SpecialFields_new rt\<rparr>"

record 'u GetMemInfoResponseMsg =
  gms_mem_total_kb :: u64
  gms_mem_free_kb :: u64
  gms_mem_available_kb :: u64
  gms_buffers_kb :: u64
  gms_cached_kb :: u64
  gms_swap_total_kb :: u64
  gms_swap_free_kb :: u64
  gms_special_fields :: "'u SpecialFields"

definition GetMemInfoResponse_new :: "'u pb_runtime \<Rightarrow> 'u GetMemInfoResponseMsg" where
  "GetMemInfoResponse_new rt =
     \<lparr>gms_mem_total_kb = 0,
      gms_mem_free_kb = 0,
      gms_mem_available_kb = 0,
      gms_buffers_kb = 0,
      gms_cached_kb = 0,
      gms_swap_total_kb = 0,
      gms_swap_free_kb = 0,
      gms_special_fields = SpecialFields_new rt\<rparr>"

definition GetMemInfoResponse_merge_body :: "'u pb_runtime \<Rightarrow> u32 \<Rightarrow> ('u GetMemInfoResponseMsg \<times> bytes, unit) prog" where
  "GetMemInfoResponse_merge_body rt tag =
    (if tag = 8 then set_field (rt_read_uint64 rt) (\<lambda>v m. m\<lparr>gms_mem_total_kb := v\<rparr>)
     else if tag = 16 then set_field (rt_read_uint64 rt) (\<lambda>v m. m\<lparr>gms_mem_free_kb := v\<rparr>)
     else if tag = 24 then set_field (rt_read_uint64 rt) (\<lambda>v m. m\<lparr>gms_mem_available_kb := v\<rparr>)
     else if tag = 32 then set_field (rt_read_uint64 rt) (\<lambda>v m. m\<lparr>gms_buffers_kb := v\<rparr>)
     else if tag = 40 then set_field (rt_read_uint64 rt) (\<lambda>v m. m\<lparr>gms_cached_kb := v\<rparr>)
     else if tag = 48 then set_field (rt_read_uint64 rt) (\<lambda>v m. m\<lparr>gms_swap_total_kb := v\<rparr>)
     else if tag = 56 then set_field (rt_read_uint64 rt) (\<lambda>v m. m\<lparr>gms_swap_free_kb := v\<rparr>)
     else keep_unknown rt tag gms_special_fields gms_special_fields_update)"

definition GetMemInfoResponse_merge_from :: "'u pb_runtime \<Rightarrow> ('u GetMemInfoResponseMsg \<times> bytes, unit) prog" where
  "GetMemInfoResponse_merge_from rt = merge_loop rt (GetMemInfoResponse_merge_body rt)"

definition GetMemInfoResponse_compute_size :: "'u pb_runtime \<Rightarrow> 'u GetMemInfoResponseMsg \<Rightarrow> u64 \<times> 'u GetMemInfoResponseMsg" where
  "GetMemInfoResponse_compute_size rt m =
    (let my_size = 0;
         my_size = my_size + size_if (gms_mem_total_kb m \<noteq> 0) (rt_uint64_size rt 1 (gms_mem_total_kb m));
         my_size = my_size + size_if (gms_mem_free_kb m \<noteq> 0) (rt_uint64_size rt 2 (gms_mem_free_kb m));
         my_size = my_size + size_if (gms_mem_available_kb m \<noteq> 0) (rt_uint64_size rt 3 (gms_mem_available_kb m));
         my_size = my_size + size_if (gms_buffers_kb m \<noteq> 0) (rt_uint64_size rt 4 (gms_buffers_kb m));
         my_size = my_size + size_if (gms_cached_kb m \<noteq> 0) (rt_uint64_size rt 5 (gms_cached_kb m));
         my_size = my_size + size_if (gms_swap_total_kb m \<noteq> 0) (rt_uint64_size rt 6 (gms_swap_total_kb m));
         my_size = my_size + size_if (gms_swap_free_kb m \<noteq> 0) (rt_uint64_size rt 7 (gms_swap_free_kb m));
         my_size = my_size + rt_unknown_fields_size rt (sf_unknown_fields (gms_special_fields m))
     in (my_size, m\<lparr>gms_special_fields := (gms_special_fields m)\<lparr>sf_cached_size := ucast my_size\<rparr>\<rparr>))"

definition GetMemInfoResponse_write_to_with_cached_sizes :: "'u pb_runtime \<Rightarrow> 'u GetMemInfoResponseMsg \<Rightarrow> (bytes, unit) prog" where
  "GetMemInfoResponse_write_to_with_cached_sizes rt m = seqE
     [whenE (gms_mem_total_kb m \<noteq> 0) (rt_write_uint64 rt 1 (gms_mem_total_kb m)),
      whenE (gms_mem_free_kb m \<noteq> 0) (rt_write_uint64 rt 2 (gms_mem_free_kb m)),
      whenE (gms_mem_available_kb m \<noteq> 0) (rt_write_uint64 rt 3 (gms_mem_available_kb m)),
      whenE (gms_buffers_kb m \<noteq> 0) (rt_write_uint64 rt 4 (gms_buffers_kb m)),
      whenE (gms_cached_kb m \<noteq> 0) (rt_write_uint64 rt 5 (gms_cached_kb m)),
      whenE (gms_swap_total_kb m \<noteq> 0) (rt_write_uint64 rt 6 (gms_swap_total_kb m)),
      whenE (gms_swap_free_kb m \<noteq> 0) (rt_write_uint64 rt 7 (gms_swap_free_kb m)),
      rt_write_unknown_fields rt (sf_unknown_fields (gms_special_fields m))]"

definition GetMemInfoResponse_clear :: "'u pb_runtime \<Rightarrow> 'u GetMemInfoResponseMsg \<Rightarrow> 'u GetMemInfoResponseMsg" where
  "GetMemInfoResponse_clear rt m = m\<lparr>gms_mem_total_kb := 0,
       gms_mem_free_kb := 0,
       gms_mem_available_kb := 0,
       gms_buffers_kb := 0,
       gms_cached_kb := 0,
       gms_swap_total_kb := 0,
       gms_swap_free_kb := 0,
       gms_special_fields := rt_clear_special rt (gms_special_fields m)\<rparr>"

definition GetMemInfoResponse_default_instance :: "'u pb_runtime \<Rightarrow> 'u GetMemInfoResponseMsg" where
  "GetMemInfoResponse_default_instance rt =
     \<lparr>gms_mem_total_kb = 0,
      gms_mem_free_kb = 0,
      gms_mem_available_kb = 0,
      gms_buffers_kb = 0,
      gms_cached_kb = 0,
      gms_swap_total_kb = 0,
      gms_swap_free_kb = 0,
      gms_special_fields = SpecialFields_new rt\<rparr>"

definition GetMemInfoResponse_write :: "'u pb_runtime \<Rightarrow> 'u GetMemInfoResponseMsg \<Rightarrow> (bytes, unit) prog" where
  "GetMemInfoResponse_write rt m = GetMemInfoResponse_write_to_with_cached_sizes rt (snd (GetMemInfoResponse_compute_size rt m))"

definition GetMemInfoResponse_ok :: "'u pb_runtime \<Rightarrow> 'u GetMemInfoResponseMsg \<Rightarrow> bool" where
  "GetMemInfoResponse_ok rt m \<longleftrightarrow> sf_unknown_fields (gms_special_fields m) = rt_new_unknown_fields rt"

definition GetMemInfoResponse_fresh :: "'u pb_runtime \<Rightarrow> 'u GetMemInfoResponseMsg \<Rightarrow> 'u GetMemInfoResponseMsg" where
  "GetMemInfoResponse_fresh rt m = m\<lparr>gms_special_fields := SpecialFields_new rt\<rparr>"

record 'u GetContainerLogsRequestMsg =
  glr_container_id :: string
  glr_offset :: u64
  glr_special_fields :: "'u SpecialFields"

definition GetContainerLogsRequest_new :: "'u pb_runtime \<Rightarrow> 'u GetContainerLogsRequestMsg" where
  "GetContainerLogsRequest_new rt =
     \<lparr>glr_container_id = [],
      glr_offset = 0,
      glr_special_fields = SpecialFields_new rt\<rparr>"

definition GetContainerLogsRequest_merge_body :: "'u pb_runtime \<Rightarrow> u32 \<Rightarrow> ('u GetContainerLogsRequestMsg \<times> bytes, unit) prog" where
  "GetContainerLogsRequest_merge_body rt tag =
    (if tag = 10 then set_field (rt_read_string rt) (\<lambda>v m. m\<lparr>glr_container_id := v\<rparr>)
     else if tag = 16 then set_field (rt_read_uint64 rt) (\<lambda>v m. m\<lparr>glr_offset := v\<rparr>)
     else keep_unknown rt tag glr_special_fields glr_special_fields_update)"

definition GetContainerLogsRequest_merge_from :: "'u pb_runtime \<Rightarrow> ('u GetContainerLogsRequestMsg \<times> bytes, unit) prog" where
  "GetContainerLogsRequest_merge_from rt = merge_loop rt (GetContainerLogsRequest_merge_body rt)"

definition GetContainerLogsRequest_compute_size :: "'u pb_runtime \<Rightarrow> 'u GetContainerLogsRequestMsg \<Rightarrow> u64 \<times> 'u GetContainerLogsRequestMsg" where
  "GetContainerLogsRequest_compute_size rt m =
    (let my_size = 0;
         my_size = my_size + size_if (glr_container_id m \<noteq> []) (rt_string_size rt 1 (glr_container_id m));
         my_size = my_size + size_if (glr_offset m \<noteq> 0) (rt_uint64_size rt 2 (glr_offset m));
         my_size = my_size + rt_unknown_fields_size rt (sf_unknown_fields (glr_special_fields m))
     in (my_size, m\<lparr>glr_special_fields := (glr_special_fields m)\<lparr>sf_cached_size := ucast my_size\<rparr>\<rparr>))"

definition GetContainerLogsRequest_write_to_with_cached_sizes :: "'u pb_runtime \<Rightarrow> 'u GetContainerLogsRequestMsg \<Rightarrow> (bytes, unit) prog" where
  "GetContainerLogsRequest_write_to_with_cached_sizes rt m = seqE
     [whenE (glr_container_id m \<noteq> []) (rt_write_string rt 1 (glr_container_id m)),
      whenE (glr_offset m \<noteq> 0) (rt_write_uint64 rt 2 (glr_offset m)),
      rt_write_unknown_fields rt (sf_unknown_fields (glr_special_fields m))]"

definition GetContainerLogsRequest_clear :: "'u pb_runtime \<Rightarrow> 'u GetContainerLogsRequestMsg \<Rightarrow> 'u GetContainerLogsRequestMsg" where
  "GetContainerLogsRequest_clear rt m = m\<lparr>glr_container_id := [],
       glr_offset := 0,
       glr_special_fields := rt_clear_special rt (glr_special_fields m)\<rparr>"

definition GetContainerLogsRequest_default_instance :: "'u pb_runtime \<Rightarrow> 'u GetContainerLogsRequestMsg" where
  "GetContainerLogsRequest_default_instance rt =
     \<lparr>glr_container_id = [],
      glr_offset = 0,
      glr_special_fields = SpecialFields_new rt\<rparr>"

definition GetContainerLogsRequest_write :: "'u pb_runtime \<Rightarrow> 'u GetContainerLogsRequestMsg \<Rightarrow> (bytes, unit) prog" where
  "GetContainerLogsRequest_write rt m = GetContainerLogsRequest_write_to_with_cached_sizes rt (snd (GetContainerLogsRequest_compute_size rt m))"

definition GetContainerLogsRequest_ok :: "'u pb_runtime \<Rightarrow> 'u GetContainerLogsRequestMsg \<Rightarrow> bool" where
  "GetContainerLogsRequest_ok rt m \<longleftrightarrow> string_ok (glr_container_id m) \<and>
     sf_unknown_fields (glr_special_fields m) = rt_new_unknown_fields rt"

definition GetContainerLogsRequest_fresh :: "'u pb_runtime \<Rightarrow> 'u GetContainerLogsRequestMsg \<Rightarrow> 'u GetContainerLogsRequestMsg" where
  "GetContainerLogsRequest_fresh rt m = m\<lparr>glr_special_fields := SpecialFields_new rt\<rparr>"

record 'u GetContainerLogsResponseMsg =
  gls_stdout :: bytes
  gls_stderr :: bytes
  gls_offset :: u64
  gls_eof :: bool
  gls_special_fields :: "'u SpecialFields"

definition GetContainerLogsResponse_new :: "'u pb_runtime \<Rightarrow> 'u GetContainerLogsResponseMsg" where
  "GetContainerLogsResponse_new rt =
     \<lparr>gls_stdout = [],
      gls_stderr = [],
      gls_offset = 0,
      gls_eof = False,
      gls_special_fields = SpecialFields_new rt\<rparr>"

definition GetContainerLogsResponse_merge_body :: "'u pb_runtime \<Rightarrow> u32 \<Rightarrow> ('u GetContainerLogsResponseMsg \<times> bytes, unit) prog" where
  "GetContainerLogsResponse_merge_body rt tag =
    (if tag = 10 then set_field (rt_read_bytes rt) (\<lambda>v m. m\<lparr>gls_stdout := v\<rparr>)
     else if tag = 18 then set_field (rt_read_bytes rt) (\<lambda>v m. m\<lparr>gls_stderr := v\<rparr>)
     else if tag = 24 then set_field (rt_read_uint64 rt) (\<lambda>v m. m\<lparr>gls_offset := v\<rparr>)
     else if tag = 32 then set_field (rt_read_bool rt) (\<lambda>v m. m\<lparr>gls_eof := v\<rparr>)
     else keep_unknown rt tag gls_special_fields gls_special_fields_update)"

definition GetContainerLogsResponse_merge_from :: "'u pb_runtime \<Rightarrow> ('u GetContainerLogsResponseMsg \<times> bytes, unit) prog" where
  "GetContainerLogsResponse_merge_from rt = merge_loop rt (GetContainerLogsResponse_merge_body rt)"

definition GetContainerLogsResponse_compute_size :: "'u pb_runtime \<Rightarrow> 'u GetContainerLogsResponseMsg \<Rightarrow> u64 \<times> 'u GetContainerLogsResponseMsg" where
  "GetContainerLogsResponse_compute_size rt m =
    (let my_size = 0;
         my_size = my_size + size_if (gls_stdout m \<noteq> []) (rt_bytes_size rt 1 (gls_stdout m));
         my_size = my_size + size_if (gls_stderr m \<noteq> []) (rt_bytes_size rt 2 (gls_stderr m));
         my_size = my_size + size_if (gls_offset m \<noteq> 0) (rt_uint64_size rt 3 (gls_offset m));
         my_size = my_size + size_if (gls_eof m \<noteq> False) (1 + 1);
         my_size = my_size + rt_unknown_fields_size rt (sf_unknown_fields (gls_special_fields m))
     in (my_size, m\<lparr>gls_special_fields := (gls_special_fields m)\<lparr>sf_cached_size := ucast my_size\<rparr>\<rparr>))"

definition GetContainerLogsResponse_write_to_with_cached_sizes :: "'u pb_runtime \<Rightarrow> 'u GetContainerLogsResponseMsg \<Rightarrow> (bytes, unit) prog" where
  "GetContainerLogsResponse_write_to_with_cached_sizes rt m = seqE
     [whenE (gls_stdout m \<noteq> []) (rt_write_bytes rt 1 (gls_stdout m)),
      whenE (gls_stderr m \<noteq> []) (rt_write_bytes rt 2 (gls_stderr m)),
      whenE (gls_offset m \<noteq> 0) (rt_write_uint64 rt 3 (gls_offset m)),
      whenE (gls_eof m \<noteq> False) (rt_write_bool rt 4 (gls_eof m)),
      rt_write_unknown_fields rt (sf_unknown_fields (gls_special_fields m))]"

definition GetContainerLogsResponse_clear :: "'u pb_runtime \<Rightarrow> 'u GetContainerLogsResponseMsg \<Rightarrow> 'u GetContainerLogsResponseMsg" where
  "GetContainerLogsResponse_clear rt m = m\<lparr>gls_stdout := [],
       gls_stderr := [],
       gls_offset := 0,
       gls_eof := False,
       gls_special_fields := rt_clear_special rt (gls_special_fields m)\<rparr>"

definition GetContainerLogsResponse_default_instance :: "'u pb_runtime \<Rightarrow> 'u GetContainerLogsResponseMsg" where
  "GetContainerLogsResponse_default_instance rt =
     \<lparr>gls_stdout = [],
      gls_stderr = [],
      gls_offset = 0,
      gls_eof = False,
      gls_special_fields = SpecialFields_new rt\<rparr>"

definition GetContainerLogsResponse_write :: "'u pb_runtime \<Rightarrow> 'u GetContainerLogsResponseMsg \<Rightarrow> (bytes, unit) prog" where
  "GetContainerLogsResponse_write rt m = GetContainerLogsResponse_write_to_with_cached_sizes rt (snd (GetContainerLogsResponse_compute_size rt m))"

definition GetContainerLogsResponse_ok :: "'u pb_runtime \<Rightarrow> 'u GetContainerLogsResponseMsg \<Rightarrow> bool" where
  "GetContainerLogsResponse_ok rt m \<longleftrightarrow> bytes_ok (gls_stdout m) \<and>
     bytes_ok (gls_stderr m) \<and>
     sf_unknown_fields (gls_special_fields m) = rt_new_unknown_fields rt"

definition GetContainerLogsResponse_fresh :: "'u pb_runtime \<Rightarrow> 'u GetContainerLogsResponseMsg \<Rightarrow> 'u GetContainerLogsResponseMsg" where
  "GetContainerLogsResponse_fresh rt m = m\<lparr>gls_special_fields := SpecialFields_new rt\<rparr>"

section \<open>Network and adoption\<close>

record 'u ConfigureNetworkRequestMsg =
  cnr_ip_address :: string
  cnr_gateway :: string
  cnr_prefix_len :: u32
  cnr_device :: string
  cnr_mac :: string
  cnr_special_fields :: "'u SpecialFields"

definition ConfigureNetworkRequest_new :: "'u pb_runtime \<Rightarrow> 'u ConfigureNetworkRequestMsg" where
  "ConfigureNetworkRequest_new rt =
     \<lparr>cnr_ip_address = [],
      cnr_gateway = [],
      cnr_prefix_len = 0,
      cnr_device = [],
      cnr_mac = [],
      cnr_special_fields = SpecialFields_new rt\<rparr>"

definition ConfigureNetworkRequest_merge_body :: "'u pb_runtime \<Rightarrow> u32 \<Rightarrow> ('u ConfigureNetworkRequestMsg \<times> bytes, unit) prog" where
  "ConfigureNetworkRequest_merge_body rt tag =
    (if tag = 10 then set_field (rt_read_string rt) (\<lambda>v m. m\<lparr>cnr_ip_address := v\<rparr>)
     else if tag = 18 then set_field (rt_read_string rt) (\<lambda>v m. m\<lparr>cnr_gateway := v\<rparr>)
     else if tag = 24 then set_field (rt_read_uint32 rt) (\<lambda>v m. m\<lparr>cnr_prefix_len := v\<rparr>)
     else if tag = 34 then set_field (rt_read_string rt) (\<lambda>v m. m\<lparr>cnr_device := v\<rparr>)
     else if tag = 42 then set_field (rt_read_string rt) (\<lambda>v m. m\<lparr>cnr_mac := v\<rparr>)
     else keep_unknown rt tag cnr_special_fields cnr_special_fields_update)"

definition ConfigureNetworkRequest_merge_from :: "'u pb_runtime \<Rightarrow> ('u ConfigureNetworkRequestMsg \<times> bytes, unit) prog" where
  "ConfigureNetworkRequest_merge_from rt = merge_loop rt (ConfigureNetworkRequest_merge_body rt)"

definition ConfigureNetworkRequest_compute_size :: "'u pb_runtime \<Rightarrow> 'u ConfigureNetworkRequestMsg \<Rightarrow> u64 \<times> 'u ConfigureNetworkRequestMsg" where
  "ConfigureNetworkRequest_compute_size rt m =
    (let my_size = 0;
         my_size = my_size + size_if (cnr_ip_address m \<noteq> []) (rt_string_size rt 1 (cnr_ip_address m));
         my_size = my_size + size_if (cnr_gateway m \<noteq> []) (rt_string_size rt 2 (cnr_gateway m));
         my_size = my_size + size_if (cnr_prefix_len m \<noteq> 0) (rt_uint32_size rt 3 (cnr_prefix_len m));
         my_size = my_size + size_if (cnr_device m \<noteq> []) (rt_string_size rt 4 (cnr_device m));
         my_size = my_size + size_if (cnr_mac m \<noteq> []) (rt_string_size rt 5 (cnr_mac m));
         my_size = my_size + rt_unknown_fields_size rt (sf_unknown_fields (cnr_special_fields m))
     in (my_size, m\<lparr>cnr_special_fields := (cnr_special_fields m)\<lparr>sf_cached_size := ucast my_size\<rparr>\<rparr>))"

definition ConfigureNetworkRequest_write_to_with_cached_sizes :: "'u pb_runtime \<Rightarrow> 'u ConfigureNetworkRequestMsg \<Rightarrow> (bytes, unit) prog" where
  "ConfigureNetworkRequest_write_to_with_cached_sizes rt m = seqE
     [whenE (cnr_ip_address m \<noteq> []) (rt_write_string rt 1 (cnr_ip_address m)),
      whenE (cnr_gateway m \<noteq> []) (rt_write_string rt 2 (cnr_gateway m)),
      whenE (cnr_prefix_len m \<noteq> 0) (rt_write_uint32 rt 3 (cnr_prefix_len m)),
      whenE (cnr_device m \<noteq> []) (rt_write_string rt 4 (cnr_device m)),
      whenE (cnr_mac m \<noteq> []) (rt_write_string rt 5 (cnr_mac m)),
      rt_write_unknown_fields rt (sf_unknown_fields (cnr_special_fields m))]"

definition ConfigureNetworkRequest_clear :: "'u pb_runtime \<Rightarrow> 'u ConfigureNetworkRequestMsg \<Rightarrow> 'u ConfigureNetworkRequestMsg" where
  "ConfigureNetworkRequest_clear rt m = m\<lparr>cnr_ip_address := [],
       cnr_gateway := [],
       cnr_prefix_len := 0,
       cnr_device := [],
       cnr_mac := [],
       cnr_special_fields := rt_clear_special rt (cnr_special_fields m)\<rparr>"

definition ConfigureNetworkRequest_default_instance :: "'u pb_runtime \<Rightarrow> 'u ConfigureNetworkRequestMsg" where
  "ConfigureNetworkRequest_default_instance rt =
     \<lparr>cnr_ip_address = [],
      cnr_gateway = [],
      cnr_prefix_len = 0,
      cnr_device = [],
      cnr_mac = [],
      cnr_special_fields = SpecialFields_new rt\<rparr>"

definition ConfigureNetworkRequest_write :: "'u pb_runtime \<Rightarrow> 'u ConfigureNetworkRequestMsg \<Rightarrow> (bytes, unit) prog" where
  "ConfigureNetworkRequest_write rt m = ConfigureNetworkRequest_write_to_with_cached_sizes rt (snd (ConfigureNetworkRequest_compute_size rt m))"

definition ConfigureNetworkRequest_ok :: "'u pb_runtime \<Rightarrow> 'u ConfigureNetworkRequestMsg \<Rightarrow> bool" where
  "ConfigureNetworkRequest_ok rt m \<longleftrightarrow> string_ok (cnr_ip_address m) \<and>
     string_ok (cnr_gateway m) \<and>
     string_ok (cnr_device m) \<and>
     string_ok (cnr_mac m) \<and>
     sf_unknown_fields (cnr_special_fields m) = rt_new_unknown_fields rt"

definition ConfigureNetworkRequest_fresh :: "'u pb_runtime \<Rightarrow> 'u ConfigureNetworkRequestMsg \<Rightarrow> 'u ConfigureNetworkRequestMsg" where
  "ConfigureNetworkRequest_fresh rt m = m\<lparr>cnr_special_fields := SpecialFields_new rt\<rparr>"

record 'u ConfigureNetworkResponseMsg =
  cns_special_fields :: "'u SpecialFields"

definition ConfigureNetworkResponse_new :: "'u pb_runtime \<Rightarrow> 'u ConfigureNetworkResponseMsg" where
  "ConfigureNetworkResponse_new rt =
     \<lparr>cns_special_fields = SpecialFields_new rt\<rparr>"

definition ConfigureNetworkResponse_merge_body :: "'u pb_runtime \<Rightarrow> u32 \<Rightarrow> ('u ConfigureNetworkResponseMsg \<times> bytes, unit) prog" where
  "ConfigureNetworkResponse_merge_body rt tag =
    (keep_unknown rt tag cns_special_fields cns_special_fields_update)"

definition ConfigureNetworkResponse_merge_from :: "'u pb_runtime \<Rightarrow> ('u ConfigureNetworkResponseMsg \<times> bytes, unit) prog" where
  "ConfigureNetworkResponse_merge_from rt = merge_loop rt (ConfigureNetworkResponse_merge_body rt)"

definition ConfigureNetworkResponse_compute_size :: "'u pb_runtime \<Rightarrow> 'u ConfigureNetworkResponseMsg \<Rightarrow> u64 \<times> 'u ConfigureNetworkResponseMsg" where
  "ConfigureNetworkResponse_compute_size rt m =
    (let my_size = 0;
         my_size = my_size + rt_unknown_fields_size rt (sf_unknown_fields (cns_special_fields m))
     in (my_size, m\<lparr>cns_special_fields := (cns_special_fields m)\<lparr>sf_cached_size := ucast my_size\<rparr>\<rparr>))"

definition ConfigureNetworkResponse_write_to_with_cached_sizes :: "'u pb_runtime \<Rightarrow> 'u ConfigureNetworkResponseMsg \<Rightarrow> (bytes, unit) prog" where
  "ConfigureNetworkResponse_write_to_with_cached_sizes rt m = seqE
     [rt_write_unknown_fields rt (sf_unknown_fields (cns_special_fields m))]"

definition ConfigureNetworkResponse_clear :: "'u pb_runtime \<Rightarrow> 'u ConfigureNetworkResponseMsg \<Rightarrow> 'u ConfigureNetworkResponseMsg" where
  "ConfigureNetworkResponse_clear rt m = m\<lparr>cns_special_fields := rt_clear_special rt (cns_special_fields m)\<rparr>"

definition ConfigureNetworkResponse_default_instance :: "'u pb_runtime \<Rightarrow> 'u ConfigureNetworkResponseMsg" where
  "ConfigureNetworkResponse_default_instance rt =
     \<lparr>cns_special_fields = SpecialFields_new rt\<rparr>"

definition ConfigureNetworkResponse_write :: "'u pb_runtime \<Rightarrow> 'u ConfigureNetworkResponseMsg \<Rightarrow> (bytes, unit) prog" where
  "ConfigureNetworkResponse_write rt m = ConfigureNetworkResponse_write_to_with_cached_sizes rt (snd (ConfigureNetworkResponse_compute_size rt m))"

definition ConfigureNetworkResponse_ok :: "'u pb_runtime \<Rightarrow> 'u ConfigureNetworkResponseMsg \<Rightarrow> bool" where
  "ConfigureNetworkResponse_ok rt m \<longleftrightarrow> sf_unknown_fields (cns_special_fields m) = rt_new_unknown_fields rt"

definition ConfigureNetworkResponse_fresh :: "'u pb_runtime \<Rightarrow> 'u ConfigureNetworkResponseMsg \<Rightarrow> 'u ConfigureNetworkResponseMsg" where
  "ConfigureNetworkResponse_fresh rt m = m\<lparr>cns_special_fields := SpecialFields_new rt\<rparr>"

record 'u AdoptContainerRequestMsg =
  acr_old_container_id :: string
  acr_new_container_id :: string
  acr_special_fields :: "'u SpecialFields"

definition AdoptContainerRequest_new :: "'u pb_runtime \<Rightarrow> 'u AdoptContainerRequestMsg" where
  "AdoptContainerRequest_new rt =
     \<lparr>acr_old_container_id = [],
      acr_new_container_id = [],
      acr_special_fields = SpecialFields_new rt\<rparr>"

definition AdoptContainerRequest_merge_body :: "'u pb_runtime \<Rightarrow> u32 \<Rightarrow> ('u AdoptContainerRequestMsg \<times> bytes, unit) prog" where
  "AdoptContainerRequest_merge_body rt tag =
    (if tag = 10 then set_field (rt_read_string rt) (\<lambda>v m. m\<lparr>acr_old_container_id := v\<rparr>)
     else if tag = 18 then set_field (rt_read_string rt) (\<lambda>v m. m\<lparr>acr_new_container_id := v\<rparr>)
     else keep_unknown rt tag acr_special_fields acr_special_fields_update)"

definition AdoptContainerRequest_merge_from :: "'u pb_runtime \<Rightarrow> ('u AdoptContainerRequestMsg \<times> bytes, unit) prog" where
  "AdoptContainerRequest_merge_from rt = merge_loop rt (AdoptContainerRequest_merge_body rt)"

definition AdoptContainerRequest_compute_size :: "'u pb_runtime \<Rightarrow> 'u AdoptContainerRequestMsg \<Rightarrow> u64 \<times> 'u AdoptContainerRequestMsg" where
  "AdoptContainerRequest_compute_size rt m =
    (let my_size = 0;
         my_size = my_size + size_if (acr_old_container_id m \<noteq> []) (rt_string_size rt 1 (acr_old_container_id m));
         my_size = my_size + size_if (acr_new_container_id m \<noteq> []) (rt_string_size rt 2 (acr_new_container_id m));
         my_size = my_size + rt_unknown_fields_size rt (sf_unknown_fields (acr_special_fields m))
     in (my_size, m\<lparr>acr_special_fields := (acr_special_fields m)\<lparr>sf_cached_size := ucast my_size\<rparr>\<rparr>))"

definition AdoptContainerRequest_write_to_with_cached_sizes :: "'u pb_runtime \<Rightarrow> 'u AdoptContainerRequestMsg \<Rightarrow> (bytes, unit) prog" where
  "AdoptContainerRequest_write_to_with_cached_sizes rt m = seqE
     [whenE (acr_old_container_id m \<noteq> []) (rt_write_string rt 1 (acr_old_container_id m)),
      whenE (acr_new_container_id m \<noteq> []) (rt_write_string rt 2 (acr_new_container_id m)),
      rt_write_unknown_fields rt (sf_unknown_fields (acr_special_fields m))]"

definition AdoptContainerRequest_clear :: "'u pb_runtime \<Rightarrow> 'u AdoptContainerRequestMsg \<Rightarrow> 'u AdoptContainerRequestMsg" where
  "AdoptContainerRequest_clear rt m = m\<lparr>acr_old_container_id := [],
       acr_new_container_id := [],
       acr_special_fields := rt_clear_special rt (acr_special_fields m)\<rparr>"

definition AdoptContainerRequest_default_instance :: "'u pb_runtime \<Rightarrow> 'u AdoptContainerRequestMsg" where
  "AdoptContainerRequest_default_instance rt =
     \<lparr>acr_old_container_id = [],
      acr_new_container_id = [],
      acr_special_fields = SpecialFields_new rt\<rparr>"

definition AdoptContainerRequest_write :: "'u pb_runtime \<Rightarrow> 'u AdoptContainerRequestMsg \<Rightarrow> (bytes, unit) prog" where
  "AdoptContainerRequest_write rt m = AdoptContainerRequest_write_to_with_cached_sizes rt (snd (AdoptContainerRequest_compute_size rt m))"

definition AdoptContainerRequest_ok :: "'u pb_runtime \<Rightarrow> 'u AdoptContainerRequestMsg \<Rightarrow> bool" where
  "AdoptContainerRequest_ok rt m \<longleftrightarrow> string_ok (acr_old_container_id m) \<and>
     string_ok (acr_new_container_id m) \<and>
     sf_unknown_fields (acr_special_fields m) = rt_new_unknown_fields rt"

definition AdoptContainerRequest_fresh :: "'u pb_runtime \<Rightarrow> 'u AdoptContainerRequestMsg \<Rightarrow> 'u AdoptContainerRequestMsg" where
  "AdoptContainerRequest_fresh rt m = m\<lparr>acr_special_fields := SpecialFields_new rt\<rparr>"

record 'u AdoptContainerResponseMsg =
  acs_pid :: u32
  acs_special_fields :: "'u SpecialFields"

definition AdoptContainerResponse_new :: "'u pb_runtime \<Rightarrow> 'u AdoptContainerResponseMsg" where
  "AdoptContainerResponse_new rt =
     \<lparr>acs_pid = 0,
      acs_special_fields = SpecialFields_new rt\<rparr>"

definition AdoptContainerResponse_merge_body :: "'u pb_runtime \<Rightarrow> u32 \<Rightarrow> ('u AdoptContainerResponseMsg \<times> bytes, unit) prog" where
  "AdoptContainerResponse_merge_body rt tag =
    (if tag = 8 then set_field (rt_read_uint32 rt) (\<lambda>v m. m\<lparr>acs_pid := v\<rparr>)
     else keep_unknown rt tag acs_special_fields acs_special_fields_update)"

definition AdoptContainerResponse_merge_from :: "'u pb_runtime \<Rightarrow> ('u AdoptContainerResponseMsg \<times> bytes, unit) prog" where
  "AdoptContainerResponse_merge_from rt = merge_loop rt (AdoptContainerResponse_merge_body rt)"

definition AdoptContainerResponse_compute_size :: "'u pb_runtime \<Rightarrow> 'u AdoptContainerResponseMsg \<Rightarrow> u64 \<times> 'u AdoptContainerResponseMsg" where
  "AdoptContainerResponse_compute_size rt m =
    (let my_size = 0;
         my_size = my_size + size_if (acs_pid m \<noteq> 0) (rt_uint32_size rt 1 (acs_pid m));
         my_size = my_size + rt_unknown_fields_size rt (sf_unknown_fields (acs_special_fields m))
     in (my_size, m\<lparr>acs_special_fields := (acs_special_fields m)\<lparr>sf_cached_size := ucast my_size\<rparr>\<rparr>))"

definition AdoptContainerResponse_write_to_with_cached_sizes :: "'u pb_runtime \<Rightarrow> 'u AdoptContainerResponseMsg \<Rightarrow> (bytes, unit) prog" where
  "AdoptContainerResponse_write_to_with_cached_sizes rt m = seqE
     [whenE (acs_pid m \<noteq> 0) (rt_write_uint32 rt 1 (acs_pid m)),
      rt_write_unknown_fields rt (sf_unknown_fields (acs_special_fields m))]"

definition AdoptContainerResponse_clear :: "'u pb_runtime \<Rightarrow> 'u AdoptContainerResponseMsg \<Rightarrow> 'u AdoptContainerResponseMsg" where
  "AdoptContainerResponse_clear rt m = m\<lparr>acs_pid := 0,
       acs_special_fields := rt_clear_special rt (acs_special_fields m)\<rparr>"

definition AdoptContainerResponse_default_instance :: "'u pb_runtime \<Rightarrow> 'u AdoptContainerResponseMsg" where
  "AdoptContainerResponse_default_instance rt =
     \<lparr>acs_pid = 0,
      acs_special_fields = SpecialFields_new rt\<rparr>"

definition AdoptContainerResponse_write :: "'u pb_runtime \<Rightarrow> 'u AdoptContainerResponseMsg \<Rightarrow> (bytes, unit) prog" where
  "AdoptContainerResponse_write rt m = AdoptContainerResponse_write_to_with_cached_sizes rt (snd (AdoptContainerResponse_compute_size rt m))"

definition AdoptContainerResponse_ok :: "'u pb_runtime \<Rightarrow> 'u AdoptContainerResponseMsg \<Rightarrow> bool" where
  "AdoptContainerResponse_ok rt m \<longleftrightarrow> sf_unknown_fields (acs_special_fields m) = rt_new_unknown_fields rt"

definition AdoptContainerResponse_fresh :: "'u pb_runtime \<Rightarrow> 'u AdoptContainerResponseMsg \<Rightarrow> 'u AdoptContainerResponseMsg" where
  "AdoptContainerResponse_fresh rt m = m\<lparr>acs_special_fields := SpecialFields_new rt\<rparr>"

text \<open>The numbers of the values are unambiguous, and all values are listed.\<close>

lemma ContainerState_from_value: "ContainerState_from_i32 (ContainerState_value e) = Some e"
  by (cases e) (simp_all add: ContainerState_from_i32_def ContainerState_value_def)

lemma ContainerState_from_known: "ContainerState_from_i32 v = Some e \<Longrightarrow> ContainerState_value e = v"
  by (auto simp: ContainerState_from_i32_def ContainerState_value_def split: if_splits)

lemma ContainerState_VALUES_all: "e \<in> set ContainerState_VALUES"
  by (cases e) (simp_all add: ContainerState_VALUES_def)

section \<open>Every message survives the wire\<close>

text \<open>Clearing a message leaves a new one (but for its special fields), and so does the default instance.\<close>

lemma ExecProcessRequest_clear_new: "ExecProcessRequest_clear rt m = (ExecProcessRequest_new rt)\<lparr>epr_special_fields := rt_clear_special rt (epr_special_fields m)\<rparr>"
  and ExecProcessRequest_default_new: "ExecProcessRequest_default_instance rt = ExecProcessRequest_new rt"
  by (simp_all add: ExecProcessRequest_clear_def ExecProcessRequest_new_def ExecProcessRequest_default_instance_def)

lemmas ExecProcessRequest_defs = ExecProcessRequest_ok_def ExecProcessRequest_new_def ExecProcessRequest_fresh_def ExecProcessRequest_compute_size_def Let_def field_number_def

lemma ExecProcessResponse_clear_new: "ExecProcessResponse_clear rt m = (ExecProcessResponse_new rt)\<lparr>eps_special_fields := rt_clear_special rt (eps_special_fields m)\<rparr>"
  and ExecProcessResponse_default_new: "ExecProcessResponse_default_instance rt = ExecProcessResponse_new rt"
  by (simp_all add: ExecProcessResponse_clear_def ExecProcessResponse_new_def ExecProcessResponse_default_instance_def)

lemmas ExecProcessResponse_defs = ExecProcessResponse_ok_def ExecProcessResponse_new_def ExecProcessResponse_fresh_def ExecProcessResponse_compute_size_def Let_def field_number_def

lemma StateContainerRequest_clear_new: "StateContainerRequest_clear rt m = (StateContainerRequest_new rt)\<lparr>stq_special_fields := rt_clear_special rt (stq_special_fields m)\<rparr>"
  and StateContainerRequest_default_new: "StateContainerRequest_default_instance rt = StateContainerRequest_new rt"
  by (simp_all add: StateContainerRequest_clear_def StateContainerRequest_new_def StateContainerRequest_default_instance_def)

lemmas StateContainerRequest_defs = StateContainerRequest_ok_def StateContainerRequest_new_def StateContainerRequest_fresh_def StateContainerRequest_compute_size_def Let_def field_number_def

lemma StateContainerResponse_clear_new: "StateContainerResponse_clear rt m = (StateContainerResponse_new rt)\<lparr>sts_special_fields := rt_clear_special rt (sts_special_fields m)\<rparr>"
  and StateContainerResponse_default_new: "StateContainerResponse_default_instance rt = StateContainerResponse_new rt"
  by (simp_all add: StateContainerResponse_clear_def StateContainerResponse_new_def StateContainerResponse_default_instance_def ContainerState_value_def)

lemmas StateContainerResponse_defs = StateContainerResponse_ok_def StateContainerResponse_new_def StateContainerResponse_fresh_def StateContainerResponse_compute_size_def Let_def field_number_def ContainerState_value_def

lemma CheckRequest_clear_new: "CheckRequest_clear rt m = (CheckRequest_new rt)\<lparr>chq_special_fields := rt_clear_special rt (chq_special_fields m)\<rparr>"
  and CheckRequest_default_new: "CheckRequest_default_instance rt = CheckRequest_new rt"
  by (simp_all add: CheckRequest_clear_def CheckRequest_new_def CheckRequest_default_instance_def)

lemmas CheckRequest_defs = CheckRequest_ok_def CheckRequest_new_def CheckRequest_fresh_def CheckRequest_compute_size_def Let_def field_number_def

lemma CheckResponse_clear_new: "CheckResponse_clear rt m = (CheckResponse_new rt)\<lparr>chs_special_fields := rt_clear_special rt (chs_special_fields m)\<rparr>"
  and CheckResponse_default_new: "CheckResponse_default_instance rt = CheckResponse_new rt"
  by (simp_all add: CheckResponse_clear_def CheckResponse_new_def CheckResponse_default_instance_def)

lemmas CheckResponse_defs = CheckResponse_ok_def CheckResponse_new_def CheckResponse_fresh_def CheckResponse_compute_size_def Let_def field_number_def

lemma GetMemInfoRequest_clear_new: "GetMemInfoRequest_clear rt m = (GetMemInfoRequest_new rt)\<lparr>gmr_special_fields := rt_clear_special rt (gmr_special_fields m)\<rparr>"
  and GetMemInfoRequest_default_new: "GetMemInfoRequest_default_instance rt = GetMemInfoRequest_new rt"
  by (simp_all add: GetMemInfoRequest_clear_def GetMemInfoRequest_new_def GetMemInfoRequest_default_instance_def)

lemmas GetMemInfoRequest_defs = GetMemInfoRequest_ok_def GetMemInfoRequest_new_def GetMemInfoRequest_fresh_def GetMemInfoRequest_compute_size_def Let_def field_number_def

lemma GetMemInfoResponse_clear_new: "GetMemInfoResponse_clear rt m = (GetMemInfoResponse_new rt)\<lparr>gms_special_fields := rt_clear_special rt (gms_special_fields m)\<rparr>"
  and GetMemInfoResponse_default_new: "GetMemInfoResponse_default_instance rt = GetMemInfoResponse_new rt"
  by (simp_all add: GetMemInfoResponse_clear_def GetMemInfoResponse_new_def GetMemInfoResponse_default_instance_def)

lemmas GetMemInfoResponse_defs = GetMemInfoResponse_ok_def GetMemInfoResponse_new_def GetMemInfoResponse_fresh_def GetMemInfoResponse_compute_size_def Let_def field_number_def

lemma GetContainerLogsRequest_clear_new: "GetContainerLogsRequest_clear rt m = (GetContainerLogsRequest_new rt)\<lparr>glr_special_fields := rt_clear_special rt (glr_special_fields m)\<rparr>"
  and GetContainerLogsRequest_default_new: "GetContainerLogsRequest_default_instance rt = GetContainerLogsRequest_new rt"
  by (simp_all add: GetContainerLogsRequest_clear_def GetContainerLogsRequest_new_def GetContainerLogsRequest_default_instance_def)

lemmas GetContainerLogsRequest_defs = GetContainerLogsRequest_ok_def GetContainerLogsRequest_new_def GetContainerLogsRequest_fresh_def GetContainerLogsRequest_compute_size_def Let_def field_number_def

lemma GetContainerLogsResponse_clear_new: "GetContainerLogsResponse_clear rt m = (GetContainerLogsResponse_new rt)\<lparr>gls_special_fields := rt_clear_special rt (gls_special_fields m)\<rparr>"
  and GetContainerLogsResponse_default_new: "GetContainerLogsResponse_default_instance rt = GetContainerLogsResponse_new rt"
  by (simp_all add: GetContainerLogsResponse_clear_def GetContainerLogsResponse_new_def GetContainerLogsResponse_default_instance_def)

lemmas GetContainerLogsResponse_defs = GetContainerLogsResponse_ok_def GetContainerLogsResponse_new_def GetContainerLogsResponse_fresh_def GetContainerLogsResponse_compute_size_def Let_def field_number_def

lemma ConfigureNetworkRequest_clear_new: "ConfigureNetworkRequest_clear rt m = (ConfigureNetworkRequest_new rt)\<lparr>cnr_special_fields := rt_clear_special rt (cnr_special_fields m)\<rparr>"
  and ConfigureNetworkRequest_default_new: "ConfigureNetworkRequest_default_instance rt = ConfigureNetworkRequest_new rt"
  by (simp_all add: ConfigureNetworkRequest_clear_def ConfigureNetworkRequest_new_def ConfigureNetworkRequest_default_instance_def)

lemmas ConfigureNetworkRequest_defs = ConfigureNetworkRequest_ok_def ConfigureNetworkRequest_new_def ConfigureNetworkRequest_fresh_def ConfigureNetworkRequest_compute_size_def Let_def field_number_def

lemma ConfigureNetworkResponse_clear_new: "ConfigureNetworkResponse_clear rt m = (ConfigureNetworkResponse_new rt)\<lparr>cns_special_fields := rt_clear_special rt (cns_special_fields m)\<rparr>"
  and ConfigureNetworkResponse_default_new: "ConfigureNetworkResponse_default_instance rt = ConfigureNetworkResponse_new rt"
  by (simp_all add: ConfigureNetworkResponse_clear_def ConfigureNetworkResponse_new_def ConfigureNetworkResponse_default_instance_def)

lemmas ConfigureNetworkResponse_defs = ConfigureNetworkResponse_ok_def ConfigureNetworkResponse_new_def ConfigureNetworkResponse_fresh_def ConfigureNetworkResponse_compute_size_def Let_def field_number_def

lemma AdoptContainerRequest_clear_new: "AdoptContainerRequest_clear rt m = (AdoptContainerRequest_new rt)\<lparr>acr_special_fields := rt_clear_special rt (acr_special_fields m)\<rparr>"
  and AdoptContainerRequest_default_new: "AdoptContainerRequest_default_instance rt = AdoptContainerRequest_new rt"
  by (simp_all add: AdoptContainerRequest_clear_def AdoptContainerRequest_new_def AdoptContainerRequest_default_instance_def)

lemmas AdoptContainerRequest_defs = AdoptContainerRequest_ok_def AdoptContainerRequest_new_def AdoptContainerRequest_fresh_def AdoptContainerRequest_compute_size_def Let_def field_number_def

lemma AdoptContainerResponse_clear_new: "AdoptContainerResponse_clear rt m = (AdoptContainerResponse_new rt)\<lparr>acs_special_fields := rt_clear_special rt (acs_special_fields m)\<rparr>"
  and AdoptContainerResponse_default_new: "AdoptContainerResponse_default_instance rt = AdoptContainerResponse_new rt"
  by (simp_all add: AdoptContainerResponse_clear_def AdoptContainerResponse_new_def AdoptContainerResponse_default_instance_def)

lemmas AdoptContainerResponse_defs = AdoptContainerResponse_ok_def AdoptContainerResponse_new_def AdoptContainerResponse_fresh_def AdoptContainerResponse_compute_size_def Let_def field_number_def

context protobuf_runtime
begin

lemma ExecProcessRequest_body_shrinks [shrink_rules]: "shrinks (ExecProcessRequest_merge_body rt tag)"
  unfolding ExecProcessRequest_merge_body_def by (intro shrink_rules)

lemma ExecProcessRequest_merge_shrinks [shrink_rules]: "shrinks (ExecProcessRequest_merge_from rt)"
  unfolding ExecProcessRequest_merge_from_def by (intro shrink_rules)

lemma ExecProcessRequest_merge_plain [plain_rules]: "plain (ExecProcessRequest_merge_from rt)"
  unfolding ExecProcessRequest_merge_from_def ExecProcessRequest_merge_body_def by (intro plain_rules shrink_rules)

lemma ExecProcessRequest_codec:
  assumes ok: "ExecProcessRequest_ok rt m"
  shows "message_codec rt (ExecProcessRequest_merge_body rt) (ExecProcessRequest_write rt m) (fst (ExecProcessRequest_compute_size rt m)) (ExecProcessRequest_new rt) (ExecProcessRequest_fresh rt m)"
  unfolding ExecProcessRequest_write_def ExecProcessRequest_write_to_with_cached_sizes_def
  by (rule message_codecI,
      (rule codec_rules, rule ExecProcessRequest_body_shrinks, use ok in \<open>simp add: ExecProcessRequest_defs\<close>,
        simp add: ExecProcessRequest_merge_body_def, simp add: ExecProcessRequest_defs)+,
      rule codec_unknown, use ok in \<open>simp add: ExecProcessRequest_defs\<close>, simp add: ExecProcessRequest_defs add.assoc, simp add: ExecProcessRequest_defs)

lemma ExecProcessRequest_roundtrip:
  "ExecProcessRequest_ok rt m \<Longrightarrow> ExecProcessRequest_merge_from rt (ExecProcessRequest_new rt, written (ExecProcessRequest_write rt m)) = (Inr (), (ExecProcessRequest_fresh rt m, []))"
  unfolding ExecProcessRequest_merge_from_def by (rule message_codec_merge [OF ExecProcessRequest_body_shrinks ExecProcessRequest_codec])

lemma ExecProcessRequest_emits: "ExecProcessRequest_ok rt m \<Longrightarrow> ExecProcessRequest_write rt m os = (Inr (), os @ written (ExecProcessRequest_write rt m))"
  using message_codec_emits [OF ExecProcessRequest_codec] unfolding emits_def by blast

lemma ExecProcessResponse_body_shrinks [shrink_rules]: "shrinks (ExecProcessResponse_merge_body rt tag)"
  unfolding ExecProcessResponse_merge_body_def by (intro shrink_rules)

lemma ExecProcessResponse_merge_shrinks [shrink_rules]: "shrinks (ExecProcessResponse_merge_from rt)"
  unfolding ExecProcessResponse_merge_from_def by (intro shrink_rules)

lemma ExecProcessResponse_merge_plain [plain_rules]: "plain (ExecProcessResponse_merge_from rt)"
  unfolding ExecProcessResponse_merge_from_def ExecProcessResponse_merge_body_def by (intro plain_rules shrink_rules)

lemma ExecProcessResponse_codec:
  assumes ok: "ExecProcessResponse_ok rt m"
  shows "message_codec rt (ExecProcessResponse_merge_body rt) (ExecProcessResponse_write rt m) (fst (ExecProcessResponse_compute_size rt m)) (ExecProcessResponse_new rt) (ExecProcessResponse_fresh rt m)"
  unfolding ExecProcessResponse_write_def ExecProcessResponse_write_to_with_cached_sizes_def
  by (rule message_codecI,
      (rule codec_rules, rule ExecProcessResponse_body_shrinks, use ok in \<open>simp add: ExecProcessResponse_defs\<close>,
        simp add: ExecProcessResponse_merge_body_def, simp add: ExecProcessResponse_defs)+,
      rule codec_unknown, use ok in \<open>simp add: ExecProcessResponse_defs\<close>, simp add: ExecProcessResponse_defs add.assoc, simp add: ExecProcessResponse_defs)

lemma ExecProcessResponse_roundtrip:
  "ExecProcessResponse_ok rt m \<Longrightarrow> ExecProcessResponse_merge_from rt (ExecProcessResponse_new rt, written (ExecProcessResponse_write rt m)) = (Inr (), (ExecProcessResponse_fresh rt m, []))"
  unfolding ExecProcessResponse_merge_from_def by (rule message_codec_merge [OF ExecProcessResponse_body_shrinks ExecProcessResponse_codec])

lemma ExecProcessResponse_emits: "ExecProcessResponse_ok rt m \<Longrightarrow> ExecProcessResponse_write rt m os = (Inr (), os @ written (ExecProcessResponse_write rt m))"
  using message_codec_emits [OF ExecProcessResponse_codec] unfolding emits_def by blast

lemma StateContainerRequest_body_shrinks [shrink_rules]: "shrinks (StateContainerRequest_merge_body rt tag)"
  unfolding StateContainerRequest_merge_body_def by (intro shrink_rules)

lemma StateContainerRequest_merge_shrinks [shrink_rules]: "shrinks (StateContainerRequest_merge_from rt)"
  unfolding StateContainerRequest_merge_from_def by (intro shrink_rules)

lemma StateContainerRequest_merge_plain [plain_rules]: "plain (StateContainerRequest_merge_from rt)"
  unfolding StateContainerRequest_merge_from_def StateContainerRequest_merge_body_def by (intro plain_rules shrink_rules)

lemma StateContainerRequest_codec:
  assumes ok: "StateContainerRequest_ok rt m"
  shows "message_codec rt (StateContainerRequest_merge_body rt) (StateContainerRequest_write rt m) (fst (StateContainerRequest_compute_size rt m)) (StateContainerRequest_new rt) (StateContainerRequest_fresh rt m)"
  unfolding StateContainerRequest_write_def StateContainerRequest_write_to_with_cached_sizes_def
  by (rule message_codecI,
      (rule codec_rules, rule StateContainerRequest_body_shrinks, use ok in \<open>simp add: StateContainerRequest_defs\<close>,
        simp add: StateContainerRequest_merge_body_def, simp add: StateContainerRequest_defs)+,
      rule codec_unknown, use ok in \<open>simp add: StateContainerRequest_defs\<close>, simp add: StateContainerRequest_defs add.assoc, simp add: StateContainerRequest_defs)

lemma StateContainerRequest_roundtrip:
  "StateContainerRequest_ok rt m \<Longrightarrow> StateContainerRequest_merge_from rt (StateContainerRequest_new rt, written (StateContainerRequest_write rt m)) = (Inr (), (StateContainerRequest_fresh rt m, []))"
  unfolding StateContainerRequest_merge_from_def by (rule message_codec_merge [OF StateContainerRequest_body_shrinks StateContainerRequest_codec])

lemma StateContainerRequest_emits: "StateContainerRequest_ok rt m \<Longrightarrow> StateContainerRequest_write rt m os = (Inr (), os @ written (StateContainerRequest_write rt m))"
  using message_codec_emits [OF StateContainerRequest_codec] unfolding emits_def by blast

lemma StateContainerResponse_body_shrinks [shrink_rules]: "shrinks (StateContainerResponse_merge_body rt tag)"
  unfolding StateContainerResponse_merge_body_def by (intro shrink_rules)

lemma StateContainerResponse_merge_shrinks [shrink_rules]: "shrinks (StateContainerResponse_merge_from rt)"
  unfolding StateContainerResponse_merge_from_def by (intro shrink_rules)

lemma StateContainerResponse_merge_plain [plain_rules]: "plain (StateContainerResponse_merge_from rt)"
  unfolding StateContainerResponse_merge_from_def StateContainerResponse_merge_body_def by (intro plain_rules shrink_rules)

lemma StateContainerResponse_codec:
  assumes ok: "StateContainerResponse_ok rt m"
  shows "message_codec rt (StateContainerResponse_merge_body rt) (StateContainerResponse_write rt m) (fst (StateContainerResponse_compute_size rt m)) (StateContainerResponse_new rt) (StateContainerResponse_fresh rt m)"
  unfolding StateContainerResponse_write_def StateContainerResponse_write_to_with_cached_sizes_def
  by (rule message_codecI,
      (rule codec_rules, rule StateContainerResponse_body_shrinks, use ok in \<open>simp add: StateContainerResponse_defs\<close>,
        simp add: StateContainerResponse_merge_body_def, simp add: StateContainerResponse_defs)+,
      rule codec_unknown, use ok in \<open>simp add: StateContainerResponse_defs\<close>, simp add: StateContainerResponse_defs add.assoc, simp add: StateContainerResponse_defs)

lemma StateContainerResponse_roundtrip:
  "StateContainerResponse_ok rt m \<Longrightarrow> StateContainerResponse_merge_from rt (StateContainerResponse_new rt, written (StateContainerResponse_write rt m)) = (Inr (), (StateContainerResponse_fresh rt m, []))"
  unfolding StateContainerResponse_merge_from_def by (rule message_codec_merge [OF StateContainerResponse_body_shrinks StateContainerResponse_codec])

lemma StateContainerResponse_emits: "StateContainerResponse_ok rt m \<Longrightarrow> StateContainerResponse_write rt m os = (Inr (), os @ written (StateContainerResponse_write rt m))"
  using message_codec_emits [OF StateContainerResponse_codec] unfolding emits_def by blast

lemma CheckRequest_body_shrinks [shrink_rules]: "shrinks (CheckRequest_merge_body rt tag)"
  unfolding CheckRequest_merge_body_def by (intro shrink_rules)

lemma CheckRequest_merge_shrinks [shrink_rules]: "shrinks (CheckRequest_merge_from rt)"
  unfolding CheckRequest_merge_from_def by (intro shrink_rules)

lemma CheckRequest_merge_plain [plain_rules]: "plain (CheckRequest_merge_from rt)"
  unfolding CheckRequest_merge_from_def CheckRequest_merge_body_def by (intro plain_rules shrink_rules)

lemma CheckRequest_codec:
  assumes ok: "CheckRequest_ok rt m"
  shows "message_codec rt (CheckRequest_merge_body rt) (CheckRequest_write rt m) (fst (CheckRequest_compute_size rt m)) (CheckRequest_new rt) (CheckRequest_fresh rt m)"
  unfolding CheckRequest_write_def CheckRequest_write_to_with_cached_sizes_def
  by (rule message_codecI, rule codec_unknown, use ok in \<open>simp_all add: CheckRequest_defs\<close>)

lemma CheckRequest_roundtrip:
  "CheckRequest_ok rt m \<Longrightarrow> CheckRequest_merge_from rt (CheckRequest_new rt, written (CheckRequest_write rt m)) = (Inr (), (CheckRequest_fresh rt m, []))"
  unfolding CheckRequest_merge_from_def by (rule message_codec_merge [OF CheckRequest_body_shrinks CheckRequest_codec])

lemma CheckRequest_emits: "CheckRequest_ok rt m \<Longrightarrow> CheckRequest_write rt m os = (Inr (), os @ written (CheckRequest_write rt m))"
  using message_codec_emits [OF CheckRequest_codec] unfolding emits_def by blast

lemma CheckResponse_body_shrinks [shrink_rules]: "shrinks (CheckResponse_merge_body rt tag)"
  unfolding CheckResponse_merge_body_def by (intro shrink_rules)

lemma CheckResponse_merge_shrinks [shrink_rules]: "shrinks (CheckResponse_merge_from rt)"
  unfolding CheckResponse_merge_from_def by (intro shrink_rules)

lemma CheckResponse_merge_plain [plain_rules]: "plain (CheckResponse_merge_from rt)"
  unfolding CheckResponse_merge_from_def CheckResponse_merge_body_def by (intro plain_rules shrink_rules)

lemma CheckResponse_codec:
  assumes ok: "CheckResponse_ok rt m"
  shows "message_codec rt (CheckResponse_merge_body rt) (CheckResponse_write rt m) (fst (CheckResponse_compute_size rt m)) (CheckResponse_new rt) (CheckResponse_fresh rt m)"
  unfolding CheckResponse_write_def CheckResponse_write_to_with_cached_sizes_def
  by (rule message_codecI,
      (rule codec_rules, rule CheckResponse_body_shrinks, use ok in \<open>simp add: CheckResponse_defs\<close>,
        simp add: CheckResponse_merge_body_def, simp add: CheckResponse_defs)+,
      rule codec_unknown, use ok in \<open>simp add: CheckResponse_defs\<close>, simp add: CheckResponse_defs add.assoc, simp add: CheckResponse_defs)

lemma CheckResponse_roundtrip:
  "CheckResponse_ok rt m \<Longrightarrow> CheckResponse_merge_from rt (CheckResponse_new rt, written (CheckResponse_write rt m)) = (Inr (), (CheckResponse_fresh rt m, []))"
  unfolding CheckResponse_merge_from_def by (rule message_codec_merge [OF CheckResponse_body_shrinks CheckResponse_codec])

lemma CheckResponse_emits: "CheckResponse_ok rt m \<Longrightarrow> CheckResponse_write rt m os = (Inr (), os @ written (CheckResponse_write rt m))"
  using message_codec_emits [OF CheckResponse_codec] unfolding emits_def by blast

lemma GetMemInfoRequest_body_shrinks [shrink_rules]: "shrinks (GetMemInfoRequest_merge_body rt tag)"
  unfolding GetMemInfoRequest_merge_body_def by (intro shrink_rules)

lemma GetMemInfoRequest_merge_shrinks [shrink_rules]: "shrinks (GetMemInfoRequest_merge_from rt)"
  unfolding GetMemInfoRequest_merge_from_def by (intro shrink_rules)

lemma GetMemInfoRequest_merge_plain [plain_rules]: "plain (GetMemInfoRequest_merge_from rt)"
  unfolding GetMemInfoRequest_merge_from_def GetMemInfoRequest_merge_body_def by (intro plain_rules shrink_rules)

lemma GetMemInfoRequest_codec:
  assumes ok: "GetMemInfoRequest_ok rt m"
  shows "message_codec rt (GetMemInfoRequest_merge_body rt) (GetMemInfoRequest_write rt m) (fst (GetMemInfoRequest_compute_size rt m)) (GetMemInfoRequest_new rt) (GetMemInfoRequest_fresh rt m)"
  unfolding GetMemInfoRequest_write_def GetMemInfoRequest_write_to_with_cached_sizes_def
  by (rule message_codecI, rule codec_unknown, use ok in \<open>simp_all add: GetMemInfoRequest_defs\<close>)

lemma GetMemInfoRequest_roundtrip:
  "GetMemInfoRequest_ok rt m \<Longrightarrow> GetMemInfoRequest_merge_from rt (GetMemInfoRequest_new rt, written (GetMemInfoRequest_write rt m)) = (Inr (), (GetMemInfoRequest_fresh rt m, []))"
  unfolding GetMemInfoRequest_merge_from_def by (rule message_codec_merge [OF GetMemInfoRequest_body_shrinks GetMemInfoRequest_codec])

lemma GetMemInfoRequest_emits: "GetMemInfoRequest_ok rt m \<Longrightarrow> GetMemInfoRequest_write rt m os = (Inr (), os @ written (GetMemInfoRequest_write rt m))"
  using message_codec_emits [OF GetMemInfoRequest_codec] unfolding emits_def by blast

lemma GetMemInfoResponse_body_shrinks [shrink_rules]: "shrinks (GetMemInfoResponse_merge_body rt tag)"
  unfolding GetMemInfoResponse_merge_body_def by (intro shrink_rules)

lemma GetMemInfoResponse_merge_shrinks [shrink_rules]: "shrinks (GetMemInfoResponse_merge_from rt)"
  unfolding GetMemInfoResponse_merge_from_def by (intro shrink_rules)

lemma GetMemInfoResponse_merge_plain [plain_rules]: "plain (GetMemInfoResponse_merge_from rt)"
  unfolding GetMemInfoResponse_merge_from_def GetMemInfoResponse_merge_body_def by (intro plain_rules shrink_rules)

lemma GetMemInfoResponse_codec:
  assumes ok: "GetMemInfoResponse_ok rt m"
  shows "message_codec rt (GetMemInfoResponse_merge_body rt) (GetMemInfoResponse_write rt m) (fst (GetMemInfoResponse_compute_size rt m)) (GetMemInfoResponse_new rt) (GetMemInfoResponse_fresh rt m)"
  unfolding GetMemInfoResponse_write_def GetMemInfoResponse_write_to_with_cached_sizes_def
  by (rule message_codecI,
      (rule codec_rules, rule GetMemInfoResponse_body_shrinks, use ok in \<open>simp add: GetMemInfoResponse_defs\<close>,
        simp add: GetMemInfoResponse_merge_body_def, simp add: GetMemInfoResponse_defs)+,
      rule codec_unknown, use ok in \<open>simp add: GetMemInfoResponse_defs\<close>, simp add: GetMemInfoResponse_defs add.assoc, simp add: GetMemInfoResponse_defs)

lemma GetMemInfoResponse_roundtrip:
  "GetMemInfoResponse_ok rt m \<Longrightarrow> GetMemInfoResponse_merge_from rt (GetMemInfoResponse_new rt, written (GetMemInfoResponse_write rt m)) = (Inr (), (GetMemInfoResponse_fresh rt m, []))"
  unfolding GetMemInfoResponse_merge_from_def by (rule message_codec_merge [OF GetMemInfoResponse_body_shrinks GetMemInfoResponse_codec])

lemma GetMemInfoResponse_emits: "GetMemInfoResponse_ok rt m \<Longrightarrow> GetMemInfoResponse_write rt m os = (Inr (), os @ written (GetMemInfoResponse_write rt m))"
  using message_codec_emits [OF GetMemInfoResponse_codec] unfolding emits_def by blast

lemma GetContainerLogsRequest_body_shrinks [shrink_rules]: "shrinks (GetContainerLogsRequest_merge_body rt tag)"
  unfolding GetContainerLogsRequest_merge_body_def by (intro shrink_rules)

lemma GetContainerLogsRequest_merge_shrinks [shrink_rules]: "shrinks (GetContainerLogsRequest_merge_from rt)"
  unfolding GetContainerLogsRequest_merge_from_def by (intro shrink_rules)

lemma GetContainerLogsRequest_merge_plain [plain_rules]: "plain (GetContainerLogsRequest_merge_from rt)"
  unfolding GetContainerLogsRequest_merge_from_def GetContainerLogsRequest_merge_body_def by (intro plain_rules shrink_rules)

lemma GetContainerLogsRequest_codec:
  assumes ok: "GetContainerLogsRequest_ok rt m"
  shows "message_codec rt (GetContainerLogsRequest_merge_body rt) (GetContainerLogsRequest_write rt m) (fst (GetContainerLogsRequest_compute_size rt m)) (GetContainerLogsRequest_new rt) (GetContainerLogsRequest_fresh rt m)"
  unfolding GetContainerLogsRequest_write_def GetContainerLogsRequest_write_to_with_cached_sizes_def
  by (rule message_codecI,
      (rule codec_rules, rule GetContainerLogsRequest_body_shrinks, use ok in \<open>simp add: GetContainerLogsRequest_defs\<close>,
        simp add: GetContainerLogsRequest_merge_body_def, simp add: GetContainerLogsRequest_defs)+,
      rule codec_unknown, use ok in \<open>simp add: GetContainerLogsRequest_defs\<close>, simp add: GetContainerLogsRequest_defs add.assoc, simp add: GetContainerLogsRequest_defs)

lemma GetContainerLogsRequest_roundtrip:
  "GetContainerLogsRequest_ok rt m \<Longrightarrow> GetContainerLogsRequest_merge_from rt (GetContainerLogsRequest_new rt, written (GetContainerLogsRequest_write rt m)) = (Inr (), (GetContainerLogsRequest_fresh rt m, []))"
  unfolding GetContainerLogsRequest_merge_from_def by (rule message_codec_merge [OF GetContainerLogsRequest_body_shrinks GetContainerLogsRequest_codec])

lemma GetContainerLogsRequest_emits: "GetContainerLogsRequest_ok rt m \<Longrightarrow> GetContainerLogsRequest_write rt m os = (Inr (), os @ written (GetContainerLogsRequest_write rt m))"
  using message_codec_emits [OF GetContainerLogsRequest_codec] unfolding emits_def by blast

lemma GetContainerLogsResponse_body_shrinks [shrink_rules]: "shrinks (GetContainerLogsResponse_merge_body rt tag)"
  unfolding GetContainerLogsResponse_merge_body_def by (intro shrink_rules)

lemma GetContainerLogsResponse_merge_shrinks [shrink_rules]: "shrinks (GetContainerLogsResponse_merge_from rt)"
  unfolding GetContainerLogsResponse_merge_from_def by (intro shrink_rules)

lemma GetContainerLogsResponse_merge_plain [plain_rules]: "plain (GetContainerLogsResponse_merge_from rt)"
  unfolding GetContainerLogsResponse_merge_from_def GetContainerLogsResponse_merge_body_def by (intro plain_rules shrink_rules)

lemma GetContainerLogsResponse_codec:
  assumes ok: "GetContainerLogsResponse_ok rt m"
  shows "message_codec rt (GetContainerLogsResponse_merge_body rt) (GetContainerLogsResponse_write rt m) (fst (GetContainerLogsResponse_compute_size rt m)) (GetContainerLogsResponse_new rt) (GetContainerLogsResponse_fresh rt m)"
  unfolding GetContainerLogsResponse_write_def GetContainerLogsResponse_write_to_with_cached_sizes_def
  by (rule message_codecI,
      (rule codec_rules, rule GetContainerLogsResponse_body_shrinks, use ok in \<open>simp add: GetContainerLogsResponse_defs\<close>,
        simp add: GetContainerLogsResponse_merge_body_def, simp add: GetContainerLogsResponse_defs)+,
      rule codec_unknown, use ok in \<open>simp add: GetContainerLogsResponse_defs\<close>, simp add: GetContainerLogsResponse_defs add.assoc, simp add: GetContainerLogsResponse_defs)

lemma GetContainerLogsResponse_roundtrip:
  "GetContainerLogsResponse_ok rt m \<Longrightarrow> GetContainerLogsResponse_merge_from rt (GetContainerLogsResponse_new rt, written (GetContainerLogsResponse_write rt m)) = (Inr (), (GetContainerLogsResponse_fresh rt m, []))"
  unfolding GetContainerLogsResponse_merge_from_def by (rule message_codec_merge [OF GetContainerLogsResponse_body_shrinks GetContainerLogsResponse_codec])

lemma GetContainerLogsResponse_emits: "GetContainerLogsResponse_ok rt m \<Longrightarrow> GetContainerLogsResponse_write rt m os = (Inr (), os @ written (GetContainerLogsResponse_write rt m))"
  using message_codec_emits [OF GetContainerLogsResponse_codec] unfolding emits_def by blast

lemma ConfigureNetworkRequest_body_shrinks [shrink_rules]: "shrinks (ConfigureNetworkRequest_merge_body rt tag)"
  unfolding ConfigureNetworkRequest_merge_body_def by (intro shrink_rules)

lemma ConfigureNetworkRequest_merge_shrinks [shrink_rules]: "shrinks (ConfigureNetworkRequest_merge_from rt)"
  unfolding ConfigureNetworkRequest_merge_from_def by (intro shrink_rules)

lemma ConfigureNetworkRequest_merge_plain [plain_rules]: "plain (ConfigureNetworkRequest_merge_from rt)"
  unfolding ConfigureNetworkRequest_merge_from_def ConfigureNetworkRequest_merge_body_def by (intro plain_rules shrink_rules)

lemma ConfigureNetworkRequest_codec:
  assumes ok: "ConfigureNetworkRequest_ok rt m"
  shows "message_codec rt (ConfigureNetworkRequest_merge_body rt) (ConfigureNetworkRequest_write rt m) (fst (ConfigureNetworkRequest_compute_size rt m)) (ConfigureNetworkRequest_new rt) (ConfigureNetworkRequest_fresh rt m)"
  unfolding ConfigureNetworkRequest_write_def ConfigureNetworkRequest_write_to_with_cached_sizes_def
  by (rule message_codecI,
      (rule codec_rules, rule ConfigureNetworkRequest_body_shrinks, use ok in \<open>simp add: ConfigureNetworkRequest_defs\<close>,
        simp add: ConfigureNetworkRequest_merge_body_def, simp add: ConfigureNetworkRequest_defs)+,
      rule codec_unknown, use ok in \<open>simp add: ConfigureNetworkRequest_defs\<close>, simp add: ConfigureNetworkRequest_defs add.assoc, simp add: ConfigureNetworkRequest_defs)

lemma ConfigureNetworkRequest_roundtrip:
  "ConfigureNetworkRequest_ok rt m \<Longrightarrow> ConfigureNetworkRequest_merge_from rt (ConfigureNetworkRequest_new rt, written (ConfigureNetworkRequest_write rt m)) = (Inr (), (ConfigureNetworkRequest_fresh rt m, []))"
  unfolding ConfigureNetworkRequest_merge_from_def by (rule message_codec_merge [OF ConfigureNetworkRequest_body_shrinks ConfigureNetworkRequest_codec])

lemma ConfigureNetworkRequest_emits: "ConfigureNetworkRequest_ok rt m \<Longrightarrow> ConfigureNetworkRequest_write rt m os = (Inr (), os @ written (ConfigureNetworkRequest_write rt m))"
  using message_codec_emits [OF ConfigureNetworkRequest_codec] unfolding emits_def by blast

lemma ConfigureNetworkResponse_body_shrinks [shrink_rules]: "shrinks (ConfigureNetworkResponse_merge_body rt tag)"
  unfolding ConfigureNetworkResponse_merge_body_def by (intro shrink_rules)

lemma ConfigureNetworkResponse_merge_shrinks [shrink_rules]: "shrinks (ConfigureNetworkResponse_merge_from rt)"
  unfolding ConfigureNetworkResponse_merge_from_def by (intro shrink_rules)

lemma ConfigureNetworkResponse_merge_plain [plain_rules]: "plain (ConfigureNetworkResponse_merge_from rt)"
  unfolding ConfigureNetworkResponse_merge_from_def ConfigureNetworkResponse_merge_body_def by (intro plain_rules shrink_rules)

lemma ConfigureNetworkResponse_codec:
  assumes ok: "ConfigureNetworkResponse_ok rt m"
  shows "message_codec rt (ConfigureNetworkResponse_merge_body rt) (ConfigureNetworkResponse_write rt m) (fst (ConfigureNetworkResponse_compute_size rt m)) (ConfigureNetworkResponse_new rt) (ConfigureNetworkResponse_fresh rt m)"
  unfolding ConfigureNetworkResponse_write_def ConfigureNetworkResponse_write_to_with_cached_sizes_def
  by (rule message_codecI, rule codec_unknown, use ok in \<open>simp_all add: ConfigureNetworkResponse_defs\<close>)

lemma ConfigureNetworkResponse_roundtrip:
  "ConfigureNetworkResponse_ok rt m \<Longrightarrow> ConfigureNetworkResponse_merge_from rt (ConfigureNetworkResponse_new rt, written (ConfigureNetworkResponse_write rt m)) = (Inr (), (ConfigureNetworkResponse_fresh rt m, []))"
  unfolding ConfigureNetworkResponse_merge_from_def by (rule message_codec_merge [OF ConfigureNetworkResponse_body_shrinks ConfigureNetworkResponse_codec])

lemma ConfigureNetworkResponse_emits: "ConfigureNetworkResponse_ok rt m \<Longrightarrow> ConfigureNetworkResponse_write rt m os = (Inr (), os @ written (ConfigureNetworkResponse_write rt m))"
  using message_codec_emits [OF ConfigureNetworkResponse_codec] unfolding emits_def by blast

lemma AdoptContainerRequest_body_shrinks [shrink_rules]: "shrinks (AdoptContainerRequest_merge_body rt tag)"
  unfolding AdoptContainerRequest_merge_body_def by (intro shrink_rules)

lemma AdoptContainerRequest_merge_shrinks [shrink_rules]: "shrinks (AdoptContainerRequest_merge_from rt)"
  unfolding AdoptContainerRequest_merge_from_def by (intro shrink_rules)

lemma AdoptContainerRequest_merge_plain [plain_rules]: "plain (AdoptContainerRequest_merge_from rt)"
  unfolding AdoptContainerRequest_merge_from_def AdoptContainerRequest_merge_body_def by (intro plain_rules shrink_rules)

lemma AdoptContainerRequest_codec:
  assumes ok: "AdoptContainerRequest_ok rt m"
  shows "message_codec rt (AdoptContainerRequest_merge_body rt) (AdoptContainerRequest_write rt m) (fst (AdoptContainerRequest_compute_size rt m)) (AdoptContainerRequest_new rt) (AdoptContainerRequest_fresh rt m)"
  unfolding AdoptContainerRequest_write_def AdoptContainerRequest_write_to_with_cached_sizes_def
  by (rule message_codecI,
      (rule codec_rules, rule AdoptContainerRequest_body_shrinks, use ok in \<open>simp add: AdoptContainerRequest_defs\<close>,
        simp add: AdoptContainerRequest_merge_body_def, simp add: AdoptContainerRequest_defs)+,
      rule codec_unknown, use ok in \<open>simp add: AdoptContainerRequest_defs\<close>, simp add: AdoptContainerRequest_defs add.assoc, simp add: AdoptContainerRequest_defs)

lemma AdoptContainerRequest_roundtrip:
  "AdoptContainerRequest_ok rt m \<Longrightarrow> AdoptContainerRequest_merge_from rt (AdoptContainerRequest_new rt, written (AdoptContainerRequest_write rt m)) = (Inr (), (AdoptContainerRequest_fresh rt m, []))"
  unfolding AdoptContainerRequest_merge_from_def by (rule message_codec_merge [OF AdoptContainerRequest_body_shrinks AdoptContainerRequest_codec])

lemma AdoptContainerRequest_emits: "AdoptContainerRequest_ok rt m \<Longrightarrow> AdoptContainerRequest_write rt m os = (Inr (), os @ written (AdoptContainerRequest_write rt m))"
  using message_codec_emits [OF AdoptContainerRequest_codec] unfolding emits_def by blast

lemma AdoptContainerResponse_body_shrinks [shrink_rules]: "shrinks (AdoptContainerResponse_merge_body rt tag)"
  unfolding AdoptContainerResponse_merge_body_def by (intro shrink_rules)

lemma AdoptContainerResponse_merge_shrinks [shrink_rules]: "shrinks (AdoptContainerResponse_merge_from rt)"
  unfolding AdoptContainerResponse_merge_from_def by (intro shrink_rules)

lemma AdoptContainerResponse_merge_plain [plain_rules]: "plain (AdoptContainerResponse_merge_from rt)"
  unfolding AdoptContainerResponse_merge_from_def AdoptContainerResponse_merge_body_def by (intro plain_rules shrink_rules)

lemma AdoptContainerResponse_codec:
  assumes ok: "AdoptContainerResponse_ok rt m"
  shows "message_codec rt (AdoptContainerResponse_merge_body rt) (AdoptContainerResponse_write rt m) (fst (AdoptContainerResponse_compute_size rt m)) (AdoptContainerResponse_new rt) (AdoptContainerResponse_fresh rt m)"
  unfolding AdoptContainerResponse_write_def AdoptContainerResponse_write_to_with_cached_sizes_def
  by (rule message_codecI,
      (rule codec_rules, rule AdoptContainerResponse_body_shrinks, use ok in \<open>simp add: AdoptContainerResponse_defs\<close>,
        simp add: AdoptContainerResponse_merge_body_def, simp add: AdoptContainerResponse_defs)+,
      rule codec_unknown, use ok in \<open>simp add: AdoptContainerResponse_defs\<close>, simp add: AdoptContainerResponse_defs add.assoc, simp add: AdoptContainerResponse_defs)

lemma AdoptContainerResponse_roundtrip:
  "AdoptContainerResponse_ok rt m \<Longrightarrow> AdoptContainerResponse_merge_from rt (AdoptContainerResponse_new rt, written (AdoptContainerResponse_write rt m)) = (Inr (), (AdoptContainerResponse_fresh rt m, []))"
  unfolding AdoptContainerResponse_merge_from_def by (rule message_codec_merge [OF AdoptContainerResponse_body_shrinks AdoptContainerResponse_codec])

lemma AdoptContainerResponse_emits: "AdoptContainerResponse_ok rt m \<Longrightarrow> AdoptContainerResponse_write rt m os = (Inr (), os @ written (AdoptContainerResponse_write rt m))"
  using message_codec_emits [OF AdoptContainerResponse_codec] unfolding emits_def by blast

end

end
