(* ===== verification/WireFormat.thy ===== *)
theory WireFormat
  imports Protobuf
begin

text \<open>
  The wire format of the protobuf documentation as a runtime: base-128 varints, tags made of field
  number and wire type, length-delimited strings, bytes and messages. It shows that what
  \<open>protobuf_runtime\<close> asks of the third-party crate can be had, and serves as the concrete runtime
  of the examples. Groups, which this interface has none of, are refused.
\<close>

lemma unat_word_less: "unat (w :: 'a::len word) < 2 ^ LENGTH('a)"
  by (rule unsigned_less)

text \<open>An \<^verbatim>\<open>i32\<close> is written sign-extended to 64 bits; cutting it off again gives it back.\<close>

lemma ucast_scast: "ucast (scast (i :: u32) :: u64) = i"
proof (rule bit_word_eqI)
  fix n assume "n < LENGTH(32)"
  then have "n = 31 \<or> n < 31" by auto
  then show "bit (ucast (scast i :: u64) :: u32) n = bit i n" by (auto simp: bit_simps min_def)
qed

section \<open>Varints\<close>

fun varint :: "nat \<Rightarrow> bytes" where
  "varint n = (if n < 128 then [of_nat n] else of_nat (n mod 128 + 128) # varint (n div 128))"

declare varint.simps [simp del]

fun get_varint :: "nat \<Rightarrow> bytes \<Rightarrow> (nat \<times> bytes) option" where
  "get_varint k [] = None"
| "get_varint 0 (b # bs) = None"
| "get_varint (Suc k) (b # bs) =
     (if unat b < 128 then Some (unat b, bs)
      else map_option (\<lambda>(n, rest). (unat b - 128 + 128 * n, rest)) (get_varint k bs))"

lemma get_varint_varint: "n < 128 ^ k \<Longrightarrow> 0 < k \<Longrightarrow> get_varint k (varint n @ rest) = Some (n, rest)"
proof (induction k arbitrary: n)
  case (Suc k)
  show ?case
  proof (cases "n < 128")
    case True
    then show ?thesis by (simp add: varint.simps [of n] unat_of_nat)
  next
    case False
    have "n div 128 < 128 ^ k" using Suc.prems by (simp add: less_mult_imp_div_less)
    moreover have "unat (of_nat (n mod 128) + 128 :: u8) = n mod 128 + 128"
      by (simp add: unat_word_ariths unat_of_nat take_bit_eq_mod)
    moreover have "0 < k" using False Suc.prems(1) by (cases k) simp_all
    ultimately show ?thesis using False Suc.IH by (simp add: varint.simps [of n])
  qed
qed simp

lemma get_varint_shorter: "get_varint k is = Some (n, rest) \<Longrightarrow> length rest < length is"
  by (induction k "is" arbitrary: n rule: get_varint.induct) (auto split: if_splits)

definition read_varint :: "(bytes, nat) prog" where
  "read_varint is = (case get_varint 10 is of None \<Rightarrow> (Inl (msg ''unexpected end of varint''), is) | Some (n, rest) \<Rightarrow> (Inr n, rest))"

lemma read_varint_varint: "n < 2 ^ 64 \<Longrightarrow> read_varint (varint n @ rest) = (Inr n, rest)"
  by (simp add: read_varint_def get_varint_varint)

lemma consumes_read_varint: "consumes read_varint"
  by (auto simp: consumes_def read_varint_def less_imp_le dest: get_varint_shorter split: option.split)

lemma plain_read_varint: "plain read_varint"
  by (auto simp: plain_def read_varint_def msg_def split: option.split)

section \<open>Readers and writers\<close>

definition wire_read_tag :: "(bytes, u32 option) prog" where
  "wire_read_tag is = (if is = [] then (Inr None, []) else
     bindE read_varint (\<lambda>n. if (of_nat n :: u32) = 0 then failE (msg ''incorrect tag'') else retE (Some (of_nat n))) is)"

definition wire_read_bytes :: "(bytes, bytes) prog" where
  "wire_read_bytes = bindE read_varint (\<lambda>n is.
     let len = unat (of_nat n :: u32) in
     if length is < len then (Inl (msg ''unexpected end of file''), is) else (Inr (take len is), drop len is))"

definition wire_read_string :: "(bytes, string) prog" where
  "wire_read_string = bindE wire_read_bytes (\<lambda>b. if utf8 (bytes_str b) then retE (bytes_str b) else failE (msg ''invalid UTF-8''))"

definition wire_read_num :: "(nat \<Rightarrow> 'a) \<Rightarrow> (bytes, 'a) prog" where
  "wire_read_num f = bindE read_varint (\<lambda>n. retE (f n))"

definition wire_write :: "u32 \<Rightarrow> u32 \<Rightarrow> bytes \<Rightarrow> (bytes, unit) prog" where
  "wire_write n wt b = modE (\<lambda>os. os @ varint (unat (n * 8 + wt)) @ b)"

definition delimited :: "bytes \<Rightarrow> bytes" where
  "delimited b = varint (unat (of_nat (length b) :: u32)) @ b"

text \<open>An unknown field is kept with its tag, as the bytes that were read.\<close>

type_synonym wire_unknown = "(u32 \<times> bytes) list"

definition wire_read_unknown :: "u32 \<Rightarrow> (wire_unknown \<times> bytes, unit) prog" where
  "wire_read_unknown tag s =
     (let keep = (\<lambda>raw rest. (Inr (), (fst s @ [(tag, raw)], rest)));
          fixed = (\<lambda>n. if length (snd s) < n then (Inl (msg ''unexpected end of file''), s)
                        else keep (take n (snd s)) (drop n (snd s)))
      in if tag mod 8 = 0 then
           (case read_varint (snd s) of
              (Inl e, is) \<Rightarrow> (Inl e, (fst s, is))
            | (Inr n, is) \<Rightarrow> keep (varint n) is)
         else if tag mod 8 = 1 then fixed 8
         else if tag mod 8 = 2 then
           (case wire_read_bytes (snd s) of
              (Inl e, is) \<Rightarrow> (Inl e, (fst s, is))
            | (Inr b, is) \<Rightarrow> keep (delimited b) is)
         else if tag mod 8 = 5 then fixed 4
         else (Inl (msg ''incorrect tag''), s))"

definition wire_unknown_bytes :: "wire_unknown \<Rightarrow> bytes" where
  "wire_unknown_bytes u = concat (map (\<lambda>(tag, raw). varint (unat tag) @ raw) u)"

definition wire :: "wire_unknown pb_runtime" where
  "wire = \<lparr>rt_read_raw_tag_or_eof = wire_read_tag,
           rt_read_string = wire_read_string,
           rt_read_bytes = wire_read_bytes,
           rt_read_bool = wire_read_num (\<lambda>n. n \<noteq> 0),
           rt_read_uint32 = wire_read_num of_nat,
           rt_read_uint64 = wire_read_num of_nat,
           rt_read_enum_or_unknown = wire_read_num of_nat,
           rt_read_limited = wire_read_bytes,
           rt_read_unknown_or_skip_group = wire_read_unknown,
           rt_write_string = (\<lambda>n s. wire_write n 2 (delimited (str_bytes s))),
           rt_write_bytes = (\<lambda>n b. wire_write n 2 (delimited b)),
           rt_write_bool = (\<lambda>n c. wire_write n 0 [if c then 1 else 0]),
           rt_write_uint32 = (\<lambda>n x. wire_write n 0 (varint (unat x))),
           rt_write_uint64 = (\<lambda>n x. wire_write n 0 (varint (unat x))),
           rt_write_enum = (\<lambda>n x. wire_write n 0 (varint (unat (scast x :: u64)))),
           rt_write_header = (\<lambda>n len. wire_write n 2 (varint (unat len))),
           rt_write_unknown_fields = (\<lambda>u. modE (\<lambda>os. os @ wire_unknown_bytes u)),
           rt_string_size = (\<lambda>n s. of_nat (1 + length (delimited (str_bytes s)))),
           rt_bytes_size = (\<lambda>n b. of_nat (1 + length (delimited b))),
           rt_uint32_size = (\<lambda>n x. of_nat (1 + length (varint (unat x)))),
           rt_uint64_size = (\<lambda>n x. of_nat (1 + length (varint (unat x)))),
           rt_int32_size = (\<lambda>n x. of_nat (1 + length (varint (unat (scast x :: u64))))),
           rt_compute_raw_varint64_size = (\<lambda>x. of_nat (length (varint (unat x)))),
           rt_unknown_fields_size = (\<lambda>u. of_nat (length (wire_unknown_bytes u))),
           rt_new_unknown_fields = [],
           rt_clear_special = (\<lambda>sf. sf\<lparr>sf_unknown_fields := []\<rparr>)\<rparr>"

section \<open>The format keeps the laws\<close>

lemma wire_sel [simp]:
  "rt_read_raw_tag_or_eof wire = wire_read_tag"
  "rt_read_string wire = wire_read_string"
  "rt_read_bytes wire = wire_read_bytes"
  "rt_read_bool wire = wire_read_num (\<lambda>n. n \<noteq> 0)"
  "rt_read_uint32 wire = wire_read_num of_nat"
  "rt_read_uint64 wire = wire_read_num of_nat"
  "rt_read_enum_or_unknown wire = wire_read_num of_nat"
  "rt_read_limited wire = wire_read_bytes"
  "rt_read_unknown_or_skip_group wire = wire_read_unknown"
  "rt_write_string wire = (\<lambda>n s. wire_write n 2 (delimited (str_bytes s)))"
  "rt_write_bytes wire = (\<lambda>n b. wire_write n 2 (delimited b))"
  "rt_write_bool wire = (\<lambda>n c. wire_write n 0 [if c then 1 else 0])"
  "rt_write_uint32 wire = (\<lambda>n x. wire_write n 0 (varint (unat x)))"
  "rt_write_uint64 wire = (\<lambda>n x. wire_write n 0 (varint (unat x)))"
  "rt_write_enum wire = (\<lambda>n x. wire_write n 0 (varint (unat (scast x :: u64))))"
  "rt_write_header wire = (\<lambda>n len. wire_write n 2 (varint (unat len)))"
  "rt_write_unknown_fields wire = (\<lambda>u. modE (\<lambda>os. os @ wire_unknown_bytes u))"
  "rt_string_size wire = (\<lambda>n s. of_nat (1 + length (delimited (str_bytes s))))"
  "rt_bytes_size wire = (\<lambda>n b. of_nat (1 + length (delimited b)))"
  "rt_uint32_size wire = (\<lambda>n x. of_nat (1 + length (varint (unat x))))"
  "rt_uint64_size wire = (\<lambda>n x. of_nat (1 + length (varint (unat x))))"
  "rt_int32_size wire = (\<lambda>n x. of_nat (1 + length (varint (unat (scast x :: u64)))))"
  "rt_compute_raw_varint64_size wire = (\<lambda>x. of_nat (length (varint (unat x))))"
  "rt_unknown_fields_size wire = (\<lambda>u. of_nat (length (wire_unknown_bytes u)))"
  "rt_new_unknown_fields wire = []"
  "rt_clear_special wire = (\<lambda>sf. sf\<lparr>sf_unknown_fields := []\<rparr>)"
  by (simp_all add: wire_def)

lemma written_wire_write [simp]: "written (wire_write n wt b) = varint (unat (n * 8 + wt)) @ b"
  and emits_wire_write [simp]: "emits (wire_write n wt b)"
  by (simp_all add: written_def emits_def wire_write_def modE_def)

lemma tag_value:
  assumes "field_number n" and "wt < 8" shows "0 < unat (n * 8 + wt)" and "unat (n * 8 + wt) < 128"
proof -
  have "unat n < 16" and "unat n > 0" using assms(1) by (auto simp: field_number_def word_less_nat_alt)
  moreover have "unat wt < 8" using assms(2) by (simp add: word_less_nat_alt)
  ultimately show "0 < unat (n * 8 + wt)" and "unat (n * 8 + wt) < 128"
    by (simp_all add: unat_word_ariths)
qed

lemma varint_tag: "field_number n \<Longrightarrow> wt < 8 \<Longrightarrow> varint (unat (n * 8 + wt)) = [of_nat (unat (n * 8 + wt))]"
  using tag_value by (subst varint.simps) simp

lemma wire_tag_read:
  assumes "field_number n" and "wt < 8"
  shows "wire_read_tag (varint (unat (n * 8 + wt)) @ rest) = (Inr (Some (n * 8 + wt)), rest)"
proof -
  note v = tag_value [OF assms]
  have "read_varint (varint (unat (n * 8 + wt)) @ rest) = (Inr (unat (n * 8 + wt)), rest)"
    using v by (intro read_varint_varint) simp
  moreover have "varint (unat (n * 8 + wt)) \<noteq> []" by (simp add: varint_tag [OF assms])
  moreover have "n * 8 + wt \<noteq> 0" using v(1) by auto
  ultimately show ?thesis by (simp add: wire_read_tag_def bindE_def retE_def)
qed

lemma wire_field:
  assumes "field_number n" and "wt < 8" and "\<And>rest. rd (b @ rest) = (Inr v, rest)"
  shows "field_law (wire) (n * 8 + wt) rd (wire_write n wt b) (of_nat (1 + length b)) v"
  unfolding field_law_def
proof (intro conjI exI [of _ b] allI)
  show "of_nat (1 + length b) = of_nat (length (written (wire_write n wt b)))" by (simp add: varint_tag assms)
  show "rt_read_raw_tag_or_eof wire (written (wire_write n wt b) @ rest) = (Inr (Some (n * 8 + wt)), b @ rest)" for rest
    using wire_tag_read [OF assms(1,2)] by simp
qed (use assms in simp_all)

lemma read_delimited:
  assumes "length b < 2 ^ 32" shows "wire_read_bytes (delimited b @ rest) = (Inr b, rest)"
proof -
  have "unat (of_nat (length b) :: u32) = length b" using assms by (simp add: unat_of_nat take_bit_eq_mod)
  then show ?thesis using assms
    by (simp add: wire_read_bytes_def delimited_def bindE_def read_varint_varint Let_def)
qed

lemma bytes_str_bytes [simp]: "bytes_str (str_bytes s) = s"
  by (simp add: bytes_str_def str_bytes_def comp_def unat_of_nat)

lemma read_delimited_string: "utf8 s \<Longrightarrow> length s < 2 ^ 32 \<Longrightarrow> wire_read_string (delimited (str_bytes s) @ rest) = (Inr s, rest)"
  by (simp add: wire_read_string_def bindE_def read_delimited retE_def)

lemma read_num: "n < 2 ^ 64 \<Longrightarrow> wire_read_num f (varint n @ rest) = (Inr (f n), rest)"
  by (simp add: wire_read_num_def bindE_def read_varint_varint retE_def)

lemma wire_num_field:
  assumes "field_number n" and "k < 2 ^ 64" and "f k = v"
  shows "field_law wire (n * 8) (wire_read_num f) (wire_write n 0 (varint k)) (of_nat (1 + length (varint k))) v"
proof -
  have "wire_read_num f (varint k @ rest) = (Inr v, rest)" for rest using read_num [OF assms(2), of f rest] assms(3) by simp
  from wire_field [OF assms(1), of 0, OF _ this] show ?thesis by simp
qed

lemma consumes_bindE: "consumes p \<Longrightarrow> (\<And>x. consumes (q x)) \<Longrightarrow> consumes (bindE p q)"
  unfolding consumes_def by (simp add: snd_bindE split: sum.split) (metis le_trans)

lemma consumes_basic: "consumes (retE x)" "consumes (failE e)"
  by (simp_all add: consumes_def retE_def failE_def)

lemma consumes_wire:
  "consumes wire_read_tag" "consumes wire_read_bytes" "consumes wire_read_string" "consumes (wire_read_num f)"
proof -
  show b: "consumes wire_read_bytes"
    unfolding wire_read_bytes_def by (rule consumes_bindE [OF consumes_read_varint]) (simp add: consumes_def Let_def)
  show "consumes wire_read_string"
    unfolding wire_read_string_def by (rule consumes_bindE [OF b]) (simp add: consumes_basic)
  show "consumes (wire_read_num f)"
    unfolding wire_read_num_def by (rule consumes_bindE [OF consumes_read_varint]) (simp add: consumes_basic)
  have "consumes (bindE read_varint (\<lambda>n. if (of_nat n :: u32) = 0 then failE (msg ''incorrect tag'') else retE (Some (of_nat n :: u32))))"
    by (rule consumes_bindE [OF consumes_read_varint]) (simp add: consumes_basic)
  then show "consumes wire_read_tag" by (simp add: consumes_def wire_read_tag_def)
qed

lemma plain_wire:
  "plain wire_read_tag" "plain wire_read_bytes" "plain wire_read_string" "plain (wire_read_num f)"
proof -
  have p: "plain (\<lambda>is. if length is < k then (Inl (msg c), is) else (Inr (take k is), drop k is))" for k :: nat and c
    by (simp add: plain_def msg_def)
  show b: "plain wire_read_bytes"
    unfolding wire_read_bytes_def Let_def by (rule plain_bindE [OF plain_read_varint p])
  show "plain wire_read_string"
    unfolding wire_read_string_def by (intro plain_rules b)
  show "plain (wire_read_num f)"
    unfolding wire_read_num_def by (intro plain_rules plain_read_varint)
  have "plain (bindE read_varint (\<lambda>n. if (of_nat n :: u32) = 0 then failE (msg ''incorrect tag'') else retE (Some (of_nat n :: u32))))"
    by (intro plain_rules plain_read_varint)
  then show "plain wire_read_tag" by (simp add: plain_def wire_read_tag_def)
qed

lemma wire_tag_progress:
  assumes "wire_read_tag is = (Inr (Some tag), is')" shows "length is' < length is"
  using assms get_varint_shorter [of 10 "is" _ is']
  by (auto simp: wire_read_tag_def bindE_def read_varint_def retE_def failE_def split: if_splits option.splits)

lemma wire_window:
  assumes "wire_read_bytes is = (Inr w, rest)" shows "length w + length rest \<le> length is"
proof -
  obtain n is1 where v: "read_varint is = (Inr n, is1)" and w: "w = take (unat (of_nat n :: u32)) is1" "rest = drop (unat (of_nat n :: u32)) is1"
    using assms unfolding wire_read_bytes_def by (elim bindE_InrE) (auto simp: Let_def split: if_splits)
  have "length is1 \<le> length is" using consumes_read_varint v by (simp add: consumes_def) (metis snd_conv)
  then show ?thesis using w by simp
qed

lemma wire_unknown_laws: "shrinks (wire_read_unknown tag)" "plain (wire_read_unknown tag)"
proof -
  have v: "length (snd (read_varint is)) \<le> length is" and b: "length (snd (wire_read_bytes is)) \<le> length is" for "is"
    using consumes_read_varint consumes_wire(2) by (simp_all add: consumes_def)
  show "shrinks (wire_read_unknown tag)"
  proof (rule shrinksI)
    fix s
    show "length (snd (snd (wire_read_unknown tag s))) \<le> length (snd s)"
      using v [of "snd s"] b [of "snd s"]
      by (cases "read_varint (snd s)"; cases "wire_read_bytes (snd s)"; cases "fst (read_varint (snd s))"; cases "fst (wire_read_bytes (snd s))")
        (simp_all add: wire_read_unknown_def Let_def)
  qed
  show "plain (wire_read_unknown tag)"
    unfolding plain_def
  proof (intro allI impI)
    fix s e assume e: "fst (wire_read_unknown tag s) = Inl e"
    show "\<exists>cs n. e = Fail cs n"
      using e plainD [OF plain_read_varint, of "snd s"] plainD [OF plain_wire(2), of "snd s"]
      by (auto simp: wire_read_unknown_def Let_def msg_def split: if_splits prod.splits sum.splits)
  qed
qed

lemma wire_laws: "protobuf_runtime wire"
proof
  fix n x y s b i c "is" is' tag w rest sf os
  show "rt_read_raw_tag_or_eof wire [] = (Inr None, [])" by (simp add: wire_read_tag_def)
  show "rt_read_raw_tag_or_eof wire is = (Inr (Some tag), is') \<Longrightarrow> length is' < length is"
    using wire_tag_progress by simp
  show "field_law wire (n * 8 + 2) (rt_read_string wire) (rt_write_string wire n s) (rt_string_size wire n s) s"
    if "field_number n" "utf8 s" "length s < 2 ^ 32"
    using wire_field [OF that(1), of 2 wire_read_string "delimited (str_bytes s)" s] read_delimited_string that by simp
  show "field_law wire (n * 8 + 2) (rt_read_bytes wire) (rt_write_bytes wire n b) (rt_bytes_size wire n b) b"
    if "field_number n" "length b < 2 ^ 32"
    using wire_field [OF that(1), of 2 wire_read_bytes "delimited b" b] read_delimited that by simp
  show "field_law wire (n * 8) (rt_read_bool wire) (rt_write_bool wire n c) (1 + 1) c" if "field_number n"
    using wire_num_field [OF that, of "of_bool c" "\<lambda>n. n \<noteq> 0" c] by (cases c) (simp_all add: varint.simps [of 0] varint.simps [of "Suc 0"])
  show "field_law wire (n * 8) (rt_read_uint32 wire) (rt_write_uint32 wire n x) (rt_uint32_size wire n x) x" if "field_number n"
    using wire_num_field [OF that, of "unat x" of_nat x] unat_word_less [of x] by simp
  show "field_law wire (n * 8) (rt_read_uint64 wire) (rt_write_uint64 wire n y) (rt_uint64_size wire n y) y" if "field_number n"
    using wire_num_field [OF that, of "unat y" of_nat y] unat_word_less [of y] by simp
  show "consumes (rt_read_raw_tag_or_eof wire)" "consumes (rt_read_string wire)" "consumes (rt_read_bytes wire)" "consumes (rt_read_bool wire)"
      "consumes (rt_read_uint32 wire)" "consumes (rt_read_uint64 wire)" "consumes (rt_read_enum_or_unknown wire)"
      "consumes (rt_read_limited wire)" "shrinks (rt_read_unknown_or_skip_group wire tag)"
    by (simp_all add: consumes_wire wire_unknown_laws)
  show "plain (rt_read_raw_tag_or_eof wire)" "plain (rt_read_string wire)" "plain (rt_read_bytes wire)"
      "plain (rt_read_bool wire)" "plain (rt_read_uint32 wire)" "plain (rt_read_uint64 wire)"
      "plain (rt_read_enum_or_unknown wire)" "plain (rt_read_limited wire)"
      "plain (rt_read_unknown_or_skip_group wire tag)"
    by (simp_all add: plain_wire wire_unknown_laws)
  show "rt_read_limited wire is = (Inr w, rest) \<Longrightarrow> length w + length rest \<le> length is"
    using wire_window by simp
  show "rt_write_unknown_fields wire (rt_new_unknown_fields wire) os = (Inr (), os)"
      "rt_unknown_fields_size wire (rt_new_unknown_fields wire) = 0"
      "sf_unknown_fields (rt_clear_special wire sf) = rt_new_unknown_fields wire"
    by (simp_all add: wire_unknown_bytes_def modE_def)
  show "field_law wire (n * 8) (rt_read_enum_or_unknown wire) (rt_write_enum wire n i) (rt_int32_size wire n i) i" if "field_number n"
    using wire_num_field [OF that, of "unat (scast i :: u64)" of_nat i] unat_word_less [of "scast i :: u64"] by (simp add: ucast_scast)
  show "emits (rt_write_header wire n (of_nat (length w))) \<and>
          of_nat (length (written (rt_write_header wire n (of_nat (length w))))) =
            1 + rt_compute_raw_varint64_size wire (of_nat (length w)) \<and>
          (\<exists>e. \<forall>rest. rt_read_raw_tag_or_eof wire (written (rt_write_header wire n (of_nat (length w))) @ w @ rest) =
                       (Inr (Some (n * 8 + 2)), e @ w @ rest) \<and>
                     rt_read_limited wire (e @ w @ rest) = (Inr w, rest))"
    if "field_number n" "length w < 2 ^ 32"
  proof -
    let ?e = "varint (unat (of_nat (length w) :: u32))"
    have "unat (of_nat (length w) :: u64) = unat (of_nat (length w) :: u32)"
      using that(2) by (simp add: unat_of_nat take_bit_eq_mod)
    moreover have "wire_read_tag (varint (unat (n * 8 + 2)) @ ?e @ w @ rest) = (Inr (Some (n * 8 + 2)), ?e @ w @ rest)" for rest
      by (rule wire_tag_read [OF that(1)]) simp
    moreover have "wire_read_bytes (?e @ w @ rest) = (Inr w, rest)" for rest
      using read_delimited [OF that(2), of rest] by (simp add: delimited_def)
    ultimately show ?thesis using that(1)
      by (auto simp: varint_tag intro!: exI [of _ ?e])
  qed
qed

interpretation wire: protobuf_runtime wire
  by (rule wire_laws)

end
