(* ===== verification/Ttrpc.thy ===== *)
theory Ttrpc
  imports GuestMessages WireFormat
begin

text \<open>
  \<^verbatim>\<open>generated/agent_ttrpc.rs\<close>: the clients, the handlers of the methods and the tables a server is given.
  The messages travel as bytes. The ttrpc crate is third-party code: its macros parse, call and serialise as
  documented (\<open>request_handler\<close>, \<open>client_request\<close>), how it reports its own errors is a parameter
  (\<open>ttrpc_runtime\<close>), and so is the connection, which has to deliver a request to the method that is
  registered under its name (\<open>delivers\<close>).

  \<open>rpc_transparent\<close> and its instances show that a call through the generated client has the result of
  the call of the service: both messages survive the wire, and every method reaches its own handler.
\<close>

section \<open>The runtime\<close>

datatype ttrpc_code = NOT_FOUND | UNIMPLEMENTED | OtherCode nat

datatype ttrpc_error = RpcStatus ttrpc_code string | Others string | NoAnswer

type_synonym ('s, 'a) rpc = "'s \<Rightarrow> (ttrpc_error + 'a) \<times> 's"

text \<open>
  How an error of parsing or writing is reported, in which form the error of a service, or that it does not
  answer, reaches the client, and how an error is printed.
\<close>

record ttrpc_runtime =
  tt_parse_error :: "err \<Rightarrow> ttrpc_error"
  tt_write_error :: "err \<Rightarrow> ttrpc_error"
  tt_service_error :: "ttrpc_error \<Rightarrow> ttrpc_error"
  tt_show :: "ttrpc_error \<Rightarrow> string"

text \<open>\<^verbatim>\<open>async_request_handler!\<close>: the request is parsed, the service called, the response serialised.\<close>

definition request_handler :: "ttrpc_runtime \<Rightarrow> 'q \<Rightarrow> ('q \<times> bytes, unit) prog \<Rightarrow> ('p \<Rightarrow> (bytes, unit) prog) \<Rightarrow>
    ('q \<Rightarrow> ('s, 'p) rpc) \<Rightarrow> bytes \<Rightarrow> ('s, bytes) rpc" where
  "request_handler tt new merge write call payload s =
     (case merge (new, payload) of
        (Inl e, _) \<Rightarrow> (Inl (tt_parse_error tt e), s)
      | (Inr _, (req, _)) \<Rightarrow>
          (case call req s of
             (Inl e, s') \<Rightarrow> (Inl (tt_service_error tt e), s')
           | (Inr rep, s') \<Rightarrow>
               (case write rep [] of
                  (Inl e, _) \<Rightarrow> (Inl (tt_write_error tt e), s')
                | (Inr _, out) \<Rightarrow> (Inr out, s'))))"

text \<open>\<^verbatim>\<open>async_client_request!\<close>: the request is serialised and sent, the payload of the response parsed.\<close>

definition client_request :: "ttrpc_runtime \<Rightarrow> (bytes, unit) prog \<Rightarrow> 'p \<Rightarrow> ('p \<times> bytes, unit) prog \<Rightarrow>
    (bytes \<Rightarrow> ('s, bytes) rpc) \<Rightarrow> ('s, 'p) rpc" where
  "client_request tt write cres merge send s =
     (case write [] of
        (Inl e, _) \<Rightarrow> (Inl (tt_write_error tt e), s)
      | (Inr _, payload) \<Rightarrow>
          (case send payload s of
             (Inl e, s') \<Rightarrow> (Inl e, s')
           | (Inr bytes, s') \<Rightarrow>
               (case merge (cres, bytes) of
                  (Inl e, _) \<Rightarrow> (Inl (tt_parse_error tt e), s')
                | (Inr _, (m, _)) \<Rightarrow> (Inr m, s'))))"

text \<open>A connection takes a request for a method of a service; the tables say which handlers a server has.\<close>

type_synonym 's connection = "string \<Rightarrow> string \<Rightarrow> bytes \<Rightarrow> ('s, bytes) rpc"
type_synonym 's services = "(bytes \<Rightarrow> ('s, bytes) rpc) hmap hmap"

definition delivers :: "'s services \<Rightarrow> 's connection \<Rightarrow> bool" where
  "delivers services conn \<longleftrightarrow>
     (\<forall>service methods method handler.
        map_of services service = Some methods \<longrightarrow> map_of methods method = Some handler \<longrightarrow>
        conn service method = handler)"

section \<open>The services\<close>

record ('u, 's) AgentService =
  svc_create_container :: "'u CreateContainerRequestMsg \<Rightarrow> ('s, 'u CreateContainerResponseMsg) rpc"
  svc_start_container :: "'u StartContainerRequestMsg \<Rightarrow> ('s, 'u StartContainerResponseMsg) rpc"
  svc_run_container :: "'u CreateContainerRequestMsg \<Rightarrow> ('s, 'u StartContainerResponseMsg) rpc"
  svc_kill_container :: "'u KillContainerRequestMsg \<Rightarrow> ('s, 'u KillContainerResponseMsg) rpc"
  svc_delete_container :: "'u DeleteContainerRequestMsg \<Rightarrow> ('s, 'u DeleteContainerResponseMsg) rpc"
  svc_wait_container :: "'u WaitContainerRequestMsg \<Rightarrow> ('s, 'u WaitContainerResponseMsg) rpc"
  svc_exec_process :: "'u ExecProcessRequestMsg \<Rightarrow> ('s, 'u ExecProcessResponseMsg) rpc"
  svc_state_container :: "'u StateContainerRequestMsg \<Rightarrow> ('s, 'u StateContainerResponseMsg) rpc"
  svc_get_mem_info :: "'u GetMemInfoRequestMsg \<Rightarrow> ('s, 'u GetMemInfoResponseMsg) rpc"
  svc_get_container_logs :: "'u GetContainerLogsRequestMsg \<Rightarrow> ('s, 'u GetContainerLogsResponseMsg) rpc"
  svc_configure_network :: "'u ConfigureNetworkRequestMsg \<Rightarrow> ('s, 'u ConfigureNetworkResponseMsg) rpc"
  svc_adopt_container :: "'u AdoptContainerRequestMsg \<Rightarrow> ('s, 'u AdoptContainerResponseMsg) rpc"

record ('u, 's) HealthService =
  svc_check :: "'u CheckRequestMsg \<Rightarrow> ('s, 'u CheckResponseMsg) rpc"

text \<open>The body of a trait method that a service does not define.\<close>

definition not_supported :: "string \<Rightarrow> ('s, 'a) rpc" where
  "not_supported m s = (Inl (RpcStatus NOT_FOUND m), s)"

definition AgentService_default :: "('u, 's) AgentService" where
  "AgentService_default =
     \<lparr>svc_create_container = (\<lambda>_. not_supported ''/cloudhv.agent.AgentService/CreateContainer is not supported''),
      svc_start_container = (\<lambda>_. not_supported ''/cloudhv.agent.AgentService/StartContainer is not supported''),
      svc_run_container = (\<lambda>_. not_supported ''/cloudhv.agent.AgentService/RunContainer is not supported''),
      svc_kill_container = (\<lambda>_. not_supported ''/cloudhv.agent.AgentService/KillContainer is not supported''),
      svc_delete_container = (\<lambda>_. not_supported ''/cloudhv.agent.AgentService/DeleteContainer is not supported''),
      svc_wait_container = (\<lambda>_. not_supported ''/cloudhv.agent.AgentService/WaitContainer is not supported''),
      svc_exec_process = (\<lambda>_. not_supported ''/cloudhv.agent.AgentService/ExecProcess is not supported''),
      svc_state_container = (\<lambda>_. not_supported ''/cloudhv.agent.AgentService/StateContainer is not supported''),
      svc_get_mem_info = (\<lambda>_. not_supported ''/cloudhv.agent.AgentService/GetMemInfo is not supported''),
      svc_get_container_logs = (\<lambda>_. not_supported ''/cloudhv.agent.AgentService/GetContainerLogs is not supported''),
      svc_configure_network = (\<lambda>_. not_supported ''/cloudhv.agent.AgentService/ConfigureNetwork is not supported''),
      svc_adopt_container = (\<lambda>_. not_supported ''/cloudhv.agent.AgentService/AdoptContainer is not supported'')\<rparr>"

definition HealthService_default :: "('u, 's) HealthService" where
  "HealthService_default =
     \<lparr>svc_check = (\<lambda>_. not_supported ''/cloudhv.agent.HealthService/Check is not supported'')\<rparr>"

section \<open>The handlers of the methods\<close>

definition CreateContainerMethod_handler :: "ttrpc_runtime \<Rightarrow> 'u pb_runtime \<Rightarrow> ('u, 's) AgentService \<Rightarrow> bytes \<Rightarrow> ('s, bytes) rpc" where
  "CreateContainerMethod_handler tt rt service =
     request_handler tt (CreateContainerRequest_new rt) (CreateContainerRequest_merge_from rt) (CreateContainerResponse_write rt) (svc_create_container service)"

definition StartContainerMethod_handler :: "ttrpc_runtime \<Rightarrow> 'u pb_runtime \<Rightarrow> ('u, 's) AgentService \<Rightarrow> bytes \<Rightarrow> ('s, bytes) rpc" where
  "StartContainerMethod_handler tt rt service =
     request_handler tt (StartContainerRequest_new rt) (StartContainerRequest_merge_from rt) (StartContainerResponse_write rt) (svc_start_container service)"

definition RunContainerMethod_handler :: "ttrpc_runtime \<Rightarrow> 'u pb_runtime \<Rightarrow> ('u, 's) AgentService \<Rightarrow> bytes \<Rightarrow> ('s, bytes) rpc" where
  "RunContainerMethod_handler tt rt service =
     request_handler tt (CreateContainerRequest_new rt) (CreateContainerRequest_merge_from rt) (StartContainerResponse_write rt) (svc_run_container service)"

definition KillContainerMethod_handler :: "ttrpc_runtime \<Rightarrow> 'u pb_runtime \<Rightarrow> ('u, 's) AgentService \<Rightarrow> bytes \<Rightarrow> ('s, bytes) rpc" where
  "KillContainerMethod_handler tt rt service =
     request_handler tt (KillContainerRequest_new rt) (KillContainerRequest_merge_from rt) (KillContainerResponse_write rt) (svc_kill_container service)"

definition DeleteContainerMethod_handler :: "ttrpc_runtime \<Rightarrow> 'u pb_runtime \<Rightarrow> ('u, 's) AgentService \<Rightarrow> bytes \<Rightarrow> ('s, bytes) rpc" where
  "DeleteContainerMethod_handler tt rt service =
     request_handler tt (DeleteContainerRequest_new rt) (DeleteContainerRequest_merge_from rt) (DeleteContainerResponse_write rt) (svc_delete_container service)"

definition WaitContainerMethod_handler :: "ttrpc_runtime \<Rightarrow> 'u pb_runtime \<Rightarrow> ('u, 's) AgentService \<Rightarrow> bytes \<Rightarrow> ('s, bytes) rpc" where
  "WaitContainerMethod_handler tt rt service =
     request_handler tt (WaitContainerRequest_new rt) (WaitContainerRequest_merge_from rt) (WaitContainerResponse_write rt) (svc_wait_container service)"

definition ExecProcessMethod_handler :: "ttrpc_runtime \<Rightarrow> 'u pb_runtime \<Rightarrow> ('u, 's) AgentService \<Rightarrow> bytes \<Rightarrow> ('s, bytes) rpc" where
  "ExecProcessMethod_handler tt rt service =
     request_handler tt (ExecProcessRequest_new rt) (ExecProcessRequest_merge_from rt) (ExecProcessResponse_write rt) (svc_exec_process service)"

definition StateContainerMethod_handler :: "ttrpc_runtime \<Rightarrow> 'u pb_runtime \<Rightarrow> ('u, 's) AgentService \<Rightarrow> bytes \<Rightarrow> ('s, bytes) rpc" where
  "StateContainerMethod_handler tt rt service =
     request_handler tt (StateContainerRequest_new rt) (StateContainerRequest_merge_from rt) (StateContainerResponse_write rt) (svc_state_container service)"

definition GetMemInfoMethod_handler :: "ttrpc_runtime \<Rightarrow> 'u pb_runtime \<Rightarrow> ('u, 's) AgentService \<Rightarrow> bytes \<Rightarrow> ('s, bytes) rpc" where
  "GetMemInfoMethod_handler tt rt service =
     request_handler tt (GetMemInfoRequest_new rt) (GetMemInfoRequest_merge_from rt) (GetMemInfoResponse_write rt) (svc_get_mem_info service)"

definition GetContainerLogsMethod_handler :: "ttrpc_runtime \<Rightarrow> 'u pb_runtime \<Rightarrow> ('u, 's) AgentService \<Rightarrow> bytes \<Rightarrow> ('s, bytes) rpc" where
  "GetContainerLogsMethod_handler tt rt service =
     request_handler tt (GetContainerLogsRequest_new rt) (GetContainerLogsRequest_merge_from rt) (GetContainerLogsResponse_write rt) (svc_get_container_logs service)"

definition ConfigureNetworkMethod_handler :: "ttrpc_runtime \<Rightarrow> 'u pb_runtime \<Rightarrow> ('u, 's) AgentService \<Rightarrow> bytes \<Rightarrow> ('s, bytes) rpc" where
  "ConfigureNetworkMethod_handler tt rt service =
     request_handler tt (ConfigureNetworkRequest_new rt) (ConfigureNetworkRequest_merge_from rt) (ConfigureNetworkResponse_write rt) (svc_configure_network service)"

definition AdoptContainerMethod_handler :: "ttrpc_runtime \<Rightarrow> 'u pb_runtime \<Rightarrow> ('u, 's) AgentService \<Rightarrow> bytes \<Rightarrow> ('s, bytes) rpc" where
  "AdoptContainerMethod_handler tt rt service =
     request_handler tt (AdoptContainerRequest_new rt) (AdoptContainerRequest_merge_from rt) (AdoptContainerResponse_write rt) (svc_adopt_container service)"

definition CheckMethod_handler :: "ttrpc_runtime \<Rightarrow> 'u pb_runtime \<Rightarrow> ('u, 's) HealthService \<Rightarrow> bytes \<Rightarrow> ('s, bytes) rpc" where
  "CheckMethod_handler tt rt service =
     request_handler tt (CheckRequest_new rt) (CheckRequest_merge_from rt) (CheckResponse_write rt) (svc_check service)"

definition create_agent_service :: "ttrpc_runtime \<Rightarrow> 'u pb_runtime \<Rightarrow> ('u, 's) AgentService \<Rightarrow> 's services" where
  "create_agent_service tt rt service =
    (let methods = [];
         methods = AList.update ''CreateContainer'' (CreateContainerMethod_handler tt rt service) methods;
         methods = AList.update ''StartContainer'' (StartContainerMethod_handler tt rt service) methods;
         methods = AList.update ''RunContainer'' (RunContainerMethod_handler tt rt service) methods;
         methods = AList.update ''KillContainer'' (KillContainerMethod_handler tt rt service) methods;
         methods = AList.update ''DeleteContainer'' (DeleteContainerMethod_handler tt rt service) methods;
         methods = AList.update ''WaitContainer'' (WaitContainerMethod_handler tt rt service) methods;
         methods = AList.update ''ExecProcess'' (ExecProcessMethod_handler tt rt service) methods;
         methods = AList.update ''StateContainer'' (StateContainerMethod_handler tt rt service) methods;
         methods = AList.update ''GetMemInfo'' (GetMemInfoMethod_handler tt rt service) methods;
         methods = AList.update ''GetContainerLogs'' (GetContainerLogsMethod_handler tt rt service) methods;
         methods = AList.update ''ConfigureNetwork'' (ConfigureNetworkMethod_handler tt rt service) methods;
         methods = AList.update ''AdoptContainer'' (AdoptContainerMethod_handler tt rt service) methods
     in AList.update ''cloudhv.agent.AgentService'' methods [])"

definition create_health_service :: "ttrpc_runtime \<Rightarrow> 'u pb_runtime \<Rightarrow> ('u, 's) HealthService \<Rightarrow> 's services" where
  "create_health_service tt rt service =
    (let methods = [];
         methods = AList.update ''Check'' (CheckMethod_handler tt rt service) methods
     in AList.update ''cloudhv.agent.HealthService'' methods [])"

text \<open>\<^verbatim>\<open>register_service\<close>, twice, as the agent's server does it\<close>

definition register_service :: "'s services \<Rightarrow> 's services \<Rightarrow> 's services" where
  "register_service services new = foldl (\<lambda>t (name, methods). AList.update name methods t) services new"

definition server_services :: "ttrpc_runtime \<Rightarrow> 'u pb_runtime \<Rightarrow> ('u, 's) AgentService \<Rightarrow> ('u, 's) HealthService \<Rightarrow> 's services" where
  "server_services tt rt agent_service health_service =
     register_service (register_service [] (create_agent_service tt rt agent_service)) (create_health_service tt rt health_service)"

section \<open>The clients\<close>

definition AgentServiceClient_create_container :: "ttrpc_runtime \<Rightarrow> 'u pb_runtime \<Rightarrow> 's connection \<Rightarrow> 'u CreateContainerRequestMsg \<Rightarrow> ('s, 'u CreateContainerResponseMsg) rpc" where
  "AgentServiceClient_create_container tt rt client req =
     client_request tt (CreateContainerRequest_write rt req) (CreateContainerResponse_new rt) (CreateContainerResponse_merge_from rt) (client ''cloudhv.agent.AgentService'' ''CreateContainer'')"

definition AgentServiceClient_start_container :: "ttrpc_runtime \<Rightarrow> 'u pb_runtime \<Rightarrow> 's connection \<Rightarrow> 'u StartContainerRequestMsg \<Rightarrow> ('s, 'u StartContainerResponseMsg) rpc" where
  "AgentServiceClient_start_container tt rt client req =
     client_request tt (StartContainerRequest_write rt req) (StartContainerResponse_new rt) (StartContainerResponse_merge_from rt) (client ''cloudhv.agent.AgentService'' ''StartContainer'')"

definition AgentServiceClient_run_container :: "ttrpc_runtime \<Rightarrow> 'u pb_runtime \<Rightarrow> 's connection \<Rightarrow> 'u CreateContainerRequestMsg \<Rightarrow> ('s, 'u StartContainerResponseMsg) rpc" where
  "AgentServiceClient_run_container tt rt client req =
     client_request tt (CreateContainerRequest_write rt req) (StartContainerResponse_new rt) (StartContainerResponse_merge_from rt) (client ''cloudhv.agent.AgentService'' ''RunContainer'')"

definition AgentServiceClient_kill_container :: "ttrpc_runtime \<Rightarrow> 'u pb_runtime \<Rightarrow> 's connection \<Rightarrow> 'u KillContainerRequestMsg \<Rightarrow> ('s, 'u KillContainerResponseMsg) rpc" where
  "AgentServiceClient_kill_container tt rt client req =
     client_request tt (KillContainerRequest_write rt req) (KillContainerResponse_new rt) (KillContainerResponse_merge_from rt) (client ''cloudhv.agent.AgentService'' ''KillContainer'')"

definition AgentServiceClient_delete_container :: "ttrpc_runtime \<Rightarrow> 'u pb_runtime \<Rightarrow> 's connection \<Rightarrow> 'u DeleteContainerRequestMsg \<Rightarrow> ('s, 'u DeleteContainerResponseMsg) rpc" where
  "AgentServiceClient_delete_container tt rt client req =
     client_request tt (DeleteContainerRequest_write rt req) (DeleteContainerResponse_new rt) (DeleteContainerResponse_merge_from rt) (client ''cloudhv.agent.AgentService'' ''DeleteContainer'')"

definition AgentServiceClient_wait_container :: "ttrpc_runtime \<Rightarrow> 'u pb_runtime \<Rightarrow> 's connection \<Rightarrow> 'u WaitContainerRequestMsg \<Rightarrow> ('s, 'u WaitContainerResponseMsg) rpc" where
  "AgentServiceClient_wait_container tt rt client req =
     client_request tt (WaitContainerRequest_write rt req) (WaitContainerResponse_new rt) (WaitContainerResponse_merge_from rt) (client ''cloudhv.agent.AgentService'' ''WaitContainer'')"

definition AgentServiceClient_exec_process :: "ttrpc_runtime \<Rightarrow> 'u pb_runtime \<Rightarrow> 's connection \<Rightarrow> 'u ExecProcessRequestMsg \<Rightarrow> ('s, 'u ExecProcessResponseMsg) rpc" where
  "AgentServiceClient_exec_process tt rt client req =
     client_request tt (ExecProcessRequest_write rt req) (ExecProcessResponse_new rt) (ExecProcessResponse_merge_from rt) (client ''cloudhv.agent.AgentService'' ''ExecProcess'')"

definition AgentServiceClient_state_container :: "ttrpc_runtime \<Rightarrow> 'u pb_runtime \<Rightarrow> 's connection \<Rightarrow> 'u StateContainerRequestMsg \<Rightarrow> ('s, 'u StateContainerResponseMsg) rpc" where
  "AgentServiceClient_state_container tt rt client req =
     client_request tt (StateContainerRequest_write rt req) (StateContainerResponse_new rt) (StateContainerResponse_merge_from rt) (client ''cloudhv.agent.AgentService'' ''StateContainer'')"

definition AgentServiceClient_get_mem_info :: "ttrpc_runtime \<Rightarrow> 'u pb_runtime \<Rightarrow> 's connection \<Rightarrow> 'u GetMemInfoRequestMsg \<Rightarrow> ('s, 'u GetMemInfoResponseMsg) rpc" where
  "AgentServiceClient_get_mem_info tt rt client req =
     client_request tt (GetMemInfoRequest_write rt req) (GetMemInfoResponse_new rt) (GetMemInfoResponse_merge_from rt) (client ''cloudhv.agent.AgentService'' ''GetMemInfo'')"

definition AgentServiceClient_get_container_logs :: "ttrpc_runtime \<Rightarrow> 'u pb_runtime \<Rightarrow> 's connection \<Rightarrow> 'u GetContainerLogsRequestMsg \<Rightarrow> ('s, 'u GetContainerLogsResponseMsg) rpc" where
  "AgentServiceClient_get_container_logs tt rt client req =
     client_request tt (GetContainerLogsRequest_write rt req) (GetContainerLogsResponse_new rt) (GetContainerLogsResponse_merge_from rt) (client ''cloudhv.agent.AgentService'' ''GetContainerLogs'')"

definition AgentServiceClient_configure_network :: "ttrpc_runtime \<Rightarrow> 'u pb_runtime \<Rightarrow> 's connection \<Rightarrow> 'u ConfigureNetworkRequestMsg \<Rightarrow> ('s, 'u ConfigureNetworkResponseMsg) rpc" where
  "AgentServiceClient_configure_network tt rt client req =
     client_request tt (ConfigureNetworkRequest_write rt req) (ConfigureNetworkResponse_new rt) (ConfigureNetworkResponse_merge_from rt) (client ''cloudhv.agent.AgentService'' ''ConfigureNetwork'')"

definition AgentServiceClient_adopt_container :: "ttrpc_runtime \<Rightarrow> 'u pb_runtime \<Rightarrow> 's connection \<Rightarrow> 'u AdoptContainerRequestMsg \<Rightarrow> ('s, 'u AdoptContainerResponseMsg) rpc" where
  "AgentServiceClient_adopt_container tt rt client req =
     client_request tt (AdoptContainerRequest_write rt req) (AdoptContainerResponse_new rt) (AdoptContainerResponse_merge_from rt) (client ''cloudhv.agent.AgentService'' ''AdoptContainer'')"

definition HealthServiceClient_check :: "ttrpc_runtime \<Rightarrow> 'u pb_runtime \<Rightarrow> 's connection \<Rightarrow> 'u CheckRequestMsg \<Rightarrow> ('s, 'u CheckResponseMsg) rpc" where
  "HealthServiceClient_check tt rt client req =
     client_request tt (CheckRequest_write rt req) (CheckResponse_new rt) (CheckResponse_merge_from rt) (client ''cloudhv.agent.HealthService'' ''Check'')"

section \<open>Calls reach the service\<close>

text \<open>The two steps of the server that make its tables, evaluated.\<close>

lemma agent_table:
  "map_of (server_services tt rt svc hs) ''cloudhv.agent.AgentService'' = Some
     [(''CreateContainer'', CreateContainerMethod_handler tt rt svc),
      (''StartContainer'', StartContainerMethod_handler tt rt svc),
      (''RunContainer'', RunContainerMethod_handler tt rt svc),
      (''KillContainer'', KillContainerMethod_handler tt rt svc),
      (''DeleteContainer'', DeleteContainerMethod_handler tt rt svc),
      (''WaitContainer'', WaitContainerMethod_handler tt rt svc),
      (''ExecProcess'', ExecProcessMethod_handler tt rt svc),
      (''StateContainer'', StateContainerMethod_handler tt rt svc),
      (''GetMemInfo'', GetMemInfoMethod_handler tt rt svc),
      (''GetContainerLogs'', GetContainerLogsMethod_handler tt rt svc),
      (''ConfigureNetwork'', ConfigureNetworkMethod_handler tt rt svc),
      (''AdoptContainer'', AdoptContainerMethod_handler tt rt svc)]"
  by (simp add: server_services_def register_service_def create_agent_service_def create_health_service_def Let_def)

lemma health_table:
  "map_of (server_services tt rt svc hs) ''cloudhv.agent.HealthService'' = Some [(''Check'', CheckMethod_handler tt rt hs)]"
  by (simp add: server_services_def register_service_def create_agent_service_def create_health_service_def Let_def)

lemma delivered:
  "delivers services conn \<Longrightarrow> map_of services service = Some methods \<Longrightarrow> map_of methods method = Some handler \<Longrightarrow>
   conn service method = handler"
  by (simp add: delivers_def)

text \<open>What a client gets of the result of a service: the response as it arrives, or the error in the form it is reported.\<close>

definition reply :: "ttrpc_runtime \<Rightarrow> ('p \<Rightarrow> 'r) \<Rightarrow> (ttrpc_error + 'p) \<times> 's \<Rightarrow> (ttrpc_error + 'r) \<times> 's" where
  "reply tt f r = (case r of (Inl e, s) \<Rightarrow> (Inl (tt_service_error tt e), s) | (Inr x, s) \<Rightarrow> (Inr (f x), s))"

lemma request_transparent:
  assumes req: "merge_q (new_q, written w_q) = (Inr (), (req, []))" "emits w_q"
    and rep: "\<And>x s'. call req s = (Inr x, s') \<Longrightarrow> emits (write_p x) \<and> merge_p (new_p, written (write_p x)) = (Inr (), (f x, []))"
  shows "client_request tt w_q new_p merge_p (request_handler tt new_q merge_q write_p call) s = reply tt f (call req s)"
proof -
  have w: "w_q [] = (Inr (), written w_q)" using req(2) by (simp add: emits_def)
  obtain r s' where run: "call req s = (r, s')" by (rule prod.exhaust)
  show ?thesis
  proof (cases r)
    case (Inl e)
    then show ?thesis using w run req(1) by (simp add: client_request_def request_handler_def reply_def)
  next
    case (Inr x)
    then have "emits (write_p x)" and m: "merge_p (new_p, written (write_p x)) = (Inr (), (f x, []))" using rep [of x s'] run by simp_all
    then have "write_p x [] = (Inr (), written (write_p x))" by (simp add: emits_def)
    then show ?thesis using w run req(1) Inr m by (simp add: client_request_def request_handler_def reply_def)
  qed
qed

context protobuf_runtime
begin

lemmas codec_emits = message_codec_emits

lemma create_container_transparent:
  assumes "delivers (server_services tt rt svc hs) conn" and "CreateContainerRequest_ok rt req"
    and "\<And>rep s'. svc_create_container svc (CreateContainerRequest_fresh rt req) s = (Inr rep, s') \<Longrightarrow> CreateContainerResponse_ok rt rep"
  shows "AgentServiceClient_create_container tt rt conn req s = reply tt (CreateContainerResponse_fresh rt) (svc_create_container svc (CreateContainerRequest_fresh rt req) s)"
  unfolding AgentServiceClient_create_container_def delivered [OF assms(1) agent_table, of "''CreateContainer''" "CreateContainerMethod_handler tt rt svc", simplified] CreateContainerMethod_handler_def
  by (rule request_transparent, rule CreateContainerRequest_roundtrip [OF assms(2)], rule codec_emits [OF CreateContainerRequest_codec [OF assms(2)]])
     (use assms(3) codec_emits [OF CreateContainerResponse_codec] CreateContainerResponse_roundtrip in blast)

lemma start_container_transparent:
  assumes "delivers (server_services tt rt svc hs) conn" and "StartContainerRequest_ok rt req"
    and "\<And>rep s'. svc_start_container svc (StartContainerRequest_fresh rt req) s = (Inr rep, s') \<Longrightarrow> StartContainerResponse_ok rt rep"
  shows "AgentServiceClient_start_container tt rt conn req s = reply tt (StartContainerResponse_fresh rt) (svc_start_container svc (StartContainerRequest_fresh rt req) s)"
  unfolding AgentServiceClient_start_container_def delivered [OF assms(1) agent_table, of "''StartContainer''" "StartContainerMethod_handler tt rt svc", simplified] StartContainerMethod_handler_def
  by (rule request_transparent, rule StartContainerRequest_roundtrip [OF assms(2)], rule codec_emits [OF StartContainerRequest_codec [OF assms(2)]])
     (use assms(3) codec_emits [OF StartContainerResponse_codec] StartContainerResponse_roundtrip in blast)

lemma run_container_transparent:
  assumes "delivers (server_services tt rt svc hs) conn" and "CreateContainerRequest_ok rt req"
    and "\<And>rep s'. svc_run_container svc (CreateContainerRequest_fresh rt req) s = (Inr rep, s') \<Longrightarrow> StartContainerResponse_ok rt rep"
  shows "AgentServiceClient_run_container tt rt conn req s = reply tt (StartContainerResponse_fresh rt) (svc_run_container svc (CreateContainerRequest_fresh rt req) s)"
  unfolding AgentServiceClient_run_container_def delivered [OF assms(1) agent_table, of "''RunContainer''" "RunContainerMethod_handler tt rt svc", simplified] RunContainerMethod_handler_def
  by (rule request_transparent, rule CreateContainerRequest_roundtrip [OF assms(2)], rule codec_emits [OF CreateContainerRequest_codec [OF assms(2)]])
     (use assms(3) codec_emits [OF StartContainerResponse_codec] StartContainerResponse_roundtrip in blast)

lemma kill_container_transparent:
  assumes "delivers (server_services tt rt svc hs) conn" and "KillContainerRequest_ok rt req"
    and "\<And>rep s'. svc_kill_container svc (KillContainerRequest_fresh rt req) s = (Inr rep, s') \<Longrightarrow> KillContainerResponse_ok rt rep"
  shows "AgentServiceClient_kill_container tt rt conn req s = reply tt (KillContainerResponse_fresh rt) (svc_kill_container svc (KillContainerRequest_fresh rt req) s)"
  unfolding AgentServiceClient_kill_container_def delivered [OF assms(1) agent_table, of "''KillContainer''" "KillContainerMethod_handler tt rt svc", simplified] KillContainerMethod_handler_def
  by (rule request_transparent, rule KillContainerRequest_roundtrip [OF assms(2)], rule codec_emits [OF KillContainerRequest_codec [OF assms(2)]])
     (use assms(3) codec_emits [OF KillContainerResponse_codec] KillContainerResponse_roundtrip in blast)

lemma delete_container_transparent:
  assumes "delivers (server_services tt rt svc hs) conn" and "DeleteContainerRequest_ok rt req"
    and "\<And>rep s'. svc_delete_container svc (DeleteContainerRequest_fresh rt req) s = (Inr rep, s') \<Longrightarrow> DeleteContainerResponse_ok rt rep"
  shows "AgentServiceClient_delete_container tt rt conn req s = reply tt (DeleteContainerResponse_fresh rt) (svc_delete_container svc (DeleteContainerRequest_fresh rt req) s)"
  unfolding AgentServiceClient_delete_container_def delivered [OF assms(1) agent_table, of "''DeleteContainer''" "DeleteContainerMethod_handler tt rt svc", simplified] DeleteContainerMethod_handler_def
  by (rule request_transparent, rule DeleteContainerRequest_roundtrip [OF assms(2)], rule codec_emits [OF DeleteContainerRequest_codec [OF assms(2)]])
     (use assms(3) codec_emits [OF DeleteContainerResponse_codec] DeleteContainerResponse_roundtrip in blast)

lemma wait_container_transparent:
  assumes "delivers (server_services tt rt svc hs) conn" and "WaitContainerRequest_ok rt req"
    and "\<And>rep s'. svc_wait_container svc (WaitContainerRequest_fresh rt req) s = (Inr rep, s') \<Longrightarrow> WaitContainerResponse_ok rt rep"
  shows "AgentServiceClient_wait_container tt rt conn req s = reply tt (WaitContainerResponse_fresh rt) (svc_wait_container svc (WaitContainerRequest_fresh rt req) s)"
  unfolding AgentServiceClient_wait_container_def delivered [OF assms(1) agent_table, of "''WaitContainer''" "WaitContainerMethod_handler tt rt svc", simplified] WaitContainerMethod_handler_def
  by (rule request_transparent, rule WaitContainerRequest_roundtrip [OF assms(2)], rule codec_emits [OF WaitContainerRequest_codec [OF assms(2)]])
     (use assms(3) codec_emits [OF WaitContainerResponse_codec] WaitContainerResponse_roundtrip in blast)

lemma exec_process_transparent:
  assumes "delivers (server_services tt rt svc hs) conn" and "ExecProcessRequest_ok rt req"
    and "\<And>rep s'. svc_exec_process svc (ExecProcessRequest_fresh rt req) s = (Inr rep, s') \<Longrightarrow> ExecProcessResponse_ok rt rep"
  shows "AgentServiceClient_exec_process tt rt conn req s = reply tt (ExecProcessResponse_fresh rt) (svc_exec_process svc (ExecProcessRequest_fresh rt req) s)"
  unfolding AgentServiceClient_exec_process_def delivered [OF assms(1) agent_table, of "''ExecProcess''" "ExecProcessMethod_handler tt rt svc", simplified] ExecProcessMethod_handler_def
  by (rule request_transparent, rule ExecProcessRequest_roundtrip [OF assms(2)], rule codec_emits [OF ExecProcessRequest_codec [OF assms(2)]])
     (use assms(3) codec_emits [OF ExecProcessResponse_codec] ExecProcessResponse_roundtrip in blast)

lemma state_container_transparent:
  assumes "delivers (server_services tt rt svc hs) conn" and "StateContainerRequest_ok rt req"
    and "\<And>rep s'. svc_state_container svc (StateContainerRequest_fresh rt req) s = (Inr rep, s') \<Longrightarrow> StateContainerResponse_ok rt rep"
  shows "AgentServiceClient_state_container tt rt conn req s = reply tt (StateContainerResponse_fresh rt) (svc_state_container svc (StateContainerRequest_fresh rt req) s)"
  unfolding AgentServiceClient_state_container_def delivered [OF assms(1) agent_table, of "''StateContainer''" "StateContainerMethod_handler tt rt svc", simplified] StateContainerMethod_handler_def
  by (rule request_transparent, rule StateContainerRequest_roundtrip [OF assms(2)], rule codec_emits [OF StateContainerRequest_codec [OF assms(2)]])
     (use assms(3) codec_emits [OF StateContainerResponse_codec] StateContainerResponse_roundtrip in blast)

lemma get_mem_info_transparent:
  assumes "delivers (server_services tt rt svc hs) conn" and "GetMemInfoRequest_ok rt req"
    and "\<And>rep s'. svc_get_mem_info svc (GetMemInfoRequest_fresh rt req) s = (Inr rep, s') \<Longrightarrow> GetMemInfoResponse_ok rt rep"
  shows "AgentServiceClient_get_mem_info tt rt conn req s = reply tt (GetMemInfoResponse_fresh rt) (svc_get_mem_info svc (GetMemInfoRequest_fresh rt req) s)"
  unfolding AgentServiceClient_get_mem_info_def delivered [OF assms(1) agent_table, of "''GetMemInfo''" "GetMemInfoMethod_handler tt rt svc", simplified] GetMemInfoMethod_handler_def
  by (rule request_transparent, rule GetMemInfoRequest_roundtrip [OF assms(2)], rule codec_emits [OF GetMemInfoRequest_codec [OF assms(2)]])
     (use assms(3) codec_emits [OF GetMemInfoResponse_codec] GetMemInfoResponse_roundtrip in blast)

lemma get_container_logs_transparent:
  assumes "delivers (server_services tt rt svc hs) conn" and "GetContainerLogsRequest_ok rt req"
    and "\<And>rep s'. svc_get_container_logs svc (GetContainerLogsRequest_fresh rt req) s = (Inr rep, s') \<Longrightarrow> GetContainerLogsResponse_ok rt rep"
  shows "AgentServiceClient_get_container_logs tt rt conn req s = reply tt (GetContainerLogsResponse_fresh rt) (svc_get_container_logs svc (GetContainerLogsRequest_fresh rt req) s)"
  unfolding AgentServiceClient_get_container_logs_def delivered [OF assms(1) agent_table, of "''GetContainerLogs''" "GetContainerLogsMethod_handler tt rt svc", simplified] GetContainerLogsMethod_handler_def
  by (rule request_transparent, rule GetContainerLogsRequest_roundtrip [OF assms(2)], rule codec_emits [OF GetContainerLogsRequest_codec [OF assms(2)]])
     (use assms(3) codec_emits [OF GetContainerLogsResponse_codec] GetContainerLogsResponse_roundtrip in blast)

lemma configure_network_transparent:
  assumes "delivers (server_services tt rt svc hs) conn" and "ConfigureNetworkRequest_ok rt req"
    and "\<And>rep s'. svc_configure_network svc (ConfigureNetworkRequest_fresh rt req) s = (Inr rep, s') \<Longrightarrow> ConfigureNetworkResponse_ok rt rep"
  shows "AgentServiceClient_configure_network tt rt conn req s = reply tt (ConfigureNetworkResponse_fresh rt) (svc_configure_network svc (ConfigureNetworkRequest_fresh rt req) s)"
  unfolding AgentServiceClient_configure_network_def delivered [OF assms(1) agent_table, of "''ConfigureNetwork''" "ConfigureNetworkMethod_handler tt rt svc", simplified] ConfigureNetworkMethod_handler_def
  by (rule request_transparent, rule ConfigureNetworkRequest_roundtrip [OF assms(2)], rule codec_emits [OF ConfigureNetworkRequest_codec [OF assms(2)]])
     (use assms(3) codec_emits [OF ConfigureNetworkResponse_codec] ConfigureNetworkResponse_roundtrip in blast)

lemma adopt_container_transparent:
  assumes "delivers (server_services tt rt svc hs) conn" and "AdoptContainerRequest_ok rt req"
    and "\<And>rep s'. svc_adopt_container svc (AdoptContainerRequest_fresh rt req) s = (Inr rep, s') \<Longrightarrow> AdoptContainerResponse_ok rt rep"
  shows "AgentServiceClient_adopt_container tt rt conn req s = reply tt (AdoptContainerResponse_fresh rt) (svc_adopt_container svc (AdoptContainerRequest_fresh rt req) s)"
  unfolding AgentServiceClient_adopt_container_def delivered [OF assms(1) agent_table, of "''AdoptContainer''" "AdoptContainerMethod_handler tt rt svc", simplified] AdoptContainerMethod_handler_def
  by (rule request_transparent, rule AdoptContainerRequest_roundtrip [OF assms(2)], rule codec_emits [OF AdoptContainerRequest_codec [OF assms(2)]])
     (use assms(3) codec_emits [OF AdoptContainerResponse_codec] AdoptContainerResponse_roundtrip in blast)

lemma check_transparent:
  assumes "delivers (server_services tt rt svc hs) conn" and "CheckRequest_ok rt req"
    and "\<And>rep s'. svc_check hs (CheckRequest_fresh rt req) s = (Inr rep, s') \<Longrightarrow> CheckResponse_ok rt rep"
  shows "HealthServiceClient_check tt rt conn req s = reply tt (CheckResponse_fresh rt) (svc_check hs (CheckRequest_fresh rt req) s)"
  unfolding HealthServiceClient_check_def delivered [OF assms(1) health_table, of "''Check''" "CheckMethod_handler tt rt hs", simplified] CheckMethod_handler_def
  by (rule request_transparent, rule CheckRequest_roundtrip [OF assms(2)], rule codec_emits [OF CheckRequest_codec [OF assms(2)]])
     (use assms(3) codec_emits [OF CheckResponse_codec] CheckResponse_roundtrip in blast)

lemmas calls_transparent = create_container_transparent
  start_container_transparent
  run_container_transparent
  kill_container_transparent
  delete_container_transparent
  wait_container_transparent
  exec_process_transparent
  state_container_transparent
  get_mem_info_transparent
  get_container_logs_transparent
  configure_network_transparent
  adopt_container_transparent
  check_transparent

lemmas parsing_plain = CreateContainerRequest_merge_plain
  CreateContainerResponse_merge_plain
  StartContainerRequest_merge_plain
  StartContainerResponse_merge_plain
  KillContainerRequest_merge_plain
  KillContainerResponse_merge_plain
  DeleteContainerRequest_merge_plain
  DeleteContainerResponse_merge_plain
  WaitContainerRequest_merge_plain
  WaitContainerResponse_merge_plain
  ExecProcessRequest_merge_plain
  ExecProcessResponse_merge_plain
  StateContainerRequest_merge_plain
  StateContainerResponse_merge_plain
  GetMemInfoRequest_merge_plain
  GetMemInfoResponse_merge_plain
  GetContainerLogsRequest_merge_plain
  GetContainerLogsResponse_merge_plain
  ConfigureNetworkRequest_merge_plain
  ConfigureNetworkResponse_merge_plain
  AdoptContainerRequest_merge_plain
  AdoptContainerResponse_merge_plain
  CheckRequest_merge_plain
  CheckResponse_merge_plain

end

text \<open>A runtime that reports errors by their text, for the examples.\<close>

definition tt0 :: ttrpc_runtime where
  "tt0 = \<lparr>tt_parse_error = (\<lambda>e. Others (show_err e)), tt_write_error = (\<lambda>e. Others (show_err e)), tt_service_error = (\<lambda>e. e),
     tt_show = (\<lambda>e. case e of RpcStatus c m \<Rightarrow> m | Others m \<Rightarrow> m | NoAnswer \<Rightarrow> ''no answer'')\<rparr>"

section \<open>The properties of the messages\<close>

lemma ascii_utf8: "ascii s \<Longrightarrow> utf8 s"
  by (simp add: utf8_def from_utf8_lossy_ascii)

text \<open>A request with a block volume that carries a file.\<close>

definition sample_file :: "wire_unknown InlineFileMsg" where
  "sample_file = (InlineFile_new wire)\<lparr>inl_path := ''f'', inl_content := [1, 2], inl_mode := 420\<rparr>"

definition sample_volume :: "wire_unknown VolumeMountMsg" where
  "sample_volume = (VolumeMount_new wire)\<lparr>vmm_destination := ''/d'', vmm_options := [''ro'', ''noexec''], vmm_readonly := True,
     vmm_volume_type := 1, vmm_files := [sample_file]\<rparr>"

definition sample_request :: "wire_unknown CreateContainerRequestMsg" where
  "sample_request = (CreateContainerRequest_new wire)\<lparr>ccr_container_id := ''c1'', ccr_volumes := [sample_volume],
     ccr_config_json := [123, 125], ccr_erofs_layers := 1\<rparr>"

lemma sample_bytes:
  "written (InlineFile_write wire sample_file) = [10, 1, 102, 18, 2, 1, 2, 24, 164, 3]"
  "written (VolumeMount_write wire sample_volume) =
     [10, 2, 47, 100, 26, 2, 114, 111, 26, 6, 110, 111, 101, 120, 101, 99, 32, 1, 40, 1, 58, 10, 10, 1, 102, 18, 2, 1, 2, 24, 164, 3]"
  by code_simp+

lemma sample_ok:
  "InlineFile_ok wire sample_file" "VolumeMount_ok wire sample_volume" "CreateContainerRequest_ok wire sample_request"
proof -
  have s: "string_ok x" if "ascii x" "length x < 2 ^ 32" for x using that by (simp add: string_ok_def ascii_utf8)
  note d = InlineFile_ok_def VolumeMount_ok_def CreateContainerRequest_ok_def InlineFile_new_def VolumeMount_new_def
    CreateContainerRequest_new_def sample_file_def sample_volume_def sample_request_def SpecialFields_new_def bytes_ok_def
  show f: "InlineFile_ok wire sample_file" by (simp add: d s ascii_def)
  then show v: "VolumeMount_ok wire sample_volume"
    using sample_bytes(1) by (simp add: VolumeMount_ok_def sample_volume_def VolumeMount_new_def SpecialFields_new_def s ascii_def)
  then show "CreateContainerRequest_ok wire sample_request"
    using sample_bytes(2)
    by (simp add: CreateContainerRequest_ok_def sample_request_def CreateContainerRequest_new_def SpecialFields_new_def bytes_ok_def s ascii_def)
qed

text \<open>
  C11: A request to create or run a container survives the wire: whatever its volumes, the options and the inline files of these, and whatever
  the configuration, the bytes that the daemon's copy of the generated code writes are parsed by the agent's copy into a message with the
  same fields, and nothing of the stream is left. Only the cached sizes, which are not part of the message, are gone. This relies on the
  protobuf runtime reading what it writes; the strings are UTF-8, lengths fit 32 bits and there are no unknown fields.
\<close>

theorem create_request_roundtrip:
  assumes rt: "protobuf_runtime rt" and ok: "CreateContainerRequest_ok rt req"
  shows "CreateContainerRequest_merge_from rt (CreateContainerRequest_new rt, written (CreateContainerRequest_write rt req)) =
           (Inr (), (req\<lparr>ccr_volumes := map (VolumeMount_fresh rt) (ccr_volumes req), ccr_special_fields := SpecialFields_new rt\<rparr>, []))"
  using protobuf_runtime.CreateContainerRequest_roundtrip [OF rt ok] by (simp add: CreateContainerRequest_fresh_def)

theorem create_request_roundtrip_witness:
  "CreateContainerRequest_merge_from wire (CreateContainerRequest_new wire, written (CreateContainerRequest_write wire sample_request)) =
     (Inr (), (sample_request, []))"
  using create_request_roundtrip [OF wire_laws sample_ok(3)]
  by (simp add: sample_request_def sample_volume_def sample_file_def CreateContainerRequest_new_def VolumeMount_new_def
      VolumeMount_fresh_def InlineFile_fresh_def InlineFile_new_def)

text \<open>
  C28: The sizes are right: \<^verbatim>\<open>compute_size\<close> of a request is the number of bytes that are written for it (in 64 bits), and the size it leaves in every
  volume, which becomes the length prefix of that volume on the wire, is the number of bytes written for the volume.
\<close>

theorem sizes_count_bytes:
  assumes rt: "protobuf_runtime rt" and ok: "CreateContainerRequest_ok rt req"
  shows "fst (CreateContainerRequest_compute_size rt req) = of_nat (length (written (CreateContainerRequest_write rt req))) \<and>
     map (\<lambda>v. sf_cached_size (vmm_special_fields v)) (ccr_volumes (snd (CreateContainerRequest_compute_size rt req))) =
     map (\<lambda>v. of_nat (length (written (VolumeMount_write rt v)))) (ccr_volumes req)"
proof
  note l = protobuf_runtime.message_codec_size [OF rt]
  show "fst (CreateContainerRequest_compute_size rt req) = of_nat (length (written (CreateContainerRequest_write rt req)))"
    by (rule l [OF protobuf_runtime.CreateContainerRequest_codec [OF rt ok]])
  have "ucast (fst (VolumeMount_compute_size rt v)) = (of_nat (length (written (VolumeMount_write rt v))) :: u32)" if "v \<in> set (ccr_volumes req)" for v
  proof -
    have "VolumeMount_ok rt v" and "length (written (VolumeMount_write rt v)) < 2 ^ 32" using ok that by (simp_all add: CreateContainerRequest_ok_def)
    then show ?thesis
      using l [OF protobuf_runtime.VolumeMount_codec [OF rt]] by (simp add: unsigned_of_nat take_bit_eq_mod)
  qed
  then show "map (\<lambda>v. sf_cached_size (vmm_special_fields v)) (ccr_volumes (snd (CreateContainerRequest_compute_size rt req))) =
     map (\<lambda>v. of_nat (length (written (VolumeMount_write rt v)))) (ccr_volumes req)"
    by (simp add: CreateContainerRequest_volumes VolumeMount_cached)
qed

theorem sizes_count_bytes_witness:
  "fst (CreateContainerRequest_compute_size wire sample_request) = of_nat (length (written (CreateContainerRequest_write wire sample_request))) \<and>
   map (\<lambda>v. sf_cached_size (vmm_special_fields v)) (ccr_volumes (snd (CreateContainerRequest_compute_size wire sample_request))) = [32]"
  using sizes_count_bytes [OF wire_laws sample_ok(3)] by (simp add: sample_request_def sample_bytes)



text \<open>
  A newer peer is understood: when a field that the message does not know follows a request, the request is read as before; the
  unknown field is kept aside and no known field changes.
\<close>

theorem unknown_field_is_harmless:
  assumes rt: "protobuf_runtime rt" and ok: "CreateContainerRequest_ok rt req"
    and tag: "rt_read_raw_tag_or_eof rt extra = (Inr (Some t), rest)" and t: "t \<notin> {10, 18, 26, 34, 42, 48, 58, 66, 80, 88}"
    and skip: "rt_read_unknown_or_skip_group rt t (rt_new_unknown_fields rt, rest) = (Inr (), (u, []))"
  shows "CreateContainerRequest_merge_from rt (CreateContainerRequest_new rt, written (CreateContainerRequest_write rt req) @ extra) =
     (Inr (), ((CreateContainerRequest_fresh rt req)\<lparr>ccr_special_fields := \<lparr>sf_unknown_fields = u, sf_cached_size = 0\<rparr>\<rparr>, []))"
proof -
  let ?b = "CreateContainerRequest_merge_body rt" and ?m = "CreateContainerRequest_fresh rt req"
  note shr = protobuf_runtime.CreateContainerRequest_body_shrinks [OF rt]
  have "merge_loop rt ?b (CreateContainerRequest_new rt, written (CreateContainerRequest_write rt req) @ extra) = merge_loop rt ?b (?m, extra)"
    using protobuf_runtime.CreateContainerRequest_codec [OF rt ok] unfolding message_codec_def absorbs_def by blast
  also have "\<dots> = merge_loop rt ?b (?m\<lparr>ccr_special_fields := \<lparr>sf_unknown_fields = u, sf_cached_size = 0\<rparr>\<rparr>, [])"
    by (rule protobuf_runtime.merge_loop_field [OF rt shr tag])
       (use t skip in \<open>simp add: CreateContainerRequest_merge_body_def keep_unknown_def CreateContainerRequest_fresh_def SpecialFields_new_def\<close>)
  also have "\<dots> = (Inr (), (?m\<lparr>ccr_special_fields := \<lparr>sf_unknown_fields = u, sf_cached_size = 0\<rparr>\<rparr>, []))"
    by (rule protobuf_runtime.merge_loop_eof [OF rt shr])
  finally show ?thesis unfolding CreateContainerRequest_merge_from_def .
qed

theorem unknown_field_is_harmless_witness:
  "CreateContainerRequest_merge_from wire (CreateContainerRequest_new wire, written (CreateContainerRequest_write wire sample_request) @ [96, 7]) =
     (Inr (), ((CreateContainerRequest_fresh wire sample_request)\<lparr>ccr_special_fields := \<lparr>sf_unknown_fields = [(96, [7])], sf_cached_size = 0\<rparr>\<rparr>, []))"
proof -
  have "rt_read_raw_tag_or_eof wire [96, 7] = (Inr (Some 96), [7])"
    and "rt_read_unknown_or_skip_group wire 96 (rt_new_unknown_fields wire, [7]) = (Inr (), ([(96, [7])], []))"
    by code_simp+
  from unknown_field_is_harmless [OF wire_laws sample_ok(3) this(1) _ this(2)] show ?thesis by simp
qed

text \<open>
  C10: A call through the generated client is the call of the service: for each of the thirteen methods of the two services, when the
  connection delivers requests to the tables that the server was given, the client gets what the service returns for the request (cached sizes
  apart), errors included, and the service is left in the state that call leaves. Each method reaches its own handler, and both messages survive the wire.
\<close>

theorem client_calls_are_transparent:
  fixes tt :: ttrpc_runtime and svc :: "('u, 's) AgentService" and hs :: "('u, 's) HealthService"
  assumes rt: "protobuf_runtime rt" and conn: "delivers (server_services tt rt svc hs) conn"
  shows "(\<forall>req s. CreateContainerRequest_ok rt req \<and> (\<forall>rep s'. svc_create_container svc (CreateContainerRequest_fresh rt req) s = (Inr rep, s') \<longrightarrow> CreateContainerResponse_ok rt rep) \<longrightarrow>
        AgentServiceClient_create_container tt rt conn req s = reply tt (CreateContainerResponse_fresh rt) (svc_create_container svc (CreateContainerRequest_fresh rt req) s)) \<and>
     (\<forall>req s. StartContainerRequest_ok rt req \<and> (\<forall>rep s'. svc_start_container svc (StartContainerRequest_fresh rt req) s = (Inr rep, s') \<longrightarrow> StartContainerResponse_ok rt rep) \<longrightarrow>
        AgentServiceClient_start_container tt rt conn req s = reply tt (StartContainerResponse_fresh rt) (svc_start_container svc (StartContainerRequest_fresh rt req) s)) \<and>
     (\<forall>req s. CreateContainerRequest_ok rt req \<and> (\<forall>rep s'. svc_run_container svc (CreateContainerRequest_fresh rt req) s = (Inr rep, s') \<longrightarrow> StartContainerResponse_ok rt rep) \<longrightarrow>
        AgentServiceClient_run_container tt rt conn req s = reply tt (StartContainerResponse_fresh rt) (svc_run_container svc (CreateContainerRequest_fresh rt req) s)) \<and>
     (\<forall>req s. KillContainerRequest_ok rt req \<and> (\<forall>rep s'. svc_kill_container svc (KillContainerRequest_fresh rt req) s = (Inr rep, s') \<longrightarrow> KillContainerResponse_ok rt rep) \<longrightarrow>
        AgentServiceClient_kill_container tt rt conn req s = reply tt (KillContainerResponse_fresh rt) (svc_kill_container svc (KillContainerRequest_fresh rt req) s)) \<and>
     (\<forall>req s. DeleteContainerRequest_ok rt req \<and> (\<forall>rep s'. svc_delete_container svc (DeleteContainerRequest_fresh rt req) s = (Inr rep, s') \<longrightarrow> DeleteContainerResponse_ok rt rep) \<longrightarrow>
        AgentServiceClient_delete_container tt rt conn req s = reply tt (DeleteContainerResponse_fresh rt) (svc_delete_container svc (DeleteContainerRequest_fresh rt req) s)) \<and>
     (\<forall>req s. WaitContainerRequest_ok rt req \<and> (\<forall>rep s'. svc_wait_container svc (WaitContainerRequest_fresh rt req) s = (Inr rep, s') \<longrightarrow> WaitContainerResponse_ok rt rep) \<longrightarrow>
        AgentServiceClient_wait_container tt rt conn req s = reply tt (WaitContainerResponse_fresh rt) (svc_wait_container svc (WaitContainerRequest_fresh rt req) s)) \<and>
     (\<forall>req s. ExecProcessRequest_ok rt req \<and> (\<forall>rep s'. svc_exec_process svc (ExecProcessRequest_fresh rt req) s = (Inr rep, s') \<longrightarrow> ExecProcessResponse_ok rt rep) \<longrightarrow>
        AgentServiceClient_exec_process tt rt conn req s = reply tt (ExecProcessResponse_fresh rt) (svc_exec_process svc (ExecProcessRequest_fresh rt req) s)) \<and>
     (\<forall>req s. StateContainerRequest_ok rt req \<and> (\<forall>rep s'. svc_state_container svc (StateContainerRequest_fresh rt req) s = (Inr rep, s') \<longrightarrow> StateContainerResponse_ok rt rep) \<longrightarrow>
        AgentServiceClient_state_container tt rt conn req s = reply tt (StateContainerResponse_fresh rt) (svc_state_container svc (StateContainerRequest_fresh rt req) s)) \<and>
     (\<forall>req s. GetMemInfoRequest_ok rt req \<and> (\<forall>rep s'. svc_get_mem_info svc (GetMemInfoRequest_fresh rt req) s = (Inr rep, s') \<longrightarrow> GetMemInfoResponse_ok rt rep) \<longrightarrow>
        AgentServiceClient_get_mem_info tt rt conn req s = reply tt (GetMemInfoResponse_fresh rt) (svc_get_mem_info svc (GetMemInfoRequest_fresh rt req) s)) \<and>
     (\<forall>req s. GetContainerLogsRequest_ok rt req \<and> (\<forall>rep s'. svc_get_container_logs svc (GetContainerLogsRequest_fresh rt req) s = (Inr rep, s') \<longrightarrow> GetContainerLogsResponse_ok rt rep) \<longrightarrow>
        AgentServiceClient_get_container_logs tt rt conn req s = reply tt (GetContainerLogsResponse_fresh rt) (svc_get_container_logs svc (GetContainerLogsRequest_fresh rt req) s)) \<and>
     (\<forall>req s. ConfigureNetworkRequest_ok rt req \<and> (\<forall>rep s'. svc_configure_network svc (ConfigureNetworkRequest_fresh rt req) s = (Inr rep, s') \<longrightarrow> ConfigureNetworkResponse_ok rt rep) \<longrightarrow>
        AgentServiceClient_configure_network tt rt conn req s = reply tt (ConfigureNetworkResponse_fresh rt) (svc_configure_network svc (ConfigureNetworkRequest_fresh rt req) s)) \<and>
     (\<forall>req s. AdoptContainerRequest_ok rt req \<and> (\<forall>rep s'. svc_adopt_container svc (AdoptContainerRequest_fresh rt req) s = (Inr rep, s') \<longrightarrow> AdoptContainerResponse_ok rt rep) \<longrightarrow>
        AgentServiceClient_adopt_container tt rt conn req s = reply tt (AdoptContainerResponse_fresh rt) (svc_adopt_container svc (AdoptContainerRequest_fresh rt req) s)) \<and>
     (\<forall>req s. CheckRequest_ok rt req \<and> (\<forall>rep s'. svc_check hs (CheckRequest_fresh rt req) s = (Inr rep, s') \<longrightarrow> CheckResponse_ok rt rep) \<longrightarrow>
        HealthServiceClient_check tt rt conn req s = reply tt (CheckResponse_fresh rt) (svc_check hs (CheckRequest_fresh rt req) s))"
  by (intro conjI allI impI; elim conjE; rule protobuf_runtime.calls_transparent [OF rt conn]; blast)

theorem client_calls_are_transparent_witness:
  "AgentServiceClient_exec_process tt0 wire (\<lambda>service method payload s. case map_of (server_services tt0 wire AgentService_default HealthService_default) service of
        None \<Rightarrow> (Inl NoAnswer, s) | Some ms \<Rightarrow> (case map_of ms method of None \<Rightarrow> (Inl NoAnswer, s) | Some h \<Rightarrow> h payload s))
      (ExecProcessRequest_new wire) (3 :: nat) =
     (Inl (RpcStatus NOT_FOUND ''/cloudhv.agent.AgentService/ExecProcess is not supported''), 3)"
proof -
  let ?t = "server_services tt0 wire (AgentService_default :: (wire_unknown, nat) AgentService) HealthService_default"
  have conn: "delivers ?t (\<lambda>service method payload s. case map_of ?t service of
      None \<Rightarrow> (Inl NoAnswer, s) | Some ms \<Rightarrow> (case map_of ms method of None \<Rightarrow> (Inl NoAnswer, s) | Some h \<Rightarrow> h payload s))"
    by (simp add: delivers_def)
  have ok: "ExecProcessRequest_ok wire (ExecProcessRequest_new wire)"
    by (simp add: ExecProcessRequest_ok_def ExecProcessRequest_new_def SpecialFields_new_def string_ok_def ascii_utf8 ascii_def)
  show ?thesis using client_calls_are_transparent [OF wire_laws conn] ok
    by (simp add: AgentService_default_def not_supported_def reply_def tt0_def)
qed

end
