(* ===== verification/Host.thy ===== *)
theory Host
  imports RustStd
begin

text \<open>
  The boundary between the program and its environment. The operating system, Cloud
  Hypervisor, crun, mkfs.erofs, containerd, the peers of the sockets and the clocks are not
  part of the repository; the program reaches them by calls. A call is a value of \<open>call\<close>; the
  state of every component records the calls made so far, in order, and the environment \<open>env\<close>,
  a parameter of every definition that uses it, answers a call from the history before it.
  Every environment whose answers depend on what happened before is such a function, so a
  theorem for all \<open>env\<close> covers every behaviour of the outside, every failure included.
  The serialised forms of JSON and base64 (crates \<^verbatim>\<open>serde_json\<close> and \<^verbatim>\<open>base64\<close>) are parameters
  of the same record.

  \<open>loop_fuel\<close> bounds the polling loops: a loop that is still running after that many rounds
  returns \<open>Diverge\<close>. The theorems that a loop returns state how much fuel is enough.
\<close>

section \<open>JSON values\<close>

text \<open>
  \<^verbatim>\<open>serde_json::Value\<close> as a tree. An object is its list of members; \<open>j_get\<close> and \<open>j_set\<close> are
  lookup and insertion by key.
\<close>

datatype json =
    JNull
  | JBool bool
  | JNum nat
  | JStr string
  | JArr "json list"
  | JObj "(string \<times> json) list"

fun j_get :: "string \<Rightarrow> json \<Rightarrow> json option" where
  "j_get k (JObj ms) = map_of ms k"
| "j_get k _ = None"

fun as_str :: "json \<Rightarrow> string option" where
  "as_str (JStr s) = Some s"
| "as_str _ = None"

fun as_num :: "json \<Rightarrow> nat option" where
  "as_num (JNum n) = Some n"
| "as_num _ = None"

fun as_bool :: "json \<Rightarrow> bool option" where
  "as_bool (JBool b) = Some b"
| "as_bool _ = None"

fun as_array :: "json \<Rightarrow> json list option" where
  "as_array (JArr xs) = Some xs"
| "as_array _ = None"

text \<open>\<^verbatim>\<open>obj.insert(k, v)\<close> and \<^verbatim>\<open>obj.remove(k)\<close> under \<^verbatim>\<open>as_object_mut\<close>: nothing on a non-object.\<close>

fun j_set :: "string \<Rightarrow> json \<Rightarrow> json \<Rightarrow> json" where
  "j_set k v (JObj ms) = JObj (AList.update k v ms)"
| "j_set k v j = j"

fun j_del :: "string \<Rightarrow> json \<Rightarrow> json" where
  "j_del k (JObj ms) = JObj (AList.delete k ms)"
| "j_del k j = j"

text \<open>
  Following object keys, as \<^verbatim>\<open>pointer\<close> does on a path of plain keys, and changing the value
  there in place, as \<^verbatim>\<open>pointer_mut\<close> allows; nothing changes when the path leads nowhere.
\<close>

fun j_path :: "string list \<Rightarrow> json \<Rightarrow> json option" where
  "j_path [] j = Some j"
| "j_path (k # ks) j = (case j_get k j of None \<Rightarrow> None | Some v \<Rightarrow> j_path ks v)"

fun j_at :: "string list \<Rightarrow> (json \<Rightarrow> json) \<Rightarrow> json \<Rightarrow> json" where
  "j_at [] f j = f j"
| "j_at (k # ks) f j = (case j_get k j of None \<Rightarrow> j | Some v \<Rightarrow> j_set k (j_at ks f v) j)"

text \<open>\<^verbatim>\<open>v.get(k).and_then(|v| v.as_str()).unwrap_or(d)\<close>\<close>

definition str_field :: "string \<Rightarrow> string \<Rightarrow> json \<Rightarrow> string" where
  "str_field k d j = (case Option.bind (j_get k j) as_str of None \<Rightarrow> d | Some s \<Rightarrow> s)"

lemma j_get_set [simp]:
  "j_get k (j_set k' v (JObj ms)) = (if k = k' then Some v else j_get k (JObj ms))"
  by (simp add: update_conv')

lemma j_get_del [simp]:
  "j_get k (j_del k' (JObj ms)) = (if k = k' then None else j_get k (JObj ms))"
  by (simp add: delete_conv')

section \<open>Calls\<close>

type_synonym agent = nat \<comment> \<open>a ttrpc connection to a guest agent\<close>

datatype fs_call =
    F_Exists path | F_CreateDirAll path | F_RemoveDirAll path | F_RemoveFile path
  | F_Read path | F_Write path string | F_Create path | F_HardLink path path | F_Copy path path
  | F_Rename path path | F_Symlink path path | F_SetMode path nat | F_ReadDir path | F_Mtime path
  | F_Flock path | F_Mount string path string "nat list" string | F_Chmod path nat | F_Mknod path nat nat nat | F_Umask nat
  | F_InotifyInit | F_InotifyAdd path | F_InotifyPoll nat | F_InotifyRead nat

datatype os_call =
    P_Spawn string "string list" | P_Output string "string list" | P_Kill u32 nat
  | P_Sleep nat | P_Now | P_Yield | P_WallClock | P_Subreaper | P_PidfdOpen u32 | P_AsyncFd u32 | P_Readable u32
  | P_TryWait u32 | P_Wait u32 | P_AwaitSignal

datatype ch_call =
    A_Connect path | A_Handshake path | A_Send path string string "string option" | A_Body path

datatype guest_call =
    V_Connect path | V_Write path string | V_ReadLine path nat | V_Open path
  | R_Run agent string string nat | R_Kill agent string nat | R_Wait agent string
  | R_Delete agent string | R_ConfigureNetwork agent string string nat string string

datatype agent_call =
    G_Socket | G_Bind nat nat | G_Listen nat | G_Close nat | G_AddListener nat | G_ServerStart | G_ServerStop

datatype net_call =
    N_Open path | N_Set nat | N_Socket | N_Bind | N_Connect | N_Send bytes | N_Recv nat | N_TunOpen
  | N_TunSetIff bytes | N_TunSetPersist

datatype peer_call =
    D_ImageDigest string | D_Connect path | D_Write path string | D_ReadLine path bool
  | D_Bind path | D_ConnRead | D_ConnWrite string

datatype call =
    Fs fs_call \<comment> \<open>file system, mounts and device nodes\<close>
  | Os os_call \<comment> \<open>processes and clocks\<close>
  | Ch ch_call \<comment> \<open>Cloud Hypervisor's API socket (HTTP over a Unix socket)\<close>
  | Guest guest_call \<comment> \<open>the vsock proxy and the guest agent behind it\<close>
  | Vsrv agent_call \<comment> \<open>the guest agent's listener and its RPC server\<close>
  | Net net_call \<comment> \<open>network namespaces, netlink sockets and TAP devices\<close>
  | Peer peer_call \<comment> \<open>containerd's image service and the daemon's socket, from the shim's and the daemon's side\<close>

abbreviation "FsExists p \<equiv> Fs (F_Exists p)"
abbreviation "FsCreateDirAll p \<equiv> Fs (F_CreateDirAll p)"
abbreviation "FsRemoveDirAll p \<equiv> Fs (F_RemoveDirAll p)"
abbreviation "FsRemoveFile p \<equiv> Fs (F_RemoveFile p)"
abbreviation "FsRead p \<equiv> Fs (F_Read p)"
abbreviation "FsWrite p x \<equiv> Fs (F_Write p x)"
abbreviation "FsCreate p \<equiv> Fs (F_Create p)"
abbreviation "FsHardLink p q \<equiv> Fs (F_HardLink p q)"
abbreviation "FsCopy p q \<equiv> Fs (F_Copy p q)"
abbreviation "FsRename p q \<equiv> Fs (F_Rename p q)"
abbreviation "FsSymlink p q \<equiv> Fs (F_Symlink p q)"
abbreviation "FsSetMode p m \<equiv> Fs (F_SetMode p m)"
abbreviation "FsReadDir p \<equiv> Fs (F_ReadDir p)"
abbreviation "FsMtime p \<equiv> Fs (F_Mtime p)"
abbreviation "FsFlock p \<equiv> Fs (F_Flock p)"
abbreviation "MountFs src tgt ty fl opts \<equiv> Fs (F_Mount src tgt ty fl opts)"
abbreviation "FsChmod p m \<equiv> Fs (F_Chmod p m)"
abbreviation "FsMknod p m major minor \<equiv> Fs (F_Mknod p m major minor)"
abbreviation "FsUmask m \<equiv> Fs (F_Umask m)"
abbreviation "InotifyInit \<equiv> Fs F_InotifyInit"
abbreviation "InotifyAdd p \<equiv> Fs (F_InotifyAdd p)"
abbreviation "InotifyPoll ms \<equiv> Fs (F_InotifyPoll ms)"
abbreviation "InotifyRead n \<equiv> Fs (F_InotifyRead n)"
abbreviation "ProcSpawn b as \<equiv> Os (P_Spawn b as)"
abbreviation "ProcOutput b as \<equiv> Os (P_Output b as)"
abbreviation "ProcKill p sig \<equiv> Os (P_Kill p sig)"
abbreviation "Sleep ms \<equiv> Os (P_Sleep ms)"
abbreviation "Now \<equiv> Os P_Now"
abbreviation "Yield \<equiv> Os P_Yield"
abbreviation "WallClock \<equiv> Os P_WallClock"
abbreviation "Subreaper \<equiv> Os P_Subreaper"
abbreviation "PidfdOpen p \<equiv> Os (P_PidfdOpen p)"
abbreviation "AsyncFdNew p \<equiv> Os (P_AsyncFd p)"
abbreviation "PidfdReadable p \<equiv> Os (P_Readable p)"
abbreviation "ChildTryWait p \<equiv> Os (P_TryWait p)"
abbreviation "ChildWait p \<equiv> Os (P_Wait p)"
abbreviation "AwaitSignal \<equiv> Os P_AwaitSignal"
abbreviation "ApiConnect p \<equiv> Ch (A_Connect p)"
abbreviation "ApiHandshake p \<equiv> Ch (A_Handshake p)"
abbreviation "ApiSend p m u b \<equiv> Ch (A_Send p m u b)"
abbreviation "ApiBody p \<equiv> Ch (A_Body p)"
abbreviation "VsockConnect p \<equiv> Guest (V_Connect p)"
abbreviation "VsockWrite p x \<equiv> Guest (V_Write p x)"
abbreviation "VsockReadLine p secs \<equiv> Guest (V_ReadLine p secs)"
abbreviation "VsockOpen p \<equiv> Guest (V_Open p)"
abbreviation "RpcRunContainer a cid cfg layers \<equiv> Guest (R_Run a cid cfg layers)"
abbreviation "RpcKill a cid sig \<equiv> Guest (R_Kill a cid sig)"
abbreviation "RpcWait a cid \<equiv> Guest (R_Wait a cid)"
abbreviation "RpcDelete a cid \<equiv> Guest (R_Delete a cid)"
abbreviation "RpcConfigureNetwork a ip gw pfx dev mac \<equiv> Guest (R_ConfigureNetwork a ip gw pfx dev mac)"
abbreviation "VsockSocket \<equiv> Vsrv G_Socket"
abbreviation "VsockBind fd port \<equiv> Vsrv (G_Bind fd port)"
abbreviation "VsockListen fd \<equiv> Vsrv (G_Listen fd)"
abbreviation "VsockClose fd \<equiv> Vsrv (G_Close fd)"
abbreviation "AddListener fd \<equiv> Vsrv (G_AddListener fd)"
abbreviation "ServerStart \<equiv> Vsrv G_ServerStart"
abbreviation "ServerStop \<equiv> Vsrv G_ServerStop"
abbreviation "NsOpen p \<equiv> Net (N_Open p)"
abbreviation "NsSet fd \<equiv> Net (N_Set fd)"
abbreviation "NlSocket \<equiv> Net N_Socket"
abbreviation "NlBind \<equiv> Net N_Bind"
abbreviation "NlConnect \<equiv> Net N_Connect"
abbreviation "NlSend b \<equiv> Net (N_Send b)"
abbreviation "NlRecv n \<equiv> Net (N_Recv n)"
abbreviation "TunOpen \<equiv> Net N_TunOpen"
abbreviation "TunSetIff b \<equiv> Net (N_TunSetIff b)"
abbreviation "TunSetPersist \<equiv> Net N_TunSetPersist"
abbreviation "ImageDigest r \<equiv> Peer (D_ImageDigest r)"
abbreviation "DaemonConnect p \<equiv> Peer (D_Connect p)"
abbreviation "DaemonWrite p x \<equiv> Peer (D_Write p x)"
abbreviation "DaemonReadLine p timed \<equiv> Peer (D_ReadLine p timed)"

abbreviation "ServerBind p \<equiv> Peer (D_Bind p)"
abbreviation "ConnRead \<equiv> Peer D_ConnRead"
abbreviation "ConnWrite x \<equiv> Peer (D_ConnWrite x)"

record env =
  ans_unit :: "call list \<Rightarrow> call \<Rightarrow> os_err + unit"
  ans_bool :: "call list \<Rightarrow> call \<Rightarrow> bool"
  ans_nat :: "call list \<Rightarrow> call \<Rightarrow> os_err + nat"
  ans_clock :: "call list \<Rightarrow> nat"
  ans_str :: "call list \<Rightarrow> call \<Rightarrow> os_err + string"
  ans_strs :: "call list \<Rightarrow> call \<Rightarrow> os_err + string list"
  ans_opt :: "call list \<Rightarrow> call \<Rightarrow> string option"
  ans_bytes :: "call list \<Rightarrow> call \<Rightarrow> os_err + bytes"
  ans_exit :: "call list \<Rightarrow> call \<Rightarrow> os_err + nat \<times> string"
  ans_line :: "call list \<Rightarrow> call \<Rightarrow> (os_err + string) option"
  ans_time :: "call list \<Rightarrow> string"
  ans_code :: "call list \<Rightarrow> call \<Rightarrow> os_err + u32 option"
  ans_try :: "call list \<Rightarrow> call \<Rightarrow> os_err + u32 option option"
  process_id :: u32
  loop_fuel :: nat
  json_parse :: "string \<Rightarrow> json option"
  json_error :: "string \<Rightarrow> string"
  json_print :: "json \<Rightarrow> string"
  json_pretty :: "json \<Rightarrow> string"
  b64_encode :: "string \<Rightarrow> string"
  b64_decode :: "string \<Rightarrow> string option"
  os_text :: "nat \<Rightarrow> string"
  status_text :: "nat \<Rightarrow> string"

text \<open>
  An environment in which every call succeeds with the plainest answer; the witnesses of the
  theorems start from it.
\<close>

definition calm_env :: env where
  "calm_env = \<lparr>ans_unit = (\<lambda>_ _. Inr ()), ans_bool = (\<lambda>_ _. True), ans_nat = (\<lambda>_ _. Inr 0),
     ans_clock = (\<lambda>_. 0), ans_str = (\<lambda>_ _. Inr []), ans_strs = (\<lambda>_ _. Inr []), ans_opt = (\<lambda>_ _. None),
     ans_bytes = (\<lambda>_ _. Inr []), ans_exit = (\<lambda>_ _. Inr (0, [])),
     ans_line = (\<lambda>_ _. Some (Inr ''OK'')), ans_time = (\<lambda>_. []), ans_code = (\<lambda>_ _. Inr (Some 0)),
     ans_try = (\<lambda>_ _. Inr (Some (Some 0))), process_id = 1234, loop_fuel = 1,
     json_parse = (\<lambda>_. None), json_error = (\<lambda>_. ''parse error''), json_print = (\<lambda>_. []),
     json_pretty = (\<lambda>_. []), b64_encode = id, b64_decode = Some, os_text = (\<lambda>_. []),
     status_text = (\<lambda>_. [])\<rparr>"

lemma calm_env_sel [simp]:
  "ans_unit calm_env h c = Inr ()" "ans_bool calm_env h c" "ans_nat calm_env h c = Inr 0" "ans_clock calm_env h = 0"
  "ans_str calm_env h c = Inr []" "ans_strs calm_env h c = Inr []" "ans_opt calm_env h c = None"
  "ans_line calm_env h c = Some (Inr ''OK'')" "process_id calm_env = 1234" "loop_fuel calm_env = 1"
  "json_parse calm_env x = None" "json_print calm_env j = []" "json_pretty calm_env j = []"
  "b64_decode calm_env x = Some x" "b64_encode calm_env x = x" "ans_exit calm_env h c = Inr (0, [])"
  "json_error calm_env x = ''parse error''" "ans_time calm_env h = []" "ans_code calm_env h c = Inr (Some 0)" "ans_try calm_env h c = Inr (Some (Some 0))"
  by (simp_all add: calm_env_def)

text \<open>
  An environment in which, on top of that, Cloud Hypervisor answers every request with success,
  processes and connections get number 42, and every text parses to an empty object.
\<close>

definition live_env :: env where
  "live_env = calm_env\<lparr>ans_nat := \<lambda>_ c. Inr (case c of Ch _ \<Rightarrow> 200 | _ \<Rightarrow> 42),
     json_parse := \<lambda>_. Some (JObj [])\<rparr>"

lemma live_env_sel [simp]:
  "ans_unit live_env h c = Inr ()" "ans_bool live_env h c"
  "ans_nat live_env h c = Inr (case c of Ch _ \<Rightarrow> 200 | _ \<Rightarrow> 42)" "ans_clock live_env h = 0"
  "ans_str live_env h c = Inr []" "ans_strs live_env h c = Inr []" "ans_opt live_env h c = None"
  "ans_line live_env h c = Some (Inr ''OK'')" "process_id live_env = 1234" "loop_fuel live_env = 1"
  "json_parse live_env x = Some (JObj [])" "json_print live_env j = []" "json_pretty live_env j = []"
  "b64_decode live_env x = Some x" "b64_encode live_env x = x" "ans_exit live_env h c = Inr (0, [])"
  "ans_code live_env h c = Inr (Some 0)" "ans_try live_env h c = Inr (Some (Some 0))" "ans_time live_env h = []"
  by (simp_all add: live_env_def)

record world =
  calls :: "call list"

text \<open>
  \<open>ask\<close> makes a call that may fail, \<open>askb\<close> one that answers yes or no, \<open>tell\<close> one whose
  outcome is not looked at.
\<close>

definition log_call :: "call \<Rightarrow> 'z world_scheme \<Rightarrow> 'z world_scheme" where
  "log_call c s = s\<lparr>calls := calls s @ [c]\<rparr>"

definition ask :: "(call list \<Rightarrow> call \<Rightarrow> os_err + 'a) \<Rightarrow> call \<Rightarrow> ('z world_scheme, 'a) prog" where
  "ask f c s = (case f (calls s) c of Inl e \<Rightarrow> (Inl (of_os e), log_call c s) | Inr x \<Rightarrow> (Inr x, log_call c s))"

definition askb :: "env \<Rightarrow> call \<Rightarrow> ('z world_scheme, bool) prog" where
  "askb E c s = (Inr (ans_bool E (calls s) c), log_call c s)"

definition asko :: "env \<Rightarrow> call \<Rightarrow> ('z world_scheme, string option) prog" where
  "asko E c s = (Inr (ans_opt E (calls s) c), log_call c s)"

text \<open>\<^verbatim>\<open>Instant::now()\<close>, in milliseconds; reading the clock cannot fail.\<close>

definition clock_now :: "env \<Rightarrow> ('z world_scheme, nat) prog" where
  "clock_now E s = (Inr (ans_clock E (calls s)), log_call Now s)"

text \<open>\<^verbatim>\<open>chrono::Utc::now().to_rfc3339()\<close>\<close>

definition wall_now :: "env \<Rightarrow> ('z world_scheme, string) prog" where
  "wall_now E s = (Inr (ans_time E (calls s)), log_call WallClock s)"

text \<open>A read under a time limit: \<open>None\<close> when the limit passes first.\<close>

definition askl :: "env \<Rightarrow> call \<Rightarrow> ('z world_scheme, (os_err + string) option) prog" where
  "askl E c s = (Inr (ans_line E (calls s) c), log_call c s)"

text \<open>\<^verbatim>\<open>serde_json::from_str(s)?\<close>\<close>

definition parse_json :: "env \<Rightarrow> string \<Rightarrow> ('z world_scheme, json) prog" where
  "parse_json E x = ofOptE (msg (json_error E x)) (json_parse E x)"

definition tell :: "call \<Rightarrow> ('z world_scheme, unit) prog" where
  "tell c s = (Inr (), log_call c s)"

lemmas ask_defs = clock_now_def wall_now_def ask_def askb_def asko_def askl_def tell_def log_call_def parse_json_def

declare clock_now_def [prog_simps] wall_now_def [prog_simps] askl_def [prog_simps] parse_json_def [prog_simps] askb_def [prog_simps] asko_def [prog_simps] tell_def [prog_simps] ask_def [prog_simps]

lemma ask_Inr [inr_simps]:
  "ask f c s = (Inr x, s') \<longleftrightarrow> f (calls s) c = Inr x \<and> s' = log_call c s"
  by (auto simp: ask_def split: sum.splits)

lemma asks_Inr [inr_simps]:
  "askb E c s = (Inr b, s') \<longleftrightarrow> b = ans_bool E (calls s) c \<and> s' = log_call c s"
  "asko E c s = (Inr v, s') \<longleftrightarrow> v = ans_opt E (calls s) c \<and> s' = log_call c s"
  "clock_now E s = (Inr t, s') \<longleftrightarrow> t = ans_clock E (calls s) \<and> s' = log_call Now s"
  "askl E c s = (Inr l, s') \<longleftrightarrow> l = ans_line E (calls s) c \<and> s' = log_call c s"
  "tell c s = (Inr u, s') \<longleftrightarrow> s' = log_call c s"
  "parse_json E x s = (Inr j, s') \<longleftrightarrow> json_parse E x = Some j \<and> s' = s"
  by (auto simp: ask_defs inr_simps)

section \<open>Frame rule\<close>

text \<open>
  A program of the lower layers only makes calls: whatever record it runs in, all it changes
  is that the history grows. \<open>only_calls\<close> is closed under every combinator, so the fact for a
  whole operation is found by applying the rules of its constructs.
\<close>

definition only_calls :: "('z world_scheme, 'a) prog \<Rightarrow> bool" where
  "only_calls m \<longleftrightarrow> (\<forall>s. \<exists>cs. snd (m s) = s\<lparr>calls := calls s @ cs\<rparr>)"

lemma only_callsI: "(\<And>s. \<exists>cs. snd (m s) = s\<lparr>calls := calls s @ cs\<rparr>) \<Longrightarrow> only_calls m"
  by (simp add: only_calls_def)

lemma only_callsE:
  assumes "only_calls m" and "m s = (r, s')"
  obtains cs where "s' = s\<lparr>calls := calls s @ cs\<rparr>"
  using assms by (metis only_calls_def snd_conv)

lemma snd_ask: "snd (ask f c s) = log_call c s"
  by (simp add: ask_def split: sum.split)

lemma snd_asks [simp]:
  "snd (askb E c s) = log_call c s" "snd (asko E c s) = log_call c s"
  "snd (clock_now E s) = log_call Now s" "snd (wall_now E s) = log_call WallClock s"
  "snd (askl E c s) = log_call c s" "snd (tell c s) = log_call c s"
  by (simp_all add: askb_def asko_def askl_def tell_def clock_now_def wall_now_def)

lemma only_calls_ask [frame_rules]: "only_calls (ask f c)"
  and only_calls_askb [frame_rules]: "only_calls (askb E c)"
  and only_calls_asko [frame_rules]: "only_calls (asko E c)"
  and only_calls_askl [frame_rules]: "only_calls (askl E c)"
  and only_calls_tell [frame_rules]: "only_calls (tell c)"
  and only_calls_clock_now [frame_rules]: "only_calls (clock_now E)"
  and only_calls_wall_now [frame_rules]: "only_calls (wall_now E)"
  by (auto simp: only_calls_def snd_ask log_call_def)

lemma world_calls_idem: "s\<lparr>calls := calls s @ []\<rparr> = (s :: 'z world_scheme)"
  by simp

lemma only_calls_id: "(\<And>s. snd (m s) = s) \<Longrightarrow> only_calls m"
  unfolding only_calls_def by (metis world_calls_idem)

lemma only_calls_retE [frame_rules]: "only_calls (retE x)"
  and only_calls_failE [frame_rules]: "only_calls (failE e)"
  and only_calls_getE [frame_rules]: "only_calls (getE f)"
  and only_calls_ofSumE [frame_rules]: "only_calls (ofSumE r)"
  by (rule only_calls_id, simp add: prog_ops_defs)+

lemma only_calls_ofOptE [frame_rules]: "only_calls (ofOptE e x)"
  by (cases x) (simp_all add: ofOptE_def frame_rules)

lemma only_calls_parse_json [frame_rules]: "only_calls (parse_json E x)"
  unfolding parse_json_def by (rule only_calls_ofOptE)

lemma only_calls_bindE [frame_rules]:
  assumes "only_calls m" and "\<And>x. only_calls (f x)"
  shows "only_calls (bindE m f)"
proof (rule only_callsI)
  fix s
  obtain cs where cs: "snd (m s) = s\<lparr>calls := calls s @ cs\<rparr>"
    using assms(1) by (auto simp: only_calls_def)
  show "\<exists>cs. snd (bindE m f s) = s\<lparr>calls := calls s @ cs\<rparr>"
  proof (cases "fst (m s)")
    case (Inl e)
    with cs show ?thesis by (auto simp: snd_bindE)
  next
    case (Inr x)
    obtain ds where "snd (f x (snd (m s))) = (snd (m s))\<lparr>calls := calls (snd (m s)) @ ds\<rparr>"
      using assms(2) by (auto simp: only_calls_def)
    with Inr cs have "snd (bindE m f s) = s\<lparr>calls := calls s @ (cs @ ds)\<rparr>"
      by (simp add: snd_bindE)
    then show ?thesis by blast
  qed
qed

lemma only_calls_thenE [frame_rules]: "only_calls m \<Longrightarrow> only_calls n \<Longrightarrow> only_calls (thenE m n)"
  unfolding thenE_def by (rule only_calls_bindE)

lemma only_calls_finallyE [frame_rules]:
  assumes "only_calls m" and "only_calls fin" shows "only_calls (finallyE m fin)"
proof (rule only_callsI)
  fix s
  obtain cs where cs: "snd (m s) = s\<lparr>calls := calls s @ cs\<rparr>"
    using assms(1) by (auto simp: only_calls_def)
  obtain ds where "snd (fin (snd (m s))) = (snd (m s))\<lparr>calls := calls (snd (m s)) @ ds\<rparr>"
    using assms(2) by (auto simp: only_calls_def)
  with cs have "snd (fin (snd (m s))) = s\<lparr>calls := calls s @ (cs @ ds)\<rparr>" by simp
  with cs show "\<exists>cs. snd (finallyE m fin s) = s\<lparr>calls := calls s @ cs\<rparr>"
    unfolding snd_finallyE by (metis (full_types))
qed

lemma only_calls_blockingE [frame_rules]: "only_calls m \<Longrightarrow> only_calls (blockingE c m)"
  by (simp add: only_calls_def)

lemma only_calls_ctxE [frame_rules]: "only_calls m \<Longrightarrow> only_calls (ctxE c m)"
  and only_calls_catchE [frame_rules]: "only_calls m \<Longrightarrow> only_calls (catchE m)"
  and only_calls_ignoreE [frame_rules]: "only_calls m \<Longrightarrow> only_calls (ignoreE m)"
  by (simp_all add: only_calls_def)

lemma only_calls_if [frame_rules]:
  "only_calls m \<Longrightarrow> only_calls n \<Longrightarrow> only_calls (if b then m else n)"
  by simp

lemma only_calls_case_sum [frame_rules]:
  "(\<And>e. only_calls (f e)) \<Longrightarrow> (\<And>x. only_calls (g x)) \<Longrightarrow>
   only_calls (case r of Inl e \<Rightarrow> f e | Inr x \<Rightarrow> g x)"
  by (simp split: sum.split)

lemma only_calls_map_err [frame_rules]: "only_calls m \<Longrightarrow> only_calls (map_err f m)"
  by (simp add: only_calls_def)

lemma only_calls_case_option [frame_rules]:
  "only_calls m \<Longrightarrow> (\<And>y. only_calls (f y)) \<Longrightarrow>
   only_calls (case x of None \<Rightarrow> m | Some y \<Rightarrow> f y)"
  by (simp split: option.split)

lemma only_calls_case_prod [frame_rules]:
  "(\<And>a b. only_calls (f a b)) \<Longrightarrow> only_calls (case x of (a, b) \<Rightarrow> f a b)"
  by (simp split: prod.split)

lemma only_calls_let [frame_rules]: "only_calls (f x) \<Longrightarrow> only_calls (let y = x in f y)"
  by simp

text \<open>
  What an \<open>only_calls\<close> program keeps: every property of the state that does not look at the
  history.
\<close>

lemma preserves_only_calls:
  assumes "only_calls m" and "\<And>s cs. P s \<Longrightarrow> P (s\<lparr>calls := cs\<rparr>)"
  shows "preserves P m"
  using assms unfolding only_calls_def preserves_def by metis

text \<open>The history only grows.\<close>

lemma calls_prefix: "only_calls m \<Longrightarrow> \<exists>cs. calls (snd (m s)) = calls s @ cs"
  unfolding only_calls_def by (metis world.select_convs(1) world.surjective world.update_convs(1))

text \<open>\<open>makes P m\<close>: \<open>m\<close> only makes calls, and each of them satisfies \<open>P\<close>.\<close>

definition makes :: "(call \<Rightarrow> bool) \<Rightarrow> ('z world_scheme, 'a) prog \<Rightarrow> bool" where
  "makes P m \<longleftrightarrow> (\<forall>s. \<exists>cs. snd (m s) = s\<lparr>calls := calls s @ cs\<rparr> \<and> list_all P cs)"

lemma makesI: "(\<And>s. \<exists>cs. snd (m s) = s\<lparr>calls := calls s @ cs\<rparr> \<and> list_all P cs) \<Longrightarrow> makes P m"
  by (simp add: makes_def)

lemma makesD: "makes P m \<Longrightarrow> \<exists>cs. snd (m s) = s\<lparr>calls := calls s @ cs\<rparr> \<and> list_all P cs"
  by (simp add: makes_def)

lemma makes_asks [makes_rules]:
  "P c \<Longrightarrow> makes P (ask f c)" "P c \<Longrightarrow> makes P (askb E c)" "P c \<Longrightarrow> makes P (asko E c)"
  "P c \<Longrightarrow> makes P (askl E c)" "P c \<Longrightarrow> makes P (tell c)"
  by (rule makesI, rule exI [of _ "[c]"], simp add: snd_ask log_call_def)+

lemma makes_clocks [makes_rules]:
  "P Now \<Longrightarrow> makes P (clock_now E)" "P WallClock \<Longrightarrow> makes P (wall_now E)"
  unfolding makes_def by (auto simp: log_call_def intro: exI [of _ "[Now]"] exI [of _ "[WallClock]"])

lemma makes_none: "(\<And>s. snd (m s) = s) \<Longrightarrow> makes P m"
  by (rule makesI, rule exI [of _ "[]"]) simp

lemma makes_basic [makes_rules]:
  "makes P (retE x)" "makes P (failE e)" "makes P (getE f)" "makes P (ofSumE r)"
  by (rule makes_none, simp add: prog_ops_defs)+

lemma makes_ofOptE [makes_rules]: "makes P (ofOptE e v)" "makes P (parse_json E x)"
  unfolding parse_json_def by (rule makes_none, simp add: ofOptE_def failE_def retE_def split: option.split)+

lemma makes_bindE [makes_rules]:
  assumes "makes P m" and "\<And>x. makes P (f x)" shows "makes P (bindE m f)"
proof (rule makesI)
  fix s
  obtain cs where cs: "snd (m s) = s\<lparr>calls := calls s @ cs\<rparr>" "list_all P cs" using makesD [OF assms(1)] by blast
  show "\<exists>cs. snd (bindE m f s) = s\<lparr>calls := calls s @ cs\<rparr> \<and> list_all P cs"
  proof (cases "fst (m s)")
    case (Inl e)
    then show ?thesis using cs by (auto simp: snd_bindE)
  next
    case (Inr x)
    obtain ds where "snd (f x (snd (m s))) = (snd (m s))\<lparr>calls := calls (snd (m s)) @ ds\<rparr>" "list_all P ds"
      using makesD [OF assms(2)] by blast
    then have "snd (bindE m f s) = s\<lparr>calls := calls s @ (cs @ ds)\<rparr>" "list_all P (cs @ ds)"
      using cs Inr by (simp_all add: snd_bindE)
    then show ?thesis by blast
  qed
qed

lemma makes_combs [makes_rules]:
  "makes P m \<Longrightarrow> makes P n \<Longrightarrow> makes P (thenE m n)" "makes P k \<Longrightarrow> makes P (ctxE y k)"
  "makes P k \<Longrightarrow> makes P (map_err g k)" "makes P k \<Longrightarrow> makes P (catchE k)" "makes P k \<Longrightarrow> makes P (ignoreE k)" "makes P k \<Longrightarrow> makes P (blockingE y k)"
  unfolding thenE_def by (intro makes_bindE) (simp_all add: makes_def)

lemma makes_cases [makes_rules]:
  "(b \<Longrightarrow> makes P m) \<Longrightarrow> (\<not> b \<Longrightarrow> makes P n) \<Longrightarrow> makes P (if b then m else n)"
  "(\<And>e. makes P (f e)) \<Longrightarrow> (\<And>x. makes P (g x)) \<Longrightarrow> makes P (case r of Inl e \<Rightarrow> f e | Inr x \<Rightarrow> g x)"
  "makes P m \<Longrightarrow> (\<And>y. xo = Some y \<Longrightarrow> makes P (h y)) \<Longrightarrow> makes P (case xo of None \<Rightarrow> m | Some y \<Rightarrow> h y)"
  "(\<And>a c. p = (a, c) \<Longrightarrow> makes P (k a c)) \<Longrightarrow> makes P (case p of (a, c) \<Rightarrow> k a c)"
  by (simp_all split: sum.split option.split prod.split)

lemma plain_asks [plain_rules]:
  "plain (ask f c)" "plain (askb E c)" "plain (asko E c)" "plain (askl E c)" "plain (tell c)" "plain (clock_now E)"
  "plain (wall_now E)" "plain (parse_json E x)"
  by (auto simp: plain_def ask_defs of_os_def msg_def ofOptE_def failE_def retE_def split: sum.splits option.splits)

section \<open>Retry and polling loops\<close>

text \<open>
  A loop that polls until a deadline of the monotonic clock: each round reads the clock, gives
  up when the deadline has passed, runs \<open>body\<close> and stops on \<open>Some\<close>, otherwise idles and tries
  again.
\<close>

fun poll_deadline ::
  "env \<Rightarrow> nat \<Rightarrow> nat \<Rightarrow> ('z world_scheme, 'a option) prog \<Rightarrow> call \<Rightarrow> err \<Rightarrow> ('z world_scheme, 'a) prog"
where
  "poll_deadline E 0 dl body idle late = failE Diverge"
| "poll_deadline E (Suc n) dl body idle late =
     bindE (clock_now E) (\<lambda>t.
       if t < dl then
         bindE body (\<lambda>r. case r of
            Some x \<Rightarrow> retE x
          | None \<Rightarrow> thenE (tell idle) (poll_deadline E n dl body idle late))
       else failE late)"

text \<open>A loop of at most \<open>n\<close> rounds that idles between them; \<open>late\<close> when all rounds fail.\<close>

fun poll_times ::
  "nat \<Rightarrow> ('z world_scheme, 'a option) prog \<Rightarrow> call \<Rightarrow> ('z world_scheme, 'a) prog \<Rightarrow> ('z world_scheme, 'a) prog"
where
  "poll_times 0 body idle late = late"
| "poll_times (Suc n) body idle late =
     bindE body (\<lambda>r. case r of
        Some x \<Rightarrow> retE x
      | None \<Rightarrow> thenE (tell idle) (poll_times n body idle late))"

lemma only_calls_poll_deadline [frame_rules]:
  "only_calls body \<Longrightarrow> only_calls (poll_deadline E n dl body idle late)"
  by (induction n) (auto intro!: frame_rules)

lemma only_calls_poll_times [frame_rules]:
  "only_calls body \<Longrightarrow> only_calls late \<Longrightarrow> only_calls (poll_times n body idle late)"
  by (induction n) (auto intro!: frame_rules)

text \<open>
  When the loop returns. A clock reads the time from the history; it never runs backwards, and
  a sleep of \<open>d\<close> milliseconds moves it by at least \<open>d\<close>, as the monotonic clock and the timers of
  the runtime promise.
\<close>

definition clock_ok :: "env \<Rightarrow> (call list \<Rightarrow> nat) \<Rightarrow> bool" where
  "clock_ok E clk \<longleftrightarrow>
     (\<forall>h. ans_clock E h = clk h) \<and> (\<forall>h cs. clk h \<le> clk (h @ cs)) \<and>
     (\<forall>h d. clk h + d \<le> clk (h @ [Sleep d]))"

lemma poll_deadline_returns:
  assumes clk: "clock_ok E clk" and d: "0 < d"
    and body: "only_calls body" and ret: "\<And>s. fst (body s) \<noteq> Inl Diverge" and late: "late \<noteq> Diverge"
  shows "dl \<le> clk (calls s) + d * n \<Longrightarrow>
    fst (poll_deadline E (Suc n) dl body (Sleep d) late s) \<noteq> Inl Diverge"
proof (induction n arbitrary: s)
  case 0
  with clk late show ?case by (simp add: clock_ok_def prog_simps log_call_def)
next
  case (Suc n)
  let ?s1 = "log_call Now s"
  obtain r s2 where b: "body ?s1 = (r, s2)" by (cases "body ?s1")
  then obtain cs where s2: "s2 = ?s1\<lparr>calls := calls ?s1 @ cs\<rparr>" using body by (auto elim: only_callsE)
  have "clk (calls s) \<le> clk (calls s2)" using clk by (simp add: s2 clock_ok_def log_call_def)
  moreover have "clk (calls s2) + d \<le> clk (calls s2 @ [Sleep d])" using clk by (simp add: clock_ok_def)
  ultimately have "dl \<le> clk (calls (log_call (Sleep d) s2)) + d * n"
    using Suc.prems by (simp add: log_call_def)
  then have IH: "fst (poll_deadline E (Suc n) dl body (Sleep d) late (log_call (Sleep d) s2)) \<noteq> Inl Diverge"
    by (rule Suc.IH)
  have now: "clock_now E s = (Inr (clk (calls s)), ?s1)"
    using clk by (simp add: clock_ok_def clock_now_def)
  show ?case
  proof (cases "clk (calls s) < dl")
    case False
    with now late show ?thesis by (simp add: bindE_def failE_def)
  next
    case True
    show ?thesis
    proof (cases r)
      case (Inl e)
      with b ret [of ?s1] now True show ?thesis by (simp add: bindE_def)
    next
      case (Inr x)
      with b now True IH show ?thesis
        by (cases x) (simp_all add: bindE_def thenE_def tell_def retE_def del: poll_deadline.simps(1))
    qed
  qed
qed

end
