(* ===== verification/Netlink.thy ===== *)
theory Netlink
  imports Host
begin

text \<open>
  \<^verbatim>\<open>crates/common/src/netlink.rs\<close>: the NETLINK_ROUTE client that shim, daemon and agent share. A
  handle is a socket and its sequence counter; the counter is the local state \<open>netlink\<close> of the
  programs that use the handle, and \<open>with_netlink\<close> opens a handle, runs such a program and drops
  the handle. Byte order is little endian, as on the architectures the project builds for. An
  access outside a buffer is the panic it is in the source, so that absence of panics is a
  theorem about the parsers and not a convention.
\<close>

section \<open>Buffers\<close>

definition oob :: "err + 'a" where
  "oob = Inl (Panic ''index out of bounds'')"

definition le16 :: "u16 \<Rightarrow> bytes" where
  "le16 w = [ucast w, ucast (drop_bit 8 w)]"

definition le32 :: "u32 \<Rightarrow> bytes" where
  "le32 w = [ucast w, ucast (drop_bit 8 w), ucast (drop_bit 16 w), ucast (drop_bit 24 w)]"

definition u16_at :: "bytes \<Rightarrow> nat \<Rightarrow> err + u16" where
  "u16_at b off = (if off + 2 \<le> length b
     then Inr (ucast (b ! off) OR push_bit 8 (ucast (b ! (off + 1)))) else oob)"

definition u32_at :: "bytes \<Rightarrow> nat \<Rightarrow> err + u32" where
  "u32_at b off = (if off + 4 \<le> length b
     then Inr (ucast (b ! off) OR push_bit 8 (ucast (b ! (off + 1))) OR
               push_bit 16 (ucast (b ! (off + 2))) OR push_bit 24 (ucast (b ! (off + 3)))) else oob)"

text \<open>\<open>i32_at\<close> reads the same four bytes; the callers test it for zero, negate it or cast it to u32.\<close>

definition i32_at :: "bytes \<Rightarrow> nat \<Rightarrow> err + u32" where
  "i32_at b off = u32_at b off"

definition zeros :: "nat \<Rightarrow> bytes" where
  "zeros n = replicate n 0"

text \<open>\<^verbatim>\<open>m[o..o + bs.len()].copy_from_slice(bs)\<close>, on buffers that are long enough.\<close>

definition put_at :: "nat \<Rightarrow> bytes \<Rightarrow> bytes \<Rightarrow> bytes" where
  "put_at off bs m = take off m @ bs @ drop (off + length bs) m"

definition align4 :: "nat \<Rightarrow> nat" where
  "align4 n = (n + 3) div 4 * 4"

definition nlhdr :: "nat \<Rightarrow> u16 \<Rightarrow> u16 \<Rightarrow> u32 \<Rightarrow> bytes \<Rightarrow> bytes" where
  "nlhdr len ty flags seq m =
     put_at 8 (le32 seq) (put_at 6 (le16 flags) (put_at 4 (le16 ty) (put_at 0 (le32 (word_of_nat len)) m)))"

text \<open>\<^verbatim>\<open>put_nla(&mut m[o..], ty, n)\<close>\<close>

definition put_nla :: "nat \<Rightarrow> u16 \<Rightarrow> nat \<Rightarrow> bytes \<Rightarrow> bytes" where
  "put_nla off ty payload_len m = put_at (off + 2) (le16 ty) (put_at off (le16 (word_of_nat (4 + payload_len))) m)"

definition push_nla_str :: "bytes \<Rightarrow> u16 \<Rightarrow> string \<Rightarrow> bytes" where
  "push_nla_str buf ty s =
     (let b = buf @ le16 (word_of_nat (4 + length s + 1)) @ le16 ty @ str_bytes s @ [0]
      in b @ zeros (align4 (length b) - length b))"

text \<open>Fill in the header of an attribute that starts at \<open>start\<close> and reaches to the end of the buffer.\<close>

definition close_attr :: "nat \<Rightarrow> u16 \<Rightarrow> bytes \<Rightarrow> bytes" where
  "close_attr start ty buf =
     put_at (start + 2) (le16 ty) (put_at start (le16 (word_of_nat (length buf - start))) buf)"

definition close_nested :: "nat \<Rightarrow> u16 \<Rightarrow> bytes \<Rightarrow> bytes" where
  "close_nested start ty buf = close_attr start (ty OR 0x8000) buf"

section \<open>Parsers\<close>

definition hex2 :: "u8 \<Rightarrow> string" where
  "hex2 b = hex_fixed 2 (unat b)"

function parse_link_nlas_from :: "bytes \<Rightarrow> nat \<Rightarrow> string \<times> string \<Rightarrow> err + string \<times> string" where
  "parse_link_nlas_from data off nm =
     (if off + 4 \<le> length data then
        (case (u16_at data off, u16_at data (off + 2)) of
           (Inr lenw, Inr ty) \<Rightarrow>
             (let len = unat lenw in
              if len < 4 \<or> length data < off + len then Inr nm
              else
                let p = take (len - 4) (drop (off + 4) data);
                    name = (if ty = 3 then trim_end_char (CHR 0x00) (from_utf8_lossy p) else fst nm);
                    mac = (if ty = 1 \<and> length p = 6 then join_str '':'' (map hex2 p) else snd nm)
                in parse_link_nlas_from data (off + align4 len) (name, mac))
         | (Inl e, _) \<Rightarrow> Inl e
         | (_, Inl e) \<Rightarrow> Inl e)
      else Inr nm)"
  by pat_completeness auto
termination
  by (relation "measure (\<lambda>(data, off, _). length data - off)") (auto simp: align4_def)

definition parse_link_nlas :: "bytes \<Rightarrow> err + string \<times> string" where
  "parse_link_nlas data = parse_link_nlas_from data 0 ([], [])"

function find_ipv4_nla_from :: "bytes \<Rightarrow> u16 \<Rightarrow> nat \<Rightarrow> err + ipv4 option" where
  "find_ipv4_nla_from data target off =
     (if off + 4 \<le> length data then
        (case (u16_at data off, u16_at data (off + 2)) of
           (Inr lenw, Inr ty) \<Rightarrow>
             (let len = unat lenw in
              if len < 4 \<or> length data < off + len then Inr None
              else if ty = target \<and> 8 \<le> len \<and> 4 \<le> length (drop (off + 4) data)
                then Inr (Some (ipv4_new (data ! (off + 4)) (data ! (off + 5)) (data ! (off + 6)) (data ! (off + 7))))
              else find_ipv4_nla_from data target (off + align4 len))
         | (Inl e, _) \<Rightarrow> Inl e
         | (_, Inl e) \<Rightarrow> Inl e)
      else Inr None)"
  by pat_completeness auto
termination
  by (relation "measure (\<lambda>(data, _, off). length data - off)") (auto simp: align4_def)

definition find_ipv4_nla :: "bytes \<Rightarrow> u16 \<Rightarrow> err + ipv4 option" where
  "find_ipv4_nla data target = find_ipv4_nla_from data target 0"

text \<open>
  The scan of \<^verbatim>\<open>flush_routes\<close> for the outgoing interface. It checks the attribute's own length but
  not that the attribute lies inside the message.
\<close>

function oif_matches :: "bytes \<Rightarrow> u32 \<Rightarrow> nat \<Rightarrow> bool \<Rightarrow> err + bool" where
  "oif_matches data ifindex off found =
     (if off + 4 \<le> length data then
        (case u16_at data off of Inl e \<Rightarrow> Inl e | Inr lenw \<Rightarrow>
           (let nla_len = unat lenw in
            if nla_len < 4 then Inr found
            else (case u16_at data (off + 2) of Inl e \<Rightarrow> Inl e | Inr nla_type \<Rightarrow>
              if nla_type = 4 \<and> 8 \<le> nla_len
              then (case u32_at data (off + 4) of Inl e \<Rightarrow> Inl e
                    | Inr oif \<Rightarrow> oif_matches data ifindex (off + align4 nla_len) (found \<or> oif = ifindex))
              else oif_matches data ifindex (off + align4 nla_len) found)))
      else Inr found)"
  by pat_completeness auto
termination
  by (relation "measure (\<lambda>(data, _, off, _). length data - off)") (auto simp: align4_def)

declare parse_link_nlas_from.simps [simp del] find_ipv4_nla_from.simps [simp del] oif_matches.simps [simp del]

section \<open>The handle\<close>

record netlink = world +
  nl_seq :: u32

definition nl_open :: "env \<Rightarrow> ('z world_scheme, unit) prog" where
  "nl_open E =
     thenE (ctxE ''socket(AF_NETLINK)'' (ask (ans_unit E) NlSocket))
    (thenE (ctxE ''bind(AF_NETLINK)'' (ask (ans_unit E) NlBind))
           (ctxE ''connect(AF_NETLINK)'' (ask (ans_unit E) NlConnect)))"

text \<open>Run a program on a fresh handle, whose counter starts at 1.\<close>

definition with_netlink :: "(netlink, 'a) prog \<Rightarrow> ('z world_scheme, 'a) prog" where
  "with_netlink m s = (case m \<lparr>calls = calls s, nl_seq = 1\<rparr> of (r, t) \<Rightarrow> (r, s\<lparr>calls := calls t\<rparr>))"

definition next_seq :: "(netlink, u32) prog" where
  "next_seq = bindE (getE nl_seq) (\<lambda>q. thenE (modE (\<lambda>s. s\<lparr>nl_seq := q + 1\<rparr>)) (retE q))"

definition nl_send :: "env \<Rightarrow> bytes \<Rightarrow> (netlink, unit) prog" where
  "nl_send E b = ctxE ''nl send'' (ask (ans_unit E) (NlSend b))"

text \<open>Receive into the buffer \<open>r\<close>: the number of bytes and the buffer, old bytes kept behind the new ones.\<close>

definition recv_buf :: "env \<Rightarrow> bytes \<Rightarrow> (netlink, nat \<times> bytes) prog" where
  "recv_buf E r = bindE (ctxE ''nl recv'' (ask (ans_bytes E) (NlRecv (length r)))) (\<lambda>bs.
     let got = take (length r) bs in retE (length got, got @ drop (length got) r))"

text \<open>\<^verbatim>\<open>io::Error::from_raw_os_error(-e)\<close>\<close>

definition nl_os_err :: "env \<Rightarrow> u32 \<Rightarrow> os_err" where
  "nl_os_err E e = (Some (unat (- e)), os_text E (unat (- e)))"

text \<open>The error code of an NLMSG_ERROR reply of \<open>n\<close> bytes; zero when the reply is something else.\<close>

definition nl_error_code :: "nat \<Rightarrow> bytes \<Rightarrow> err + u32" where
  "nl_error_code n r =
     (if 20 \<le> n then (case u16_at r 4 of Inl e \<Rightarrow> Inl e | Inr ty \<Rightarrow> if ty = 2 then i32_at r 16 else Inr 0)
      else Inr 0)"

definition nl_request :: "env \<Rightarrow> bytes \<Rightarrow> (netlink, unit) prog" where
  "nl_request E b =
     thenE (nl_send E b)
    (bindE (recv_buf E (zeros 4096)) (\<lambda>(n, r).
     bindE (ofSumE (nl_error_code n r)) (\<lambda>e.
       if e \<noteq> 0 then failE (add_ctx ''netlink request'' (of_os (nl_os_err E e))) else retE ())))"

text \<open>
  The walk of \<^verbatim>\<open>dump\<close> over one received buffer: \<open>Inr (True, out)\<close> at the end-of-dump message,
  \<open>Inr (False, out)\<close> when the buffer is exhausted. A message of length zero leaves offset, buffer
  and output unchanged, so the source never leaves its loop: \<open>Diverge\<close>.
\<close>

function dump_walk :: "env \<Rightarrow> bytes \<Rightarrow> nat \<Rightarrow> nat \<Rightarrow> bytes list \<Rightarrow> err + bool \<times> bytes list" where
  "dump_walk E r n off out =
     (if off + 16 \<le> n then
        (case (u32_at r off, u16_at r (off + 4)) of
           (Inr lenw, Inr ty) \<Rightarrow>
             (let len = unat lenw in
              if ty = 3 then Inr (True, out)
              else (case (if ty = 2 then i32_at r (off + 16) else Inr 0) of Inl e \<Rightarrow> Inl e | Inr e \<Rightarrow>
                if e \<noteq> 0 then Inl (msg (''nl dump: '' @ snd (nl_os_err E e)))
                else if len = 0 then Inl Diverge
                else dump_walk E r n (off + align4 len)
                       (if off + len \<le> n then out @ [take len (drop off r)] else out)))
         | (Inl e, _) \<Rightarrow> Inl e
         | (_, Inl e) \<Rightarrow> Inl e)
      else Inr (False, out))"
  by pat_completeness auto
termination
  by (relation "measure (\<lambda>(_, _, n, off, _). n - off)") (auto simp: align4_def)

declare dump_walk.simps [simp del]

fun dump_loop :: "env \<Rightarrow> nat \<Rightarrow> bytes \<Rightarrow> bytes list \<Rightarrow> (netlink, bytes list) prog" where
  "dump_loop E 0 r out = failE Diverge"
| "dump_loop E (Suc k) r out =
     bindE (recv_buf E r) (\<lambda>(n, r').
     bindE (ofSumE (dump_walk E r' n 0 out)) (\<lambda>(fin, out').
       if fin then retE out' else dump_loop E k r' out'))"

definition nl_dump :: "env \<Rightarrow> bytes \<Rightarrow> (netlink, bytes list) prog" where
  "nl_dump E b = thenE (nl_send E b) (dump_loop E (loop_fuel E) (zeros 32768) [])"

section \<open>Requests\<close>

definition get_link_msg :: "string \<Rightarrow> u32 \<Rightarrow> bytes" where
  "get_link_msg name seq =
     (let total = 16 + 16 + align4 (4 + length name + 1)
      in put_at 36 (str_bytes name) (put_nla 32 3 (length name + 1) (nlhdr total 18 5 seq (zeros total))))"

definition get_link_index :: "env \<Rightarrow> string \<Rightarrow> (netlink, u32) prog" where
  "get_link_index E name =
     bindE next_seq (\<lambda>seq.
     thenE (nl_send E (get_link_msg name seq))
    (bindE (recv_buf E (zeros 4096)) (\<lambda>(n, r).
     bindE (ofSumE (nl_error_code n r)) (\<lambda>e.
       if e \<noteq> 0 then failE (msg (''link '' @ name @ '': '' @ snd (nl_os_err E e)))
       else if n < 24 then failE (msg (''link '' @ name @ '' not found''))
       else ofSumE (i32_at r 20)))))"

definition netns_msg :: "u32 \<Rightarrow> nat \<Rightarrow> u32 \<Rightarrow> bytes" where
  "netns_msg idx netns_fd seq =
     put_at 36 (le32 (word_of_nat netns_fd)) (put_nla 32 28 4 (put_at 20 (le32 idx) (nlhdr 40 16 5 seq (zeros 40))))"

definition set_link_netns_fd :: "env \<Rightarrow> u32 \<Rightarrow> nat \<Rightarrow> (netlink, unit) prog" where
  "set_link_netns_fd E idx netns_fd = bindE next_seq (\<lambda>seq. nl_request E (netns_msg idx netns_fd seq))"

definition link_up_msg :: "u32 \<Rightarrow> u32 \<Rightarrow> bytes" where
  "link_up_msg idx seq =
     put_at 28 (le32 1) (put_at 24 (le32 1) (put_at 20 (le32 idx) (nlhdr 32 16 5 seq (zeros 32))))"

definition set_link_up :: "env \<Rightarrow> u32 \<Rightarrow> (netlink, unit) prog" where
  "set_link_up E idx = bindE next_seq (\<lambda>seq. nl_request E (link_up_msg idx seq))"

definition del_link :: "env \<Rightarrow> string \<Rightarrow> (netlink, unit) prog" where
  "del_link E name =
     bindE (get_link_index E name) (\<lambda>idx.
     bindE next_seq (\<lambda>seq. nl_request E (put_at 20 (le32 idx) (nlhdr 32 17 5 seq (zeros 32)))))"

text \<open>The messages of a dump that are links, with index, name and MAC address; others are skipped.\<close>

fun collect_links :: "bytes list \<Rightarrow> err + (u32 \<times> string \<times> string) list" where
  "collect_links [] = Inr []"
| "collect_links (m # ms) =
     (if length m < 32 then collect_links ms
      else case u16_at m 4 of Inl e \<Rightarrow> Inl e | Inr ty \<Rightarrow>
        if ty \<noteq> 16 then collect_links ms
        else case (i32_at m 20, parse_link_nlas (drop 32 m)) of
            (Inr idx, Inr (name, mac)) \<Rightarrow> map_sum id (\<lambda>ls. (idx, name, mac) # ls) (collect_links ms)
          | (Inl e, _) \<Rightarrow> Inl e
          | (_, Inl e) \<Rightarrow> Inl e)"

definition dump_links :: "env \<Rightarrow> (netlink, (u32 \<times> string \<times> string) list) prog" where
  "dump_links E =
     bindE next_seq (\<lambda>seq.
     bindE (nl_dump E (nlhdr 32 18 0x301 seq (zeros 32))) (\<lambda>ms. ofSumE (collect_links ms)))"

definition find_by_mac :: "env \<Rightarrow> string \<Rightarrow> (netlink, (string \<times> u32) option) prog" where
  "find_by_mac E target_mac =
     bindE (dump_links E) (\<lambda>links.
       retE (map_option (\<lambda>(idx, name, mac). (name, idx))
         (find (\<lambda>(idx, name, mac). to_lowercase mac = to_lowercase target_mac) links)))"

text \<open>The address of an interface among the messages of an address dump.\<close>

fun pick_ipv4 :: "u32 \<Rightarrow> bytes list \<Rightarrow> err + string option" where
  "pick_ipv4 ifindex [] = Inr None"
| "pick_ipv4 ifindex (m # ms) =
     (if length m < 24 then pick_ipv4 ifindex ms
      else case (u16_at m 4, u32_at m 20) of
          (Inr ty, Inr idx) \<Rightarrow>
            if ty \<noteq> 20 \<or> m ! 16 \<noteq> 2 \<or> idx \<noteq> ifindex then pick_ipv4 ifindex ms
            else (case find_ipv4_nla (drop 24 m) 1 of
                Inl e \<Rightarrow> Inl e
              | Inr (Some ip) \<Rightarrow> Inr (Some (show_ipv4 ip @ ''/'' @ dec (unat (m ! 17))))
              | Inr None \<Rightarrow> pick_ipv4 ifindex ms)
        | (Inl e, _) \<Rightarrow> Inl e
        | (_, Inl e) \<Rightarrow> Inl e)"

definition addr_dump_msg :: "u32 \<Rightarrow> bytes" where
  "addr_dump_msg seq = put_at 16 [2] (nlhdr 24 22 0x301 seq (zeros 24))"

definition get_ipv4 :: "env \<Rightarrow> u32 \<Rightarrow> (netlink, string option) prog" where
  "get_ipv4 E ifindex =
     bindE next_seq (\<lambda>seq.
     bindE (nl_dump E (addr_dump_msg seq)) (\<lambda>ms. ofSumE (pick_ipv4 ifindex ms)))"

text \<open>The first link that is not skipped and has an IPv4 address.\<close>

fun first_with_ipv4 ::
  "env \<Rightarrow> (string \<Rightarrow> bool) \<Rightarrow> (u32 \<times> string \<times> string) list \<Rightarrow> (netlink, (string \<times> u32 \<times> string \<times> string) option) prog"
where
  "first_with_ipv4 E skip [] = retE None"
| "first_with_ipv4 E skip ((idx, name, mac) # ls) =
     (if skip name then first_with_ipv4 E skip ls
      else bindE (get_ipv4 E idx) (\<lambda>r. case r of
         Some cidr \<Rightarrow> retE (Some (name, idx, cidr, mac))
       | None \<Rightarrow> first_with_ipv4 E skip ls))"

definition find_veth :: "env \<Rightarrow> string \<Rightarrow> (netlink, (string \<times> u32 \<times> string \<times> string) option) prog" where
  "find_veth E tap =
     bindE (dump_links E) (first_with_ipv4 E (\<lambda>name. name = ''lo'' \<or> name = tap \<or> name = []))"

text \<open>A dumped message sent back as a request: new header, everything else as it came.\<close>

definition as_request :: "bytes \<Rightarrow> u16 \<Rightarrow> u32 \<Rightarrow> bytes" where
  "as_request m ty seq = nlhdr (length m) ty 5 seq m"

fun flush_addr_msgs :: "env \<Rightarrow> u32 \<Rightarrow> bytes list \<Rightarrow> (netlink, unit) prog" where
  "flush_addr_msgs E ifindex [] = retE ()"
| "flush_addr_msgs E ifindex (m # ms) =
     (if length m < 24 then flush_addr_msgs E ifindex ms
      else bindE (ofSumE (u16_at m 4)) (\<lambda>ty.
        if ty \<noteq> 20 then flush_addr_msgs E ifindex ms
        else bindE (ofSumE (u32_at m 20)) (\<lambda>idx.
          if m ! 16 \<noteq> 2 \<or> idx \<noteq> ifindex then flush_addr_msgs E ifindex ms
          else bindE next_seq (\<lambda>seq.
            thenE (nl_request E (as_request m 21 seq)) (flush_addr_msgs E ifindex ms)))))"

definition flush_addrs :: "env \<Rightarrow> u32 \<Rightarrow> (netlink, unit) prog" where
  "flush_addrs E ifindex =
     bindE next_seq (\<lambda>seq. bindE (nl_dump E (addr_dump_msg seq)) (flush_addr_msgs E ifindex))"

definition route_dump_msg :: "u32 \<Rightarrow> bytes" where
  "route_dump_msg seq = put_at 16 [2] (nlhdr 28 26 0x301 seq (zeros 28))"

fun pick_default_gw :: "bytes list \<Rightarrow> err + string option" where
  "pick_default_gw [] = Inr None"
| "pick_default_gw (m # ms) =
     (if length m < 28 then pick_default_gw ms
      else case u16_at m 4 of Inl e \<Rightarrow> Inl e | Inr ty \<Rightarrow>
        if ty \<noteq> 24 \<or> m ! 17 \<noteq> 0 then pick_default_gw ms
        else (case find_ipv4_nla (drop 28 m) 5 of
            Inl e \<Rightarrow> Inl e
          | Inr (Some gw) \<Rightarrow> Inr (Some (show_ipv4 gw))
          | Inr None \<Rightarrow> pick_default_gw ms))"

definition get_default_gw :: "env \<Rightarrow> (netlink, string option) prog" where
  "get_default_gw E =
     bindE next_seq (\<lambda>seq.
     bindE (nl_dump E (route_dump_msg seq)) (\<lambda>ms. ofSumE (pick_default_gw ms)))"

fun flush_route_msgs :: "env \<Rightarrow> u32 \<Rightarrow> bytes list \<Rightarrow> (netlink, unit) prog" where
  "flush_route_msgs E ifindex [] = retE ()"
| "flush_route_msgs E ifindex (m # ms) =
     (if length m < 28 then flush_route_msgs E ifindex ms
      else bindE (ofSumE (u16_at m 4)) (\<lambda>ty.
        if ty \<noteq> 24 then flush_route_msgs E ifindex ms
        else bindE (ofSumE (oif_matches (drop 28 m) ifindex 0 False)) (\<lambda>found.
          if \<not> found then flush_route_msgs E ifindex ms
          else bindE next_seq (\<lambda>seq.
            thenE (ignoreE (nl_request E (as_request m 25 seq))) (flush_route_msgs E ifindex ms)))))"

definition flush_routes :: "env \<Rightarrow> u32 \<Rightarrow> (netlink, unit) prog" where
  "flush_routes E ifindex =
     bindE next_seq (\<lambda>seq. bindE (nl_dump E (route_dump_msg seq)) (flush_route_msgs E ifindex))"

definition qdisc_msg :: "u16 \<Rightarrow> u16 \<Rightarrow> u32 \<Rightarrow> u32 \<Rightarrow> bytes" where
  "qdisc_msg ty flags ifindex seq =
     (let kind = str_bytes ''ingress'' @ [0]; total = 16 + 20 + align4 (4 + length kind)
      in put_at 40 kind (put_nla 36 1 (length kind)
           (put_at 28 (le32 0xFFFFFFF1) (put_at 24 (le32 0xFFFF0000) (put_at 20 (le32 ifindex)
             (put_at 16 [0] (nlhdr total ty flags seq (zeros total))))))))"

text \<open>An EEXIST answer (error number 17, wherever it sits in the chain) counts as success.\<close>

definition add_ingress_qdisc :: "env \<Rightarrow> u32 \<Rightarrow> (netlink, unit) prog" where
  "add_ingress_qdisc E ifindex =
     bindE next_seq (\<lambda>seq.
     bindE (catchE (nl_request E (qdisc_msg 36 0x605 ifindex seq))) (\<lambda>r. case r of
        Inr _ \<Rightarrow> retE ()
      | Inl e \<Rightarrow> if err_os e = Some 17 then retE () else failE e))"

definition del_ingress_qdisc :: "env \<Rightarrow> u32 \<Rightarrow> (netlink, unit) prog" where
  "del_ingress_qdisc E ifindex = bindE next_seq (\<lambda>seq. nl_request E (qdisc_msg 37 5 ifindex seq))"

text \<open>
  The u32 filter that redirects everything arriving at \<open>src\<close> to \<open>dst\<close>. The message is built in
  the source's order: the fixed part, \<^verbatim>\<open>TCA_KIND\<close>, room for the header of \<^verbatim>\<open>TCA_OPTIONS\<close>, in it the
  action (room for \<^verbatim>\<open>TCA_U32_ACT\<close> and its first entry, \<^verbatim>\<open>TCA_ACT_KIND\<close>, \<^verbatim>\<open>TCA_ACT_OPTIONS\<close> with
  the mirred parameters), the selector, and the headers filled in when their lengths are known.
\<close>

definition mirred_parms :: "u32 \<Rightarrow> bytes" where
  "mirred_parms dst = le16 32 @ le16 2 @ le32 0 @ le32 0 @ le32 4 @ le32 0 @ le32 0 @ le32 1 @ le32 dst"

definition sel_hdr :: bytes where
  "sel_hdr = (zeros 16)[0 := 1, 2 := 1]"

definition redirect_msg :: "u32 \<Rightarrow> u32 \<Rightarrow> u32 \<Rightarrow> bytes" where
  "redirect_msg src dst seq =
     (let b = zeros 16 @ [0] @ zeros 3 @ le32 src @ le32 0 @ le32 0xFFFF0000 @ le32 0x0300;
          b = push_nla_str b 1 ''u32'';
          opts = length b; b = b @ zeros 4;
          act = length b; b = b @ zeros 4;
          tab = length b; b = b @ zeros 4;
          b = push_nla_str b 1 ''mirred'';
          ao = length b; b = b @ zeros 4;
          b = b @ mirred_parms dst;
          b = close_nested ao 2 b;
          b = close_attr tab 1 b;
          b = close_attr act 7 b;
          sel = length b; b = b @ zeros 4 @ sel_hdr @ zeros 16;
          b = close_attr sel 5 b;
          b = close_attr opts 2 b
      in nlhdr (length b) 44 0x605 seq b)"

definition add_redirect_filter :: "env \<Rightarrow> u32 \<Rightarrow> u32 \<Rightarrow> (netlink, unit) prog" where
  "add_redirect_filter E src_idx dst_idx =
     bindE next_seq (\<lambda>seq. nl_request E (redirect_msg src_idx dst_idx seq))"

definition address_msg :: "u32 \<Rightarrow> ipv4 \<Rightarrow> u8 \<Rightarrow> u32 \<Rightarrow> bytes" where
  "address_msg ifindex ip prefix_len seq =
     put_at 36 (octets ip) (put_nla 32 1 4 (put_at 28 (octets ip) (put_nla 24 2 4
       (put_at 20 (le32 ifindex) (put_at 16 [2, prefix_len, 0, 0] (nlhdr 40 20 0x605 seq (zeros 40)))))))"

definition add_address :: "env \<Rightarrow> u32 \<Rightarrow> ipv4 \<Rightarrow> u8 \<Rightarrow> (netlink, unit) prog" where
  "add_address E ifindex ip prefix_len =
     bindE next_seq (\<lambda>seq. nl_request E (address_msg ifindex ip prefix_len seq))"

definition default_route_msg :: "ipv4 \<Rightarrow> u32 \<Rightarrow> u32 \<Rightarrow> bytes" where
  "default_route_msg gateway ifindex seq =
     put_at 40 (le32 ifindex) (put_nla 36 4 4 (put_at 32 (octets gateway) (put_nla 28 5 4
       (put_at 24 (le32 4) (put_at 16 [2, 0, 0, 0, 254, 3, 0, 1] (nlhdr 44 24 0x505 seq (zeros 44)))))))"

definition add_default_route :: "env \<Rightarrow> ipv4 \<Rightarrow> u32 \<Rightarrow> (netlink, unit) prog" where
  "add_default_route E gateway ifindex =
     bindE next_seq (\<lambda>seq. nl_request E (default_route_msg gateway ifindex seq))"

section \<open>Configuring an interface\<close>

text \<open>
  The retry loops count the attempts that are left; after the last failed one the error is
  returned without another pause.
\<close>

fun retry_get_link_index :: "env \<Rightarrow> string \<Rightarrow> nat \<Rightarrow> nat \<Rightarrow> nat \<Rightarrow> (netlink, u32) prog" where
  "retry_get_link_index E device max_attempts delay_ms 0 = failE (Panic ''unreachable'')"
| "retry_get_link_index E device max_attempts delay_ms (Suc left) =
     bindE (catchE (get_link_index E device)) (\<lambda>r. case r of
        Inr idx \<Rightarrow> retE idx
      | Inl e \<Rightarrow>
          if 0 < left
          then thenE (tell (Sleep delay_ms)) (retry_get_link_index E device max_attempts delay_ms left)
          else failE (add_ctx (''device '' @ device @ '' not found after '' @ dec max_attempts @ '' retries'') e))"

definition show_links :: "(u32 \<times> string \<times> string) list \<Rightarrow> string" where
  "show_links links = join_str '', ''
     (map (\<lambda>(idx, name, m). name @ ''(idx='' @ dec (unat idx) @ '',mac='' @ m @ '')'') links)"

fun retry_find_by_mac :: "env \<Rightarrow> string \<Rightarrow> nat \<Rightarrow> nat \<Rightarrow> nat \<Rightarrow> (netlink, string \<times> u32) prog" where
  "retry_find_by_mac E mac max_attempts delay_ms 0 = failE (Panic ''unreachable'')"
| "retry_find_by_mac E mac max_attempts delay_ms (Suc left) =
     bindE (find_by_mac E mac) (\<lambda>r. case r of
        Some ni \<Rightarrow> retE ni
      | None \<Rightarrow>
          (let attempt = max_attempts - Suc left in
           thenE (if attempt = 0 \<or> attempt = max_attempts div 2 then ignoreE (dump_links E) else retE ())
            (if 0 < left
             then thenE (tell (Sleep delay_ms)) (retry_find_by_mac E mac max_attempts delay_ms left)
             else bindE (catchE (dump_links E)) (\<lambda>l.
               let devs = (case l of Inr links \<Rightarrow> show_links links | Inl _ \<Rightarrow> []) in
               failE (msg (''device with mac '' @ mac @ '' not found after '' @ dec max_attempts @
                           '' retries; visible: ['' @ devs @ '']''))))))"

text \<open>
  An error whose outermost message mentions that the thing exists is tolerated; \<^verbatim>\<open>e.to_string()\<close>
  is the outermost message only.
\<close>

definition tolerate_exists :: "(netlink, unit) prog \<Rightarrow> (netlink, unit) prog" where
  "tolerate_exists m =
     bindE (catchE m) (\<lambda>r. case r of
        Inr _ \<Rightarrow> retE ()
      | Inl e \<Rightarrow> if contains_str ''EEXIST'' (show_err e) \<or> contains_str ''File exists'' (show_err e)
                 then retE () else failE e)"

definition configure_interface ::
  "env \<Rightarrow> string \<Rightarrow> ipv4 \<Rightarrow> u8 \<Rightarrow> ipv4 option \<Rightarrow> string option \<Rightarrow> ('z world_scheme, unit) prog" where
  "configure_interface E device ip prefix_len gateway mac =
     thenE (nl_open E) (with_netlink (
       bindE (case mac of
           Some mac_addr \<Rightarrow> retry_find_by_mac E mac_addr 50 200 50
         | None \<Rightarrow> bindE (retry_get_link_index E device 20 100 20) (\<lambda>idx. retE (device, idx))) (\<lambda>(name, idx).
       thenE (tolerate_exists (add_address E idx ip prefix_len))
      (thenE (set_link_up E idx)
         (case gateway of
            None \<Rightarrow> retE ()
          | Some gw \<Rightarrow> tolerate_exists (add_default_route E gw idx))))))"

section \<open>TAP devices\<close>

definition tap_ifr :: "string \<Rightarrow> bytes" where
  "tap_ifr name = put_at 16 (le16 0x1002) (put_at 0 (take 15 (str_bytes name)) (zeros 40))"

definition create_tap :: "env \<Rightarrow> string \<Rightarrow> ('z world_scheme, unit) prog" where
  "create_tap E name =
     thenE (ctxE ''open /dev/net/tun'' (ask (ans_unit E) TunOpen))
    (thenE (ctxE ''TUNSETIFF'' (ask (ans_unit E) (TunSetIff (tap_ifr name))))
           (ctxE ''TUNSETPERSIST'' (ask (ans_unit E) TunSetPersist)))"

section \<open>Frame\<close>

text \<open>A program on a handle only makes calls outside of it.\<close>

definition grows :: "(netlink, 'a) prog \<Rightarrow> bool" where
  "grows m \<longleftrightarrow> (\<forall>h. preserves (\<lambda>s. \<exists>cs. calls s = h @ cs) m)"

lemma only_calls_with_netlink [frame_rules]:
  assumes "grows m" shows "only_calls (with_netlink m)"
proof (rule only_callsI)
  fix s :: "'z world_scheme"
  let ?t = "\<lparr>calls = calls s, nl_seq = 1\<rparr>"
  have "preserves (\<lambda>t. \<exists>cs. calls t = calls s @ cs) m" using assms unfolding grows_def by blast
  from preservesD [OF this, of ?t] have "\<exists>cs. calls (snd (m ?t)) = calls s @ cs" by simp
  then show "\<exists>cs. snd (with_netlink m s) = s\<lparr>calls := calls s @ cs\<rparr>"
    by (auto simp: with_netlink_def split: prod.split)
qed

lemma grows_only_calls:
  assumes "only_calls m" shows "grows m"
  unfolding grows_def
proof (intro allI preservesI)
  fix h and s :: netlink assume "\<exists>cs. calls s = h @ cs"
  moreover obtain ds where "calls (snd (m s)) = calls s @ ds" using calls_prefix [OF assms] by blast
  ultimately show "\<exists>cs. calls (snd (m s)) = h @ cs" by auto
qed

lemma grows_basic [frame_rules]:
  "grows (retE x)" "grows (failE e)" "grows (getE f)" "grows (ofSumE r)" "grows (ofOptE e xo)"
  "grows (ask g c)" "grows (askb E c)" "grows (tell c)"
  by (intro grows_only_calls frame_rules)+

lemma grows_next_seq [frame_rules]: "grows next_seq"
  by (simp add: grows_def preserves_def next_seq_def prog_simps)

lemma grows_bindE [frame_rules]: "grows m \<Longrightarrow> (\<And>x. grows (f x)) \<Longrightarrow> grows (bindE m f)"
  and grows_thenE [frame_rules]: "grows m \<Longrightarrow> grows n \<Longrightarrow> grows (thenE m n)"
  and grows_ctxE [frame_rules]: "grows m \<Longrightarrow> grows (ctxE c m)"
  and grows_catchE [frame_rules]: "grows m \<Longrightarrow> grows (catchE m)"
  and grows_ignoreE [frame_rules]: "grows m \<Longrightarrow> grows (ignoreE m)"
  unfolding grows_def by (blast intro: wp_rules)+

lemma grows_cases [frame_rules]:
  "(b \<Longrightarrow> grows m) \<Longrightarrow> (\<not> b \<Longrightarrow> grows n) \<Longrightarrow> grows (if b then m else n)"
  "(\<And>e. grows (f e)) \<Longrightarrow> (\<And>x. grows (g x)) \<Longrightarrow> grows (case r of Inl e \<Rightarrow> f e | Inr x \<Rightarrow> g x)"
  "grows m \<Longrightarrow> (\<And>y. grows (h y)) \<Longrightarrow> grows (case xo of None \<Rightarrow> m | Some y \<Rightarrow> h y)"
  "(\<And>a c. grows (k a c)) \<Longrightarrow> grows (case p of (a, c) \<Rightarrow> k a c)"
  "grows (j x) \<Longrightarrow> grows (let y = x in j y)"
  by (simp_all split: sum.split option.split prod.split)

lemma grows_handle [frame_rules]:
  "grows (nl_send E b)" "grows (recv_buf E r)" "grows (nl_request E b)"
  unfolding nl_send_def recv_buf_def nl_request_def by (intro frame_rules)+

lemma grows_dump_loop [frame_rules]: "grows (dump_loop E k r out)"
  by (induction k arbitrary: r out) (auto intro!: frame_rules)

lemma grows_dumps [frame_rules]: "grows (nl_dump E b)" "grows (get_link_index E name)" "grows (dump_links E)"
  "grows (get_ipv4 E i)"
  unfolding nl_dump_def get_link_index_def dump_links_def get_ipv4_def by (intro frame_rules)+

lemma grows_first [frame_rules]: "grows (first_with_ipv4 E skip ls)"
  by (induction ls) (auto intro!: frame_rules)

lemma grows_flush_msgs [frame_rules]: "grows (flush_addr_msgs E i ms)" "grows (flush_route_msgs E i ms)"
  by (induction ms) (auto intro!: frame_rules)

lemma grows_requests [frame_rules]:
  "grows (set_link_netns_fd E i fd)" "grows (set_link_up E i)" "grows (del_link E name)"
  "grows (find_by_mac E mac)" "grows (find_veth E tap)" "grows (flush_addrs E i)" "grows (get_default_gw E)"
  "grows (flush_routes E i)" "grows (add_ingress_qdisc E i)" "grows (del_ingress_qdisc E i)"
  "grows (add_redirect_filter E i j)" "grows (add_address E i ip p)" "grows (add_default_route E gw i)"
  unfolding set_link_netns_fd_def set_link_up_def del_link_def find_by_mac_def find_veth_def flush_addrs_def
    get_default_gw_def flush_routes_def add_ingress_qdisc_def del_ingress_qdisc_def add_redirect_filter_def
    add_address_def add_default_route_def
  by (intro frame_rules)+

lemma grows_retries [frame_rules]: "grows (retry_get_link_index E d m ms n)" "grows (retry_find_by_mac E mac m ms n)"
  by (induction n) (auto intro!: frame_rules simp: Let_def)

lemma only_calls_netlink [frame_rules]:
  "only_calls (nl_open E)" "only_calls (create_tap E name)" "only_calls (configure_interface E d ip p gw mac)"
  unfolding nl_open_def create_tap_def configure_interface_def tolerate_exists_def
  by (intro frame_rules)+

section \<open>Properties\<close>

lemma le16_join [simp]: "(ucast (ucast w :: u8) :: u16) OR push_bit 8 (ucast (ucast (drop_bit 8 w) :: u8)) = w"
  by (rule bit_word_eqI) (auto simp: bit_simps le_add_diff_inverse)

lemma le32_join [simp]:
  "(ucast (ucast w :: u8) :: u32) OR push_bit 8 (ucast (ucast (drop_bit 8 w) :: u8)) OR
   push_bit 16 (ucast (ucast (drop_bit 16 w) :: u8)) OR push_bit 24 (ucast (ucast (drop_bit 24 w) :: u8)) = w"
proof (rule bit_word_eqI)
  fix n assume "n < LENGTH(32)"
  then consider "n < 8" | "8 \<le> n" "n < 16" | "16 \<le> n" "n < 24" | "24 \<le> n" "n < 32" by (simp, linarith)
  then show "bit ((ucast (ucast w :: u8) :: u32) OR push_bit 8 (ucast (ucast (drop_bit 8 w) :: u8)) OR
      push_bit 16 (ucast (ucast (drop_bit 16 w) :: u8)) OR push_bit 24 (ucast (ucast (drop_bit 24 w) :: u8))) n = bit w n"
    by cases (auto simp: bit_simps less_diff_conv2)
qed

lemma length_le [simp]: "length (le16 w) = 2" "length (le32 v) = 4"
  by (simp_all add: le16_def le32_def)

lemma u16_at_le16: "u16_at (xs @ le16 w @ ys) (length xs) = Inr w"
  by (simp add: u16_at_def le16_def nth_append)

lemma u32_at_le32: "u32_at (xs @ le32 w @ ys) (length xs) = Inr w"
  by (simp add: u32_at_def le32_def nth_append)

lemma u16_at_Inr: "off + 2 \<le> length b \<Longrightarrow> \<exists>w. u16_at b off = Inr w"
  by (simp add: u16_at_def)

lemma length_put_at: "off + length bs \<le> length m \<Longrightarrow> length (put_at off bs m) = length m"
  by (simp add: put_at_def)

lemma length_zeros [simp]: "length (zeros n) = n"
  by (simp add: zeros_def)

lemma parse_link_nlas_from_total: "\<exists>nm'. parse_link_nlas_from data off nm = Inr nm'"
proof (induction data off nm rule: parse_link_nlas_from.induct)
  case (1 data off nm)
  show ?case
  proof (cases "off + 4 \<le> length data")
    case False
    then show ?thesis by (subst parse_link_nlas_from.simps) simp
  next
    case True
    obtain lenw ty where w: "u16_at data off = Inr lenw" "u16_at data (off + 2) = Inr ty"
      using True u16_at_Inr [of off data] u16_at_Inr [of "off + 2" data] by auto
    show ?thesis using True w 1 [OF True refl w refl _ refl refl refl]
      by (subst parse_link_nlas_from.simps) (simp add: Let_def)
  qed
qed

lemma find_ipv4_nla_from_total: "\<exists>ip. find_ipv4_nla_from data target off = Inr ip"
proof (induction data target off rule: find_ipv4_nla_from.induct)
  case (1 data target off)
  show ?case
  proof (cases "off + 4 \<le> length data")
    case False
    then show ?thesis by (subst find_ipv4_nla_from.simps) simp
  next
    case True
    obtain lenw ty where w: "u16_at data off = Inr lenw" "u16_at data (off + 2) = Inr ty"
      using True u16_at_Inr [of off data] u16_at_Inr [of "off + 2" data] by auto
    show ?thesis using True w 1 [OF True refl w refl]
      by (subst find_ipv4_nla_from.simps) (simp add: Let_def)
  qed
qed


text \<open>
  Errors of a request: the outermost message is one of three fixed ones.
\<close>

lemma nl_request_error:
  assumes "fst (nl_request E b s) = Inl (Fail cs n)"
  shows "cs \<noteq> [] \<and> hd cs \<in> {''nl send'', ''nl recv'', ''netlink request''}"
  using assms
  by (auto simp: nl_request_def nl_send_def recv_buf_def prog_simps of_os_def nl_os_err_def nl_error_code_def
      i32_at_def u32_at_def u16_at_def oob_def Let_def split: sum.splits if_splits prod.splits)

lemma tolerate_exists_request: "tolerate_exists (nl_request E b) s = nl_request E b s"
proof -
  obtain r s' where run: "nl_request E b s = (r, s')" by (cases "nl_request E b s")
  show ?thesis
  proof (cases "\<exists>cs n. r = Inl (Fail cs n)")
    case True
    then obtain cs n where r: "r = Inl (Fail cs n)" by blast
    then obtain c cs' where cs: "cs = c # cs'" "c \<in> {''nl send'', ''nl recv'', ''netlink request''}"
      using nl_request_error [of E b s cs n] run by (cases cs) auto
    then have "\<not> contains_str ''EEXIST'' c \<and> \<not> contains_str ''File exists'' c"
      by (auto simp: starts_with_def)
    then show ?thesis using run r cs by (simp add: tolerate_exists_def prog_simps)
  next
    case False
    then show ?thesis using run
      by (cases r; cases "projl r") (auto simp: tolerate_exists_def prog_simps)
  qed
qed

text \<open>
  The tolerance for an address or route that already exists has no effect: the error of a
  request never carries the words it looks for in its outermost message, so adding an address or
  a default route under it behaves exactly as without it, and an interface that already has the
  address is an error.
\<close>

theorem exists_tolerance_ineffective:
  "tolerate_exists (add_address E idx ip p) = add_address E idx ip p \<and>
   tolerate_exists (add_default_route E gw idx) = add_default_route E gw idx"
proof -
  have "tolerate_exists (bindE next_seq (\<lambda>q. nl_request E (b q))) s = bindE next_seq (\<lambda>q. nl_request E (b q)) s"
    for b s
    using tolerate_exists_request [of E "b (nl_seq s)" "s\<lparr>nl_seq := nl_seq s + 1\<rparr>"]
    by (simp add: tolerate_exists_def next_seq_def prog_simps)
  then show ?thesis unfolding add_address_def add_default_route_def by blast
qed

text \<open>
  The attributes of a message as the kernel reads them: type and payload, in order, each header
  four bytes, each attribute padded to a multiple of four. This is the reference against which
  the message builders are checked.
\<close>

function nlas :: "bytes \<Rightarrow> (u16 \<times> bytes) list" where
  "nlas d =
     (if length d < 4 then []
      else case (u16_at d 0, u16_at d 2) of
          (Inr len, Inr ty) \<Rightarrow>
            if unat len < 4 \<or> length d < unat len then []
            else (ty, take (unat len - 4) (drop 4 d)) # nlas (drop (align4 (unat len)) d)
        | _ \<Rightarrow> [])"
  by pat_completeness auto
termination by (relation "measure length") (auto simp: align4_def)

declare nlas.simps [simp del]

lemma nlas_Nil [simp]: "nlas [] = []"
  by (subst nlas.simps) simp

lemma nlas_Cons:
  assumes "length p + 4 < 2 ^ 16" and "length p mod 4 = 0"
  shows "nlas (le16 (word_of_nat (length p + 4)) @ le16 ty @ p @ rest) = (ty, p) # nlas rest"
proof -
  let ?d = "le16 (word_of_nat (length p + 4)) @ le16 ty @ p @ rest"
  have u: "u16_at ?d 0 = Inr (word_of_nat (length p + 4))" "u16_at ?d 2 = Inr ty"
    using u16_at_le16 [of "[]"] u16_at_le16 [of "le16 (word_of_nat (length p + 4))" ty "p @ rest"] by simp_all
  have len: "unat (word_of_nat (length p + 4) :: u16) = length p + 4"
    using assms(1) by (simp add: unat_of_nat del: of_nat_add)
  have al: "align4 (length p + 4) = length p + 4" using assms(2) by (simp add: align4_def) presburger
  show ?thesis by (subst nlas.simps) (simp add: u len al del: of_nat_add)
qed

lemmas msg_defs = nlhdr_def put_nla_def put_at_def zeros_def le16_def le32_def octets_def align4_def

lemma zeros_lits:
  "zeros 3 = [0, 0, 0]" "zeros 4 = [0, 0, 0, 0]"
  "zeros 16 = [0, 0, 0, 0, 0, 0, 0, 0, 0, 0, 0, 0, 0, 0, 0, 0]"
  by (simp_all add: zeros_def eval_nat_numeral)

lemma find_second_ipv4:
  "find_ipv4_nla_from [8, 0, 2, 0, a, b, c, d, 8, 0, 1, 0, a, b, c, d] 1 0 = Inr (Some (ipv4_new a b c d))"
proof -
  let ?l = "[8, 0, 2, 0, a, b, c, d, 8, 0, 1, 0, a, b, c, d]"
  have u: "u16_at ?l 0 = Inr 8" "u16_at ?l 2 = Inr 2" "u16_at ?l 8 = Inr 8" "u16_at ?l 10 = Inr 1"
    by (simp_all add: u16_at_def)
  have "find_ipv4_nla_from ?l 1 8 = Inr (Some (ipv4_new a b c d))"
    by (subst find_ipv4_nla_from.simps) (simp add: u)
  then show ?thesis by (subst find_ipv4_nla_from.simps) (simp add: u u [unfolded numeral_2_eq_2] align4_def)
qed

lemma address_msg_layout:
  "address_msg idx ip p seq = le32 40 @ le16 20 @ le16 0x605 @ le32 seq @ zeros 4 @ [2, p, 0, 0] @ le32 idx @
     (le16 8 @ le16 2 @ octets ip) @ le16 8 @ le16 1 @ octets ip"
  by (simp add: address_msg_def msg_defs eval_nat_numeral)

lemma address_msg_fields:
  "u16_at (address_msg idx ip p seq) 4 = Inr 20" "u32_at (address_msg idx ip p seq) 20 = Inr idx"
  "length (address_msg idx ip p seq) = 40" "address_msg idx ip p seq ! 16 = 2" "address_msg idx ip p seq ! 17 = p"
  unfolding address_msg_layout by (simp_all add: le16_def le32_def octets_def zeros_lits u16_at_def u32_at_def)

lemma pick_ipv4_address:
  "pick_ipv4 idx (address_msg idx ip p seq # ms) = Inr (Some (show_ipv4 ip @ ''/'' @ dec (unat p)))"
proof -
  have "find_ipv4_nla (drop 24 (address_msg idx ip p seq)) 1 = Inr (Some ip)"
    unfolding address_msg_layout find_ipv4_nla_def using find_second_ipv4
    by (simp add: le16_def le32_def octets_def zeros_lits ipv4_new_octets)
  then show ?thesis by (simp add: address_msg_fields)
qed

text \<open>
  C27: The message that adds an address, read back as an address dump reads messages, is the
  address and prefix length of the interface it was made for, whatever follows it.
\<close>

theorem address_dump_roundtrip:
  "pick_ipv4 idx (address_msg idx ip p seq # ms) = Inr (Some (show_ipv4 ip @ ''/'' @ dec (unat p))) \<and>
   (idx' \<noteq> idx \<longrightarrow> pick_ipv4 idx' (address_msg idx ip p seq # ms) = pick_ipv4 idx' ms)"
proof (intro conjI impI)
  show "pick_ipv4 idx (address_msg idx ip p seq # ms) = Inr (Some (show_ipv4 ip @ ''/'' @ dec (unat p)))"
    by (rule pick_ipv4_address)
next
  assume "idx' \<noteq> idx"
  moreover have "u16_at (address_msg idx ip p seq) 4 = Inr 20" "u32_at (address_msg idx ip p seq) 20 = Inr idx"
    "length (address_msg idx ip p seq) = 40"
    by (rule address_msg_fields)+
  ultimately show "pick_ipv4 idx' (address_msg idx ip p seq # ms) = pick_ipv4 idx' ms" by simp
qed

theorem address_dump_roundtrip_witness:
  "pick_ipv4 7 [address_msg 3 0x0A000001 24 1, address_msg 7 0x0A580002 16 2] = Inr (Some ''10.88.0.2/16'')"
proof -
  have "(7 :: u32) \<noteq> 3" by simp
  then have "pick_ipv4 7 [address_msg 3 0x0A000001 24 1, address_msg 7 0x0A580002 16 2] =
      pick_ipv4 7 [address_msg 7 0x0A580002 16 2]"
    using address_dump_roundtrip [of 3 "0x0A000001" 24 1 "[address_msg 7 0x0A580002 16 2]" 7] by blast
  also have "\<dots> = Inr (Some (show_ipv4 0x0A580002 @ ''/'' @ dec (unat (16 :: u8))))"
    using address_dump_roundtrip [of 7 "0x0A580002" 16 2 "[]" 7] by blast
  also have "show_ipv4 0x0A580002 @ ''/'' @ dec (unat (16 :: u8)) = ''10.88.0.2/16''" by code_simp
  finally show ?thesis .
qed

lemma nlas_padded:
  assumes "length p + 4 < 2 ^ 16" and "length p + length pad = align4 (length p)"
  shows "nlas (le16 (word_of_nat (length p + 4)) @ le16 ty @ p @ pad @ rest) = (ty, p) # nlas rest"
proof -
  let ?d = "le16 (word_of_nat (length p + 4)) @ le16 ty @ p @ pad @ rest"
  have u: "u16_at ?d 0 = Inr (word_of_nat (length p + 4))" "u16_at ?d 2 = Inr ty"
    using u16_at_le16 [of "[]"] u16_at_le16 [of "le16 (word_of_nat (length p + 4))" ty "p @ pad @ rest"] by simp_all
  have len: "unat (word_of_nat (length p + 4) :: u16) = length p + 4"
    using assms(1) by (simp add: unat_of_nat del: of_nat_add)
  have al: "align4 (length p + 4) = length p + length pad + 4" using assms(2) by (simp add: align4_def) presburger
  show ?thesis by (subst nlas.simps) (simp add: u len al del: of_nat_add)
qed

definition redirect_parms :: "u32 \<Rightarrow> bytes" where
  "redirect_parms dst = le32 0 @ le32 0 @ le32 4 @ le32 0 @ le32 0 @ le32 1 @ le32 dst"

definition redirect_action :: "u32 \<Rightarrow> bytes" where
  "redirect_action dst = (le16 11 @ le16 1 @ (str_bytes ''mirred'' @ [0]) @ [0]) @ le16 36 @ le16 0x8002 @ mirred_parms dst"

definition redirect_options :: "u32 \<Rightarrow> bytes" where
  "redirect_options dst = (le16 56 @ le16 7 @ le16 52 @ le16 1 @ redirect_action dst) @ le16 36 @ le16 5 @ sel_hdr @ zeros 16"

lemma put_at_append: "length bs = length old \<Longrightarrow> put_at (length xs) bs (xs @ old @ ys) = xs @ bs @ ys"
  by (simp add: put_at_def)

lemma close_attr_append:
  assumes "n = length pre"
  shows "close_attr n ty (pre @ zeros 4 @ body) = pre @ le16 (word_of_nat (4 + length body)) @ le16 ty @ body"
proof -
  have z: "zeros 4 = [0, 0] @ [0, 0]" by (simp add: zeros_lits)
  have "put_at n (le16 w) (pre @ zeros 4 @ body) = pre @ le16 w @ [0, 0] @ body" for w
    unfolding z assms using put_at_append [of "le16 w" "[0, 0]" pre "[0, 0] @ body"] by simp
  moreover have "put_at (n + 2) (le16 v) ((pre @ le16 w) @ [0, 0] @ body) = (pre @ le16 w) @ le16 v @ body" for v w
    using put_at_append [of "le16 v" "[0, 0]" "pre @ le16 w" body] by (simp add: assms)
  ultimately show ?thesis by (simp add: close_attr_def assms)
qed

lemma push_nla_str_append:
  assumes "length buf mod 4 = 0"
  shows "push_nla_str buf ty s = buf @ le16 (word_of_nat (4 + length s + 1)) @ le16 ty @ str_bytes s @ [0] @
     zeros (align4 (length s + 5) - (length s + 5))"
proof -
  have al: "align4 (Suc (Suc (Suc (Suc (Suc (length buf + length s)))))) = length buf + align4 (length s + 5)"
    using assms unfolding align4_def by presburger
  show ?thesis by (simp add: push_nla_str_def Let_def str_bytes_def al add.commute)
qed

lemma redirect_msg_layout:
  "redirect_msg src dst seq = le32 140 @ le16 44 @ le16 0x605 @ le32 seq @ zeros 4 @ zeros 4 @ le32 src @ le32 0 @
     le32 0xFFFF0000 @ le32 0x0300 @ (le16 8 @ le16 1 @ (str_bytes ''u32'' @ [0])) @ le16 96 @ le16 2 @ redirect_options dst"
proof -
  define tcm where "tcm = [0] @ zeros 3 @ le32 src @ le32 0 @ le32 0xFFFF0000 @ le32 0x0300"
  define kind where "kind = le16 8 @ le16 1 @ str_bytes ''u32'' @ [0]"
  define mir where "mir = le16 11 @ le16 1 @ str_bytes ''mirred'' @ [0] @ [0]"
  define sel where "sel = sel_hdr @ zeros 16"
  define P where "P = zeros 16 @ tcm @ kind"
  note len [simp] = length_zeros length_le
  have lens: "length tcm = 20" "length kind = 8" "length mir = 12" "length sel = 32" "length P = 44"
    "length (mirred_parms dst) = 32"
    by (simp_all add: tcm_def kind_def mir_def sel_def P_def sel_hdr_def str_bytes_def mirred_parms_def)
  have push: "push_nla_str (zeros 16 @ tcm) 1 ''u32'' = P"
    "push_nla_str (P @ zeros 4 @ zeros 4 @ zeros 4) 1 ''mirred'' = P @ zeros 4 @ zeros 4 @ zeros 4 @ mir"
    by (simp_all add: push_nla_str_append lens P_def kind_def mir_def align4_def zeros_def)
  let ?act = "mir @ le16 36 @ le16 0x8002 @ mirred_parms dst"
  have close: "close_nested 68 2 (P @ zeros 4 @ zeros 4 @ zeros 4 @ mir @ zeros 4 @ mirred_parms dst) =
      P @ zeros 4 @ zeros 4 @ zeros 4 @ ?act"
    "close_attr 52 1 (P @ zeros 4 @ zeros 4 @ zeros 4 @ ?act) = P @ zeros 4 @ zeros 4 @ le16 52 @ le16 1 @ ?act"
    "close_attr 48 7 (P @ zeros 4 @ zeros 4 @ le16 52 @ le16 1 @ ?act) =
      P @ zeros 4 @ le16 56 @ le16 7 @ le16 52 @ le16 1 @ ?act"
    "close_attr 104 5 (P @ zeros 4 @ le16 56 @ le16 7 @ le16 52 @ le16 1 @ ?act @ zeros 4 @ sel) =
      P @ zeros 4 @ le16 56 @ le16 7 @ le16 52 @ le16 1 @ ?act @ le16 36 @ le16 5 @ sel"
    "close_attr 44 2 (P @ zeros 4 @ le16 56 @ le16 7 @ le16 52 @ le16 1 @ ?act @ le16 36 @ le16 5 @ sel) =
      P @ le16 96 @ le16 2 @ le16 56 @ le16 7 @ le16 52 @ le16 1 @ ?act @ le16 36 @ le16 5 @ sel"
    using close_attr_append [of 68 "P @ zeros 4 @ zeros 4 @ zeros 4 @ mir" "0x8002" "mirred_parms dst"]
      close_attr_append [of 52 "P @ zeros 4 @ zeros 4" 1 ?act]
      close_attr_append [of 48 "P @ zeros 4" 7 "le16 52 @ le16 1 @ ?act"]
      close_attr_append [of 104 "P @ zeros 4 @ le16 56 @ le16 7 @ le16 52 @ le16 1 @ ?act" 5 sel]
      close_attr_append [of 44 P 2 "le16 56 @ le16 7 @ le16 52 @ le16 1 @ ?act @ le16 36 @ le16 5 @ sel"]
    by (simp_all add: lens close_nested_def)
  have opts: "redirect_options dst = le16 56 @ le16 7 @ le16 52 @ le16 1 @ ?act @ le16 36 @ le16 5 @ sel"
    by (simp add: redirect_options_def redirect_action_def mir_def sel_def)
  have "redirect_msg src dst seq = nlhdr 140 44 0x605 seq (P @ le16 96 @ le16 2 @ redirect_options dst)"
    unfolding redirect_msg_def tcm_def [symmetric] opts using push close
    by (simp add: Let_def lens sel_def [symmetric])
  also have "\<dots> = nlhdr 140 44 0x605 seq (zeros 4 @ [0, 0] @ [0, 0] @ zeros 4 @ zeros 4 @ tcm @ kind @ le16 96 @ le16 2 @ redirect_options dst)"
    by (simp add: P_def zeros_lits)
  also have "\<dots> = le32 140 @ le16 44 @ le16 0x605 @ le32 seq @ zeros 4 @ tcm @ kind @ le16 96 @ le16 2 @ redirect_options dst"
    by (simp add: nlhdr_def put_at_def)
  finally show ?thesis by (simp add: tcm_def kind_def zeros_lits)
qed

text \<open>
  The request that redirects everything arriving at one interface to another is well formed:
  its header carries its own length and the message type of a new filter, it is addressed to the
  source interface, and read as the kernel reads attributes it is a u32 filter whose options are
  one mirred action, before the match-all selector, that redirects to the egress of the
  destination interface.
\<close>

theorem redirect_msg_wellformed:
  "\<exists>opts acts act parms.
     u32_at (redirect_msg src dst seq) 0 = Inr (word_of_nat (length (redirect_msg src dst seq))) \<and>
     u16_at (redirect_msg src dst seq) 4 = Inr 44 \<and> u32_at (redirect_msg src dst seq) 20 = Inr src \<and>
     nlas (drop 36 (redirect_msg src dst seq)) = [(1, str_bytes ''u32'' @ [0]), (2, opts)] \<and>
     nlas opts = [(7, acts), (5, sel_hdr @ zeros 16)] \<and> nlas acts = [(1, act)] \<and>
     nlas act = [(1, str_bytes ''mirred'' @ [0]), (0x8002, parms)] \<and>
     nlas parms = [(2, redirect_parms dst)]"
proof (intro exI conjI)
  let ?m = "redirect_msg src dst seq"
  have lens: "length (str_bytes s) = length s" "length sel_hdr = 16" "length (mirred_parms dst) = 32"
    "length (redirect_parms dst) = 28" "length (redirect_action dst) = 48" "length (redirect_options dst) = 92"
    for s by (simp_all add: str_bytes_def sel_hdr_def mirred_parms_def redirect_parms_def redirect_action_def redirect_options_def)
  have "length ?m = 140" unfolding redirect_msg_layout by (simp add: lens)
  then show "u32_at ?m 0 = Inr (word_of_nat (length ?m))"
    unfolding redirect_msg_layout using u32_at_le32 [of "[]"] by (simp add: lens)
  show "u16_at ?m 4 = Inr 44" unfolding redirect_msg_layout using u16_at_le16 [of "le32 140" 44] by simp
  show "u32_at ?m 20 = Inr src" unfolding redirect_msg_layout
    using u32_at_le32 [of "le32 140 @ le16 44 @ le16 0x605 @ le32 seq @ zeros 4 @ zeros 4" src] by simp
  show "nlas (drop 36 ?m) = [(1, str_bytes ''u32'' @ [0]), (2, redirect_options dst)]"
    unfolding redirect_msg_layout
    using nlas_Cons [of "str_bytes ''u32'' @ [0]" 1] nlas_Cons [of "redirect_options dst" 2 "[]"] by (simp add: lens)
  show "nlas (redirect_options dst) = [(7, le16 52 @ le16 1 @ redirect_action dst), (5, sel_hdr @ zeros 16)]"
    unfolding redirect_options_def
    using nlas_Cons [of "le16 52 @ le16 1 @ redirect_action dst" 7] nlas_Cons [of "sel_hdr @ zeros 16" 5 "[]"] by (simp add: lens)
  show "nlas (le16 52 @ le16 1 @ redirect_action dst) = [(1, redirect_action dst)]"
    using nlas_Cons [of "redirect_action dst" 1 "[]"] by (simp add: lens)
  show "nlas (redirect_action dst) = [(1, str_bytes ''mirred'' @ [0]), (0x8002, mirred_parms dst)]"
    unfolding redirect_action_def
    using nlas_padded [of "str_bytes ''mirred'' @ [0]" "[0]" 1] nlas_Cons [of "mirred_parms dst" "0x8002" "[]"]
    by (simp add: lens align4_def)
  show "nlas (mirred_parms dst) = [(2, redirect_parms dst)]"
    using nlas_Cons [of "redirect_parms dst" 2 "[]"] by (simp add: lens mirred_parms_def redirect_parms_def)
qed

end
