(* ===== verification/AgentInit.thy ===== *)
theory AgentInit
  imports Host "HOL-Library.Sublist"
begin

text \<open>
  \<^verbatim>\<open>crates/agent/src/mount.rs\<close>, \<^verbatim>\<open>reaper.rs\<close> and the set-up part of \<^verbatim>\<open>main.rs\<close>: what the guest agent
  does as the VM's init process before it serves requests. Only the Linux variants are modelled.
\<close>

section \<open>Mount flags\<close>

definition MS_RDONLY :: nat where "MS_RDONLY = 1"
definition MS_NOSUID :: nat where "MS_NOSUID = 2"
definition MS_NODEV :: nat where "MS_NODEV = 4"
definition MS_NOEXEC :: nat where "MS_NOEXEC = 8"
definition MS_NOATIME :: nat where "MS_NOATIME = 1024"

section \<open>Mounting\<close>

text \<open>Whether a mount table, as \<^verbatim>\<open>/proc/mounts\<close> prints it, has an entry for a target.\<close>

definition mounted_in :: "string \<Rightarrow> path \<Rightarrow> bool" where
  "mounted_in mounts target \<longleftrightarrow>
     list_ex (\<lambda>line. case split_ws line of _ # t # _ \<Rightarrow> t = target | _ \<Rightarrow> False) (str_lines mounts)"

definition is_mounted :: "env \<Rightarrow> path \<Rightarrow> ('z world_scheme, bool) prog" where
  "is_mounted E target =
     bindE (catchE (ask (ans_str E) (FsRead ''/proc/mounts''))) (\<lambda>r. case r of
        Inl _ \<Rightarrow> retE False
      | Inr mounts \<Rightarrow> retE (mounted_in mounts target))"

definition mount_if_needed :: "env \<Rightarrow> string \<Rightarrow> path \<Rightarrow> string \<Rightarrow> nat list \<Rightarrow> ('z world_scheme, unit) prog" where
  "mount_if_needed E source target fstype flags =
     bindE (is_mounted E target) (\<lambda>m.
       if m then retE ()
       else thenE (tell (FsCreateDirAll target))
         (ctxE (''failed to mount '' @ fstype @ '' at '' @ target)
            (ask (ans_unit E) (MountFs source target fstype flags []))))"

text \<open>
  The umask is cleared, the node made or its mode set, and the umask put back. \<^verbatim>\<open>umask\<close> cannot fail;
  the results of \<^verbatim>\<open>chmod\<close> and \<^verbatim>\<open>mknod\<close> are not looked at.
\<close>

definition create_dev_node :: "env \<Rightarrow> path \<Rightarrow> nat \<Rightarrow> nat \<Rightarrow> nat \<Rightarrow> ('z world_scheme, unit) prog" where
  "create_dev_node E p major minor mode =
     bindE (catchE (ask (ans_nat E) (FsUmask 0))) (\<lambda>u.
     let old_umask = (case u of Inl _ \<Rightarrow> 0 | Inr m \<Rightarrow> m) in
     bindE (askb E (FsExists p)) (\<lambda>ex.
     thenE (tell (if ex then FsChmod p mode else FsMknod p mode major minor))
           (tell (FsUmask old_umask))))"

definition mount_essential_filesystems :: "env \<Rightarrow> ('z world_scheme, unit) prog" where
  "mount_essential_filesystems E =
     thenE (mount_if_needed E ''proc'' ''/proc'' ''proc'' [MS_NOSUID, MS_NODEV, MS_NOEXEC])
    (thenE (mount_if_needed E ''sysfs'' ''/sys'' ''sysfs'' [MS_NOSUID, MS_NODEV, MS_NOEXEC])
    (thenE (mount_if_needed E ''devtmpfs'' ''/dev'' ''devtmpfs'' [MS_NOSUID])
    (thenE (create_dev_node E ''/dev/null'' 1 3 438)
    (thenE (create_dev_node E ''/dev/zero'' 1 5 438)
    (thenE (create_dev_node E ''/dev/full'' 1 7 438)
    (thenE (create_dev_node E ''/dev/random'' 1 8 438)
    (thenE (create_dev_node E ''/dev/urandom'' 1 9 438)
    (thenE (create_dev_node E ''/dev/tty'' 5 0 438)
    (thenE (tell (FsCreateDirAll ''/dev/pts''))
    (thenE (mount_if_needed E ''devpts'' ''/dev/pts'' ''devpts'' [MS_NOSUID, MS_NOEXEC])
    (thenE (tell (FsCreateDirAll ''/dev/shm''))
    (thenE (mount_if_needed E ''tmpfs'' ''/dev/shm'' ''tmpfs'' [MS_NOSUID, MS_NODEV])
    (thenE (mount_if_needed E ''tmpfs'' ''/tmp'' ''tmpfs'' [MS_NOSUID])
    (thenE (tell (FsCreateDirAll ''/run''))
    (thenE (mount_if_needed E ''tmpfs'' ''/run'' ''tmpfs'' [MS_NOSUID, MS_NODEV])
    (thenE (tell (FsCreateDirAll ''/sys/fs/cgroup''))
           (mount_if_needed E ''cgroup2'' ''/sys/fs/cgroup'' ''cgroup2'' [MS_NOSUID, MS_NODEV, MS_NOEXEC])))))))))))))))))"

definition set_child_subreaper :: "('z world_scheme, unit) prog" where
  "set_child_subreaper = tell Subreaper"

text \<open>A failed mount is logged; the set-up goes on.\<close>

definition init_setup :: "env \<Rightarrow> ('z world_scheme, unit) prog" where
  "init_setup E = thenE (ignoreE (mount_essential_filesystems E)) set_child_subreaper"

section \<open>Frame\<close>

lemma only_calls_init [frame_rules]:
  "only_calls (is_mounted E t)" "only_calls (mount_if_needed E src tgt ty fl)"
  "only_calls (create_dev_node E p ma mi mo)" "only_calls set_child_subreaper"
  unfolding is_mounted_def mount_if_needed_def create_dev_node_def set_child_subreaper_def Let_def
  by (intro frame_rules)+

lemma only_calls_init_setup [frame_rules]: "only_calls (mount_essential_filesystems E)" "only_calls (init_setup E)"
  unfolding init_setup_def mount_essential_filesystems_def by (intro frame_rules)+

section \<open>Properties\<close>

text \<open>The targets that a history mounts, in order.\<close>

fun mount_targets :: "call list \<Rightarrow> path list" where
  "mount_targets [] = []"
| "mount_targets (c # cs) = (case c of MountFs src tgt ty fl opts \<Rightarrow> tgt # mount_targets cs | _ \<Rightarrow> mount_targets cs)"

lemma mount_targets_append [simp]: "mount_targets (xs @ ys) = mount_targets xs @ mount_targets ys"
  by (induction xs) (auto split: call.split fs_call.split)

definition unlisted :: "env \<Rightarrow> path \<Rightarrow> bool" where
  "unlisted E tgt \<longleftrightarrow> (\<exists>h. case ans_str E h (FsRead ''/proc/mounts'') of Inl _ \<Rightarrow> True | Inr m \<Rightarrow> \<not> mounted_in m tgt)"

text \<open>
  \<open>mounts_within E ts m\<close>: whatever happens, \<open>m\<close> mounts some of the targets \<open>ts\<close>, in their order and
  each at most as often as it is listed, and only where a mount table it read did not have the target.
\<close>

definition mounts_within :: "env \<Rightarrow> path list \<Rightarrow> (world, 'a) prog \<Rightarrow> bool" where
  "mounts_within E ts m \<longleftrightarrow> (\<forall>s. \<exists>cs. snd (m s) = s\<lparr>calls := calls s @ cs\<rparr> \<and> subseq (mount_targets cs) ts \<and>
     (\<forall>t \<in> set (mount_targets cs). unlisted E t))"

lemma mounts_within_thenE:
  assumes "mounts_within E ts m" and "mounts_within E us n"
  shows "mounts_within E (ts @ us) (thenE m n)"
  unfolding mounts_within_def
proof
  fix s
  obtain cs where cs: "snd (m s) = s\<lparr>calls := calls s @ cs\<rparr>" "subseq (mount_targets cs) ts"
    "\<forall>t \<in> set (mount_targets cs). unlisted E t"
    using assms(1) by (auto simp: mounts_within_def)
  obtain ds where ds: "snd (n (snd (m s))) = (snd (m s))\<lparr>calls := calls (snd (m s)) @ ds\<rparr>" "subseq (mount_targets ds) us"
    "\<forall>t \<in> set (mount_targets ds). unlisted E t"
    using assms(2) by (auto simp: mounts_within_def)
  have run: "snd (thenE m n s) = (case fst (m s) of Inl _ \<Rightarrow> s\<lparr>calls := calls s @ cs\<rparr> | Inr _ \<Rightarrow> s\<lparr>calls := calls s @ (cs @ ds)\<rparr>)"
    using cs(1) ds(1) by (simp add: thenE_def snd_bindE split: sum.split)
  have sub: "subseq (mount_targets cs) (ts @ us)" "subseq (mount_targets (cs @ ds)) (ts @ us)"
    using cs(2) ds(2) by (simp_all add: list_emb_prefix list_emb_append_mono)
  show "\<exists>cs. snd (thenE m n s) = s\<lparr>calls := calls s @ cs\<rparr> \<and> subseq (mount_targets cs) (ts @ us) \<and>
      (\<forall>t \<in> set (mount_targets cs). unlisted E t)"
  proof (cases "fst (m s)")
    case (Inl e)
    then show ?thesis using run sub(1) cs(3) by (intro exI [of _ cs]) simp
  next
    case (Inr x)
    then show ?thesis using run sub(2) cs(3) ds(3) by (intro exI [of _ "cs @ ds"]) auto
  qed
qed

lemma mounts_within_tell: "mount_targets [c] = [] \<Longrightarrow> mounts_within E [] (tell c)"
  unfolding mounts_within_def by (auto simp: log_call_def intro!: exI [of _ "[c]"])

lemma mounts_within_dev_node: "mounts_within E [] (create_dev_node E p ma mi mo)"
proof -
  let ?node = "\<lambda>s. if ans_bool E (calls s @ [FsUmask 0]) (FsExists p) then FsChmod p mo else FsMknod p mo ma mi"
  let ?old = "\<lambda>s. case ans_nat E (calls s) (FsUmask 0) of Inl _ \<Rightarrow> 0 | Inr m \<Rightarrow> m"
  have "snd (create_dev_node E p ma mi mo s) = s\<lparr>calls := calls s @ [FsUmask 0, FsExists p, ?node s, FsUmask (?old s)]\<rparr>" for s :: world
    by (auto simp: create_dev_node_def prog_simps log_call_def of_os_def split: sum.split)
  then show ?thesis unfolding mounts_within_def by (intro allI exI conjI) (assumption, auto)
qed

lemma mounts_within_mount: "mounts_within E [tgt] (mount_if_needed E src tgt ty fl)"
  unfolding mounts_within_def
proof
  fix s :: world
  let ?tab = "FsRead ''/proc/mounts''" and ?mnt = "MountFs src tgt ty fl []"
  show "\<exists>cs. snd (mount_if_needed E src tgt ty fl s) = s\<lparr>calls := calls s @ cs\<rparr> \<and> subseq (mount_targets cs) [tgt] \<and>
      (\<forall>t \<in> set (mount_targets cs). unlisted E t)"
  proof (cases "case ans_str E (calls s) ?tab of Inl _ \<Rightarrow> True | Inr m \<Rightarrow> \<not> mounted_in m tgt")
    case True
    then have "unlisted E tgt" unfolding unlisted_def by blast
    moreover have "snd (mount_if_needed E src tgt ty fl s) = s\<lparr>calls := calls s @ [?tab, FsCreateDirAll tgt, ?mnt]\<rparr>"
      using True by (auto simp: mount_if_needed_def is_mounted_def prog_simps log_call_def of_os_def split: sum.splits)
    ultimately show ?thesis by (intro exI [of _ "[?tab, FsCreateDirAll tgt, ?mnt]"]) simp
  next
    case False
    then have "snd (mount_if_needed E src tgt ty fl s) = s\<lparr>calls := calls s @ [?tab]\<rparr>"
      by (auto simp: mount_if_needed_def is_mounted_def prog_simps log_call_def of_os_def split: sum.splits)
    then show ?thesis by (intro exI [of _ "[?tab]"]) simp
  qed
qed

definition essential_targets :: "path list" where
  "essential_targets = [''/proc'', ''/sys'', ''/dev'', ''/dev/pts'', ''/dev/shm'', ''/tmp'', ''/run'', ''/sys/fs/cgroup'']"

lemma mounts_within_essential: "mounts_within E essential_targets (mount_essential_filesystems E)"
proof -
  have "mounts_within E ([''/proc''] @ [''/sys''] @ [''/dev''] @ [] @ [] @ [] @ [] @ [] @ [] @ [] @ [''/dev/pts''] @ [] @
      [''/dev/shm''] @ [''/tmp''] @ [] @ [''/run''] @ [] @ [''/sys/fs/cgroup'']) (mount_essential_filesystems E)"
    unfolding mount_essential_filesystems_def
    by (intro mounts_within_thenE mounts_within_mount mounts_within_dev_node mounts_within_tell) simp_all
  then show ?thesis by (simp add: essential_targets_def)
qed

lemma plain_init: "plain (mount_essential_filesystems E)"
proof -
  have "plain (mount_if_needed E src tgt ty fl)" "plain (create_dev_node E p ma mi mo)" for src tgt ty fl p ma mi mo
    unfolding mount_if_needed_def is_mounted_def create_dev_node_def Let_def by (intro plain_rules)+
  then show ?thesis unfolding mount_essential_filesystems_def by (intro plain_rules)
qed

text \<open>
  The agent's set-up as init never fails, whatever the kernel answers. It mounts a subsequence of
  the eight essential file systems in their fixed order, parents before children, each at most once
  and only where a mount table it read did not list the target; so an agent that starts on a
  prepared system mounts nothing. Its last act is to become the child subreaper.
\<close>

theorem init_setup_mounts:
  fixes s :: world
  shows "\<exists>cs. init_setup E s = (Inr (), s\<lparr>calls := calls s @ cs @ [Subreaper]\<rparr>) \<and>
     subseq (mount_targets cs) essential_targets \<and> list_all (unlisted E) (mount_targets cs)"
proof -
  obtain cs where cs: "snd (mount_essential_filesystems E s) = s\<lparr>calls := calls s @ cs\<rparr>"
    "subseq (mount_targets cs) essential_targets" "\<forall>t \<in> set (mount_targets cs). unlisted E t"
    using mounts_within_essential [of E] unfolding mounts_within_def by blast
  have "ignoreE (mount_essential_filesystems E) s = (Inr (), s\<lparr>calls := calls s @ cs\<rparr>)"
    using plain_ignoreE_Inr [OF plain_init, of E s] cs(1) by (metis prod.collapse snd_ignoreE)
  then have "init_setup E s = (Inr (), s\<lparr>calls := calls s @ cs @ [Subreaper]\<rparr>)"
    by (simp add: init_setup_def thenE_apply set_child_subreaper_def tell_def log_call_def)
  then show ?thesis using cs(2,3) unfolding list_all_iff by blast
qed

end
