(* ===== verification/AgentContainer.thy ===== *)
theory AgentContainer
  imports Netlink AgentInit
begin

text \<open>
  \<^verbatim>\<open>crates/agent/src/container.rs\<close>: the container manager of the guest agent. Its state are the four
  maps of the source and, explicitly, what the maps share with background tasks: the exit channels
  and the log buffers, addressed by position, and the exit waiters that are still running
  (\<open>jobs\<close>). A container identifier refers to a channel and a buffer, so that a second start under the
  same identifier, or an adoption, changes what the identifier refers to and not what the tasks of
  the first start write to.

  Signed exit codes are 32-bit words in two's complement, so the cast to u32 is the identity.
  Only the Linux variant is modelled. A hash set of devices iterates in the order of the directory
  listing, which the environment chooses.
\<close>

section \<open>State\<close>

record ExitStatus =
  es_code :: u32
  es_exited_at :: string

record InlineFileInfo =
  if_path :: string
  if_content :: string
  if_mode :: u32

record VolumeInfo =
  vol_destination :: string
  vol_source :: string
  vol_readonly :: bool
  vol_is_block :: bool
  vol_fs_type :: string
  vol_inline_files :: "InlineFileInfo list"

datatype ContainerState = Created | Running | Stopped

record Container =
  ct_pid :: "u32 option"
  ct_exit_code :: "u32 option"
  ct_state :: ContainerState

record ContainerLogs =
  lg_stdout :: bytes
  lg_stderr :: bytes
  lg_eof :: bool

record job =
  jb_pid :: u32
  jb_chan :: nat
  jb_buf :: nat

record manager = world +
  containers :: "Container hmap"
  known_disks :: "string list"
  exit_receivers :: "nat hmap"
  logs :: "nat hmap"
  channels :: "ExitStatus option list"
  buffers :: "ContainerLogs list"
  jobs :: "job list"

definition scan_block_devices :: "env \<Rightarrow> ('z world_scheme, string list) prog" where
  "scan_block_devices E =
     bindE (catchE (ask (ans_strs E) (FsReadDir ''/sys/block''))) (\<lambda>r. case r of
        Inl _ \<Rightarrow> retE []
      | Inr names \<Rightarrow> retE (remdups (filter (starts_with ''vd'') names)))"

definition ContainerManager_new :: "env \<Rightarrow> call list \<Rightarrow> manager" where
  "ContainerManager_new E h =
     (case scan_block_devices E \<lparr>calls = h\<rparr> of (r, w) \<Rightarrow>
        \<lparr>calls = calls w, containers = [], known_disks = (case r of Inl _ \<Rightarrow> [] | Inr ds \<Rightarrow> ds),
         exit_receivers = [], logs = [], channels = [], buffers = [], jobs = []\<rparr>)"

definition discover_block_device :: "env \<Rightarrow> ('z manager_scheme, path option) prog" where
  "discover_block_device E =
     bindE (scan_block_devices E) (\<lambda>current.
     bindE (getE known_disks) (\<lambda>known.
       case filter (\<lambda>d. d \<notin> set known) current of
         [] \<Rightarrow> retE None
       | dev # _ \<Rightarrow> thenE (modE (\<lambda>s. s\<lparr>known_disks := known_disks s @ [dev]\<rparr>)) (retE (Some (''/dev/'' @ dev)))))"

section \<open>Adapting the OCI spec\<close>

definition vm_namespaces :: json where
  "vm_namespaces = JArr [JObj [(''type'', JStr ''mount'')], JObj [(''type'', JStr ''pid'')]]"

definition strip_linux :: "json \<Rightarrow> json" where
  "strip_linux = j_at [''linux''] (\<lambda>l. j_del ''seccomp'' (j_del ''resources'' (j_del ''readonlyPaths''
     (j_del ''maskedPaths'' (j_del ''cgroupsPath'' (j_set ''namespaces'' vm_namespaces l))))))"

definition system_mounts :: "json list" where
  "system_mounts =
     [JObj [(''destination'', JStr ''/proc''), (''type'', JStr ''proc''), (''source'', JStr ''proc'')],
      JObj [(''destination'', JStr ''/dev''), (''type'', JStr ''tmpfs''), (''source'', JStr ''tmpfs''),
            (''options'', JArr (map JStr [''nosuid'', ''strictatime'', ''mode=755'', ''size=65536k'']))],
      JObj [(''destination'', JStr ''/dev/pts''), (''type'', JStr ''devpts''), (''source'', JStr ''devpts''),
            (''options'', JArr (map JStr [''nosuid'', ''noexec'', ''newinstance'', ''ptmxmode=0666'', ''mode=0620'']))],
      JObj [(''destination'', JStr ''/sys''), (''type'', JStr ''sysfs''), (''source'', JStr ''sysfs''),
            (''options'', JArr (map JStr [''nosuid'', ''noexec'', ''nodev'', ''ro'']))]]"

definition volume_json :: "string \<Rightarrow> string \<Rightarrow> string \<Rightarrow> string list \<Rightarrow> json" where
  "volume_json destination ty source opts =
     JObj [(''destination'', JStr destination), (''type'', JStr ty), (''source'', JStr source),
           (''options'', JArr (map JStr opts))]"

definition base_name :: "path \<Rightarrow> string" where
  "base_name p = (case file_name p of None \<Rightarrow> [] | Some n \<Rightarrow> n)"

text \<open>A single inline file named like the destination is mounted itself; otherwise the directory is.\<close>

definition fs_source :: "VolumeInfo \<Rightarrow> path" where
  "fs_source vol = (case vol_inline_files vol of
      [f] \<Rightarrow> if base_name (vol_destination vol) \<noteq> [] \<and> base_name (vol_destination vol) = base_name (if_path f)
             then join_path (vol_source vol) (if_path f) else vol_source vol
    | _ \<Rightarrow> vol_source vol)"

fun volume_mounts :: "env \<Rightarrow> VolumeInfo list \<Rightarrow> ('z manager_scheme, json list) prog" where
  "volume_mounts E [] = retE []"
| "volume_mounts E (vol # vols) =
     (if vol_is_block vol then
        bindE (discover_block_device E) (\<lambda>d. case d of
           None \<Rightarrow> volume_mounts E vols
         | Some dev_path \<Rightarrow> bindE (volume_mounts E vols) (\<lambda>ms.
             retE (volume_json (vol_destination vol) (vol_fs_type vol) dev_path
               (if vol_readonly vol then [''ro''] else []) # ms)))
      else bindE (volume_mounts E vols) (\<lambda>ms.
        retE (volume_json (vol_destination vol) ''bind'' (fs_source vol)
          (''rbind'' # (if vol_readonly vol then [''ro''] else [])) # ms)))"

definition adapt_spec :: "json list \<Rightarrow> json \<Rightarrow> json" where
  "adapt_spec mounts spec =
     j_at [''process''] (\<lambda>p. j_del ''oomScoreAdj'' (j_del ''selinuxLabel'' (j_del ''apparmorProfile'' p)))
       (j_set ''mounts'' (JArr mounts) (j_del ''hostname'' (strip_linux spec)))"

definition adapt_oci_spec_for_vm :: "env \<Rightarrow> path \<Rightarrow> VolumeInfo list \<Rightarrow> ('z manager_scheme, unit) prog" where
  "adapt_oci_spec_for_vm E bundle volumes =
     (let config_path = join_path bundle ''config.json'' in
      bindE (ctxE (''failed to read '' @ config_path) (ask (ans_str E) (FsRead config_path))) (\<lambda>data.
      bindE (ctxE ''failed to parse config.json'' (parse_json E data)) (\<lambda>spec.
      bindE (volume_mounts E volumes) (\<lambda>ms.
        ctxE (''failed to write '' @ config_path)
          (ask (ans_unit E) (FsWrite config_path (json_pretty E (adapt_spec (system_mounts @ ms) spec))))))))"

section \<open>Waiting for a device\<close>

text \<open>
  The events of one read of \<open>n\<close> bytes into the buffer: is one of them about \<open>name\<close>? An event is a
  16-byte header whose last four bytes are the length of the name that follows.
\<close>

function inotify_scan :: "bytes \<Rightarrow> nat \<Rightarrow> string \<Rightarrow> nat \<Rightarrow> err + bool" where
  "inotify_scan buf n name off =
     (if off + 16 \<le> n then
        (case u32_at buf (off + 12) of
           Inl e \<Rightarrow> Inl e
         | Inr lenw \<Rightarrow>
             (let name_len = unat lenw; event_end = off + 16 + name_len;
                  name_bytes = take name_len (drop (off + 16) buf)
              in if event_end \<le> n \<and> 0 < name_len \<and> 0 \<in> set name_bytes \<and>
                    from_utf8_lossy (takeWhile (\<lambda>b. b \<noteq> 0) name_bytes) = name
                 then Inr True
                 else inotify_scan buf n name event_end))
      else Inr False)"
  by pat_completeness auto
termination
  by (relation "measure (\<lambda>(_, n, _, off). n - off)") auto

declare inotify_scan.simps [simp del]

fun inotify_loop :: "env \<Rightarrow> nat \<Rightarrow> nat \<Rightarrow> path \<Rightarrow> string \<Rightarrow> bytes \<Rightarrow> ('z world_scheme, unit) prog" where
  "inotify_loop E 0 deadline dir name buf = failE Diverge"
| "inotify_loop E (Suc k) deadline dir name buf =
     bindE (clock_now E) (\<lambda>t.
       if deadline \<le> t then failE (msg (''timeout waiting for device '' @ name))
       else bindE (catchE (ask (ans_nat E) (InotifyPoll (min (deadline - t) 1000)))) (\<lambda>ret. case ret of
          Inl e \<Rightarrow> if err_os e = Some 4 then inotify_loop E k deadline dir name buf
                   else failE (msg (''poll: '' @ show_err e))
        | Inr ready \<Rightarrow>
            if ready = 0 then
              bindE (askb E (FsExists (join_path dir name))) (\<lambda>ex.
                if ex then retE () else inotify_loop E k deadline dir name buf)
            else bindE (catchE (ask (ans_bytes E) (InotifyRead 4096))) (\<lambda>rd. case rd of
               Inl _ \<Rightarrow> inotify_loop E k deadline dir name buf
             | Inr bs \<Rightarrow>
                 let got = take 4096 bs; buf' = got @ drop (length got) buf in
                 bindE (ofSumE (inotify_scan buf' (length got) name 0)) (\<lambda>found.
                   if found then retE () else inotify_loop E k deadline dir name buf'))))"

definition wait_for_dev_inotify :: "env \<Rightarrow> path \<Rightarrow> ('z world_scheme, unit) prog" where
  "wait_for_dev_inotify E dev_path =
     bindE (askb E (FsExists dev_path)) (\<lambda>ex.
       if ex then retE ()
       else bindE (ofOptE (msg ''invalid device path'') (file_name dev_path)) (\<lambda>dev_name.
         let watch_dir = (case path_parent dev_path of None \<Rightarrow> ''/dev'' | Some p \<Rightarrow> p) in
         blockingE ''inotify task panicked''
           (bindE (catchE (ask (ans_nat E) InotifyInit)) (\<lambda>fd. case fd of
              Inl e \<Rightarrow> failE (msg (''inotify_init1: '' @ show_err e))
            | Inr _ \<Rightarrow>
                if CHR 0x00 \<in> set watch_dir then failE (msg ''nul byte found in provided data'')
                else bindE (catchE (ask (ans_nat E) (InotifyAdd watch_dir))) (\<lambda>wd. case wd of
                   Inl e \<Rightarrow> failE (msg (''inotify_add_watch('' @ watch_dir @ ''): '' @ show_err e))
                 | Inr _ \<Rightarrow>
                     bindE (askb E (FsExists (join_path watch_dir dev_name))) (\<lambda>there.
                       if there then retE ()
                       else bindE (clock_now E) (\<lambda>t.
                         inotify_loop E (loop_fuel E) (t + 10000) watch_dir dev_name (zeros 4096))))))))"

section \<open>Creating a container\<close>

text \<open>
  \<^verbatim>\<open>(b'b' + i as u8) as char\<close>, formatted: the addition wraps at eight bits, and a character above 127
  takes two bytes.
\<close>

definition layer_device :: "nat \<Rightarrow> path" where
  "layer_device i =
     (let b = (98 + i) mod 256 in
      ''/dev/vd'' @ (if b < 128 then [char_of b] else [char_of (192 + b div 64), char_of (128 + b mod 64)]))"

fun mount_loop :: "env \<Rightarrow> nat \<Rightarrow> nat \<Rightarrow> path \<Rightarrow> path \<Rightarrow> ('z world_scheme, unit) prog" where
  "mount_loop E 0 deadline dev layer_mount = failE Diverge"
| "mount_loop E (Suc k) deadline dev layer_mount =
     bindE (catchE (ask (ans_unit E) (MountFs dev layer_mount ''erofs'' [MS_RDONLY, MS_NOATIME] []))) (\<lambda>r. case r of
        Inr _ \<Rightarrow> retE ()
      | Inl e \<Rightarrow> bindE (clock_now E) (\<lambda>t.
          if t < deadline then thenE (tell (Sleep 10)) (mount_loop E k deadline dev layer_mount)
          else failE (msg (''mount erofs '' @ dev @ '' at '' @ layer_mount @ '': '' @ show_err e))))"

definition mount_layer :: "env \<Rightarrow> path \<Rightarrow> nat \<Rightarrow> ('z world_scheme, path) prog" where
  "mount_layer E mount_point i =
     (let dev = layer_device i; layer_mount = join_path mount_point (''layer'' @ dec i) in
      thenE (ask (ans_unit E) (FsCreateDirAll layer_mount))
     (thenE (bindE (askb E (FsExists dev)) (\<lambda>ex. if ex then retE () else wait_for_dev_inotify E dev))
     (bindE (clock_now E) (\<lambda>t.
      thenE (mount_loop E (loop_fuel E) (t + 2000) dev layer_mount)
            (retE layer_mount)))))"

fun mount_layers :: "env \<Rightarrow> path \<Rightarrow> nat list \<Rightarrow> ('z world_scheme, path list) prog" where
  "mount_layers E mount_point [] = retE []"
| "mount_layers E mount_point (i # is) =
     bindE (mount_layer E mount_point i) (\<lambda>d. bindE (mount_layers E mount_point is) (\<lambda>ds. retE (d # ds)))"

definition overlay_opts :: "path \<Rightarrow> path list \<Rightarrow> string" where
  "overlay_opts mount_point lowerdirs =
     ''lowerdir='' @ join_str '':'' lowerdirs @ '',upperdir='' @ join_path mount_point ''upper'' @
     '',workdir='' @ join_path mount_point ''work''"

definition compose_rootfs :: "env \<Rightarrow> path \<Rightarrow> nat \<Rightarrow> ('z world_scheme, unit) prog" where
  "compose_rootfs E mount_point layers =
     bindE (mount_layers E mount_point [0..<layers]) (\<lambda>lowerdirs.
     let opts = overlay_opts mount_point lowerdirs in
     thenE (ask (ans_unit E) (FsCreateDirAll (join_path mount_point ''upper'')))
    (thenE (ask (ans_unit E) (FsCreateDirAll (join_path mount_point ''work'')))
           (ctxE (''overlayfs mount with erofs layers: '' @ opts)
             (ask (ans_unit E) (MountFs ''overlay'' (join_path mount_point ''rootfs'') ''overlay'' [] opts)))))"

text \<open>The guard on the path of an inline file.\<close>

definition unsafe_path :: "string \<Rightarrow> bool" where
  "unsafe_path p \<longleftrightarrow> starts_with ''/'' p \<or> contains_str ''../'' p \<or> contains_str ''/..'' p \<or> p = ''..''"

fun write_files :: "env \<Rightarrow> path \<Rightarrow> InlineFileInfo list \<Rightarrow> ('z world_scheme, unit) prog" where
  "write_files E vol_dir [] = retE ()"
| "write_files E vol_dir (f # fs) =
     (if unsafe_path (if_path f) then write_files E vol_dir fs
      else let file_path = join_path vol_dir (if_path f) in
        thenE (case path_parent file_path of None \<Rightarrow> retE () | Some p \<Rightarrow> ask (ans_unit E) (FsCreateDirAll p))
       (thenE (ctxE (''write inline file: '' @ if_path f) (ask (ans_unit E) (FsWrite file_path (if_content f))))
       (thenE (if if_mode f \<noteq> 0 then ask (ans_unit E) (FsSetMode file_path (unat (if_mode f))) else retE ())
              (write_files E vol_dir fs))))"

definition volume_dir :: "path \<Rightarrow> VolumeInfo \<Rightarrow> path" where
  "volume_dir mount_point vol =
     join_path (join_path mount_point ''volumes'') (last (split_on (CHR ''/'') (vol_source vol)))"

fun write_volumes :: "env \<Rightarrow> path \<Rightarrow> VolumeInfo list \<Rightarrow> ('z world_scheme, unit) prog" where
  "write_volumes E mount_point [] = retE ()"
| "write_volumes E mount_point (vol # vols) =
     (if vol_is_block vol \<or> vol_inline_files vol = [] then write_volumes E mount_point vols
      else thenE (ask (ans_unit E) (FsCreateDirAll (volume_dir mount_point vol)))
        (thenE (write_files E (volume_dir mount_point vol) (vol_inline_files vol))
               (write_volumes E mount_point vols)))"

definition bundle_dir :: "string \<Rightarrow> path" where
  "bundle_dir container_id = join_path ''/run/containers'' container_id"

text \<open>Everything \<^verbatim>\<open>create\<close> does to the file system before the spec is adapted.\<close>

definition prepare_bundle :: "env \<Rightarrow> string \<Rightarrow> VolumeInfo list \<Rightarrow> string \<Rightarrow> nat \<Rightarrow> ('z world_scheme, unit) prog" where
  "prepare_bundle E container_id volumes config_json layers =
     (let mount_point = bundle_dir container_id in
      thenE (ask (ans_unit E) (FsCreateDirAll mount_point))
     (thenE (ask (ans_unit E) (FsCreateDirAll (join_path mount_point ''rootfs'')))
     (thenE (compose_rootfs E mount_point layers)
     (thenE (if config_json \<noteq> [] then
               ctxE ''write inline config.json'' (ask (ans_unit E) (FsWrite (join_path mount_point ''config.json'') config_json))
             else bindE (askb E (FsExists (join_path mount_point ''config.json''))) (\<lambda>ex.
               if ex then retE ()
               else failE (msg ''no config.json: inline data not provided and no on-disk file present'')))
     (thenE (write_volumes E mount_point volumes)
     (bindE (askb E (FsExists (join_path (join_path mount_point ''_disk'') ''volumes''))) (\<lambda>d.
        if d then bindE (askb E (FsExists (join_path mount_point ''volumes''))) (\<lambda>b.
               if b then retE ()
               else ctxE ''symlink disk volumes to bundle''
                 (ask (ans_unit E) (FsSymlink (join_path (join_path mount_point ''_disk'') ''volumes'')
                    (join_path mount_point ''volumes''))))
        else retE ())))))))"

definition create ::
  "env \<Rightarrow> string \<Rightarrow> VolumeInfo list \<Rightarrow> string \<Rightarrow> bool \<Rightarrow> nat \<Rightarrow> ('z manager_scheme, u32) prog" where
  "create E container_id volumes config_json rootfs_preattached erofs_layers =
     (if erofs_layers = 0 then failE (msg ''erofs_layers must be > 0: the erofs snapshotter is required'')
      else thenE (prepare_bundle E container_id volumes config_json erofs_layers)
        (thenE (adapt_oci_spec_for_vm E (bundle_dir container_id) volumes)
        (thenE (modE (\<lambda>s. s\<lparr>containers := AList.update container_id
             \<lparr>ct_pid = Some (process_id E), ct_exit_code = None, ct_state = Created\<rparr> (containers s)\<rparr>))
           (retE (process_id E)))))"

section \<open>Running a container\<close>

definition empty_logs :: ContainerLogs where
  "empty_logs = \<lparr>lg_stdout = [], lg_stderr = [], lg_eof = False\<rparr>"

text \<open>The bookkeeping of a started process: a new buffer, a new channel and its exit waiter.\<close>

definition register_started :: "string \<Rightarrow> u32 \<Rightarrow> ('z manager_scheme, unit) prog" where
  "register_started container_id pid = modE (\<lambda>s. s\<lparr>
     containers := (case map_of (containers s) container_id of
        None \<Rightarrow> containers s
      | Some c \<Rightarrow> AList.update container_id (c\<lparr>ct_state := Running, ct_pid := Some pid\<rparr>) (containers s)),
     logs := AList.update container_id (length (buffers s)) (logs s),
     buffers := buffers s @ [empty_logs],
     exit_receivers := AList.update container_id (length (channels s)) (exit_receivers s),
     channels := channels s @ [None],
     jobs := jobs s @ [\<lparr>jb_pid = pid, jb_chan = length (channels s), jb_buf = length (buffers s)\<rparr>]\<rparr>)"

definition start :: "env \<Rightarrow> string \<Rightarrow> ('z manager_scheme, u32) prog" where
  "start E container_id =
     bindE (getE (\<lambda>s. map_of (containers s) container_id)) (\<lambda>c.
     bindE (ofOptE (msg (''container not found: '' @ container_id)) c) (\<lambda>_.
     bindE (ctxE (''spawn crun run (bundle='' @ bundle_dir container_id @ '')'')
         (ask (ans_nat E) (ProcSpawn ''/bin/crun'' [''run'', ''--bundle'', bundle_dir container_id, container_id]))) (\<lambda>n.
     let pid = word_of_nat n in
     thenE (register_started container_id pid) (retE pid))))"

definition run ::
  "env \<Rightarrow> string \<Rightarrow> VolumeInfo list \<Rightarrow> string \<Rightarrow> bool \<Rightarrow> nat \<Rightarrow> ('z manager_scheme, u32) prog" where
  "run E container_id volumes config_json rootfs_preattached erofs_layers =
     thenE (create E container_id volumes config_json rootfs_preattached erofs_layers) (start E container_id)"

text \<open>The background tasks of a started process: capture of its output and the wait for its exit.\<close>

definition append_stdout :: "nat \<Rightarrow> bytes \<Rightarrow> ('z manager_scheme, unit) prog" where
  "append_stdout b bs = modE (\<lambda>s. s\<lparr>buffers := (buffers s)[b := (buffers s ! b)\<lparr>lg_stdout := lg_stdout (buffers s ! b) @ bs\<rparr>]\<rparr>)"

definition append_stderr :: "nat \<Rightarrow> bytes \<Rightarrow> ('z manager_scheme, unit) prog" where
  "append_stderr b bs = modE (\<lambda>s. s\<lparr>buffers := (buffers s)[b := (buffers s ! b)\<lparr>lg_stderr := lg_stderr (buffers s ! b) @ bs\<rparr>]\<rparr>)"

definition child_wait :: "env \<Rightarrow> u32 \<Rightarrow> ('z world_scheme, u32) prog" where
  "child_wait E pid = bindE (catchE (ask (ans_code E) (ChildWait pid))) (\<lambda>r.
     retE (case r of Inr (Some code) \<Rightarrow> code | _ \<Rightarrow> 137))"

definition wait_for_exit_pidfd :: "env \<Rightarrow> u32 \<Rightarrow> ('z world_scheme, u32) prog" where
  "wait_for_exit_pidfd E pid =
     bindE (catchE (ask (ans_nat E) (PidfdOpen pid))) (\<lambda>fd. case fd of
        Inl _ \<Rightarrow> child_wait E pid
      | Inr _ \<Rightarrow> bindE (catchE (ask (ans_unit E) (AsyncFdNew pid))) (\<lambda>a. case a of
           Inl _ \<Rightarrow> child_wait E pid
         | Inr _ \<Rightarrow> bindE (catchE (ask (ans_unit E) (PidfdReadable pid))) (\<lambda>g. case g of
              Inl _ \<Rightarrow> child_wait E pid
            | Inr _ \<Rightarrow> bindE (catchE (ask (ans_try E) (ChildTryWait pid))) (\<lambda>t. case t of
                 Inr (Some status) \<Rightarrow> retE (case status of Some code \<Rightarrow> code | None \<Rightarrow> 137)
               | _ \<Rightarrow> child_wait E pid))))"

definition exit_task :: "env \<Rightarrow> job \<Rightarrow> ('z manager_scheme, unit) prog" where
  "exit_task E j =
     bindE (wait_for_exit_pidfd E (jb_pid j)) (\<lambda>code.
     bindE (wall_now E) (\<lambda>t.
     thenE (modE (\<lambda>s. s\<lparr>channels := (channels s)[jb_chan j := Some \<lparr>es_code = code, es_exited_at = t\<rparr>]\<rparr>))
           (modE (\<lambda>s. s\<lparr>buffers := (buffers s)[jb_buf j := (buffers s ! jb_buf j)\<lparr>lg_eof := True\<rparr>]\<rparr>))))"

section \<open>The other operations\<close>

definition crun :: "env \<Rightarrow> string \<Rightarrow> string list \<Rightarrow> ('z world_scheme, nat \<times> string) prog" where
  "crun E ctx args = ctxE ctx (ask (ans_exit E) (ProcOutput ''/bin/crun'' args))"

definition kill :: "env \<Rightarrow> string \<Rightarrow> u32 \<Rightarrow> ('z manager_scheme, unit) prog" where
  "kill E container_id signal =
     bindE (getE (\<lambda>s. map_option ct_state (map_of (containers s) container_id))) (\<lambda>st.
       if st = Some Stopped then retE ()
       else bindE (crun E ''failed to execute crun kill'' [''kill'', container_id, dec (unat signal)]) (\<lambda>(status, err).
         if status = 0 then retE ()
         else let stderr = from_utf8_lossy (str_bytes err) in
           if contains_str ''No such file'' stderr \<or> contains_str ''not found'' stderr then retE ()
           else failE (msg (''crun kill failed: '' @ stderr))))"

fun kill_each :: "env \<Rightarrow> u32 \<Rightarrow> string list \<Rightarrow> ('z manager_scheme, unit) prog" where
  "kill_each E signal [] = retE ()"
| "kill_each E signal (i # is) = thenE (ignoreE (kill E i signal)) (kill_each E signal is)"

definition signal_all :: "env \<Rightarrow> u32 \<Rightarrow> ('z manager_scheme, unit) prog" where
  "signal_all E signal =
     bindE (getE (\<lambda>s. map fst (filter (\<lambda>(_, c). ct_state c \<noteq> Stopped) (containers s)))) (kill_each E signal)"

definition delete :: "env \<Rightarrow> string \<Rightarrow> ('z manager_scheme, u32 \<times> u32) prog" where
  "delete E container_id =
     bindE (crun E ''failed to execute crun delete'' [''delete'', ''--force'', container_id]) (\<lambda>_.
     bindE (getE (\<lambda>s. map_of (containers s) container_id)) (\<lambda>c.
     thenE (modE (\<lambda>s. s\<lparr>containers := AList.delete container_id (containers s)\<rparr>))
       (retE (case c of
          Some ct \<Rightarrow> (case ct_pid ct of None \<Rightarrow> 0 | Some p \<Rightarrow> p, case ct_exit_code ct of None \<Rightarrow> 0 | Some x \<Rightarrow> x)
        | None \<Rightarrow> (0, 0)))))"

definition move_entry :: "string \<Rightarrow> string \<Rightarrow> 'v hmap \<Rightarrow> 'v hmap" where
  "move_entry old_id new_id m = (case map_of m old_id of
      None \<Rightarrow> m
    | Some v \<Rightarrow> AList.update new_id v (AList.delete old_id m))"

definition adopt :: "string \<Rightarrow> string \<Rightarrow> ('z manager_scheme, u32) prog" where
  "adopt old_id new_id =
     bindE (getE (\<lambda>s. map_of (containers s) old_id)) (\<lambda>co.
     bindE (ofOptE (msg (''adopt: container '' @ old_id @ '' not found'')) co) (\<lambda>container.
     thenE (modE (\<lambda>s. s\<lparr>containers := AList.delete old_id (containers s)\<rparr>))
    (bindE (ofOptE (msg (''adopt: container '' @ old_id @ '' has no PID'')) (ct_pid container)) (\<lambda>pid.
     thenE (modE (\<lambda>s. s\<lparr>exit_receivers := move_entry old_id new_id (exit_receivers s),
                        logs := move_entry old_id new_id (logs s),
                        containers := AList.update new_id container (containers s)\<rparr>))
           (retE pid)))))"

definition get_exit_receiver :: "string \<Rightarrow> ('z manager_scheme, nat option) prog" where
  "get_exit_receiver i = getE (\<lambda>s. map_of (exit_receivers s) i)"

definition mark_stopped :: "string \<Rightarrow> u32 \<Rightarrow> ('z manager_scheme, unit) prog" where
  "mark_stopped i code = modE (\<lambda>s. case map_of (containers s) i of
      None \<Rightarrow> s
    | Some c \<Rightarrow> s\<lparr>containers := AList.update i (c\<lparr>ct_state := Stopped, ct_exit_code := Some code\<rparr>) (containers s)\<rparr>)"

definition get_log_buffer :: "string \<Rightarrow> ('z manager_scheme, nat option) prog" where
  "get_log_buffer i = getE (\<lambda>s. map_of (logs s) i)"

text \<open>The reported state: \<open>None\<close> is the protocol's \<^verbatim>\<open>UNKNOWN\<close>.\<close>

definition state :: "string \<Rightarrow> ('z manager_scheme, u32 \<times> ContainerState option \<times> u32) prog" where
  "state container_id = getE (\<lambda>s. case map_of (containers s) container_id of
      None \<Rightarrow> (0, None, 0)
    | Some c \<Rightarrow> (case ct_pid c of None \<Rightarrow> 0 | Some p \<Rightarrow> p, Some (ct_state c),
                 case ct_exit_code c of None \<Rightarrow> 0 | Some x \<Rightarrow> x))"

section \<open>Frame\<close>

lemma only_calls_inotify_loop [frame_rules]: "only_calls (inotify_loop E k dl dir name buf)"
  by (induction k arbitrary: buf) (auto intro!: frame_rules simp: Let_def)

lemma only_calls_wait_dev [frame_rules]: "only_calls (wait_for_dev_inotify E p)"
  unfolding wait_for_dev_inotify_def Let_def by (intro frame_rules)

lemma only_calls_mount_loop [frame_rules]: "only_calls (mount_loop E k dl dev m)"
  by (induction k) (auto intro!: frame_rules)

lemma only_calls_mount_layers [frame_rules]: "only_calls (mount_layers E mp is)"
  by (induction "is") (auto intro!: frame_rules simp: mount_layer_def Let_def)

lemma only_calls_write_files [frame_rules]: "only_calls (write_files E d fs)"
  by (induction fs) (auto intro!: frame_rules simp: Let_def)

lemma only_calls_write_volumes [frame_rules]: "only_calls (write_volumes E mp vols)"
  by (induction vols) (auto intro!: frame_rules)

lemma only_calls_container [frame_rules]:
  "only_calls (scan_block_devices E)" "only_calls (compose_rootfs E mp n)" "only_calls (prepare_bundle E i vols cfg n)"
  "only_calls (child_wait E pid)" "only_calls (wait_for_exit_pidfd E pid)" "only_calls (crun E ctx args)"
  unfolding scan_block_devices_def compose_rootfs_def prepare_bundle_def child_wait_def wait_for_exit_pidfd_def crun_def Let_def
  by (intro frame_rules)+

lemma only_calls_wait_exit' [frame_rules]: "only_calls (wait_for_exit_pidfd E pid)"
  by (rule only_calls_container)

lemma only_calls_kill [frame_rules]: "only_calls (kill E i sig :: ('z manager_scheme, unit) prog)"
  unfolding kill_def Let_def by (intro frame_rules)

lemma only_calls_signal_all [frame_rules]: "only_calls (signal_all E sig :: ('z manager_scheme, unit) prog)"
proof -
  have "only_calls (kill_each E sig ids :: ('z manager_scheme, unit) prog)" for ids
    by (induction ids) (auto intro!: frame_rules)
  then show ?thesis unfolding signal_all_def by (intro frame_rules)
qed

section \<open>The manager's invariant\<close>

text \<open>
  A running container has an exit channel and a log buffer under its own identifier; while the
  channel is empty its exit waiter is the waiter of the container's own process and writes to that buffer.
\<close>

definition tracked :: "'z manager_scheme \<Rightarrow> string \<Rightarrow> Container \<Rightarrow> bool" where
  "tracked s i c \<longleftrightarrow> (\<exists>ch b. map_of (exit_receivers s) i = Some ch \<and> map_of (logs s) i = Some b \<and>
     (\<forall>j \<in> set (jobs s). jb_chan j = ch \<longrightarrow> ct_pid c = Some (jb_pid j) \<and> jb_buf j = b))"

definition ct_ok :: "'z manager_scheme \<Rightarrow> string \<Rightarrow> Container \<Rightarrow> bool" where
  "ct_ok s i c \<longleftrightarrow> ct_pid c \<noteq> None \<and> (ct_state c = Stopped \<longrightarrow> ct_exit_code c \<noteq> None) \<and>
     (ct_state c = Running \<longrightarrow> tracked s i c)"

text \<open>A channel is empty exactly as long as its exit waiter runs, and has only one.\<close>

definition chan_ok :: "'z manager_scheme \<Rightarrow> bool" where
  "chan_ok s \<longleftrightarrow> distinct (map jb_chan (jobs s)) \<and>
     (\<forall>c < length (channels s). channels s ! c = None \<longleftrightarrow> c \<in> jb_chan ` set (jobs s))"

definition refs_ok :: "'z manager_scheme \<Rightarrow> bool" where
  "refs_ok s \<longleftrightarrow> (\<forall>i c. map_of (exit_receivers s) i = Some c \<longrightarrow> c < length (channels s)) \<and>
     (\<forall>i b. map_of (logs s) i = Some b \<longrightarrow> b < length (buffers s)) \<and>
     (\<forall>j \<in> set (jobs s). jb_chan j < length (channels s) \<and> jb_buf j < length (buffers s))"

definition mgr_inv :: "'z manager_scheme \<Rightarrow> bool" where
  "mgr_inv s \<longleftrightarrow> hm_ok (containers s) \<and> hm_ok (exit_receivers s) \<and> hm_ok (logs s) \<and>
     (\<forall>i c. map_of (containers s) i = Some c \<longrightarrow> ct_ok s i c) \<and> chan_ok s \<and> refs_ok s"

lemmas mgr_defs = tracked_def ct_ok_def chan_ok_def refs_ok_def

lemma mgr_inv_upd [simp]:
  "mgr_inv (s\<lparr>calls := h\<rparr>) = mgr_inv s" "mgr_inv (s\<lparr>known_disks := ds\<rparr>) = mgr_inv s"
  by (simp_all add: mgr_inv_def mgr_defs)

lemma mgr_inv_calls: "only_calls m \<Longrightarrow> preserves mgr_inv m"
  by (rule preserves_only_calls) simp_all

lemma mgr_inv_new: "mgr_inv (ContainerManager_new E h)"
  by (simp add: ContainerManager_new_def mgr_inv_def mgr_defs split: prod.split)

lemma mgr_inv_discover: "preserves mgr_inv (discover_block_device E)"
  unfolding discover_block_device_def
  by (intro preserves_bindE preserves_getE mgr_inv_calls [OF only_calls_container(1)])
    (auto simp: preserves_def prog_simps split: list.split)

lemma mgr_inv_volume_mounts: "preserves mgr_inv (volume_mounts E vols)"
  by (induction vols) (auto intro!: wp_rules mgr_inv_discover)

lemma mgr_inv_adapt: "preserves mgr_inv (adapt_oci_spec_for_vm E b vols :: ('z manager_scheme, unit) prog)"
  unfolding adapt_oci_spec_for_vm_def Let_def
  by (intro preserves_bindE mgr_inv_volume_mounts mgr_inv_calls frame_rules)

text \<open>Setting a container that is not running keeps the invariant.\<close>

lemma mgr_inv_set:
  assumes "mgr_inv s" and "ct_pid c \<noteq> None" and "ct_state c \<noteq> Running" and "ct_state c = Stopped \<longrightarrow> ct_exit_code c \<noteq> None"
  shows "mgr_inv (s\<lparr>containers := AList.update i c (containers s)\<rparr>)"
  using assms by (auto simp: mgr_inv_def mgr_defs distinct_update update_conv')

lemma mgr_inv_del: "mgr_inv s \<Longrightarrow> mgr_inv (s\<lparr>containers := AList.delete i (containers s)\<rparr>)"
  by (auto simp: mgr_inv_def mgr_defs distinct_delete delete_conv')

lemma mgr_inv_create: "preserves mgr_inv (create E i vols cfg pre n :: ('z manager_scheme, u32) prog)"
  unfolding create_def
  by (intro preserves_if preserves_thenE preserves_failE preserves_retE mgr_inv_adapt mgr_inv_calls frame_rules
      preserves_modE mgr_inv_set) simp_all

lemma register_started_apply:
  "snd (register_started i pid s) = s\<lparr>
     containers := (case map_of (containers s) i of None \<Rightarrow> containers s
        | Some c \<Rightarrow> AList.update i (c\<lparr>ct_state := Running, ct_pid := Some pid\<rparr>) (containers s)),
     logs := AList.update i (length (buffers s)) (logs s), buffers := buffers s @ [empty_logs],
     exit_receivers := AList.update i (length (channels s)) (exit_receivers s), channels := channels s @ [None],
     jobs := jobs s @ [\<lparr>jb_pid = pid, jb_chan = length (channels s), jb_buf = length (buffers s)\<rparr>]\<rparr>"
  by (simp add: register_started_def modE_def)

lemma mgr_inv_register:
  assumes inv: "mgr_inv s" shows "mgr_inv (snd (register_started i pid s))" (is "mgr_inv ?s")
proof -
  have refs: "refs_ok s" and ch: "chan_ok s" using inv by (simp_all add: mgr_inv_def)
  have old: "tracked ?s k c" if "tracked s k c" "k \<noteq> i" for k c
  proof -
    obtain ch b where *: "map_of (exit_receivers s) k = Some ch" "map_of (logs s) k = Some b"
      "\<forall>j \<in> set (jobs s). jb_chan j = ch \<longrightarrow> ct_pid c = Some (jb_pid j) \<and> jb_buf j = b"
      using \<open>tracked s k c\<close> by (auto simp: tracked_def)
    then have "ch < length (channels s)" using refs by (auto simp: refs_ok_def)
    then show ?thesis using * \<open>k \<noteq> i\<close> by (auto simp: tracked_def register_started_apply update_conv')
  qed
  have new: "tracked ?s i c" if "ct_pid c = Some pid" for c
    using that refs by (auto simp: tracked_def register_started_apply update_conv' refs_ok_def)
  have "ct_ok ?s k c" if "map_of (containers ?s) k = Some c" for k c
  proof (cases "k = i")
    case True
    then show ?thesis using that new [of c]
      by (auto simp: register_started_apply update_conv' ct_ok_def split: option.splits)
  next
    case False
    then have "map_of (containers s) k = Some c"
      using that by (auto simp: register_started_apply update_conv' split: option.splits)
    then have "ct_ok s k c" using inv by (simp add: mgr_inv_def)
    then show ?thesis using old [OF _ False] by (simp add: ct_ok_def)
  qed
  moreover have "hm_ok (containers ?s)" "hm_ok (exit_receivers ?s)" "hm_ok (logs ?s)"
    using inv by (auto simp: mgr_inv_def register_started_apply distinct_update split: option.split)
  moreover have "chan_ok ?s" using ch refs
    by (auto simp: chan_ok_def refs_ok_def register_started_apply nth_append less_Suc_eq)
  moreover have "refs_ok ?s" using refs by (auto simp: refs_ok_def register_started_apply update_conv' less_SucI)
  ultimately show ?thesis by (simp add: mgr_inv_def)
qed

lemma mgr_inv_start: "preserves mgr_inv (start E i :: ('z manager_scheme, u32) prog)"
proof -
  have reg: "preserves mgr_inv (register_started i pid :: ('z manager_scheme, unit) prog)" for pid
    by (simp add: preserves_def mgr_inv_register)
  show ?thesis unfolding start_def Let_def
    by (intro preserves_bindE preserves_thenE preserves_getE preserves_retE preserves_ofOptE reg
        mgr_inv_calls [OF only_calls_ctxE] frame_rules)
qed

lemma mgr_inv_run: "preserves mgr_inv (run E i vols cfg pre n :: ('z manager_scheme, u32) prog)"
  unfolding run_def by (intro preserves_thenE mgr_inv_create mgr_inv_start)

lemma mgr_inv_delete: "preserves mgr_inv (delete E i :: ('z manager_scheme, u32 \<times> u32) prog)"
  unfolding delete_def
  by (intro preserves_bindE preserves_thenE preserves_getE preserves_retE mgr_inv_calls frame_rules preserves_modE mgr_inv_del)

lemma mgr_inv_stopped: "preserves mgr_inv (mark_stopped i code)"
proof (rule preservesI)
  fix s :: "'z manager_scheme" assume inv: "mgr_inv s"
  show "mgr_inv (snd (mark_stopped i code s))"
  proof (cases "map_of (containers s) i")
    case None
    then show ?thesis using inv by (simp add: mark_stopped_def modE_def)
  next
    case (Some c)
    then have "ct_pid c \<noteq> None" using inv unfolding mgr_inv_def ct_ok_def by blast
    then show ?thesis using inv Some mgr_inv_set [OF inv, of "c\<lparr>ct_state := Stopped, ct_exit_code := Some code\<rparr>" i]
      by (simp add: mark_stopped_def modE_def)
  qed
qed

lemma map_of_move_entry:
  "map_of (move_entry a b m) k = (case map_of m a of None \<Rightarrow> map_of m k
     | Some v \<Rightarrow> if k = b then Some v else if k = a then None else map_of m k)"
  by (simp add: move_entry_def update_conv' delete_conv' split: option.split)

lemma hm_ok_move_entry: "hm_ok m \<Longrightarrow> hm_ok (move_entry a b m)"
  by (simp add: move_entry_def distinct_update distinct_delete split: option.split)

lemma adopt_apply:
  "adopt a b s = (case map_of (containers s) a of
      None \<Rightarrow> (Inl (msg (''adopt: container '' @ a @ '' not found'')), s)
    | Some c \<Rightarrow> (case ct_pid c of
        None \<Rightarrow> (Inl (msg (''adopt: container '' @ a @ '' has no PID'')), s\<lparr>containers := AList.delete a (containers s)\<rparr>)
      | Some pid \<Rightarrow> (Inr pid, s\<lparr>containers := AList.update b c (AList.delete a (containers s)),
            exit_receivers := move_entry a b (exit_receivers s), logs := move_entry a b (logs s)\<rparr>)))"
  by (simp add: adopt_def prog_simps split: option.split)

lemma mgr_inv_adopt: "preserves mgr_inv (adopt a b)"
proof (rule preservesI)
  fix s :: "'z manager_scheme" assume inv: "mgr_inv s"
  show "mgr_inv (snd (adopt a b s))"
  proof (cases "map_of (containers s) a")
    case None
    then show ?thesis using inv by (simp add: adopt_apply)
  next
    case (Some c)
    then have c: "ct_ok s a c" using inv by (simp add: mgr_inv_def)
    then obtain pid where pid: "ct_pid c = Some pid" by (auto simp: ct_ok_def)
    let ?s = "s\<lparr>containers := AList.update b c (AList.delete a (containers s)),
        exit_receivers := move_entry a b (exit_receivers s), logs := move_entry a b (logs s)\<rparr>"
    have eq: "snd (adopt a b s) = ?s" using Some pid by (simp add: adopt_apply)
    have "tracked ?s b c" if "tracked s a c"
      using that by (auto simp: tracked_def map_of_move_entry)
    then have new: "ct_ok ?s b c" using c by (simp add: ct_ok_def)
    have old: "ct_ok ?s k d" if "map_of (containers s) k = Some d" "k \<noteq> a" "k \<noteq> b" for k d
    proof -
      have "ct_ok s k d" using inv that by (simp add: mgr_inv_def)
      moreover have "tracked ?s k d" if "tracked s k d"
        using that \<open>k \<noteq> a\<close> \<open>k \<noteq> b\<close> by (auto simp: tracked_def map_of_move_entry split: option.split)
      ultimately show ?thesis by (simp add: ct_ok_def)
    qed
    have "\<forall>k d. map_of (containers ?s) k = Some d \<longrightarrow> ct_ok ?s k d"
      using new old by (auto simp: update_conv' delete_conv' split: if_splits)
    moreover have "refs_ok ?s" using inv
      by (auto simp: mgr_inv_def refs_ok_def map_of_move_entry split: option.splits if_splits)
    ultimately show ?thesis using inv unfolding eq
      by (simp add: mgr_inv_def chan_ok_def distinct_update distinct_delete hm_ok_move_entry)
  qed
qed

lemma mgr_inv_buffers: "length bs = length (buffers s) \<Longrightarrow> mgr_inv (s\<lparr>buffers := bs\<rparr>) = mgr_inv s"
  unfolding mgr_inv_def mgr_defs by (simp del: map_of_eq_Some_iff)

lemma mgr_inv_append: "preserves mgr_inv (append_stdout b bs)" "preserves mgr_inv (append_stderr b bs)"
  by (simp_all add: preserves_def append_stdout_def append_stderr_def modE_def mgr_inv_buffers)

section \<open>The exit of a container\<close>

lemma wait_for_exit_pidfd_returns:
  "\<exists>code cs. wait_for_exit_pidfd E pid s = (Inr code, s\<lparr>calls := calls s @ cs\<rparr>)"
proof -
  have "\<exists>code. fst (wait_for_exit_pidfd E pid s) = Inr code"
    by (simp add: wait_for_exit_pidfd_def child_wait_def prog_simps of_os_def split: sum.split option.split)
  moreover obtain cs where "snd (wait_for_exit_pidfd E pid s) = s\<lparr>calls := calls s @ cs\<rparr>"
    using only_calls_container(5) [of E pid] unfolding only_calls_def by blast
  ultimately show ?thesis by (metis prod.collapse)
qed

lemma exit_task_run:
  "\<exists>code t cs. exit_task E j s = (Inr (), s\<lparr>calls := calls s @ cs,
     channels := (channels s)[jb_chan j := Some \<lparr>es_code = code, es_exited_at = t\<rparr>],
     buffers := (buffers s)[jb_buf j := (buffers s ! jb_buf j)\<lparr>lg_eof := True\<rparr>]\<rparr>)"
proof -
  obtain code cs where w: "wait_for_exit_pidfd E (jb_pid j) s = (Inr code, s\<lparr>calls := calls s @ cs\<rparr>)"
    using wait_for_exit_pidfd_returns by blast
  let ?t = "ans_time E (calls s @ cs)"
  have "exit_task E j s = (Inr (), s\<lparr>calls := calls s @ (cs @ [WallClock]),
     channels := (channels s)[jb_chan j := Some \<lparr>es_code = code, es_exited_at = ?t\<rparr>],
     buffers := (buffers s)[jb_buf j := (buffers s ! jb_buf j)\<lparr>lg_eof := True\<rparr>]\<rparr>)"
    using w by (simp add: exit_task_def bindE_def thenE_apply wall_now_def modE_def log_call_def)
  then show ?thesis by blast
qed

lemma mgr_inv_exit:
  assumes inv: "mgr_inv s" and j: "j \<in> set (jobs s)"
  shows "mgr_inv (snd (exit_task E j (s\<lparr>jobs := remove1 j (jobs s)\<rparr>)))" (is "mgr_inv ?s")
proof -
  obtain code t cs where eq: "?s = s\<lparr>jobs := remove1 j (jobs s), calls := calls s @ cs,
     channels := (channels s)[jb_chan j := Some \<lparr>es_code = code, es_exited_at = t\<rparr>],
     buffers := (buffers s)[jb_buf j := (buffers s ! jb_buf j)\<lparr>lg_eof := True\<rparr>]\<rparr>"
    using exit_task_run [of E j "s\<lparr>jobs := remove1 j (jobs s)\<rparr>"] by auto
  have dist: "distinct (map jb_chan (jobs s))" using inv by (simp add: mgr_inv_def chan_ok_def)
  then have rem: "set (remove1 j (jobs s)) = set (jobs s) - {j}" by (simp add: distinct_map set_remove1_eq)
  have inj: "k = j" if "k \<in> set (jobs s)" "jb_chan k = jb_chan j" for k
    using dist j that by (auto simp: distinct_map inj_on_def)
  have "distinct (map jb_chan (remove1 j (jobs s)))"
    using dist by (auto simp: distinct_map rem intro: inj_on_subset distinct_remove1)
  moreover have "jb_chan ` set (remove1 j (jobs s)) = jb_chan ` set (jobs s) - {jb_chan j}"
    unfolding rem using inj j by auto
  moreover have "chan_ok s" using inv by (simp add: mgr_inv_def)
  moreover have "(channels s)[n := Some x] ! c = None \<longleftrightarrow> c \<noteq> n \<and> channels s ! c = None" if "c < length (channels s)" for c n x
    using that by (cases "c = n") simp_all
  ultimately have "chan_ok ?s" by (auto simp: eq chan_ok_def)
  moreover have "refs_ok s" using inv by (simp add: mgr_inv_def)
  then have "refs_ok ?s" by (auto simp: eq refs_ok_def rem)
  moreover have "ct_ok ?s i c" if "ct_ok s i c" for i c
    using that by (auto simp: eq ct_ok_def tracked_def rem)
  ultimately show ?thesis using inv by (simp add: eq mgr_inv_def)
qed

section \<open>Properties\<close>

subsection \<open>Inline files\<close>

lemma join_str_mid:
  "\<exists>pre post. join_str [c] (as @ p # bs) = pre @ p @ post \<and> (as = [] \<longrightarrow> pre = []) \<and> (as \<noteq> [] \<longrightarrow> (\<exists>x. pre = x @ [c])) \<and>
     (bs \<noteq> [] \<longrightarrow> (\<exists>y. post = c # y))"
proof (induction as)
  case Nil
  show ?case
  proof (cases bs)
    case Nil
    then show ?thesis by (intro exI [of _ "[]"]) simp
  next
    case (Cons b bs')
    then show ?thesis by (intro exI [of _ "[]"] exI [of _ "c # join_str [c] bs"]) simp
  qed
next
  case (Cons a as)
  then obtain pre post where IH: "join_str [c] (as @ p # bs) = pre @ p @ post" "as = [] \<longrightarrow> pre = []" "as \<noteq> [] \<longrightarrow> (\<exists>x. pre = x @ [c])"
    "bs \<noteq> [] \<longrightarrow> (\<exists>y. post = c # y)" by blast
  have "join_str [c] ((a # as) @ p # bs) = (a @ c # pre) @ p @ post" using IH(1) by (simp add: join_str_Cons)
  moreover have "\<exists>x. a @ c # pre = x @ [c]"
    using IH(2,3) by (cases "as = []") (simp, metis append.assoc append_Cons)
  ultimately show ?case using IH(4) by blast
qed

lemma split_on_piece_cases:
  assumes "p \<in> set (split_on c s)" shows "s = p \<or> contains_str (p @ [c]) s \<or> contains_str (c # p) s"
proof -
  obtain as bs where ps: "split_on c s = as @ p # bs" using split_list [OF assms] by blast
  then have "s = join_str [c] (as @ p # bs)" using join_split [of c s] by simp
  then obtain pre post where s: "s = pre @ p @ post" "as \<noteq> [] \<longrightarrow> (\<exists>x. pre = x @ [c])" "bs \<noteq> [] \<longrightarrow> (\<exists>y. post = c # y)"
    using join_str_mid [of c as p bs] by auto
  show ?thesis
  proof (cases "as = []")
    case False
    then obtain x where "s = x @ (c # p) @ post" using s by auto
    then show ?thesis using contains_str_append [of "c # p" x post] by simp
  next
    case as: True
    show ?thesis
    proof (cases "bs = []")
      case True
      then show ?thesis using as s(1) \<open>s = join_str [c] (as @ p # bs)\<close> by simp
    next
      case False
      then obtain y where "s = pre @ (p @ [c]) @ y" using s by auto
      then show ?thesis using contains_str_append [of "p @ [c]" pre y] by simp
    qed
  qed
qed

lemma safe_path_comps: "\<not> unsafe_path p \<Longrightarrow> ''..'' \<notin> set (split_on (CHR ''/'') p)"
  using split_on_piece_cases [of "''..''" "CHR ''/''" p] by (auto simp: unsafe_path_def)

lemma write_files_calls:
  assumes "\<And>c. (\<forall>q x. c \<noteq> FsWrite q x) \<Longrightarrow> P c"
    and "\<And>f. f \<in> set fs \<Longrightarrow> \<not> unsafe_path (if_path f) \<Longrightarrow> P (FsWrite (join_path d (if_path f)) (if_content f))"
  shows "makes P (write_files E d fs :: ('z world_scheme, unit) prog)"
  using assms(2)
proof (induction fs)
  case (Cons f fs)
  then have "makes P (write_files E d fs :: ('z world_scheme, unit) prog)" by simp
  moreover have "P (FsWrite (join_path d (if_path f)) (if_content f))" if "\<not> unsafe_path (if_path f)"
    using Cons.prems that by simp
  ultimately show ?case
    by (simp add: Let_def) (intro makes_rules conjI impI; simp add: assms(1) makes_rules)
qed (simp add: makes_rules)

text \<open>
  C37: No inline file leaves its volume directory: everything \<^verbatim>\<open>create\<close> writes for the inline files of a volume goes to
  the volume's directory joined with the path of one of the files, with that file's contents, and
  from that directory the path never climbs up, because it is relative and has no
  \<^verbatim>\<open>..\<close> component; the guard rejects the others.
\<close>

theorem inline_files_confined:
  "\<exists>cs. snd (write_files E vol_dir fs s) = s\<lparr>calls := calls s @ cs\<rparr> \<and>
     (\<forall>q x. FsWrite q x \<in> set cs \<longrightarrow>
        (\<exists>f \<in> set fs. q = join_path vol_dir (if_path f) \<and> x = if_content f \<and> \<not> starts_with ''/'' (if_path f) \<and>
           walk [] (path_comps (if_path f)) = Some (path_comps (if_path f))))"
proof -
  let ?P = "\<lambda>c. \<forall>q x. c = FsWrite q x \<longrightarrow> (\<exists>f \<in> set fs. q = join_path vol_dir (if_path f) \<and> x = if_content f \<and>
      \<not> starts_with ''/'' (if_path f) \<and> walk [] (path_comps (if_path f)) = Some (path_comps (if_path f)))"
  have "\<not> starts_with ''/'' p \<and> walk [] (path_comps p) = Some (path_comps p)" if "\<not> unsafe_path p" for p
    using safe_path_comps [OF that] that by (simp add: walk_plain path_comps_def unsafe_path_def)
  then have "makes ?P (write_files E vol_dir fs)" by (intro write_files_calls) auto
  then show ?thesis using makesD [of ?P "write_files E vol_dir fs" s] unfolding list_all_iff by blast
qed

text \<open>The volume's directory itself is not guarded: a source that ends in \<^verbatim>\<open>..\<close> makes it the bundle.\<close>

lemma volume_dir_dotdot:
  assumes "vol_source vol = x @ ''/..''"
  shows "volume_dir mount_point vol = join_path (join_path mount_point ''volumes'') ''..''"
  using assms split_on_sep [of "CHR ''/''" x "''..''"] by (simp add: volume_dir_def)

theorem inline_files_confined_witness:
  "let fs = [\<lparr>if_path = ''ok'', if_content = ''a'', if_mode = 0\<rparr>, \<lparr>if_path = ''../x'', if_content = ''b'', if_mode = 0\<rparr>]
   in \<exists>cs. snd (write_files live_env ''/v'' fs \<lparr>calls = []\<rparr>) = \<lparr>calls = cs\<rparr> \<and> FsWrite ''/v/../x'' ''b'' \<notin> set cs"
proof -
  let ?fs = "[\<lparr>if_path = ''ok'', if_content = ''a'', if_mode = 0\<rparr>, \<lparr>if_path = ''../x'', if_content = ''b'', if_mode = 0\<rparr>]"
  obtain cs where run: "snd (write_files live_env ''/v'' ?fs \<lparr>calls = []\<rparr>) = \<lparr>calls = cs\<rparr>"
    and conf: "\<forall>q x. FsWrite q x \<in> set cs \<longrightarrow> (\<exists>f \<in> set ?fs. q = join_path ''/v'' (if_path f) \<and> x = if_content f \<and>
        \<not> starts_with ''/'' (if_path f) \<and> walk [] (path_comps (if_path f)) = Some (path_comps (if_path f)))"
    using inline_files_confined [of live_env "''/v''" ?fs "\<lparr>calls = []\<rparr>"] by auto
  have "walk [] (path_comps ''../x'') = None" by (simp add: path_comps_def)
  then have "FsWrite ''/v/../x'' ''b'' \<notin> set cs" using conf by (force simp: join_path_def)
  then show ?thesis using run by (auto simp: Let_def)
qed

subsection \<open>Layers and devices\<close>

lemma layer_device_eq: "layer_device i = layer_device j \<longleftrightarrow> i mod 256 = j mod 256"
proof -
  have char: "(char_of a :: char) = char_of b \<longleftrightarrow> a = b" if "a < 256" "b < 256" for a b :: nat
    using that by (metis of_char_of mod_less)
  have *: "layer_device i = layer_device j \<longleftrightarrow> (98 + i) mod 256 = (98 + j) mod 256"
  proof -
    define a where "a = (98 + i) mod 256"
    define b where "b = (98 + j) mod 256"
    have lt: "a < 256" "b < 256" by (simp_all add: a_def b_def)
    have "a div 64 < 4" "b div 64 < 4" "a mod 64 < 64" "b mod 64 < 64" using lt by simp_all
    moreover have eq: "a div 64 = b div 64 \<and> a mod 64 = b mod 64 \<longleftrightarrow> a = b" by (metis div_mult_mod_eq)
    ultimately have wide: "(char_of (192 + a div 64) :: char) = char_of (192 + b div 64) \<and>
        (char_of (128 + a mod 64) :: char) = char_of (128 + b mod 64) \<longleftrightarrow> a = b"
      using eq by (simp add: char)
    show ?thesis unfolding layer_device_def Let_def a_def [symmetric] b_def [symmetric]
      using wide char [OF lt] by (cases "a < 128"; cases "b < 128") auto
  qed
  have up: "((98 + k) mod 256 + 158) mod 256 = k mod 256" for k :: nat
    by (simp add: mod_add_left_eq)
  have down: "(98 + k mod 256) mod 256 = (98 + k) mod 256" for k :: nat by (simp add: mod_add_right_eq)
  show ?thesis unfolding * by (metis up down)
qed

text \<open>
  The first 256 layers of a container are on different devices, \<^verbatim>\<open>/dev/vdb\<close> to \<^verbatim>\<open>/dev/vdz\<close> for the
  first 25; the number is taken modulo 256, so layer 256 is on the device of layer 0 again.
\<close>

theorem layer_devices_distinct:
  "inj_on layer_device {..<256} \<and> layer_device (i + 256) = layer_device i \<and>
   map layer_device [0..<25] = map (\<lambda>c. ''/dev/vd'' @ [c]) ''bcdefghijklmnopqrstuvwxyz''"
proof (intro conjI)
  show "inj_on layer_device {..<256}" by (auto simp: inj_on_def layer_device_eq)
  show "layer_device (i + 256) = layer_device i" by (simp add: layer_device_eq)
  show "map layer_device [0..<25] = map (\<lambda>c. ''/dev/vd'' @ [c]) ''bcdefghijklmnopqrstuvwxyz''" by code_simp
qed

lemma makes_inotify_loop:
  assumes "\<And>c. (\<forall>src tgt fl. c \<noteq> MountFs src tgt ''erofs'' fl []) \<Longrightarrow> P c"
  shows "makes P (inotify_loop E k dl dir name buf)"
  by (induction k arbitrary: buf) (auto simp: Let_def intro!: makes_rules assms)

lemma makes_compose_rootfs:
  assumes other: "\<And>c. (\<forall>src tgt fl. c \<noteq> MountFs src tgt ''erofs'' fl []) \<Longrightarrow> P c"
    and layer: "\<And>i fl. i < n \<Longrightarrow> P (MountFs (layer_device i) (join_path mp (''layer'' @ dec i)) ''erofs'' fl [])"
  shows "makes P (compose_rootfs E mp n :: ('z world_scheme, unit) prog)"
proof -
  have ml: "makes P (mount_loop E k dl dev m :: ('z world_scheme, unit) prog)" if "\<And>fl. P (MountFs dev m ''erofs'' fl [])" for k dl dev m
  proof (induction k)
    case (Suc k)
    then show ?case unfolding mount_loop.simps by (intro makes_rules that) (simp_all add: other)
  qed (simp add: makes_rules)
  have dev: "makes P (wait_for_dev_inotify E p :: ('z world_scheme, unit) prog)" for p
    unfolding wait_for_dev_inotify_def Let_def by (intro makes_rules makes_inotify_loop other) simp_all
  have "makes P (mount_layers E mp is :: ('z world_scheme, path list) prog)" if "\<And>i. i \<in> set is \<Longrightarrow> i < n" for "is"
    using that
  proof (induction "is")
    case (Cons i "is")
    have "makes P (mount_layer E mp i :: ('z world_scheme, path) prog)"
      unfolding mount_layer_def Let_def by (intro makes_rules ml dev layer other) (simp_all add: Cons.prems)
    then show ?case using Cons by (auto intro!: makes_rules)
  qed (simp add: makes_rules)
  from this [of "[0..<n]"] have "makes P (mount_layers E mp [0..<n] :: ('z world_scheme, path list) prog)" by simp
  then show ?thesis unfolding compose_rootfs_def Let_def by (intro makes_rules other) simp_all
qed

text \<open>
  Which device a layer comes from does not depend on the container: whatever the container,
  its layer \<open>i\<close> is mounted from the \<open>i\<close>-th device after \<^verbatim>\<open>/dev/vda\<close>, so with the single layer that the
  daemon asks for, every container of a VM gets its root file system from \<^verbatim>\<open>/dev/vdb\<close>, the disk of the
  first one.
\<close>

theorem rootfs_device_fixed:
  "\<exists>cs. snd (compose_rootfs E mp n s) = s\<lparr>calls := calls s @ cs\<rparr> \<and>
     (\<forall>src tgt fl. MountFs src tgt ''erofs'' fl [] \<in> set cs \<longrightarrow>
        (\<exists>i < n. src = layer_device i \<and> tgt = join_path mp (''layer'' @ dec i))) \<and>
     (n = 1 \<longrightarrow> (\<forall>src tgt fl. MountFs src tgt ''erofs'' fl [] \<in> set cs \<longrightarrow> src = ''/dev/vdb''))"
proof -
  let ?P = "\<lambda>c. \<forall>src tgt fl. c = MountFs src tgt ''erofs'' fl [] \<longrightarrow>
      (\<exists>i < n. src = layer_device i \<and> tgt = join_path mp (''layer'' @ dec i))"
  have "makes ?P (compose_rootfs E mp n)" by (rule makes_compose_rootfs) auto
  then obtain cs where cs: "snd (compose_rootfs E mp n s) = s\<lparr>calls := calls s @ cs\<rparr>" "list_all ?P cs"
    using makesD by blast
  have "layer_device 0 = ''/dev/vdb''" by code_simp
  then have "src = ''/dev/vdb''" if "n = 1" "MountFs src tgt ''erofs'' fl [] \<in> set cs" for src tgt fl
    using cs(2) that by (fastforce simp: list_all_iff)
  then show ?thesis using cs unfolding list_all_iff by blast
qed

theorem rootfs_device_fixed_witness:
  "\<exists>cs. snd (compose_rootfs live_env ''/run/containers/b'' 1 \<lparr>calls = []\<rparr>) = \<lparr>calls = cs\<rparr> \<and>
     (\<forall>src tgt fl. MountFs src tgt ''erofs'' fl [] \<in> set cs \<longrightarrow> src = ''/dev/vdb'')"
  using rootfs_device_fixed [of live_env "''/run/containers/b''" 1 "\<lparr>calls = []\<rparr>"] by auto

text \<open>
  A hot-plugged block device is handed out at most once: \<^verbatim>\<open>discover_block_device\<close> returns a virtio
  device that was not known before and makes it known, or returns none and leaves the known devices
  as they are; it never fails.
\<close>

theorem discover_block_device_fresh:
  "\<exists>cs. (\<exists>d. discover_block_device E s = (Inr (Some (''/dev/'' @ d)),
             s\<lparr>known_disks := known_disks s @ [d], calls := calls s @ cs\<rparr>) \<and>
           d \<notin> set (known_disks s) \<and> starts_with ''vd'' d) \<or>
       discover_block_device E s = (Inr None, s\<lparr>calls := calls s @ cs\<rparr>)"
proof -
  let ?c = "FsReadDir ''/sys/block''"
  let ?ds = "case ans_strs E (calls s) ?c of Inl _ \<Rightarrow> [] | Inr ns \<Rightarrow> remdups (filter (starts_with ''vd'') ns)"
  have scan: "scan_block_devices E s = (Inr ?ds, s\<lparr>calls := calls s @ [?c]\<rparr>)"
    by (simp add: scan_block_devices_def prog_simps log_call_def of_os_def split: sum.split)
  show ?thesis
  proof (cases "filter (\<lambda>d. d \<notin> set (known_disks s)) ?ds")
    case Nil
    then show ?thesis using scan by (auto simp: discover_block_device_def bindE_def getE_def retE_def)
  next
    case (Cons d ds)
    then have "d \<in> set (filter (\<lambda>d. d \<notin> set (known_disks s)) ?ds)" by simp
    then have "d \<notin> set (known_disks s)" "starts_with ''vd'' d" by (auto split: sum.splits)
    then show ?thesis using scan Cons
      by (intro exI [of _ "[?c]"] disjI1 exI [of _ d]) (simp add: discover_block_device_def bindE_def getE_def retE_def thenE_apply modE_def)
  qed
qed

subsection \<open>The adapted spec\<close>

lemma j_set_del_obj: "\<exists>ms'. j_set k v (JObj ms) = JObj ms'" "\<exists>ms'. j_del k (JObj ms) = JObj ms'"
  by simp_all

lemma j_get_at1: "j_get k (j_at [k'] f (JObj ms)) =
    (if k = k' then map_option f (map_of ms k) else map_of ms k)"
  by (cases "map_of ms k'") (auto simp: update_conv')

lemma adapt_spec_get:
  "j_get k (adapt_spec mounts (JObj ms)) =
     (if k = ''mounts'' then Some (JArr mounts) else if k = ''hostname'' then None
      else if k = ''linux'' then map_option (\<lambda>l. j_del ''seccomp'' (j_del ''resources'' (j_del ''readonlyPaths''
          (j_del ''maskedPaths'' (j_del ''cgroupsPath'' (j_set ''namespaces'' vm_namespaces l)))))) (map_of ms k)
      else if k = ''process'' then map_option (\<lambda>p. j_del ''oomScoreAdj'' (j_del ''selinuxLabel'' (j_del ''apparmorProfile'' p))) (map_of ms k)
      else map_of ms k)"
proof -
  obtain ls where l: "strip_linux (JObj ms) = JObj ls" "map_of ls = map_of (case j_get ''linux'' (JObj ms) of None \<Rightarrow> ms
      | Some v \<Rightarrow> AList.update ''linux'' (j_del ''seccomp'' (j_del ''resources'' (j_del ''readonlyPaths''
          (j_del ''maskedPaths'' (j_del ''cgroupsPath'' (j_set ''namespaces'' vm_namespaces v)))))) ms)"
    by (cases "map_of ms ''linux''") (auto simp: strip_linux_def)
  have "j_get k (adapt_spec mounts (JObj ms)) = j_get k (j_at [''process'']
      (\<lambda>p. j_del ''oomScoreAdj'' (j_del ''selinuxLabel'' (j_del ''apparmorProfile'' p)))
      (JObj (AList.update ''mounts'' (JArr mounts) (AList.delete ''hostname'' ls))))"
    by (simp add: adapt_spec_def l(1))
  then show ?thesis unfolding j_get_at1
    by (auto simp: update_conv' delete_conv' l(2) split: option.split)
qed

definition host_only :: "string list" where
  "host_only = [''cgroupsPath'', ''maskedPaths'', ''readonlyPaths'', ''resources'', ''seccomp'']"

definition host_security :: "string list" where
  "host_security = [''apparmorProfile'', ''selinuxLabel'', ''oomScoreAdj'']"



subsection \<open>Inotify events\<close>

text \<open>An event as the kernel writes it: twelve bytes of header, the length of the padded name, the name, zeros.\<close>

record event =
  ev_head :: bytes
  ev_name :: string
  ev_pad :: nat

definition event_ok :: "event \<Rightarrow> bool" where
  "event_ok e \<longleftrightarrow> length (ev_head e) = 12 \<and> ascii (ev_name e) \<and> CHR 0x00 \<notin> set (ev_name e) \<and> ev_name e \<noteq> [] \<and>
     0 < ev_pad e \<and> length (ev_name e) + ev_pad e < 2 ^ 32"

definition event_bytes :: "event \<Rightarrow> bytes" where
  "event_bytes e = ev_head e @ le32 (word_of_nat (length (ev_name e) + ev_pad e)) @ str_bytes (ev_name e) @ zeros (ev_pad e)"

lemma length_event_bytes: "event_ok e \<Longrightarrow> length (event_bytes e) = 16 + length (ev_name e) + ev_pad e"
  by (simp add: event_bytes_def event_ok_def)

lemma str_bytes_nonzero: "CHR 0x00 \<notin> set s \<Longrightarrow> 0 \<notin> set (str_bytes s)"
proof
  assume s: "CHR 0x00 \<notin> set s" and "0 \<in> set (str_bytes s)"
  then obtain c where c: "c \<in> set s" "(word_of_nat (of_char c) :: u8) = 0" by (auto simp: str_bytes_def)
  have "(of_char c :: nat) < 256" by simp
  then have "(of_char c :: nat) = 0" using arg_cong [OF c(2), of unat] by (simp add: unat_of_nat)
  then have "(of_char c :: nat) = of_char (CHR 0x00)" by simp
  then have "c = CHR 0x00" by (simp only: of_char_eq_iff)
  then show False using c(1) s by simp
qed

lemma inotify_scan_step:
  assumes e: "event_ok e"
  shows "inotify_scan (pre @ event_bytes e @ rest) n name (length pre) =
    (if length pre + length (event_bytes e) \<le> n then
       if ev_name e = name then Inr True else inotify_scan (pre @ event_bytes e @ rest) n name (length pre + length (event_bytes e))
     else inotify_scan (pre @ event_bytes e @ rest) n name (length pre))"
proof (cases "length pre + length (event_bytes e) \<le> n")
  case True
  let ?buf = "pre @ event_bytes e @ rest" and ?len = "length (ev_name e) + ev_pad e"
  have u: "u32_at ?buf (length pre + 12) = Inr (word_of_nat ?len)"
    using e u32_at_le32 [of "pre @ ev_head e" "word_of_nat ?len" "str_bytes (ev_name e) @ zeros (ev_pad e) @ rest"]
    by (simp add: event_bytes_def event_ok_def)
  have len: "unat (word_of_nat ?len :: u32) = ?len" using e by (simp add: event_ok_def unat_of_nat del: of_nat_add)
  have tail: "drop 16 (event_bytes e) = str_bytes (ev_name e) @ zeros (ev_pad e)"
    using e by (simp add: event_bytes_def event_ok_def)
  have z: "0 \<in> set (zeros (ev_pad e))" using e by (simp add: event_ok_def zeros_def)
  have nz: "0 \<notin> set (str_bytes (ev_name e))" using e by (intro str_bytes_nonzero) (simp add: event_ok_def)
  have "takeWhile (\<lambda>b. b \<noteq> 0) (str_bytes (ev_name e) @ zeros (ev_pad e)) = str_bytes (ev_name e)"
    using e nz by (cases "ev_pad e") (auto simp: event_ok_def zeros_def intro!: takeWhile_eq_all_conv [THEN iffD2] simp: takeWhile_append)
  then have "from_utf8_lossy (takeWhile (\<lambda>b. b \<noteq> 0) (str_bytes (ev_name e) @ zeros (ev_pad e))) = ev_name e"
    using e by (simp add: from_utf8_lossy_ascii event_ok_def)
  moreover have "0 < ev_pad e" using e by (simp add: event_ok_def)
  ultimately show ?thesis using True z
    by (subst inotify_scan.simps) (simp add: u len tail Let_def length_event_bytes [OF e] add.assoc del: of_nat_add)
qed simp



subsection \<open>Loops and exit codes\<close>

lemma mount_loop_ends:
  assumes clk: "clock_ok E clk"
  shows "dl \<le> clk (calls s) + 10 * n \<Longrightarrow> fst (mount_loop E (Suc n) dl dev m s) \<noteq> Inl Diverge"
proof (induction n arbitrary: s)
  case (0 s)
  let ?c = "MountFs dev m ''erofs'' [MS_RDONLY, MS_NOATIME] []"
  have "clk (calls s) \<le> clk (calls s @ [?c])" using clk by (simp add: clock_ok_def)
  then have "\<not> clk (calls s @ [?c]) < dl" using 0 by simp
  then show ?case using clk by (auto simp: clock_ok_def prog_simps log_call_def of_os_def msg_def split: sum.split)
next
  case (Suc n)
  let ?c = "MountFs dev m ''erofs'' [MS_RDONLY, MS_NOATIME] []"
  let ?s = "s\<lparr>calls := calls s @ [?c, Now, Sleep 10]\<rparr>"
  have "clk (calls s) \<le> clk (calls s @ [?c, Now])" "clk (calls s @ [?c, Now]) + 10 \<le> clk ((calls s @ [?c, Now]) @ [Sleep 10])"
    using clk unfolding clock_ok_def by blast+
  then have "dl \<le> clk (calls ?s) + 10 * n" using Suc.prems by simp
  then have "fst (mount_loop E (Suc n) dl dev m ?s) \<noteq> Inl Diverge" by (rule Suc.IH)
  then show ?case
    by (subst mount_loop.simps)
      (auto simp: prog_simps log_call_def of_os_def msg_def simp del: mount_loop.simps split: sum.split)
qed

text \<open>
  Mounting a layer ends within two seconds of clock time: with a clock that runs and sleeps
  that sleep, 201 attempts are enough, and the outcome is the mount or the error of its last attempt.
\<close>

theorem mount_loop_returns:
  assumes "clock_ok E clk" and "dl \<le> clk (calls s) + 2000" and "200 < fuel"
  shows "(\<exists>u. fst (mount_loop E fuel dl dev m s) = Inr u) \<or>
    (\<exists>e. fst (mount_loop E fuel dl dev m s) = Inl (msg (''mount erofs '' @ dev @ '' at '' @ m @ '': '' @ e)))"
proof -
  obtain n where n: "fuel = Suc n" "200 \<le> n" using assms(3) by (cases fuel) auto
  then have "fst (mount_loop E fuel dl dev m s) \<noteq> Inl Diverge"
    using mount_loop_ends [OF assms(1), of dl s n dev m] assms(2) by simp
  moreover have "fst (mount_loop E k dl dev m s) = Inl Diverge \<or> (\<exists>u. fst (mount_loop E k dl dev m s) = Inr u) \<or>
      (\<exists>e. fst (mount_loop E k dl dev m s) = Inl (msg (''mount erofs '' @ dev @ '' at '' @ m @ '': '' @ e)))" for k
  proof (induction k arbitrary: s)
    case (Suc k)
    then show ?case
      by (auto simp: prog_simps log_call_def of_os_def split: sum.split)
  qed (simp add: failE_def)
  ultimately show ?thesis by blast
qed

theorem mount_loop_returns_witness:
  "let E = calm_env\<lparr>ans_unit := \<lambda>_ _. Inl (Some 6, ''ENXIO''),
             ans_clock := \<lambda>h. sum_list (map (\<lambda>c. case c of Os (P_Sleep d) \<Rightarrow> d | _ \<Rightarrow> 0) h)\<rparr>
   in (\<exists>u. fst (mount_loop E 201 2000 ''/dev/vdb'' ''/m'' \<lparr>calls = []\<rparr>) = Inr u) \<or>
      (\<exists>e. fst (mount_loop E 201 2000 ''/dev/vdb'' ''/m'' \<lparr>calls = []\<rparr>) = Inl (msg (''mount erofs '' @ ''/dev/vdb'' @ '' at '' @ ''/m'' @ '': '' @ e)))"
proof -
  let ?clk = "\<lambda>h. sum_list (map (\<lambda>c. case c of Os (P_Sleep d) \<Rightarrow> d | _ \<Rightarrow> 0) h)"
  let ?E = "calm_env\<lparr>ans_unit := \<lambda>_ _. Inl (Some 6, ''ENXIO''), ans_clock := ?clk\<rparr>"
  have clk: "clock_ok ?E ?clk" by (simp add: clock_ok_def)
  have "2000 \<le> ?clk (calls \<lparr>calls = []\<rparr>) + 2000" "(200 :: nat) < 201" by simp_all
  from mount_loop_returns [OF clk this, of "''/dev/vdb''" "''/m''"] show ?thesis unfolding Let_def .
qed

lemma wait_for_exit_status:
  assumes "\<forall>h. ans_code E h (ChildWait pid) = Inr status"
    and "\<forall>h x. ans_try E h (ChildTryWait pid) = Inr (Some x) \<longrightarrow> x = status"
  shows "fst (wait_for_exit_pidfd E pid s) = Inr (case status of Some code \<Rightarrow> code | None \<Rightarrow> 137)"
proof -
  have w: "child_wait E pid t = (Inr (case status of Some code \<Rightarrow> code | None \<Rightarrow> 137), log_call (ChildWait pid) t)"
    for t :: "'a world_scheme"
    using assms(1) by (simp add: child_wait_def prog_simps split: option.split)
  show ?thesis using assms(2)
    by (auto simp: wait_for_exit_pidfd_def w prog_simps of_os_def split: sum.split option.split)
qed

text \<open>
  The exit code that is reported for a process is its own: whichever way the agent learns of the
  exit, by process descriptor or by waiting, and whatever fails on the way, a process that ends
  with a code is reported with that code and one that is killed by a signal with 137, provided the
  operating system tells the status of the child truthfully.
\<close>

theorem exit_code_reported:
  assumes "\<forall>h. ans_code E h (ChildWait pid) = Inr status"
    and "\<forall>h x. ans_try E h (ChildTryWait pid) = Inr (Some x) \<longrightarrow> x = status"
  shows "fst (wait_for_exit_pidfd E pid s) = Inr (case status of Some code \<Rightarrow> code | None \<Rightarrow> 137)"
  using assms by (rule wait_for_exit_status)

theorem exit_code_reported_witness:
  "fst (wait_for_exit_pidfd (calm_env\<lparr>ans_code := \<lambda>_ _. Inr (Some 3), ans_try := \<lambda>_ _. Inr None\<rparr>) 7 \<lparr>calls = []\<rparr>) = Inr 3"
proof -
  let ?E = "calm_env\<lparr>ans_code := \<lambda>_ _. Inr (Some 3), ans_try := \<lambda>_ _. Inr None\<rparr>"
  have "\<forall>h. ans_code ?E h (ChildWait 7) = Inr (Some 3)"
    "\<forall>h x. ans_try ?E h (ChildTryWait 7) = Inr (Some x) \<longrightarrow> x = Some 3" by simp_all
  from exit_code_reported [OF this, of "\<lparr>calls = []\<rparr>"] show ?thesis by simp
qed

end
