(* ===== verification/Config.thy ===== *)
theory Config
  imports Host
begin

text \<open>
  The configuration of the daemon (\<^verbatim>\<open>crates/daemon/src/config.rs\<close>) and of the shim
  (\<^verbatim>\<open>crates/common/src/types.rs\<close>, \<^verbatim>\<open>crates/common/src/lib.rs\<close>, \<^verbatim>\<open>crates/shim/src/config.rs\<close>),
  their deserialisation from a JSON value as the derive attributes prescribe (a default where
  the attribute names one, an error for a missing field without default or a value of the
  wrong type or width), loading, and the daemon's choice of the configuration file.
\<close>

section \<open>Constants shared by the crates\<close>

definition AGENT_VSOCK_PORT :: u32 where "AGENT_VSOCK_PORT = 10789"
definition GUEST_CID_START :: u64 where "GUEST_CID_START = 3"
definition AGENT_STARTUP_TIMEOUT_SECS :: u64 where "AGENT_STARTUP_TIMEOUT_SECS = 10"
definition DEFAULT_VCPUS :: u32 where "DEFAULT_VCPUS = 1"
definition DEFAULT_MEMORY_MB :: u64 where "DEFAULT_MEMORY_MB = 128"
definition DEFAULT_CH_BINARY :: string where "DEFAULT_CH_BINARY = ''/usr/local/bin/cloud-hypervisor''"
definition DEFAULT_MAX_CONTAINERS_PER_VM :: nat where "DEFAULT_MAX_CONTAINERS_PER_VM = 5"
definition DEFAULT_HOTPLUG_MEMORY_MB :: u64 where "DEFAULT_HOTPLUG_MEMORY_MB = 0"

section \<open>Fields of a deserialised struct\<close>

text \<open>\<open>None\<close> is a deserialisation error.\<close>

definition num_or :: "nat \<Rightarrow> nat \<Rightarrow> string \<Rightarrow> json \<Rightarrow> nat option" where
  "num_or bits d k j = (case j_get k j of
      None \<Rightarrow> Some d
    | Some v \<Rightarrow> (case as_num v of None \<Rightarrow> None | Some n \<Rightarrow> if n < 2 ^ bits then Some n else None))"

definition str_or :: "string \<Rightarrow> string \<Rightarrow> json \<Rightarrow> string option" where
  "str_or d k j = (case j_get k j of None \<Rightarrow> Some d | Some v \<Rightarrow> as_str v)"

definition bool_or :: "bool \<Rightarrow> string \<Rightarrow> json \<Rightarrow> bool option" where
  "bool_or d k j = (case j_get k j of None \<Rightarrow> Some d | Some v \<Rightarrow> as_bool v)"

definition str_req :: "string \<Rightarrow> json \<Rightarrow> string option" where
  "str_req k j = Option.bind (j_get k j) as_str"

lemma field_lookup [simp]:
  "j_get k j = Some (JNum n) \<Longrightarrow> n < 2 ^ bits \<Longrightarrow> num_or bits d k j = Some n"
  "j_get k j = None \<Longrightarrow> num_or bits d k j = Some d"
  "j_get k j = Some (JStr s) \<Longrightarrow> str_or e k j = Some s"
  "j_get k j = None \<Longrightarrow> str_or e k j = Some e"
  "j_get k j = Some (JStr s) \<Longrightarrow> str_req k j = Some s"
  "j_get k j = Some (JBool b) \<Longrightarrow> bool_or c k j = Some b"
  "j_get k j = None \<Longrightarrow> bool_or c k j = Some c"
  by (simp_all add: num_or_def str_or_def str_req_def bool_or_def)

lemma field_lookup_word [simp]:
  "j_get k j = Some (JNum (unat (x :: u64))) \<Longrightarrow> num_or 64 d k j = Some (unat x)"
  "j_get k j = Some (JNum (unat (y :: u32))) \<Longrightarrow> num_or 32 d k j = Some (unat y)"
  using unsigned_less [of x, where 'a = nat] unsigned_less [of y, where 'a = nat]
  by (simp_all add: num_or_def)

section \<open>The daemon's configuration\<close>

record DaemonConfig =
  pool_size :: nat
  max_pool_size :: nat
  replenish_delay_ms :: u64
  vm_idle_timeout_secs :: u64
  default_vcpus :: u32
  default_memory_mb :: u64
  cloud_hypervisor_binary :: string
  kernel_path :: string
  rootfs_path :: string
  kernel_args :: string
  socket_path :: string
  state_dir :: string
  warmup_duration_secs :: u64
  max_snapshots :: nat

definition default_pool_size :: nat where "default_pool_size = 3"
definition default_max_pool_size :: nat where "default_max_pool_size = 10"
definition default_replenish_delay_ms :: nat where "default_replenish_delay_ms = 100"
definition default_idle_timeout_secs :: nat where "default_idle_timeout_secs = 300"
definition daemon_default_vcpus :: nat where "daemon_default_vcpus = 1"
definition daemon_default_memory_mb :: nat where "daemon_default_memory_mb = 512"
definition daemon_default_ch_binary :: string where
  "daemon_default_ch_binary = ''/usr/local/bin/cloud-hypervisor''"
definition daemon_default_kernel_args :: string where
  "daemon_default_kernel_args = ''console=ttyS0 root=/dev/vda rw init=/init net.ifnames=0''"
definition default_socket_path :: string where "default_socket_path = ''/run/cloudhv/daemon.sock''"
definition default_state_dir :: string where "default_state_dir = ''/run/cloudhv/daemon''"
definition default_warmup_secs :: nat where "default_warmup_secs = 30"
definition default_max_snapshots :: nat where "default_max_snapshots = 100"

lemmas daemon_defaults = default_pool_size_def default_max_pool_size_def
  default_replenish_delay_ms_def default_idle_timeout_secs_def daemon_default_vcpus_def
  daemon_default_memory_mb_def daemon_default_ch_binary_def daemon_default_kernel_args_def
  default_socket_path_def default_state_dir_def default_warmup_secs_def default_max_snapshots_def

definition DaemonConfig_from_json :: "json \<Rightarrow> DaemonConfig option" where
  "DaemonConfig_from_json j =
     Option.bind (num_or 64 default_pool_size ''pool_size'' j) (\<lambda>ps.
     Option.bind (num_or 64 default_max_pool_size ''max_pool_size'' j) (\<lambda>mps.
     Option.bind (num_or 64 default_replenish_delay_ms ''replenish_delay_ms'' j) (\<lambda>rd.
     Option.bind (num_or 64 default_idle_timeout_secs ''vm_idle_timeout_secs'' j) (\<lambda>it.
     Option.bind (num_or 32 daemon_default_vcpus ''default_vcpus'' j) (\<lambda>vc.
     Option.bind (num_or 64 daemon_default_memory_mb ''default_memory_mb'' j) (\<lambda>mem.
     Option.bind (str_or daemon_default_ch_binary ''cloud_hypervisor_binary'' j) (\<lambda>bin.
     Option.bind (str_req ''kernel_path'' j) (\<lambda>kp.
     Option.bind (str_req ''rootfs_path'' j) (\<lambda>rp.
     Option.bind (str_or daemon_default_kernel_args ''kernel_args'' j) (\<lambda>ka.
     Option.bind (str_or default_socket_path ''socket_path'' j) (\<lambda>sp.
     Option.bind (str_or default_state_dir ''state_dir'' j) (\<lambda>sd.
     Option.bind (num_or 64 default_warmup_secs ''warmup_duration_secs'' j) (\<lambda>wu.
     Option.bind (num_or 64 default_max_snapshots ''max_snapshots'' j) (\<lambda>ms.
       Some \<lparr>pool_size = ps, max_pool_size = mps, replenish_delay_ms = word_of_nat rd,
             vm_idle_timeout_secs = word_of_nat it, default_vcpus = word_of_nat vc,
             default_memory_mb = word_of_nat mem, cloud_hypervisor_binary = bin,
             kernel_path = kp, rootfs_path = rp, kernel_args = ka, socket_path = sp,
             state_dir = sd, warmup_duration_secs = word_of_nat wu, max_snapshots = ms\<rparr>))))))))))))))"

definition DaemonConfig_to_json :: "DaemonConfig \<Rightarrow> json" where
  "DaemonConfig_to_json c = JObj
     [(''pool_size'', JNum (pool_size c)), (''max_pool_size'', JNum (max_pool_size c)),
      (''replenish_delay_ms'', JNum (unat (replenish_delay_ms c))),
      (''vm_idle_timeout_secs'', JNum (unat (vm_idle_timeout_secs c))),
      (''default_vcpus'', JNum (unat (default_vcpus c))),
      (''default_memory_mb'', JNum (unat (default_memory_mb c))),
      (''cloud_hypervisor_binary'', JStr (cloud_hypervisor_binary c)),
      (''kernel_path'', JStr (kernel_path c)), (''rootfs_path'', JStr (rootfs_path c)),
      (''kernel_args'', JStr (kernel_args c)), (''socket_path'', JStr (socket_path c)),
      (''state_dir'', JStr (state_dir c)),
      (''warmup_duration_secs'', JNum (unat (warmup_duration_secs c))),
      (''max_snapshots'', JNum (max_snapshots c))]"

definition DaemonConfig_load :: "env \<Rightarrow> path \<Rightarrow> ('z world_scheme, DaemonConfig) prog" where
  "DaemonConfig_load E p =
     bindE (ctxE (''read config: '' @ p) (ask (ans_str E) (FsRead p))) (\<lambda>content.
       ofOptE (Fail [''parse daemon config'', json_error E content] None)
         (Option.bind (json_parse E content) DaemonConfig_from_json))"

definition base_snapshot_dir :: "DaemonConfig \<Rightarrow> path" where
  "base_snapshot_dir c = join_path (state_dir c) ''base-snapshot''"

definition snapshot_cache_dir :: "DaemonConfig \<Rightarrow> path" where
  "snapshot_cache_dir c = join_path (state_dir c) ''snapshot-cache''"

text \<open>\<^verbatim>\<open>main.rs\<close>: which file the daemon loads, from its arguments (the program name first).\<close>

definition daemon_config_path :: "string list \<Rightarrow> path" where
  "daemon_config_path args =
     (case (if 1 < length args then Some (args ! 1)
            else map_option (drop 9) (find (starts_with ''--config='') args)) of
        Some p \<Rightarrow> p
      | None \<Rightarrow> ''/opt/cloudhv/daemon.json'')"

section \<open>The shim's configuration\<close>

record RuntimeConfig =
  rc_cloud_hypervisor_binary :: string
  rc_kernel_path :: string
  rc_rootfs_path :: string
  rc_default_vcpus :: u32
  rc_max_default_vcpus :: u32
  rc_default_memory_mb :: u64
  rc_vsock_port :: u32
  rc_agent_startup_timeout_secs :: u64
  rc_kernel_args :: string
  rc_debug :: bool
  rc_max_containers_per_vm :: nat
  rc_hotplug_memory_mb :: u64
  rc_hotplug_method :: string
  rc_tpm_enabled :: bool
  rc_daemon_socket :: string

text \<open>The console of the default kernel command line depends on the target architecture.\<close>

definition default_kernel_args :: "bool \<Rightarrow> string" where
  "default_kernel_args aarch64 =
     ''console='' @ (if aarch64 then ''ttyAMA0'' else ''hvc0'') @ '' root=/dev/vda rw quiet init=/init''"

definition RuntimeConfig_from_json :: "bool \<Rightarrow> json \<Rightarrow> RuntimeConfig option" where
  "RuntimeConfig_from_json aarch64 j =
     Option.bind (str_or DEFAULT_CH_BINARY ''cloud_hypervisor_binary'' j) (\<lambda>bin.
     Option.bind (str_req ''kernel_path'' j) (\<lambda>kp.
     Option.bind (str_req ''rootfs_path'' j) (\<lambda>rp.
     Option.bind (num_or 32 (unat DEFAULT_VCPUS) ''default_vcpus'' j) (\<lambda>vc.
     Option.bind (num_or 32 0 ''max_default_vcpus'' j) (\<lambda>mvc.
     Option.bind (num_or 64 (unat DEFAULT_MEMORY_MB) ''default_memory_mb'' j) (\<lambda>mem.
     Option.bind (num_or 32 (unat AGENT_VSOCK_PORT) ''vsock_port'' j) (\<lambda>port.
     Option.bind (num_or 64 (unat AGENT_STARTUP_TIMEOUT_SECS) ''agent_startup_timeout_secs'' j) (\<lambda>ato.
     Option.bind (str_or (default_kernel_args aarch64) ''kernel_args'' j) (\<lambda>ka.
     Option.bind (bool_or False ''debug'' j) (\<lambda>dbg.
     Option.bind (num_or 64 DEFAULT_MAX_CONTAINERS_PER_VM ''max_containers_per_vm'' j) (\<lambda>mc.
     Option.bind (num_or 64 (unat DEFAULT_HOTPLUG_MEMORY_MB) ''hotplug_memory_mb'' j) (\<lambda>hm.
     Option.bind (str_or ''acpi'' ''hotplug_method'' j) (\<lambda>hme.
     Option.bind (bool_or False ''tpm_enabled'' j) (\<lambda>tpm.
     Option.bind (str_or [] ''daemon_socket'' j) (\<lambda>ds.
       Some \<lparr>rc_cloud_hypervisor_binary = bin, rc_kernel_path = kp, rc_rootfs_path = rp,
             rc_default_vcpus = word_of_nat vc, rc_max_default_vcpus = word_of_nat mvc,
             rc_default_memory_mb = word_of_nat mem, rc_vsock_port = word_of_nat port,
             rc_agent_startup_timeout_secs = word_of_nat ato, rc_kernel_args = ka, rc_debug = dbg,
             rc_max_containers_per_vm = mc, rc_hotplug_memory_mb = word_of_nat hm,
             rc_hotplug_method = hme, rc_tpm_enabled = tpm, rc_daemon_socket = ds\<rparr>)))))))))))))))"

definition DEFAULT_CONFIG_PATH :: path where
  "DEFAULT_CONFIG_PATH = ''/opt/cloudhv/config.json''"

definition load_config :: "env \<Rightarrow> bool \<Rightarrow> path option \<Rightarrow> ('z world_scheme, RuntimeConfig) prog" where
  "load_config E aarch64 po =
     (let p = (case po of None \<Rightarrow> DEFAULT_CONFIG_PATH | Some q \<Rightarrow> q) in
      bindE (askb E (FsExists p)) (\<lambda>ex.
        if \<not> ex then
          failE (msg (''runtime config not found at '' @ p @
                      ''; create it or specify an alternative path''))
        else bindE (ctxE (''failed to read config from '' @ p) (ask (ans_str E) (FsRead p))) (\<lambda>data.
          ofOptE (Fail [''failed to parse config from '' @ p, json_error E data] None)
            (Option.bind (json_parse E data) (RuntimeConfig_from_json aarch64)))))"

section \<open>Properties\<close>

lemma only_calls_config [frame_rules]:
  "only_calls (DaemonConfig_load E p)" "only_calls (load_config E aarch64 po)"
  unfolding DaemonConfig_load_def load_config_def Let_def by (auto intro!: frame_rules)

text \<open>
  Deserialising what the daemon's configuration serialises to gives the configuration back,
  for every configuration whose \<^verbatim>\<open>usize\<close> fields fit 64 bits.
\<close>

theorem DaemonConfig_json_roundtrip:
  assumes "pool_size c < 2 ^ 64" "max_pool_size c < 2 ^ 64" "max_snapshots c < 2 ^ 64"
  shows "DaemonConfig_from_json (DaemonConfig_to_json c) = Some c"
  using assms unfolding DaemonConfig_from_json_def DaemonConfig_to_json_def by simp

text \<open>A configuration for the witnesses.\<close>

definition sample_cfg :: DaemonConfig where
  "sample_cfg = \<lparr>pool_size = 2, max_pool_size = 10, replenish_delay_ms = 100, vm_idle_timeout_secs = 300,
     default_vcpus = 1, default_memory_mb = 512, cloud_hypervisor_binary = ''/ch'', kernel_path = ''/k'',
     rootfs_path = ''/r'', kernel_args = [], socket_path = ''/s'', state_dir = ''/d'',
     warmup_duration_secs = 1, max_snapshots = 1\<rparr>"

lemma sample_cfg_sel [simp]:
  "pool_size sample_cfg = 2" "state_dir sample_cfg = ''/d''" "max_snapshots sample_cfg = 1"
  "cloud_hypervisor_binary sample_cfg = ''/ch''" "warmup_duration_secs sample_cfg = 1"
  by (simp_all add: sample_cfg_def)

theorem DaemonConfig_json_roundtrip_witness:
  "DaemonConfig_from_json (DaemonConfig_to_json sample_cfg) = Some sample_cfg"
  by (rule DaemonConfig_json_roundtrip) (simp_all add: sample_cfg_def)

end
