(* ===== verification/AgentServer.thy ===== *)
theory AgentServer
  imports AgentContainer Config
begin

text \<open>
  \<^verbatim>\<open>crates/agent/src/server.rs\<close> and \<^verbatim>\<open>main.rs\<close>: the RPC handlers over the container manager, the
  listener and the run of the server. A handler holds the manager's lock from its start to its end,
  so it is one step of the agent; only \<^verbatim>\<open>wait_container\<close> lets go of it while it waits, and is two
  steps: \<open>wait_begin\<close>, and \<open>wait_finish\<close> after the event that ended the wait. The error of a handler is
  the text the client receives.
\<close>

section \<open>Requests\<close>

datatype VolumeType = FILESYSTEM | BLOCK | UnknownVolumeType int

record VolumeMount =
  vmt_destination :: string
  vmt_source :: string
  vmt_readonly :: bool
  vmt_volume_type :: VolumeType
  vmt_fs_type :: string
  vmt_files :: "InlineFileInfo list"

definition proto_volumes_to_info :: "VolumeMount list \<Rightarrow> VolumeInfo list" where
  "proto_volumes_to_info volumes = map (\<lambda>v.
     \<lparr>vol_destination = vmt_destination v, vol_source = vmt_source v, vol_readonly = vmt_readonly v,
      vol_is_block = (vmt_volume_type v = BLOCK), vol_fs_type = vmt_fs_type v,
      vol_inline_files = map (\<lambda>f. \<lparr>if_path = if_path f, if_content = if_content f, if_mode = if_mode f\<rparr>) (vmt_files v)\<rparr>) volumes"

record CreateContainerRequest =
  cr_container_id :: string
  cr_volumes :: "VolumeMount list"
  cr_config_json :: string
  cr_rootfs_preattached :: bool
  cr_erofs_layers :: nat

section \<open>Handlers\<close>

definition create_container :: "env \<Rightarrow> CreateContainerRequest \<Rightarrow> ('z manager_scheme, u32) prog" where
  "create_container E req =
     map_err (\<lambda>e. ''create_container failed: '' @ show_chain e)
       (create E (cr_container_id req) (proto_volumes_to_info (cr_volumes req)) (cr_config_json req)
          (cr_rootfs_preattached req) (cr_erofs_layers req))"

definition start_container :: "env \<Rightarrow> string \<Rightarrow> ('z manager_scheme, u32) prog" where
  "start_container E container_id =
     map_err (\<lambda>e. ''start_container failed: '' @ show_err e) (start E container_id)"

definition run_container :: "env \<Rightarrow> CreateContainerRequest \<Rightarrow> ('z manager_scheme, u32) prog" where
  "run_container E req =
     map_err (\<lambda>e. ''run_container failed: '' @ show_chain e)
       (run E (cr_container_id req) (proto_volumes_to_info (cr_volumes req)) (cr_config_json req)
          (cr_rootfs_preattached req) (cr_erofs_layers req))"

definition kill_container :: "env \<Rightarrow> string \<Rightarrow> u32 \<Rightarrow> ('z manager_scheme, unit) prog" where
  "kill_container E container_id signal =
     map_err (\<lambda>e. ''kill_container failed: '' @ show_err e) (kill E container_id signal)"

definition delete_container :: "env \<Rightarrow> string \<Rightarrow> ('z manager_scheme, u32 \<times> u32) prog" where
  "delete_container E container_id =
     map_err (\<lambda>e. ''delete_container failed: '' @ show_err e) (delete E container_id)"

text \<open>
  \<^verbatim>\<open>wait_container\<close>. The first step takes the receiver and looks at its value: \<open>Inr\<close> the status, when
  there is one, or \<open>Inl\<close> the channel to wait on. The wait ends by a change of the channel, the loss of its
  sender or after 600 seconds.
\<close>

datatype wait_event = Changed | SenderGone | TimedOut

definition wait_begin :: "string \<Rightarrow> ('z manager_scheme, nat + u32 \<times> string) prog" where
  "wait_begin container_id =
     bindE (get_exit_receiver container_id) (\<lambda>rx.
     bindE (ofOptE (msg (''wait_container: unknown container '' @ container_id)) rx) (\<lambda>c.
     bindE (getE (\<lambda>s. channels s ! c)) (\<lambda>already_exited. case already_exited of
        Some status \<Rightarrow> thenE (mark_stopped container_id (es_code status)) (retE (Inr (es_code status, es_exited_at status)))
      | None \<Rightarrow> retE (Inl c))))"

definition wait_finish :: "env \<Rightarrow> string \<Rightarrow> nat \<Rightarrow> wait_event \<Rightarrow> ('z manager_scheme, u32 \<times> string) prog" where
  "wait_finish E container_id c ev =
     bindE (case ev of
         Changed \<Rightarrow> bindE (getE (\<lambda>s. channels s ! c)) (\<lambda>status. case status of
             Some st \<Rightarrow> retE (es_code st, es_exited_at st)
           | None \<Rightarrow> bindE (wall_now E) (\<lambda>t. retE (137, t)))
       | _ \<Rightarrow> bindE (wall_now E) (\<lambda>t. retE (137, t))) (\<lambda>(exit_code, exited_at).
     thenE (mark_stopped container_id exit_code) (retE (exit_code, exited_at)))"

definition exec_process :: "('z manager_scheme, unit) prog" where
  "exec_process = failE (msg ''exec_process not yet implemented'')"

definition state_container :: "string \<Rightarrow> ('z manager_scheme, u32 \<times> ContainerState option \<times> u32) prog" where
  "state_container container_id = map_err (\<lambda>e. ''state_container failed: '' @ show_err e) (state container_id)"

record MemInfo =
  mem_total_kb :: nat
  mem_free_kb :: nat
  mem_available_kb :: nat
  buffers_kb :: nat
  cached_kb :: nat
  swap_total_kb :: nat
  swap_free_kb :: nat

definition meminfo_line :: "MemInfo \<Rightarrow> string \<Rightarrow> MemInfo" where
  "meminfo_line resp line = (case split_ws line of
      k # v # _ \<Rightarrow>
        let val = (case parse_uint 64 v of None \<Rightarrow> 0 | Some n \<Rightarrow> n) in
        if k = ''MemTotal:'' then resp\<lparr>mem_total_kb := val\<rparr>
        else if k = ''MemFree:'' then resp\<lparr>mem_free_kb := val\<rparr>
        else if k = ''MemAvailable:'' then resp\<lparr>mem_available_kb := val\<rparr>
        else if k = ''Buffers:'' then resp\<lparr>buffers_kb := val\<rparr>
        else if k = ''Cached:'' then resp\<lparr>cached_kb := val\<rparr>
        else if k = ''SwapTotal:'' then resp\<lparr>swap_total_kb := val\<rparr>
        else if k = ''SwapFree:'' then resp\<lparr>swap_free_kb := val\<rparr>
        else resp
    | _ \<Rightarrow> resp)"

definition parse_meminfo :: "string \<Rightarrow> MemInfo" where
  "parse_meminfo content = foldl meminfo_line
     \<lparr>mem_total_kb = 0, mem_free_kb = 0, mem_available_kb = 0, buffers_kb = 0, cached_kb = 0,
      swap_total_kb = 0, swap_free_kb = 0\<rparr> (str_lines content)"

definition get_mem_info :: "env \<Rightarrow> ('z manager_scheme, MemInfo) prog" where
  "get_mem_info E =
     bindE (map_err (\<lambda>e. ''read /proc/meminfo: '' @ show_err e) (ask (ans_str E) (FsRead ''/proc/meminfo''))) (\<lambda>content.
       retE (parse_meminfo content))"

record LogsResponse =
  lr_stdout :: bytes
  lr_stderr :: bytes
  lr_offset :: nat
  lr_eof :: bool

text \<open>What is read from a buffer at an offset; without a buffer the answer is empty and final.\<close>

definition read_logs :: "ContainerLogs option \<Rightarrow> nat \<Rightarrow> LogsResponse" where
  "read_logs buf offset = (case buf of
      None \<Rightarrow> \<lparr>lr_stdout = [], lr_stderr = [], lr_offset = 0, lr_eof = True\<rparr>
    | Some l \<Rightarrow>
        \<lparr>lr_stdout = (if offset < length (lg_stdout l) then drop offset (lg_stdout l) else []),
         lr_stderr = (if offset < length (lg_stderr l) then drop offset (lg_stderr l) else []),
         lr_offset = max (length (lg_stdout l)) (length (lg_stderr l)), lr_eof = lg_eof l\<rparr>)"

definition get_container_logs :: "string \<Rightarrow> nat \<Rightarrow> ('z manager_scheme, LogsResponse) prog" where
  "get_container_logs i offset =
     bindE (get_log_buffer i) (\<lambda>b. getE (\<lambda>s. read_logs (map_option ((!) (buffers s)) b) offset))"

definition wait_for_device :: "env \<Rightarrow> string \<Rightarrow> ('z world_scheme, unit) prog" where
  "wait_for_device E device =
     (let path = ''/sys/class/net/'' @ device in
      bindE (clock_now E) (\<lambda>t.
        poll_deadline E (loop_fuel E) (t + 5000)
          (bindE (askb E (FsExists path)) (\<lambda>ex. retE (if ex then Some () else None))) (Sleep 50)
          (msg (''timed out waiting for device '' @ device @ '' to appear at '' @ path))))"

definition prefix_error :: string where
  "prefix_error = ''invalid prefix_len: must be between 0 and 32''"

text \<open>\<^verbatim>\<open>spawn_blocking(..)\<close>: a panic of the blocking task is an error of its own.\<close>

definition blocking_configure ::
  "env \<Rightarrow> string \<Rightarrow> ipv4 \<Rightarrow> u8 \<Rightarrow> ipv4 option \<Rightarrow> string option \<Rightarrow> ('z world_scheme, unit) prog" where
  "blocking_configure E device ip prefix_len gw mac s =
     (case map_err (\<lambda>e. ''configure_interface: '' @ show_chain e) (configure_interface E device ip prefix_len gw mac) s of
        (Inl (Panic p), s') \<Rightarrow> (Inl (msg ''spawn_blocking: task panicked''), s')
      | x \<Rightarrow> x)"

definition configure_network ::
  "env \<Rightarrow> string \<Rightarrow> string \<Rightarrow> nat \<Rightarrow> string \<Rightarrow> string \<Rightarrow> ('z world_scheme, unit) prog" where
  "configure_network E ip_address gateway prefix_len req_device req_mac =
     (let device = (if req_device = [] then ''eth0'' else req_device);
          mac = (if req_mac = [] then None else Some req_mac) in
      thenE (if mac = None then map_err (\<lambda>e. ''device wait: '' @ show_err e) (wait_for_device E device) else retE ())
     (bindE (ofOptE (msg ''invalid IP: invalid IPv4 address syntax'') (parse_ipv4 ip_address)) (\<lambda>ip.
      bindE (if gateway = [] then retE None
             else bindE (ofOptE (msg ''invalid gateway: invalid IPv4 address syntax'') (parse_ipv4 gateway)) (\<lambda>g. retE (Some g))) (\<lambda>gw.
        if 255 < prefix_len then failE (msg prefix_error)
        else if 32 < prefix_len then failE (msg prefix_error)
        else blocking_configure E device ip (word_of_nat prefix_len) gw mac))))"

definition adopt_container :: "string \<Rightarrow> string \<Rightarrow> ('z manager_scheme, u32) prog" where
  "adopt_container old_id new_id = map_err (\<lambda>e. ''adopt_container failed: '' @ show_chain e) (adopt old_id new_id)"

section \<open>The server\<close>

definition create_vsock_listener :: "env \<Rightarrow> nat \<Rightarrow> ('z world_scheme, nat) prog" where
  "create_vsock_listener E port =
     bindE (map_err (\<lambda>e. ''failed to create vsock socket: '' @ show_err e) (ask (ans_nat E) VsockSocket)) (\<lambda>fd.
     bindE (catchE (ask (ans_unit E) (VsockBind fd port))) (\<lambda>b. case b of
        Inl e \<Rightarrow> thenE (tell (VsockClose fd)) (failE (msg (''failed to bind vsock port '' @ dec port @ '': '' @ show_err e)))
      | Inr _ \<Rightarrow> bindE (catchE (ask (ans_unit E) (VsockListen fd))) (\<lambda>l. case l of
           Inl e \<Rightarrow> thenE (tell (VsockClose fd)) (failE (msg (''failed to listen on vsock port '' @ dec port @ '': '' @ show_err e)))
         | Inr _ \<Rightarrow> retE fd)))"

text \<open>
  Before it serves, and from the installation of the signal handlers, which may fail, to the end. A
  signal makes the wait return.
\<close>

definition server_open :: "env \<Rightarrow> ('z manager_scheme, unit) prog" where
  "server_open E =
     bindE (create_vsock_listener E (unat AGENT_VSOCK_PORT)) (\<lambda>fd.
     bindE (catchE (ask (ans_unit E) (AddListener fd))) (\<lambda>a. case a of
        Inl _ \<Rightarrow> failE (Panic ''failed to add vsock listener'')
      | Inr _ \<Rightarrow> map_err (\<lambda>e. ''failed to start ttrpc server: '' @ show_err e) (ask (ans_unit E) ServerStart)))"

definition server_close :: "env \<Rightarrow> ('z manager_scheme, unit) prog" where
  "server_close E =
     thenE (ask (ans_unit E) AwaitSignal)
    (thenE (signal_all E 15)
           (map_err (\<lambda>e. ''failed to shutdown ttrpc server: '' @ show_err e) (ask (ans_unit E) ServerStop)))"

text \<open>The state of the agent at its first request, from \<^verbatim>\<open>main\<close>.\<close>

definition agent_start :: "env \<Rightarrow> call list \<Rightarrow> err + manager" where
  "agent_start E h =
     (let w = snd ((if process_id E = 1 then init_setup E else set_child_subreaper) \<lparr>calls = h\<rparr>) in
      case server_open E (ContainerManager_new E (calls w)) of (Inl e, _) \<Rightarrow> Inl e | (Inr _, s) \<Rightarrow> Inr s)"

section \<open>Frame\<close>

lemma only_calls_server [frame_rules]:
  "only_calls (get_mem_info E)" "only_calls (get_container_logs i off)" "only_calls (state_container i)"
  "only_calls (kill_container E i sig)" "only_calls (server_close E)"
  unfolding get_mem_info_def get_container_logs_def state_container_def kill_container_def server_close_def
    get_log_buffer_def state_def
  by (intro frame_rules)+

lemma only_calls_wait_device [frame_rules]: "only_calls (wait_for_device E d)"
  unfolding wait_for_device_def Let_def by (intro frame_rules)

lemma only_calls_listener [frame_rules]: "only_calls (create_vsock_listener E p)" "only_calls (server_open E)"
  unfolding create_vsock_listener_def server_open_def by (intro frame_rules)+

lemma snd_blocking_configure [simp]: "snd (blocking_configure E d ip p gw m s) = snd (configure_interface E d ip p gw m s)"
  by (cases "configure_interface E d ip p gw m s"; cases "fst (configure_interface E d ip p gw m s)")
    (auto simp: blocking_configure_def map_err_def msg_def split: err.splits)

lemma only_calls_configure_network [frame_rules]:
  "only_calls (configure_network E ip gw p d m :: ('z world_scheme, unit) prog)"
proof -
  have "only_calls (configure_interface E d ip p gw m :: ('z world_scheme, unit) prog)" for d ip p gw m
    by (rule only_calls_netlink)
  then have "only_calls (blocking_configure E d ip p gw m :: ('z world_scheme, unit) prog)" for d ip p gw m
    by (simp add: only_calls_def)
  then show ?thesis unfolding configure_network_def Let_def by (intro frame_rules)
qed


section \<open>The running agent\<close>

text \<open>The agent with the waits that are under way, each with the channel it waits on.\<close>

record agent = manager +
  waits :: "(string \<times> nat) list"

text \<open>
  When a wait can end with an event. The channel announces a change once it has a value; the loss of its sender is
  seen when its exit waiter is gone and has sent nothing; the timer may always fire.
\<close>

definition wait_enabled :: "'z manager_scheme \<Rightarrow> nat \<Rightarrow> wait_event \<Rightarrow> bool" where
  "wait_enabled s c ev \<longleftrightarrow> (case ev of
      Changed \<Rightarrow> channels s ! c \<noteq> None
    | SenderGone \<Rightarrow> channels s ! c = None \<and> c \<notin> jb_chan ` set (jobs s)
    | TimedOut \<Rightarrow> True)"

definition park :: "string \<Rightarrow> err + (nat + 'a) \<Rightarrow> agent \<Rightarrow> agent" where
  "park i r s = (case r of Inr (Inl c) \<Rightarrow> s\<lparr>waits := waits s @ [(i, c)]\<rparr> | _ \<Rightarrow> s)"

inductive agent_step :: "env \<Rightarrow> agent \<Rightarrow> agent \<Rightarrow> bool" for E where
  rpc_create: "agent_step E s (snd (create_container E req s))"
| rpc_start: "agent_step E s (snd (start_container E i s))"
| rpc_run: "agent_step E s (snd (run_container E req s))"
| rpc_kill: "agent_step E s (snd (kill_container E i sig s))"
| rpc_delete: "agent_step E s (snd (delete_container E i s))"
| rpc_adopt: "agent_step E s (snd (adopt_container i k s))"
| rpc_wait: "agent_step E s (park i (fst (wait_begin i s)) (snd (wait_begin i s)))"
| wait_over: "(i, c) \<in> set (waits s) \<Longrightarrow> wait_enabled s c ev \<Longrightarrow>
    agent_step E s (snd (wait_finish E i c ev (s\<lparr>waits := remove1 (i, c) (waits s)\<rparr>)))"
| rpc_network: "agent_step E s (snd (configure_network E ip gw p d m s))"
| rpc_mem_info: "agent_step E s (snd (get_mem_info E s))"
| stdout_read: "b < length (buffers s) \<Longrightarrow> agent_step E s (snd (append_stdout b bs s))"
| stderr_read: "b < length (buffers s) \<Longrightarrow> agent_step E s (snd (append_stderr b bs s))"
| exited: "j \<in> set (jobs s) \<Longrightarrow> agent_step E s (snd (exit_task E j (s\<lparr>jobs := remove1 j (jobs s)\<rparr>)))"

inductive agent_reach :: "env \<Rightarrow> agent \<Rightarrow> bool" for E where
  booted: "agent_start E h = Inr m \<Longrightarrow> agent_reach E (manager.extend m \<lparr>waits = []\<rparr>)"
| agent_more: "agent_reach E s \<Longrightarrow> agent_step E s s' \<Longrightarrow> agent_reach E s'"

text \<open>Every wait is on a channel that exists.\<close>

definition agent_inv :: "agent \<Rightarrow> bool" where
  "agent_inv s \<longleftrightarrow> mgr_inv s \<and> (\<forall>(i, c) \<in> set (waits s). c < length (channels s))"

lemma agent_inv_calls: "agent_inv s \<Longrightarrow> only_calls m \<Longrightarrow> agent_inv (snd (m s))"
  unfolding only_calls_def by (drule spec [of _ s]) (auto simp: agent_inv_def)

text \<open>The operations of the manager leave the waits alone and drop no channel.\<close>

abbreviation grown :: "(string \<times> nat) list \<Rightarrow> nat \<Rightarrow> agent \<Rightarrow> bool" where
  "grown W n \<equiv> \<lambda>s. waits s = W \<and> n \<le> length (channels s)"

lemma grown_calls: "only_calls m \<Longrightarrow> preserves (grown W n) m"
  by (rule preserves_only_calls) simp_all

lemma grown_create: "preserves (grown W n) (create E i vols cfg pre layers)"
proof -
  have disc: "preserves (grown W n) (discover_block_device E)"
    unfolding discover_block_device_def
    by (intro preserves_bindE preserves_getE grown_calls [OF only_calls_container(1)])
      (auto simp: preserves_def prog_simps split: list.split)
  have vols: "preserves (grown W n) (volume_mounts E vols)"
    by (induction vols) (auto intro!: wp_rules disc)
  have adapt: "preserves (grown W n) (adapt_oci_spec_for_vm E b vols)" for b
    unfolding adapt_oci_spec_for_vm_def Let_def by (intro preserves_bindE vols grown_calls frame_rules)
  have ins: "preserves (grown W n) (modE (\<lambda>s. s\<lparr>containers := AList.update i c (containers s)\<rparr>))" for c
    by (intro preserves_modE) simp
  show ?thesis unfolding create_def
    by (intro preserves_if preserves_thenE preserves_failE preserves_retE adapt ins grown_calls frame_rules)
qed

lemma grown_start: "preserves (grown W n) (start E i)"
proof -
  have "preserves (grown W n) (register_started i pid)" for pid
    by (simp add: preserves_def register_started_apply)
  then show ?thesis unfolding start_def Let_def
    by (intro preserves_bindE preserves_thenE preserves_getE preserves_retE preserves_ofOptE grown_calls [OF only_calls_ctxE] frame_rules)
qed

lemma grown_ops:
  "preserves (grown W n) (run E i vols cfg pre layers)" "preserves (grown W n) (delete E i)"
  "preserves (grown W n) (adopt i k)" "preserves (grown W n) (mark_stopped i code)"
proof -
  show "preserves (grown W n) (run E i vols cfg pre layers)"
    unfolding run_def by (intro preserves_thenE grown_create grown_start)
  show "preserves (grown W n) (delete E i)" unfolding delete_def
    by (intro preserves_bindE preserves_thenE preserves_getE preserves_retE grown_calls frame_rules preserves_modE) simp
  show "preserves (grown W n) (adopt i k)" by (simp add: preserves_def adopt_apply split: option.split)
  show "preserves (grown W n) (mark_stopped i code)"
    by (simp add: preserves_def mark_stopped_def modE_def split: option.split)
qed

lemma agent_invI:
  assumes "preserves mgr_inv m" and "\<And>W n. preserves (grown W n) m"
  shows "preserves agent_inv m"
proof (rule preservesI)
  fix s assume s: "agent_inv s"
  have "grown (waits s) (length (channels s)) (snd (m s))" using assms(2) by (intro preservesD [OF assms(2)]) simp
  then show "agent_inv (snd (m s))" using s preservesD [OF assms(1), of s] by (fastforce simp: agent_inv_def)
qed

lemmas agent_inv_ops = agent_invI [OF mgr_inv_create grown_create] agent_invI [OF mgr_inv_start grown_start]
  agent_invI [OF mgr_inv_run grown_ops(1)] agent_invI [OF mgr_inv_delete grown_ops(2)]
  agent_invI [OF mgr_inv_adopt grown_ops(3)] agent_invI [OF mgr_inv_stopped grown_ops(4)]

lemma agent_inv_waits: "agent_inv s \<Longrightarrow> set W \<subseteq> set (waits s) \<Longrightarrow> agent_inv (s\<lparr>waits := W\<rparr>)"
  by (auto simp: agent_inv_def mgr_inv_def mgr_defs)

lemma agent_inv_wait: "agent_inv s \<Longrightarrow> agent_inv (park i (fst (wait_begin i s)) (snd (wait_begin i s)))"
proof -
  assume s: "agent_inv s"
  have stop: "agent_inv (snd (mark_stopped i code s))" for code by (rule preservesD [OF agent_inv_ops(6) s])
  show ?thesis
  proof (cases "map_of (exit_receivers s) i")
    case None
    then show ?thesis using s by (simp add: park_def wait_begin_def get_exit_receiver_def prog_simps)
  next
    case (Some c)
    then have c: "c < length (channels s)" using s by (auto simp: agent_inv_def mgr_inv_def refs_ok_def)
    have "mgr_inv (s\<lparr>waits := W\<rparr>)" for W using s by (auto simp: agent_inv_def mgr_inv_def mgr_defs)
    then have "agent_inv (s\<lparr>waits := waits s @ [(i, c)]\<rparr>)" using s c by (auto simp: agent_inv_def)
    then show ?thesis using Some stop
      by (cases "channels s ! c") (simp_all add: park_def wait_begin_def get_exit_receiver_def mark_stopped_def prog_simps)
  qed
qed

lemma agent_inv_exit:
  assumes "agent_inv s" and "j \<in> set (jobs s)"
  shows "agent_inv (snd (exit_task E j (s\<lparr>jobs := remove1 j (jobs s)\<rparr>)))" (is "agent_inv ?s")
proof -
  have "mgr_inv ?s" using assms by (intro mgr_inv_exit) (simp_all add: agent_inv_def)
  moreover have "waits ?s = waits s" "length (channels ?s) = length (channels s)"
    using exit_task_run [of E j "s\<lparr>jobs := remove1 j (jobs s)\<rparr>"] by auto
  ultimately show ?thesis using assms(1) by (simp add: agent_inv_def)
qed

lemma agent_inv_finish: "agent_inv s \<Longrightarrow> agent_inv (snd (wait_finish E i c ev s))"
proof -
  have "preserves agent_inv (wall_now E)" by (intro preservesI agent_inv_calls only_calls_wall_now)
  then have "preserves agent_inv (wait_finish E i c ev)"
    unfolding wait_finish_def by (cases ev) (auto intro!: wp_rules agent_inv_ops)
  then show "agent_inv s \<Longrightarrow> agent_inv (snd (wait_finish E i c ev s))" by (rule preservesD)
qed

lemma agent_inv_append: "agent_inv s \<Longrightarrow> agent_inv (snd (append_stdout b bs s))" "agent_inv s \<Longrightarrow> agent_inv (snd (append_stderr b bs s))"
  by (auto simp: agent_inv_def mgr_inv_buffers append_stdout_def append_stderr_def modE_def)

lemma agent_step_inv: "agent_step E s s' \<Longrightarrow> agent_inv s \<Longrightarrow> agent_inv s'"
proof (induction rule: agent_step.induct)
  case (wait_over i c s ev)
  then have "agent_inv (s\<lparr>waits := remove1 (i, c) (waits s)\<rparr>)" by (intro agent_inv_waits set_remove1_subset)
  then show ?case by (rule agent_inv_finish)
qed (simp_all add: create_container_def start_container_def run_container_def delete_container_def adopt_container_def
    agent_inv_ops [THEN preservesD] agent_inv_calls only_calls_server only_calls_configure_network agent_inv_wait
    agent_inv_append agent_inv_exit)

lemma agent_reach_inv: "agent_reach E s \<Longrightarrow> agent_inv s"
proof (induction rule: agent_reach.induct)
  case (booted h m)
  have "preserves mgr_inv (server_open E :: (manager, unit) prog)" by (intro mgr_inv_calls frame_rules)
  then have "mgr_inv m" using booted mgr_inv_new
    by (auto simp: agent_start_def Let_def preserves_def split: prod.splits sum.splits) (metis snd_conv)
  then show ?case by (auto simp: agent_inv_def mgr_inv_def mgr_defs manager.defs)
qed (blast intro: agent_step_inv)

section \<open>Properties\<close>

text \<open>
  What a running container with process \<open>pid\<close> needs to be waited for: an exit channel and a log buffer, and while the channel
  is empty exactly one exit waiter on it, for \<open>pid\<close> and that buffer.
\<close>

definition watched :: "'z manager_scheme \<Rightarrow> string \<Rightarrow> u32 \<Rightarrow> bool" where
  "watched s i pid \<longleftrightarrow> (\<exists>ch b. map_of (exit_receivers s) i = Some ch \<and> map_of (logs s) i = Some b \<and>
     ch < length (channels s) \<and> b < length (buffers s) \<and>
     (channels s ! ch = None \<longrightarrow> filter (\<lambda>j. jb_chan j = ch) (jobs s) = [\<lparr>jb_pid = pid, jb_chan = ch, jb_buf = b\<rparr>]))"

lemma filter_unique:
  assumes "distinct (map f xs)" and "x \<in> set xs" shows "filter (\<lambda>y. f y = f x) xs = [x]"
proof -
  obtain ys zs where xs: "xs = ys @ x # zs" using split_list [OF assms(2)] by blast
  have "f x \<notin> f ` set ys" "f x \<notin> f ` set zs" using assms(1) by (auto simp: xs)
  then have "filter (\<lambda>y. f y = f x) ys = []" "filter (\<lambda>y. f y = f x) zs = []"
    by (auto simp: filter_empty_conv dest: sym)
  then show ?thesis by (simp add: xs)
qed

lemma running_watched:
  assumes inv: "mgr_inv s" and c: "map_of (containers s) i = Some c" "ct_state c = Running" "ct_pid c = Some pid"
  shows "watched s i pid"
proof -
  have "ct_ok s i c" using inv c by (simp add: mgr_inv_def)
  then obtain ch b where t: "map_of (exit_receivers s) i = Some ch" "map_of (logs s) i = Some b"
    and j: "\<forall>j \<in> set (jobs s). jb_chan j = ch \<longrightarrow> ct_pid c = Some (jb_pid j) \<and> jb_buf j = b"
    using c by (auto simp: ct_ok_def tracked_def)
  have chan: "chan_ok s" and refs: "refs_ok s" using inv by (simp_all add: mgr_inv_def)
  then have lt: "ch < length (channels s)" "b < length (buffers s)" using t by (auto simp: refs_ok_def)
  have "filter (\<lambda>j. jb_chan j = ch) (jobs s) = [\<lparr>jb_pid = pid, jb_chan = ch, jb_buf = b\<rparr>]" if open_ch: "channels s ! ch = None"
  proof -
    obtain j' where j': "j' \<in> set (jobs s)" "jb_chan j' = ch" using chan lt open_ch by (auto simp: chan_ok_def)
    then have "j' = \<lparr>jb_pid = pid, jb_chan = ch, jb_buf = b\<rparr>" using j c by auto
    moreover have "filter (\<lambda>j. jb_chan j = jb_chan j') (jobs s) = [j']"
      using chan j' by (intro filter_unique) (simp_all add: chan_ok_def)
    ultimately show ?thesis by simp
  qed
  with t lt show ?thesis unfolding watched_def by (intro exI [of _ ch] exI [of _ b]) simp
qed

text \<open>
  C5: In every state that the agent can reach by requests, process output and process exits, in any order: a
  registered container has a process identifier, so adopting it under another identifier never fails; a stopped one has
  an exit code; a running one has an exit channel and a log buffer, so waiting for it never finds it unknown, and as long
  as its channel is empty exactly one exit waiter runs for the channel, that of the container's own
  process, writing to the container's own log buffer. No wait ever ends by the loss of its sender.
\<close>

theorem agent_reachable_consistent:
  assumes "agent_reach E s"
  shows "(\<forall>i c. map_of (containers s) i = Some c \<longrightarrow>
      (\<exists>pid. ct_pid c = Some pid \<and> fst (adopt_container i k s) = Inr pid \<and>
        (ct_state c = Stopped \<longrightarrow> ct_exit_code c \<noteq> None) \<and> (ct_state c = Running \<longrightarrow> watched s i pid))) \<and>
    (\<forall>(i, c) \<in> set (waits s). c < length (channels s) \<and> \<not> wait_enabled s c SenderGone)"
proof -
  have inv: "mgr_inv s" and w: "\<forall>(i, c) \<in> set (waits s). c < length (channels s)"
    using agent_reach_inv [OF assms] by (simp_all add: agent_inv_def)
  have chan: "chan_ok s" using inv by (simp add: mgr_inv_def)
  have "\<not> wait_enabled s c SenderGone" if "c < length (channels s)" for c
    using chan that by (simp add: wait_enabled_def chan_ok_def)
  with w have waits: "\<forall>(i, c) \<in> set (waits s). c < length (channels s) \<and> \<not> wait_enabled s c SenderGone" by auto
  have "\<exists>pid. ct_pid c = Some pid \<and> fst (adopt_container i k s) = Inr pid \<and>
      (ct_state c = Stopped \<longrightarrow> ct_exit_code c \<noteq> None) \<and> (ct_state c = Running \<longrightarrow> watched s i pid)"
    if c: "map_of (containers s) i = Some c" for i c
  proof -
    have ok: "ct_ok s i c" using inv c by (simp add: mgr_inv_def)
    then obtain pid where pid: "ct_pid c = Some pid" by (auto simp: ct_ok_def)
    moreover have "fst (adopt_container i k s) = Inr pid"
      using c pid by (simp add: adopt_container_def map_err_def adopt_apply)
    ultimately show ?thesis using ok running_watched [OF inv c _ pid] unfolding ct_ok_def by blast
  qed
  with waits show ?thesis by blast
qed

definition sample_req :: CreateContainerRequest where
  "sample_req = \<lparr>cr_container_id = ''a'', cr_volumes = [], cr_config_json = ''{}'', cr_rootfs_preattached = True, cr_erofs_layers = 1\<rparr>"

lemma agent_boots: "\<exists>m. agent_start live_env [] = Inr m \<and> containers m = [] \<and> jobs m = [] \<and> channels m = [] \<and> buffers m = [] \<and>
    exit_receivers m = [] \<and> logs m = []"
  by (simp add: agent_start_def Let_def server_open_def create_vsock_listener_def ContainerManager_new_def
      scan_block_devices_def map_err_def prog_simps log_call_def split: prod.split)

lemma agent_runs: "\<exists>s'. run_container live_env sample_req s = (Inr 42, s') \<and>
    map_of (containers s') ''a'' = Some \<lparr>ct_pid = Some 42, ct_exit_code = None, ct_state = Running\<rparr>"
  by (simp add: run_container_def sample_req_def run_def create_def prepare_bundle_def compose_rootfs_def mount_layer_def
      eval_nat_numeral adapt_oci_spec_for_vm_def start_def register_started_def map_err_def proto_volumes_to_info_def Let_def prog_simps
      parse_json_def log_call_def update_conv' cong: prog_congs)

theorem agent_reachable_consistent_witness:
  "\<exists>s. agent_reach live_env s \<and> map_of (containers s) ''a'' = Some \<lparr>ct_pid = Some 42, ct_exit_code = None, ct_state = Running\<rparr> \<and>
     watched s ''a'' 42"
proof -
  obtain m where m: "agent_start live_env [] = Inr m" using agent_boots by blast
  let ?s = "manager.extend m \<lparr>waits = []\<rparr>"
  obtain s where s: "run_container live_env sample_req ?s = (Inr 42, s)"
    "map_of (containers s) ''a'' = Some \<lparr>ct_pid = Some 42, ct_exit_code = None, ct_state = Running\<rparr>"
    using agent_runs by blast
  have r: "agent_reach live_env s"
    using agent_more [OF booted [OF m] rpc_run [of _ _ sample_req]] s(1) by simp
  have "watched s ''a'' 42"
    using agent_reachable_consistent [OF r, of "''b''", THEN conjunct1, rule_format, OF s(2)] by simp
  with r s(2) show ?thesis by blast
qed

subsection \<open>The life of a container\<close>

lemma start_Inr:
  assumes "start E i s = (Inr pid, s1)"
  obtains c cs where "map_of (containers s) i = Some c" "s1 = snd (register_started i pid (s\<lparr>calls := calls s @ cs\<rparr>))"
  using assms
  by (auto simp: start_def prog_simps log_call_def Let_def of_os_def split: option.splits sum.splits)
    (auto simp: register_started_def modE_def retE_def)

lemma exit_task_code:
  assumes "\<forall>h. ans_code E h (ChildWait (jb_pid j)) = Inr status"
    and "\<forall>h x. ans_try E h (ChildTryWait (jb_pid j)) = Inr (Some x) \<longrightarrow> x = status"
  shows "\<exists>t cs. exit_task E j s = (Inr (), s\<lparr>calls := calls s @ cs,
     channels := (channels s)[jb_chan j := Some \<lparr>es_code = case status of Some c \<Rightarrow> c | None \<Rightarrow> 137, es_exited_at = t\<rparr>],
     buffers := (buffers s)[jb_buf j := (buffers s ! jb_buf j)\<lparr>lg_eof := True\<rparr>]\<rparr>)"
proof -
  obtain code cs where w: "wait_for_exit_pidfd E (jb_pid j) s = (Inr code, s\<lparr>calls := calls s @ cs\<rparr>)"
    using wait_for_exit_pidfd_returns by blast
  then have "code = (case status of Some c \<Rightarrow> c | None \<Rightarrow> 137)" using wait_for_exit_status [OF assms, of s] by simp
  with w show ?thesis
    by (intro exI [of _ "ans_time E (calls s @ cs)"] exI [of _ "cs @ [WallClock]"])
      (simp add: exit_task_def bindE_def thenE_apply wall_now_def modE_def log_call_def)
qed


definition one_created :: manager where
  "one_created = \<lparr>calls = [], containers = [(''a'', \<lparr>ct_pid = Some 1, ct_exit_code = None, ct_state = Created\<rparr>)], known_disks = [],
     exit_receivers = [], logs = [], channels = [], buffers = [], jobs = []\<rparr>"


text \<open>
  A wait that lasts 600 seconds gives the container up: it answers 137, marks the container as stopped although its
  exit waiter still runs, and from then on a kill request for it succeeds without any call, so the
  process is never signalled again by the agent.
\<close>

theorem wait_timeout_abandons:
  assumes "map_of (containers s) i = Some c"
  shows "\<exists>t s'. wait_finish E i ch TimedOut s = (Inr (137, t), s') \<and> jobs s' = jobs s \<and> channels s' = channels s \<and>
     map_of (containers s') i = Some (c\<lparr>ct_state := Stopped, ct_exit_code := Some 137\<rparr>) \<and>
     (\<forall>sig. kill_container E i sig s' = (Inr (), s'))"
  using assms
  by (auto simp: wait_finish_def mark_stopped_def kill_container_def kill_def map_err_def prog_simps wall_now_def log_call_def update_conv')

theorem wait_timeout_abandons_witness:
  "\<exists>t s'. wait_finish live_env ''a'' 0 TimedOut one_created = (Inr (137, t), s') \<and>
     kill_container live_env ''a'' 9 s' = (Inr (), s')"
proof -
  have "map_of (containers one_created) ''a'' = Some \<lparr>ct_pid = Some 1, ct_exit_code = None, ct_state = Created\<rparr>"
    by (simp add: one_created_def)
  from wait_timeout_abandons [OF this, of live_env 0] show ?thesis by blast
qed

lemma kill_run:
  assumes "map_option ct_state (map_of (containers s) i) \<noteq> Some Stopped"
  shows "ignoreE (kill E i sig) s = (Inr (), s\<lparr>calls := calls s @ [ProcOutput ''/bin/crun'' [''kill'', i, dec (unat sig)]]\<rparr>)"
  using assms
  by (auto simp: kill_def crun_def Let_def prog_simps log_call_def of_os_def msg_def split: sum.split)

lemma kill_each_run:
  assumes "\<forall>i \<in> set ids. map_option ct_state (map_of (containers s) i) \<noteq> Some Stopped"
  shows "kill_each E sig ids s =
    (Inr (), s\<lparr>calls := calls s @ map (\<lambda>i. ProcOutput ''/bin/crun'' [''kill'', i, dec (unat sig)]) ids\<rparr>)"
  using assms
proof (induction ids arbitrary: s)
  case (Cons i ids)
  then show ?case using kill_run [of s i E sig] by (simp add: thenE_apply)
qed (simp add: retE_def)

text \<open>
  At shutdown the agent signals exactly the containers that are not stopped, one \<^verbatim>\<open>crun kill\<close> each, in the
  order of the map; a failure for one of them stops neither the others nor the shutdown, and no container record changes.
\<close>

theorem signal_all_signals:
  assumes "hm_ok (containers s)"
  shows "signal_all E sig s = (Inr (), s\<lparr>calls := calls s @
     map (\<lambda>(i, c). ProcOutput ''/bin/crun'' [''kill'', i, dec (unat sig)]) (filter (\<lambda>(i, c). ct_state c \<noteq> Stopped) (containers s))\<rparr>)"
proof -
  let ?ids = "map fst (filter (\<lambda>(i, c). ct_state c \<noteq> Stopped) (containers s))"
  have "map_option ct_state (map_of (containers s) i) \<noteq> Some Stopped" if "i \<in> set ?ids" for i
    using that assms by (auto dest: eq_key_imp_eq_value)
  then have "kill_each E sig ?ids s =
      (Inr (), s\<lparr>calls := calls s @ map (\<lambda>i. ProcOutput ''/bin/crun'' [''kill'', i, dec (unat sig)]) ?ids\<rparr>)"
    by (intro kill_each_run) blast
  moreover have "map (\<lambda>i. ProcOutput ''/bin/crun'' [''kill'', i, dec (unat sig)]) ?ids =
      map (\<lambda>(i, c). ProcOutput ''/bin/crun'' [''kill'', i, dec (unat sig)]) (filter (\<lambda>(i, c). ct_state c \<noteq> Stopped) (containers s))"
    unfolding map_map by (intro map_cong refl) auto
  ultimately show ?thesis by (simp only: signal_all_def bindE_def getE_def prod.case sum.case)
qed

theorem signal_all_signals_witness:
  "signal_all live_env 15 one_created =
     (Inr (), one_created\<lparr>calls := [ProcOutput ''/bin/crun'' [''kill'', ''a'', dec 15]]\<rparr>)"
  using signal_all_signals [of one_created live_env 15] by (simp add: one_created_def)

subsection \<open>Logs\<close>

text \<open>A client that polls: at each point it reads at the offset of the last answer, here for the buffer at each poll.\<close>

fun poll_logs :: "nat \<Rightarrow> ContainerLogs list \<Rightarrow> bytes \<times> bytes" where
  "poll_logs offset [] = ([], [])"
| "poll_logs offset (l # ls) =
     (let r = read_logs (Some l) offset; (out, err) = poll_logs (lr_offset r) ls
      in (lr_stdout r @ out, lr_stderr r @ err))"

text \<open>A buffer only grows.\<close>

fun growing :: "ContainerLogs list \<Rightarrow> bool" where
  "growing (a # b # ls) \<longleftrightarrow> prefix (lg_stdout a) (lg_stdout b) \<and> prefix (lg_stderr a) (lg_stderr b) \<and> growing (b # ls)"
| "growing ls \<longleftrightarrow> True"

lemma read_logs_drop: "lr_stdout (read_logs (Some l) off) = drop off (lg_stdout l)" "lr_stderr (read_logs (Some l) off) = drop off (lg_stderr l)"
  by (simp_all add: read_logs_def)

lemma growing_prefix: "growing (l # ls) \<Longrightarrow> prefix (lg_stdout l) (lg_stdout (last (l # ls)))"
proof (induction ls arbitrary: l)
  case (Cons a ls)
  then have "prefix (lg_stdout l) (lg_stdout a)" "prefix (lg_stdout a) (lg_stdout (last (a # ls)))" by simp_all
  then have "prefix (lg_stdout l) (lg_stdout (last (a # ls)))" by (rule prefix_order.order_trans)
  then show ?case by simp
qed simp

lemma poll_logs_stdout:
  assumes "growing (l # ls)" and "\<forall>x \<in> set (l # ls). length (lg_stderr x) \<le> length (lg_stdout x)" and "off \<le> length (lg_stdout l)"
  shows "fst (poll_logs off (l # ls)) = drop off (lg_stdout (last (l # ls)))"
  using assms
proof (induction ls arbitrary: l off)
  case Nil
  then show ?case by (simp add: read_logs_drop)
next
  case (Cons a ls)
  have off: "lr_offset (read_logs (Some l) off) = length (lg_stdout l)" using Cons.prems by (simp add: read_logs_def)
  have pre: "prefix (lg_stdout l) (lg_stdout a)" using Cons.prems by simp
  have IH: "fst (poll_logs (length (lg_stdout l)) (a # ls)) = drop (length (lg_stdout l)) (lg_stdout (last (a # ls)))"
    using Cons.prems pre by (intro Cons.IH) (auto dest: prefix_length_le)
  have "prefix (lg_stdout l) (lg_stdout (last (a # ls)))" using growing_prefix [OF Cons.prems(1)] by simp
  then obtain zs where "lg_stdout (last (a # ls)) = lg_stdout l @ zs" by (auto elim: prefixE)
  then show ?case using IH Cons.prems(3)
    by (simp add: read_logs_drop off Let_def split_beta del: poll_logs.simps(2)) (simp add: read_logs_drop off Let_def split_beta)
qed

lemma growing_all: "growing (l # ls) \<Longrightarrow> x \<in> set ls \<Longrightarrow> prefix (lg_stdout l) (lg_stdout x)"
proof (induction ls arbitrary: l)
  case (Cons a ls)
  have la: "prefix (lg_stdout l) (lg_stdout a)" "growing (a # ls)" using Cons.prems(1) by simp_all
  show ?case
  proof (cases "x = a")
    case False
    then have "prefix (lg_stdout a) (lg_stdout x)" using Cons.IH [OF la(2)] Cons.prems(2) by simp
    with la(1) show ?thesis by (rule prefix_order.order_trans)
  qed (use la in simp)
qed simp

text \<open>
  C36: A client that polls the logs, each time at the offset of the last answer, gets the standard output complete and
  without repetition, as long as the error output is never the longer stream. There is one offset for both
  streams, the length of the longer one: error output that arrives while it is shorter than what was already read of
  the standard output is never delivered.
\<close>

theorem log_polling:
  assumes "growing (l # ls)" and "\<forall>x \<in> set (l # ls). length (lg_stderr x) \<le> length (lg_stdout x)"
  shows "fst (poll_logs 0 (l # ls)) = lg_stdout (last (l # ls)) \<and>
    ((\<forall>x \<in> set ls. length (lg_stderr x) \<le> length (lg_stdout l)) \<longrightarrow> snd (poll_logs 0 (l # ls)) = lg_stderr l)"
proof
  show "fst (poll_logs 0 (l # ls)) = lg_stdout (last (l # ls))"
    using poll_logs_stdout [OF assms, of 0] by (simp del: poll_logs.simps)
  have none: "snd (poll_logs off xs) = []" if "B \<le> off" "\<forall>x \<in> set xs. length (lg_stderr x) \<le> B \<and> B \<le> length (lg_stdout x)" for off B xs
    using that
  proof (induction xs arbitrary: off)
    case (Cons a xs)
    then have "snd (poll_logs (lr_offset (read_logs (Some a) off)) xs) = []" by (intro Cons.IH) (auto simp: read_logs_def)
    then show ?case using Cons.prems by (simp add: Let_def split_beta read_logs_drop)
  qed simp
  have "length (lg_stdout l) \<le> length (lg_stdout x)" if "x \<in> set ls" for x
    using growing_all [OF assms(1) that] by (rule prefix_length_le)
  then show "(\<forall>x \<in> set ls. length (lg_stderr x) \<le> length (lg_stdout l)) \<longrightarrow> snd (poll_logs 0 (l # ls)) = lg_stderr l"
    using none [of "length (lg_stdout l)" "lr_offset (read_logs (Some l) 0)" ls]
    by (auto simp: Let_def split_beta read_logs_drop) (simp add: read_logs_def)
qed

theorem log_polling_witness:
  "let a = \<lparr>lg_stdout = [1, 2], lg_stderr = [], lg_eof = False\<rparr>; b = \<lparr>lg_stdout = [1, 2, 3], lg_stderr = [9], lg_eof = True\<rparr>
   in poll_logs 0 [a, b] = ([1, 2, 3], [])"
proof -
  let ?a = "\<lparr>lg_stdout = [1, 2], lg_stderr = [], lg_eof = False\<rparr>" and ?b = "\<lparr>lg_stdout = [1, 2, 3], lg_stderr = [9], lg_eof = True\<rparr>"
  have "growing [?a, ?b]" "\<forall>x \<in> set [?a, ?b]. length (lg_stderr x) \<le> length (lg_stdout x)" by simp_all
  from log_polling [OF this] show ?thesis unfolding Let_def by (simp add: prod_eq_iff del: poll_logs.simps)
qed

subsection \<open>The network request and the listener\<close>

text \<open>
  Waiting for a network device ends: with a clock that runs and sleeps that sleep, 101 rounds are enough, after
  which the device is there or five seconds have passed and the error names it.
\<close>

theorem wait_for_device_returns:
  assumes "clock_ok E clk" and "loop_fuel E = Suc n" and "100 \<le> n"
  shows "fst (wait_for_device E d s) = Inr () \<or>
    fst (wait_for_device E d s) = Inl (msg (''timed out waiting for device '' @ d @ '' to appear at '' @ ''/sys/class/net/'' @ d))"
proof -
  let ?late = "msg (''timed out waiting for device '' @ d @ '' to appear at '' @ ''/sys/class/net/'' @ d)"
  let ?body = "bindE (askb E (FsExists (''/sys/class/net/'' @ d))) (\<lambda>ex. retE (if ex then Some () else None))"
  have cases: "fst (poll_deadline E k dl ?body idle ?late t) \<in> {Inl Diverge, Inr (), Inl ?late}" for k dl idle t
    by (induction k arbitrary: t) (auto simp: prog_simps)
  have "only_calls ?body" by (intro frame_rules)
  moreover have "fst (?body t) \<noteq> Inl Diverge" for t :: "'a world_scheme" by (simp add: prog_simps)
  moreover have "clk (calls s) + 5000 \<le> clk (calls (log_call Now s)) + 50 * n"
    using assms by (auto simp: clock_ok_def log_call_def intro!: add_mono)
  ultimately have "fst (poll_deadline E (Suc n) (clk (calls s) + 5000) ?body (Sleep 50) ?late (log_call Now s)) \<noteq> Inl Diverge"
    by (intro poll_deadline_returns [OF assms(1)]) (simp_all add: msg_def)
  moreover have "wait_for_device E d s = poll_deadline E (Suc n) (clk (calls s) + 5000) ?body (Sleep 50) ?late (log_call Now s)"
    using assms by (simp add: wait_for_device_def Let_def bindE_def clock_now_def clock_ok_def del: poll_deadline.simps)
  ultimately show ?thesis using cases [of "Suc n" "clk (calls s) + 5000" "Sleep 50" "log_call Now s"]
    unfolding insert_iff empty_iff by metis
qed

theorem wait_for_device_returns_witness:
  "let E = calm_env\<lparr>loop_fuel := 101, ans_bool := \<lambda>_ _. False,
         ans_clock := \<lambda>h. sum_list (map (\<lambda>c. case c of Os (P_Sleep d) \<Rightarrow> d | _ \<Rightarrow> 0) h)\<rparr>
   in fst (wait_for_device E ''eth0'' \<lparr>calls = []\<rparr>) \<noteq> Inl Diverge"
proof -
  let ?clk = "\<lambda>h. sum_list (map (\<lambda>c. case c of Os (P_Sleep d) \<Rightarrow> d | _ \<Rightarrow> 0) h)"
  let ?E = "calm_env\<lparr>loop_fuel := 101, ans_bool := \<lambda>_ _. False, ans_clock := ?clk\<rparr>"
  have "clock_ok ?E ?clk" "loop_fuel ?E = Suc 100" "100 \<le> (100 :: nat)" by (simp_all add: clock_ok_def)
  from wait_for_device_returns [OF this, of "''eth0''" "\<lparr>calls = []\<rparr>"] show ?thesis unfolding Let_def by (auto simp: msg_def)
qed

lemma configure_network_after_wait:
  assumes "(if mac = [] then map_err (\<lambda>e. ''device wait: '' @ show_err e) (wait_for_device E (if dev = [] then ''eth0'' else dev)) else retE ()) s = (Inr (), s1)"
  shows "configure_network E ip gw prefix_len dev mac s = (case parse_ipv4 ip of
     None \<Rightarrow> (Inl (msg ''invalid IP: invalid IPv4 address syntax''), s1)
   | Some a \<Rightarrow> if gw \<noteq> [] \<and> parse_ipv4 gw = None then (Inl (msg ''invalid gateway: invalid IPv4 address syntax''), s1)
       else if 32 < prefix_len then (Inl (msg prefix_error), s1)
       else blocking_configure E (if dev = [] then ''eth0'' else dev) a (word_of_nat prefix_len)
         (if gw = [] then None else parse_ipv4 gw) (if mac = [] then None else Some mac) s1)"
proof -
  have "((if mac = [] then None else Some mac) = None) = (mac = [])" by simp
  then show ?thesis using assms unfolding configure_network_def Let_def thenE_apply
    by (simp only: prod.case sum.case) (auto simp: bindE_def ofOptE_def failE_def retE_def split: option.split)
qed

text \<open>
  A network request is validated before anything is configured: where the address or the gateway is not an IPv4
  address, or the prefix length exceeds 32, the answer is an error that says so (unless the wait for the device failed
  first) and the only calls made are those of the wait for the device, none at all where a MAC address selects the device.
\<close>

theorem configure_network_rejects:
  assumes "parse_ipv4 ip = None \<or> gw \<noteq> [] \<and> parse_ipv4 gw = None \<or> 32 < prefix_len"
    and "mac \<noteq> [] \<or> fst (wait_for_device E (if dev = [] then ''eth0'' else dev) s) = Inr ()"
  shows "\<exists>m \<in> {''invalid IP: invalid IPv4 address syntax'', ''invalid gateway: invalid IPv4 address syntax'',
      ''invalid prefix_len: must be between 0 and 32''}.
    configure_network E ip gw prefix_len dev mac s =
      (Inl (msg m), if mac = [] then snd (wait_for_device E (if dev = [] then ''eth0'' else dev) s) else s)"
proof -
  define d where "d = (if dev = [] then ''eth0'' else dev)"
  define s1 where "s1 = (if mac = [] then snd (wait_for_device E d s) else s)"
  have w: "(if mac = [] then map_err (\<lambda>e. ''device wait: '' @ show_err e) (wait_for_device E d) else retE ()) s = (Inr (), s1)"
    using assms(2) by (cases "wait_for_device E d s") (auto simp: map_err_def retE_def s1_def d_def)
  have "\<exists>m \<in> {''invalid IP: invalid IPv4 address syntax'', ''invalid gateway: invalid IPv4 address syntax'', prefix_error}.
      configure_network E ip gw prefix_len dev mac s = (Inl (msg m), s1)"
  proof (cases "parse_ipv4 ip")
    case None
    then show ?thesis using configure_network_after_wait [OF w [unfolded d_def], of ip gw prefix_len] by simp
  next
    case (Some a)
    then show ?thesis using assms(1) configure_network_after_wait [OF w [unfolded d_def], of ip gw prefix_len]
      by (cases "gw \<noteq> [] \<and> parse_ipv4 gw = None") simp_all
  qed
  then show ?thesis unfolding s1_def d_def prefix_error_def .
qed

theorem configure_network_rejects_witness:
  "\<exists>m. configure_network calm_env ''10.0.0.2'' [] 33 [] ''aa:bb:cc:dd:ee:ff'' \<lparr>calls = []\<rparr> = (Inl (msg m), \<lparr>calls = []\<rparr>)"
  using configure_network_rejects [of "''10.0.0.2''" "[]" 33 "''aa:bb:cc:dd:ee:ff''" calm_env "[]" "\<lparr>calls = []\<rparr>"] by auto

text \<open>
  The listener never leaks its socket: creating it ends with a socket that is bound to the port, listening and
  open, or with an error after which no socket is left open, whichever of the three calls failed.
\<close>

theorem listener_no_leak:
  "\<exists>fd. create_vsock_listener E port s =
      (Inr fd, s\<lparr>calls := calls s @ [VsockSocket, VsockBind fd port, VsockListen fd]\<rparr>) \<or>
    (\<exists>m. create_vsock_listener E port s \<in>
      {(Inl (msg m), s\<lparr>calls := calls s @ [VsockSocket]\<rparr>),
       (Inl (msg m), s\<lparr>calls := calls s @ [VsockSocket, VsockBind fd port, VsockClose fd]\<rparr>),
       (Inl (msg m), s\<lparr>calls := calls s @ [VsockSocket, VsockBind fd port, VsockListen fd, VsockClose fd]\<rparr>)})"
  by (cases "ans_nat E (calls s) VsockSocket"; cases "ans_unit E (calls s @ [VsockSocket]) (VsockBind (projr (ans_nat E (calls s) VsockSocket)) port)";
      cases "ans_unit E (calls s @ [VsockSocket, VsockBind (projr (ans_nat E (calls s) VsockSocket)) port]) (VsockListen (projr (ans_nat E (calls s) VsockSocket)))")
    (auto simp: create_vsock_listener_def map_err_def prog_simps log_call_def of_os_def)

end
