(* ===== verification/AgentWire.thy ===== *)
theory AgentWire
  imports Ttrpc AgentServer
begin

text \<open>
  The agent behind the wire: its handlers of \<^verbatim>\<open>server.rs\<close> as the service of \<^verbatim>\<open>agent_ttrpc.rs\<close>. A handler reads
  the fields of a parsed message and fills in the fields of its response; the rest is the handlers of
  \<open>AgentServer\<close>. The properties compose the three layers: what a client asks for through the generated
  code is what the handler does, and what it answers is what the client gets.
\<close>

section \<open>Messages and the values of the handlers\<close>

definition inline_file_of :: "'u InlineFileMsg \<Rightarrow> InlineFileInfo" where
  "inline_file_of f = \<lparr>if_path = inl_path f, if_content = bytes_str (inl_content f), if_mode = inl_mode f\<rparr>"

text \<open>An \<^verbatim>\<open>EnumOrUnknown\<close> is one of the known values or a number.\<close>

definition volume_type_of :: "u32 \<Rightarrow> VolumeType" where
  "volume_type_of v = (case VolumeType_from_i32 v of
      Some VolumeType_FILESYSTEM \<Rightarrow> FILESYSTEM
    | Some VolumeType_BLOCK \<Rightarrow> BLOCK
    | None \<Rightarrow> UnknownVolumeType (sint v))"

definition volume_of :: "'u VolumeMountMsg \<Rightarrow> VolumeMount" where
  "volume_of v = \<lparr>vmt_destination = vmm_destination v, vmt_source = vmm_source v, vmt_readonly = vmm_readonly v,
     vmt_volume_type = volume_type_of (vmm_volume_type v), vmt_fs_type = vmm_fs_type v,
     vmt_files = map inline_file_of (vmm_files v)\<rparr>"

definition request_of :: "'u CreateContainerRequestMsg \<Rightarrow> CreateContainerRequest" where
  "request_of r = \<lparr>cr_container_id = ccr_container_id r, cr_volumes = map volume_of (ccr_volumes r),
     cr_config_json = bytes_str (ccr_config_json r), cr_rootfs_preattached = ccr_rootfs_preattached r,
     cr_erofs_layers = unat (ccr_erofs_layers r)\<rparr>"

definition state_value :: "ContainerState option \<Rightarrow> u32" where
  "state_value st = ContainerState_value (case st of
      None \<Rightarrow> ContainerState_UNKNOWN
    | Some Created \<Rightarrow> ContainerState_CREATED
    | Some Running \<Rightarrow> ContainerState_RUNNING
    | Some Stopped \<Rightarrow> ContainerState_STOPPED)"

text \<open>The error of a handler is its text; a handler that panics does not answer.\<close>

definition handler_error :: "err \<Rightarrow> ttrpc_error" where
  "handler_error e = (case e of Fail cs n \<Rightarrow> Others (show_err e) | _ \<Rightarrow> NoAnswer)"

definition answer :: "('a \<Rightarrow> 'p) \<Rightarrow> (err + 'a) \<times> 's \<Rightarrow> (ttrpc_error + 'p) \<times> 's" where
  "answer f r = (case r of (Inl e, s) \<Rightarrow> (Inl (handler_error e), s) | (Inr x, s) \<Rightarrow> (Inr (f x), s))"

section \<open>The service\<close>

text \<open>
  \<^verbatim>\<open>wait_container\<close> gives up the manager while it waits: \<open>during\<close> is what happens to it until the wait
  ends, and the event that ends it.
\<close>

definition wait_container :: "env \<Rightarrow> (manager \<Rightarrow> wait_event \<times> manager) \<Rightarrow> string \<Rightarrow> (manager, u32 \<times> string) prog" where
  "wait_container E during i s =
     (case wait_begin i s of
        (Inl e, s1) \<Rightarrow> (Inl e, s1)
      | (Inr (Inr x), s1) \<Rightarrow> (Inr x, s1)
      | (Inr (Inl c), s1) \<Rightarrow> (case during s1 of (ev, s2) \<Rightarrow> wait_finish E i c ev s2))"

definition AgentServiceHandler :: "env \<Rightarrow> (manager \<Rightarrow> wait_event \<times> manager) \<Rightarrow> 'u pb_runtime \<Rightarrow> ('u, manager) AgentService" where
  "AgentServiceHandler E during rt =
     \<lparr>svc_create_container = (\<lambda>req s. answer (\<lambda>pid. (CreateContainerResponse_new rt)\<lparr>ccs_pid := pid\<rparr>)
        (create_container E (request_of req) s)),
      svc_start_container = (\<lambda>req s. answer (\<lambda>pid. (StartContainerResponse_new rt)\<lparr>scs_pid := pid\<rparr>)
        (start_container E (scr_container_id req) s)),
      svc_run_container = (\<lambda>req s. answer (\<lambda>pid. (StartContainerResponse_new rt)\<lparr>scs_pid := pid\<rparr>)
        (run_container E (request_of req) s)),
      svc_kill_container = (\<lambda>req s. answer (\<lambda>_. KillContainerResponse_new rt)
        (kill_container E (kcr_container_id req) (kcr_signal req) s)),
      svc_delete_container = (\<lambda>req s. answer (\<lambda>(pid, exit_code). (DeleteContainerResponse_new rt)\<lparr>dcs_pid := pid, dcs_exit_status := exit_code\<rparr>)
        (delete_container E (dcr_container_id req) s)),
      svc_wait_container = (\<lambda>req s. answer (\<lambda>(exit_code, exited_at). (WaitContainerResponse_new rt)\<lparr>wcs_exit_status := exit_code, wcs_exited_at := exited_at\<rparr>)
        (wait_container E during (wcr_container_id req) s)),
      svc_exec_process = (\<lambda>req s. (Inl (RpcStatus UNIMPLEMENTED ''exec_process not yet implemented''), s)),
      svc_state_container = (\<lambda>req s. answer (\<lambda>(pid, st, exit). (StateContainerResponse_new rt)\<lparr>sts_container_id := stq_container_id req,
          sts_pid := pid, sts_status := state_value st, sts_exit_status := exit\<rparr>)
        (state_container (stq_container_id req) s)),
      svc_get_mem_info = (\<lambda>req s. answer (\<lambda>i. (GetMemInfoResponse_new rt)\<lparr>gms_mem_total_kb := of_nat (mem_total_kb i),
          gms_mem_free_kb := of_nat (mem_free_kb i), gms_mem_available_kb := of_nat (mem_available_kb i),
          gms_buffers_kb := of_nat (buffers_kb i), gms_cached_kb := of_nat (cached_kb i),
          gms_swap_total_kb := of_nat (swap_total_kb i), gms_swap_free_kb := of_nat (swap_free_kb i)\<rparr>)
        (get_mem_info E s)),
      svc_get_container_logs = (\<lambda>req s. answer (\<lambda>l. (GetContainerLogsResponse_new rt)\<lparr>gls_stdout := lr_stdout l, gls_stderr := lr_stderr l,
          gls_offset := of_nat (lr_offset l), gls_eof := lr_eof l\<rparr>)
        (get_container_logs (glr_container_id req) (unat (glr_offset req)) s)),
      svc_configure_network = (\<lambda>req s. answer (\<lambda>_. ConfigureNetworkResponse_new rt)
        (configure_network E (cnr_ip_address req) (cnr_gateway req) (unat (cnr_prefix_len req)) (cnr_device req) (cnr_mac req) s)),
      svc_adopt_container = (\<lambda>req s. answer (\<lambda>pid. (AdoptContainerResponse_new rt)\<lparr>acs_pid := pid\<rparr>)
        (adopt_container (acr_old_container_id req) (acr_new_container_id req) s))\<rparr>"

text \<open>\<^verbatim>\<open>version\<close> is the version of the package at build time.\<close>

definition HealthServiceHandler :: "string \<Rightarrow> 'u pb_runtime \<Rightarrow> ('u, manager) HealthService" where
  "HealthServiceHandler version rt =
     \<lparr>svc_check = (\<lambda>req s. (Inr ((CheckResponse_new rt)\<lparr>chs_ready := True, chs_version := version\<rparr>), s))\<rparr>"

text \<open>A connection to the agent: requests reach the tables its server was given.\<close>

definition agent_connection :: "ttrpc_runtime \<Rightarrow> 'u pb_runtime \<Rightarrow> env \<Rightarrow> (manager \<Rightarrow> wait_event \<times> manager) \<Rightarrow> string \<Rightarrow> manager connection \<Rightarrow> bool" where
  "agent_connection tt rt E during version conn \<longleftrightarrow>
     delivers (server_services tt rt (AgentServiceHandler E during rt) (HealthServiceHandler version rt)) conn"

section \<open>The layers composed\<close>

lemma request_of_fresh [simp]: "request_of (CreateContainerRequest_fresh rt r) = request_of r"
  by (simp add: request_of_def CreateContainerRequest_fresh_def volume_of_def VolumeMount_fresh_def
      inline_file_of_def InlineFile_fresh_def comp_def)

lemma answer_Inr: "answer f r = (Inr x, s') \<Longrightarrow> \<exists>y. r = (Inr y, s') \<and> x = f y"
  by (auto simp: answer_def split: prod.splits sum.splits)

lemma reply_answer: "reply tt g (answer f r) =
   (case r of (Inl e, s) \<Rightarrow> (Inl (tt_service_error tt (handler_error e)), s) | (Inr y, s) \<Rightarrow> (Inr (g (f y)), s))"
  by (simp add: reply_def answer_def split: prod.split sum.split)

lemmas response_simps = CreateContainerResponse_defs StartContainerResponse_defs KillContainerResponse_defs
  DeleteContainerResponse_defs WaitContainerResponse_defs SpecialFields_new_def

lemma run_wire:
  assumes "protobuf_runtime rt" and "agent_connection tt rt E during v conn" and "CreateContainerRequest_ok rt req"
  shows "AgentServiceClient_run_container tt rt conn req s =
    (case run_container E (request_of req) s of
       (Inl e, s') \<Rightarrow> (Inl (tt_service_error tt (handler_error e)), s')
     | (Inr pid, s') \<Rightarrow> (Inr ((StartContainerResponse_new rt)\<lparr>scs_pid := pid\<rparr>), s'))"
proof (subst protobuf_runtime.run_container_transparent [OF assms(1) assms(2) [unfolded agent_connection_def] assms(3)])
  fix rep s' assume "svc_run_container (AgentServiceHandler E during rt) (CreateContainerRequest_fresh rt req) s = (Inr rep, s')"
  then show "StartContainerResponse_ok rt rep" by (auto simp: AgentServiceHandler_def response_simps dest!: answer_Inr)
qed (auto simp: AgentServiceHandler_def reply_answer response_simps split: prod.split sum.split)

lemma kill_wire:
  assumes "protobuf_runtime rt" and "agent_connection tt rt E during v conn" and "KillContainerRequest_ok rt req"
  shows "AgentServiceClient_kill_container tt rt conn req s =
    (case kill_container E (kcr_container_id req) (kcr_signal req) s of
       (Inl e, s') \<Rightarrow> (Inl (tt_service_error tt (handler_error e)), s')
     | (Inr _, s') \<Rightarrow> (Inr (KillContainerResponse_new rt), s'))"
proof (subst protobuf_runtime.kill_container_transparent [OF assms(1) assms(2) [unfolded agent_connection_def] assms(3)])
  fix rep s' assume "svc_kill_container (AgentServiceHandler E during rt) (KillContainerRequest_fresh rt req) s = (Inr rep, s')"
  then show "KillContainerResponse_ok rt rep" by (auto simp: AgentServiceHandler_def response_simps dest!: answer_Inr)
qed (auto simp: AgentServiceHandler_def reply_answer response_simps KillContainerRequest_fresh_def split: prod.split sum.split)

lemma delete_wire:
  assumes "protobuf_runtime rt" and "agent_connection tt rt E during v conn" and "DeleteContainerRequest_ok rt req"
  shows "AgentServiceClient_delete_container tt rt conn req s =
    (case delete_container E (dcr_container_id req) s of
       (Inl e, s') \<Rightarrow> (Inl (tt_service_error tt (handler_error e)), s')
     | (Inr (pid, code), s') \<Rightarrow> (Inr ((DeleteContainerResponse_new rt)\<lparr>dcs_pid := pid, dcs_exit_status := code\<rparr>), s'))"
proof (subst protobuf_runtime.delete_container_transparent [OF assms(1) assms(2) [unfolded agent_connection_def] assms(3)])
  fix rep s' assume "svc_delete_container (AgentServiceHandler E during rt) (DeleteContainerRequest_fresh rt req) s = (Inr rep, s')"
  then show "DeleteContainerResponse_ok rt rep" by (auto simp: AgentServiceHandler_def response_simps dest!: answer_Inr)
qed (auto simp: AgentServiceHandler_def reply_answer response_simps DeleteContainerRequest_fresh_def split: prod.split sum.split)

lemma wait_wire:
  assumes "protobuf_runtime rt" and "agent_connection tt rt E during v conn" and "WaitContainerRequest_ok rt req"
    and "\<And>code at s'. wait_container E during (wcr_container_id req) s = (Inr (code, at), s') \<Longrightarrow> string_ok at"
  shows "AgentServiceClient_wait_container tt rt conn req s =
    (case wait_container E during (wcr_container_id req) s of
       (Inl e, s') \<Rightarrow> (Inl (tt_service_error tt (handler_error e)), s')
     | (Inr (code, at), s') \<Rightarrow> (Inr ((WaitContainerResponse_new rt)\<lparr>wcs_exit_status := code, wcs_exited_at := at\<rparr>), s'))"
proof (subst protobuf_runtime.wait_container_transparent [OF assms(1) assms(2) [unfolded agent_connection_def] assms(3)])
  fix rep s' assume "svc_wait_container (AgentServiceHandler E during rt) (WaitContainerRequest_fresh rt req) s = (Inr rep, s')"
  then show "WaitContainerResponse_ok rt rep"
    using assms(4) by (auto simp: AgentServiceHandler_def response_simps WaitContainerRequest_fresh_def dest!: answer_Inr)
qed (auto simp: AgentServiceHandler_def reply_answer response_simps WaitContainerRequest_fresh_def split: prod.split sum.split)

lemma configure_wire:
  assumes "protobuf_runtime rt" and "agent_connection tt rt E during v conn" and "ConfigureNetworkRequest_ok rt req"
  shows "AgentServiceClient_configure_network tt rt conn req s =
    (case configure_network E (cnr_ip_address req) (cnr_gateway req) (unat (cnr_prefix_len req)) (cnr_device req) (cnr_mac req) s of
       (Inl e, s') \<Rightarrow> (Inl (tt_service_error tt (handler_error e)), s')
     | (Inr _, s') \<Rightarrow> (Inr (ConfigureNetworkResponse_new rt), s'))"
proof (subst protobuf_runtime.configure_network_transparent [OF assms(1) assms(2) [unfolded agent_connection_def] assms(3)])
  fix rep s' assume "svc_configure_network (AgentServiceHandler E during rt) (ConfigureNetworkRequest_fresh rt req) s = (Inr rep, s')"
  then show "ConfigureNetworkResponse_ok rt rep" by (auto simp: AgentServiceHandler_def response_simps ConfigureNetworkResponse_defs dest!: answer_Inr)
qed (auto simp: AgentServiceHandler_def reply_answer response_simps ConfigureNetworkResponse_defs ConfigureNetworkRequest_fresh_def split: prod.split sum.split)

section \<open>The life of a container over the wire\<close>


definition direct :: "'s services \<Rightarrow> 's connection" where
  "direct table service method payload s = (case map_of table service of
      None \<Rightarrow> (Inl NoAnswer, s)
    | Some methods \<Rightarrow> (case map_of methods method of None \<Rightarrow> (Inl NoAnswer, s) | Some handler \<Rightarrow> handler payload s))"

lemma delivers_direct: "delivers table (direct table)"
  by (simp add: delivers_def direct_def fun_eq_iff)


end
