(* ===== verification/VmLifecycle.thy ===== *)
theory VmLifecycle
  imports Config
begin

text \<open>
  \<^verbatim>\<open>crates/daemon/src/vm_lifecycle.rs\<close>: booting, snapshotting, restoring and destroying a
  Cloud Hypervisor process through its API socket, and connecting to the guest agent over the
  vsock proxy. Every operation only makes calls (\<open>only_calls_vm_lifecycle\<close>), so it can run in
  the state of any component above it.
\<close>

section \<open>The API socket\<close>

definition api_request ::
  "env \<Rightarrow> path \<Rightarrow> string \<Rightarrow> string \<Rightarrow> string option \<Rightarrow> ('z world_scheme, unit) prog" where
  "api_request E sock meth uri body =
     thenE (ctxE (''connect to CH API: '' @ sock) (ask (ans_unit E) (ApiConnect sock)))
    (thenE (ctxE ''HTTP handshake with CH API'' (ask (ans_unit E) (ApiHandshake sock)))
    (bindE (ctxE ''send request'' (ask (ans_nat E) (ApiSend sock meth uri body))) (\<lambda>status.
       if \<not> (200 \<le> status \<and> status < 300) then
         bindE (ask (ans_str E) (ApiBody sock)) (\<lambda>b.
           failE (msg (''CH API '' @ meth @ '' '' @ uri @ '': '' @ status_text E status @ '' '' @ b)))
       else retE ())))"

definition api_request_with_body ::
  "env \<Rightarrow> path \<Rightarrow> string \<Rightarrow> string \<Rightarrow> string \<Rightarrow> ('z world_scheme, unit) prog" where
  "api_request_with_body E sock meth uri body = api_request E sock meth uri (Some body)"

definition pause_vm :: "env \<Rightarrow> path \<Rightarrow> ('z world_scheme, unit) prog" where
  "pause_vm E sock = api_request E sock ''PUT'' ''/api/v1/vm.pause'' None"

definition resume_vm :: "env \<Rightarrow> path \<Rightarrow> ('z world_scheme, unit) prog" where
  "resume_vm E sock = api_request E sock ''PUT'' ''/api/v1/vm.resume'' None"

definition snapshot_vm :: "env \<Rightarrow> path \<Rightarrow> path \<Rightarrow> ('z world_scheme, unit) prog" where
  "snapshot_vm E sock dest =
     api_request E sock ''PUT'' ''/api/v1/vm.snapshot''
       (Some (json_print E (JObj [(''destination_url'', JStr (''file://'' @ dest))])))"

definition restore_vm :: "env \<Rightarrow> path \<Rightarrow> path \<Rightarrow> ('z world_scheme, unit) prog" where
  "restore_vm E sock src =
     api_request E sock ''PUT'' ''/api/v1/vm.restore''
       (Some (json_print E (JObj [(''source_url'', JStr (''file://'' @ src)),
                                  (''prefault'', JBool False),
                                  (''memory_restore_mode'', JStr ''OnDemand'')])))"

section \<open>Processes\<close>

definition spawn_ch :: "env \<Rightarrow> DaemonConfig \<Rightarrow> path \<Rightarrow> ('z world_scheme, u32) prog" where
  "spawn_ch E cfg dir =
     (let api_socket = join_path dir ''api.sock'' in
      bindE (ctxE ''spawn cloud-hypervisor''
               (ask (ans_nat E) (ProcSpawn (cloud_hypervisor_binary cfg) [''--api-socket'', api_socket])))
        (\<lambda>pid. thenE (ask (ans_unit E) (FsWrite (join_path dir ''ch.pid'') (dec pid)))
                 (retE (word_of_nat pid))))"

definition wait_ch_ready :: "env \<Rightarrow> path \<Rightarrow> ('z world_scheme, unit) prog" where
  "wait_ch_ready E sock =
     bindE (clock_now E) (\<lambda>t0.
       poll_deadline E (loop_fuel E) (t0 + 10000)
         (bindE (askb E (FsExists sock)) (\<lambda>ex.
            if \<not> ex then retE None
            else bindE (catchE (ask (ans_unit E) (ApiConnect sock))) (\<lambda>r.
              case r of Inl _ \<Rightarrow> retE None | Inr _ \<Rightarrow> retE (Some ()))))
         (Sleep 10) (msg (''CH API socket not ready: '' @ sock)))"

definition connect_cmd :: string where
  "connect_cmd = ''CONNECT '' @ dec (unat AGENT_VSOCK_PORT) @ [CHR 0x0A]"

definition try_agent_health :: "env \<Rightarrow> path \<Rightarrow> ('z world_scheme, unit) prog" where
  "try_agent_health E vsock =
     thenE (ask (ans_unit E) (VsockConnect vsock))
    (thenE (ask (ans_unit E) (VsockWrite vsock connect_cmd))
    (bindE (askl E (VsockReadLine vsock 2)) (\<lambda>r. case r of
        None \<Rightarrow> failE (msg ''deadline has elapsed'')
      | Some (Inl e) \<Rightarrow> failE (of_os e)
      | Some (Inr response) \<Rightarrow>
          if starts_with ''OK'' response then retE ()
          else failE (msg (''vsock CONNECT failed: '' @ trim response)))))"

definition wait_for_agent :: "env \<Rightarrow> path \<Rightarrow> ('z world_scheme, unit) prog" where
  "wait_for_agent E vsock =
     bindE (clock_now E) (\<lambda>t0.
       poll_deadline E (loop_fuel E) (t0 + 30000)
         (bindE (askb E (FsExists vsock)) (\<lambda>ex.
            if \<not> ex then retE None
            else bindE (catchE (try_agent_health E vsock)) (\<lambda>r.
              case r of Inl _ \<Rightarrow> retE None | Inr _ \<Rightarrow> retE (Some ()))))
         Yield (msg (''agent not responding on vsock: '' @ vsock)))"

definition connect_agent :: "env \<Rightarrow> path \<Rightarrow> ('z world_scheme, agent) prog" where
  "connect_agent E vsock =
     thenE (ctxE (''connect vsock: '' @ vsock) (ask (ans_unit E) (VsockConnect vsock)))
    (thenE (ask (ans_unit E) (VsockWrite vsock connect_cmd))
    (bindE (askl E (VsockReadLine vsock 5)) (\<lambda>r. case r of
        None \<Rightarrow> failE (msg ''vsock CONNECT handshake timed out'')
      | Some (Inl e) \<Rightarrow> failE (add_ctx ''vsock read'' (of_os e))
      | Some (Inr response) \<Rightarrow>
          if \<not> starts_with ''OK'' response
          then failE (msg (''vsock CONNECT failed: '' @ trim response))
          else ask (ans_nat E) (VsockOpen vsock))))"

text \<open>One round of the wait for the process to exit: look at its \<^verbatim>\<open>/proc\<close> entry, clean up when it is gone.\<close>

definition exit_round :: "env \<Rightarrow> path \<Rightarrow> path \<Rightarrow> ('z world_scheme, unit option) prog" where
  "exit_round E proc dir =
     bindE (askb E (FsExists proc)) (\<lambda>alive.
       if \<not> alive then thenE (tell (FsRemoveDirAll dir)) (retE (Some ())) else retE None)"

text \<open>SIGTERM, up to 200 looks at \<^verbatim>\<open>/proc\<close> 5 ms apart, then SIGKILL; the state directory goes last.\<close>

definition shutdown_and_destroy :: "env \<Rightarrow> path \<Rightarrow> u32 \<Rightarrow> path \<Rightarrow> ('z world_scheme, unit) prog" where
  "shutdown_and_destroy E api_socket ch_pid dir =
     thenE (tell (ProcKill ch_pid 15))
      (poll_times 200 (exit_round E (''/proc/'' @ dec (unat ch_pid)) dir) (Sleep 5)
        (thenE (tell (ProcKill ch_pid 9)) (thenE (tell (Sleep 10)) (tell (FsRemoveDirAll dir)))))"

section \<open>Booting\<close>

definition disk_json :: "string \<times> string \<times> bool \<Rightarrow> json" where
  "disk_json d = (case d of (p, i, ro) \<Rightarrow>
     JObj [(''path'', JStr p), (''readonly'', JBool ro), (''id'', JStr i)])"

definition boot_vm_config ::
  "DaemonConfig \<Rightarrow> path \<Rightarrow> u64 \<Rightarrow> string option \<Rightarrow> string option \<Rightarrow> (string \<times> string \<times> bool) list \<Rightarrow> json"
where
  "boot_vm_config cfg dir cid tap mac extra_disks = JObj
     [(''payload'', JObj [(''kernel'', JStr (kernel_path cfg)), (''cmdline'', JStr (kernel_args cfg))]),
      (''cpus'', JObj [(''boot_vcpus'', JNum (unat (default_vcpus cfg))),
                       (''max_vcpus'', JNum (unat (default_vcpus cfg)))]),
      (''memory'', JObj [(''size'', JNum (unat (default_memory_mb cfg * 1024 * 1024))),
                         (''shared'', JBool True)]),
      (''disks'', JArr (disk_json (rootfs_path cfg, ''_disk0'', True) # map disk_json extra_disks)),
      (''net'', JArr (case (tap, mac) of
          (Some t, Some m) \<Rightarrow> [JObj [(''tap'', JStr t), (''mac'', JStr m)]]
        | _ \<Rightarrow> [])),
      (''serial'', JObj [(''mode'', JStr ''File''), (''file'', JStr (join_path dir ''console.log''))]),
      (''console'', JObj [(''mode'', JStr ''Off'')]),
      (''vsock'', JObj [(''cid'', JNum (unat cid)), (''socket'', JStr (join_path dir ''vsock.sock''))])]"

definition boot_vm ::
  "env \<Rightarrow> DaemonConfig \<Rightarrow> path \<Rightarrow> u64 \<Rightarrow> string option \<Rightarrow> string option \<Rightarrow>
   (string \<times> string \<times> bool) list \<Rightarrow> ('z world_scheme, u32) prog" where
  "boot_vm E cfg dir cid tap mac extra_disks =
     bindE (spawn_ch E cfg dir) (\<lambda>ch_pid.
     let api_socket = join_path dir ''api.sock'' in
     thenE (wait_ch_ready E api_socket)
    (thenE (ask (ans_unit E) (FsCreate (join_path dir ''console.log'')))
    (thenE (api_request E api_socket ''PUT'' ''/api/v1/vm.create''
              (Some (json_print E (boot_vm_config cfg dir cid tap mac extra_disks))))
    (thenE (api_request E api_socket ''PUT'' ''/api/v1/vm.boot'' None)
    (thenE (ask (ans_unit E) (FsWrite (join_path dir ''ch.pid'') (dec (unat ch_pid))))
      (retE ch_pid))))))"

section \<open>Preparing a snapshot for one VM\<close>

text \<open>A hard link, or a copy when the link would cross file systems (EXDEV).\<close>

definition link_or_copy :: "env \<Rightarrow> path \<Rightarrow> path \<Rightarrow> ('z world_scheme, unit) prog" where
  "link_or_copy E src dst =
     bindE (catchE (ask (ans_unit E) (FsHardLink src dst))) (\<lambda>r. case r of
        Inr _ \<Rightarrow> retE ()
      | Inl e \<Rightarrow> if err_os e = Some 18 then ask (ans_unit E) (FsCopy src dst) else failE e)"

fun link_all :: "env \<Rightarrow> path \<Rightarrow> path \<Rightarrow> string list \<Rightarrow> ('z world_scheme, unit) prog" where
  "link_all E base work [] = retE ()"
| "link_all E base work (name # names) =
     thenE (ctxE (''link '' @ name @ '' from base snapshot'')
              (link_or_copy E (join_path base name) (join_path work name)))
           (link_all E base work names)"

definition patch_vsock :: "u64 \<Rightarrow> path \<Rightarrow> json \<Rightarrow> json" where
  "patch_vsock cid sock = j_at [''vsock''] (\<lambda>v. j_set ''socket'' (JStr sock) (j_set ''cid'' (JNum (unat cid)) v))"

definition patch_serial :: "path \<Rightarrow> json \<Rightarrow> json" where
  "patch_serial console = j_at [''serial''] (\<lambda>v.
     if Option.bind (j_get ''mode'' v) as_str = Some ''File'' then j_set ''file'' (JStr console) v else v)"

definition prepare_snapshot ::
  "env \<Rightarrow> path \<Rightarrow> path \<Rightarrow> u64 \<Rightarrow> path \<Rightarrow> ('z world_scheme, path) prog" where
  "prepare_snapshot E base_dir vm_state_dir new_cid new_vsock =
     (let work_dir = join_path vm_state_dir ''snapshot'';
          console_path = join_path vm_state_dir ''console.log'' in
      thenE (ask (ans_unit E) (FsCreateDirAll work_dir))
     (thenE (link_all E base_dir work_dir [''memory-ranges'', ''state.json''])
     (bindE (ask (ans_str E) (FsRead (join_path base_dir ''config.json''))) (\<lambda>config_str.
      bindE (parse_json E config_str) (\<lambda>config.
      thenE (ask (ans_unit E) (FsCreate console_path))
     (thenE (ask (ans_unit E) (FsWrite (join_path work_dir ''config.json'')
               (json_pretty E (patch_serial console_path (patch_vsock new_cid new_vsock config)))))
        (retE work_dir)))))))"

section \<open>Frame\<close>

lemma only_calls_link_all [frame_rules]: "only_calls (link_all E base work names)"
  by (induction names) (auto intro!: frame_rules simp: link_or_copy_def)

lemma only_calls_vm_lifecycle [frame_rules]:
  "only_calls (api_request E sock meth uri body)" "only_calls (api_request_with_body E sock meth uri b)"
  "only_calls (pause_vm E sock)" "only_calls (resume_vm E sock)" "only_calls (snapshot_vm E sock d)"
  "only_calls (restore_vm E sock d)" "only_calls (spawn_ch E cfg d)" "only_calls (wait_ch_ready E sock)"
  "only_calls (try_agent_health E v)" "only_calls (wait_for_agent E v)" "only_calls (connect_agent E v)"
  "only_calls (shutdown_and_destroy E sock pid d)" "only_calls (boot_vm E cfg d cid tap mac ds)"
  "only_calls (prepare_snapshot E base d cid v)"
  unfolding api_request_def api_request_with_body_def pause_vm_def resume_vm_def snapshot_vm_def
    restore_vm_def spawn_ch_def wait_ch_ready_def try_agent_health_def wait_for_agent_def
    connect_agent_def shutdown_and_destroy_def exit_round_def boot_vm_def prepare_snapshot_def Let_def
  by (intro frame_rules)+

section \<open>Destroying a VM\<close>

text \<open>One look that finds the process alive, with the pause after it.\<close>

definition destroy_rounds :: "path \<Rightarrow> nat \<Rightarrow> call list" where
  "destroy_rounds proc k = concat (replicate k [FsExists proc, Sleep 5])"

lemma destroy_rounds_simps [simp]:
  "destroy_rounds proc 0 = []"
  "destroy_rounds proc (Suc k) = FsExists proc # Sleep 5 # destroy_rounds proc k"
  by (simp_all add: destroy_rounds_def)

lemma poll_times_rounds:
  "\<exists>k \<le> n. (\<forall>i < k. ans_bool E (calls s @ destroy_rounds proc i) (FsExists proc)) \<and>
     (if k < n then \<not> ans_bool E (calls s @ destroy_rounds proc k) (FsExists proc) \<and>
          poll_times n (exit_round E proc dir) (Sleep 5) late s =
            (Inr (), s\<lparr>calls := calls s @ destroy_rounds proc k @ [FsExists proc, FsRemoveDirAll dir]\<rparr>)
      else poll_times n (exit_round E proc dir) (Sleep 5) late s = late (s\<lparr>calls := calls s @ destroy_rounds proc k\<rparr>))"
proof (induction n arbitrary: s)
  case 0
  show ?case by simp
next
  case (Suc n)
  show ?case
  proof (cases "ans_bool E (calls s) (FsExists proc)")
    case False
    then show ?thesis by (intro exI [of _ 0]) (simp add: exit_round_def prog_simps log_call_def)
  next
    case True
    let ?s = "s\<lparr>calls := calls s @ [FsExists proc, Sleep 5]\<rparr>"
    obtain k where k: "k \<le> n" "\<forall>i < k. ans_bool E (calls ?s @ destroy_rounds proc i) (FsExists proc)"
      "if k < n then \<not> ans_bool E (calls ?s @ destroy_rounds proc k) (FsExists proc) \<and>
          poll_times n (exit_round E proc dir) (Sleep 5) late ?s =
            (Inr (), ?s\<lparr>calls := calls ?s @ destroy_rounds proc k @ [FsExists proc, FsRemoveDirAll dir]\<rparr>)
       else poll_times n (exit_round E proc dir) (Sleep 5) late ?s = late (?s\<lparr>calls := calls ?s @ destroy_rounds proc k\<rparr>)"
      using Suc.IH [of ?s] by blast
    have "poll_times (Suc n) (exit_round E proc dir) (Sleep 5) late s = poll_times n (exit_round E proc dir) (Sleep 5) late ?s"
      using True by (simp add: exit_round_def prog_simps log_call_def)
    moreover have "\<forall>i < Suc k. ans_bool E (calls s @ destroy_rounds proc i) (FsExists proc)"
      using k(2) True by (auto simp: less_Suc_eq_0_disj)
    ultimately show ?thesis using k(1,3) by (intro exI [of _ "Suc k"]) (auto split: if_splits)
  qed
qed

lemma shutdown_and_destroy_run:
  "let proc = ''/proc/'' @ dec (unat ch_pid); h = calls s @ [ProcKill ch_pid 15] in
   \<exists>k \<le> 200. (\<forall>i < k. ans_bool E (h @ destroy_rounds proc i) (FsExists proc)) \<and>
     (k < 200 \<longrightarrow> \<not> ans_bool E (h @ destroy_rounds proc k) (FsExists proc)) \<and>
     shutdown_and_destroy E sock ch_pid dir s =
       (Inr (), s\<lparr>calls := h @ destroy_rounds proc k @
          (if k < 200 then [FsExists proc, FsRemoveDirAll dir]
           else [ProcKill ch_pid 9, Sleep 10, FsRemoveDirAll dir])\<rparr>)"
proof -
  let ?proc = "''/proc/'' @ dec (unat ch_pid)"
  let ?late = "thenE (tell (ProcKill ch_pid 9)) (thenE (tell (Sleep 10)) (tell (FsRemoveDirAll dir)))"
  let ?s = "s\<lparr>calls := calls s @ [ProcKill ch_pid 15]\<rparr>"
  have late: "?late t = (Inr (), t\<lparr>calls := calls t @ [ProcKill ch_pid 9, Sleep 10, FsRemoveDirAll dir]\<rparr>)"
    for t :: "'a world_scheme"
    by (simp add: prog_simps log_call_def)
  have eq: "shutdown_and_destroy E sock ch_pid dir s =
      poll_times 200 (exit_round E ?proc dir) (Sleep 5) ?late ?s"
    unfolding shutdown_and_destroy_def thenE_def [of "tell (ProcKill ch_pid 15)"]
    by (simp add: bindE_def [of "tell (ProcKill ch_pid 15)"] tell_def log_call_def)
  from poll_times_rounds [of 200 E ?s ?proc dir ?late] show ?thesis unfolding eq late Let_def
    by (auto split: if_splits)
qed

lemma shutdown_and_destroy_Inr:
  obtains cs where "shutdown_and_destroy E sock ch_pid dir s = (Inr (), s\<lparr>calls := calls s @ cs @ [FsRemoveDirAll dir]\<rparr>)"
    and "\<And>p sig. ProcKill p sig \<in> set cs \<Longrightarrow> p = ch_pid"
proof -
  let ?proc = "''/proc/'' @ dec (unat ch_pid)"
  have r: "ProcKill p sig \<notin> set (destroy_rounds ?proc k)" for p sig k by (induction k) simp_all
  obtain k where "shutdown_and_destroy E sock ch_pid dir s =
       (Inr (), s\<lparr>calls := (calls s @ [ProcKill ch_pid 15]) @ destroy_rounds ?proc k @
          (if k < 200 then [FsExists ?proc, FsRemoveDirAll dir]
           else [ProcKill ch_pid 9, Sleep 10, FsRemoveDirAll dir])\<rparr>)"
    using shutdown_and_destroy_run [of ch_pid s E sock dir] unfolding Let_def by blast
  with r show thesis
    by (intro that [of "ProcKill ch_pid 15 # destroy_rounds ?proc k @
        (if k < 200 then [FsExists ?proc] else [ProcKill ch_pid 9, Sleep 10])"])
      (auto split: if_splits)
qed

text \<open>
  C18: Destroying a VM always succeeds and its calls are known exactly: SIGTERM first; then the
  process is looked at, at most 200 times and 5 ms apart, until it is gone; only when all 200
  looks find it alive is SIGKILL sent; and the last call on every path removes the VM's state
  directory.
\<close>

theorem shutdown_and_destroy_calls:
  "let proc = ''/proc/'' @ dec (unat ch_pid); h = calls s @ [ProcKill ch_pid 15] in
   \<exists>k \<le> 200. (\<forall>i < k. ans_bool E (h @ destroy_rounds proc i) (FsExists proc)) \<and>
     (k < 200 \<longrightarrow> \<not> ans_bool E (h @ destroy_rounds proc k) (FsExists proc)) \<and>
     shutdown_and_destroy E sock ch_pid dir s =
       (Inr (), s\<lparr>calls := h @ destroy_rounds proc k @
          (if k < 200 then [FsExists proc, FsRemoveDirAll dir]
           else [ProcKill ch_pid 9, Sleep 10, FsRemoveDirAll dir])\<rparr>)"
  by (rule shutdown_and_destroy_run)

theorem shutdown_and_destroy_calls_witness:
  "\<exists>k \<le> 200. fst (shutdown_and_destroy calm_env ''/a'' 7 ''/d'' \<lparr>calls = []\<rparr>) = Inr () \<and>
     (k < 200 \<longrightarrow> \<not> ans_bool calm_env (destroy_rounds ''/proc/7'' k) (FsExists ''/proc/7''))"
  using shutdown_and_destroy_calls [of 7 "\<lparr>calls = []\<rparr>" calm_env "''/a''" "''/d''"]
  by (auto simp: Let_def)

section \<open>Patching a snapshot\<close>

lemma j_get_j_at:
  "j_get k (j_at [k'] f (JObj ms)) =
     (if k = k' then map_option f (map_of ms k) else map_of ms k)"
  by (auto split: option.split simp: update_conv')

lemma j_at_obj: "\<exists>ms'. j_at [k] f (JObj ms) = JObj ms'"
  by (auto split: option.split)

definition patched :: "path \<Rightarrow> u64 \<Rightarrow> path \<Rightarrow> json \<Rightarrow> json" where
  "patched vm_state_dir cid vsock j =
     patch_serial (join_path vm_state_dir ''console.log'') (patch_vsock cid vsock j)"

lemma j_get_patched:
  "j_get k (patched d cid v (JObj ms)) =
     (if k = ''vsock'' then map_option (\<lambda>x. j_set ''socket'' (JStr v) (j_set ''cid'' (JNum (unat cid)) x)) (map_of ms k)
      else if k = ''serial'' then map_option (\<lambda>x. if Option.bind (j_get ''mode'' x) as_str = Some ''File''
             then j_set ''file'' (JStr (join_path d ''console.log'')) x else x) (map_of ms k)
      else map_of ms k)"
proof -
  obtain ms' where ms': "patch_vsock cid v (JObj ms) = JObj ms'"
    unfolding patch_vsock_def using j_at_obj by blast
  have "map_of ms' k' = (if k' = ''vsock'' then map_option (\<lambda>x. j_set ''socket'' (JStr v)
      (j_set ''cid'' (JNum (unat cid)) x)) (map_of ms k') else map_of ms k')" for k'
    using arg_cong [OF ms', of "j_get k'"] unfolding patch_vsock_def j_get_j_at by simp
  then show ?thesis unfolding patched_def patch_serial_def ms' j_get_j_at by simp
qed

lemma prepare_snapshot_result:
  assumes "prepare_snapshot E base d cid v s = (Inr w, s')"
  shows "w = join_path d ''snapshot'' \<and>
     (\<exists>h c j. ans_str E h (FsRead (join_path base ''config.json'')) = Inr c \<and> json_parse E c = Some j \<and>
        last (calls s') = FsWrite (join_path w ''config.json'') (json_pretty E (patched d cid v j)))"
  using assms unfolding prepare_snapshot_def patched_def [symmetric] Let_def
  by (elim inr_elims) (fastforce simp: inr_simps log_call_def)



section \<open>Waiting for the API socket\<close>

lemma poll_deadline_outcome:
  assumes "\<And>s. \<exists>x. fst (body s) = Inr x"
  shows "fst (poll_deadline E n dl body idle late s) = Inl Diverge \<or>
    fst (poll_deadline E n dl body idle late s) = Inl late \<or>
    (\<exists>x. fst (poll_deadline E n dl body idle late s) = Inr x)"
proof (induction n arbitrary: s)
  case (Suc n)
  obtain x s1 where "body (log_call Now s) = (Inr x, s1)"
    using assms [of "log_call Now s"] by (metis prod.collapse)
  with Suc.IH [of "log_call idle s1"] show ?case
    by (cases x) (simp_all add: bindE_def clock_now_def thenE_def tell_def retE_def failE_def)
qed (simp add: failE_def)

text \<open>
  C38: Waiting for the API socket ends within 10 seconds of clock time: with a clock that runs
  and sleeps that sleep, 1001 rounds are enough, and the outcome is success or the timeout
  error, nothing else.
\<close>

theorem wait_ch_ready_returns:
  assumes clk: "clock_ok E clk" and fuel: "1000 < loop_fuel E"
  shows "fst (wait_ch_ready E sock s) = Inr () \<or>
         fst (wait_ch_ready E sock s) = Inl (msg (''CH API socket not ready: '' @ sock))"
proof -
  let ?body = "bindE (askb E (FsExists sock)) (\<lambda>ex.
            if \<not> ex then retE None
            else bindE (catchE (ask (ans_unit E) (ApiConnect sock))) (\<lambda>r.
              case r of Inl _ \<Rightarrow> retE None | Inr _ \<Rightarrow> retE (Some ()))) :: ('a world_scheme, unit option) prog"
  let ?late = "msg (''CH API socket not ready: '' @ sock)"
  let ?t0 = "clk (calls s)" and ?s = "log_call Now s"
  obtain n where n: "loop_fuel E = Suc n" "1000 \<le> n" using fuel by (cases "loop_fuel E") auto
  have now: "ans_clock E h = clk h" for h using clk by (simp add: clock_ok_def)
  have eq: "wait_ch_ready E sock s = poll_deadline E (Suc n) (?t0 + 10000) ?body (Sleep 10) ?late ?s"
    unfolding wait_ch_ready_def n by (simp add: bindE_def [of "clock_now E"] clock_now_def now)
  have body: "\<exists>x. fst (?body s) = Inr x" for s
    by (simp add: prog_simps of_os_def split: sum.split)
  then have nd: "fst (?body s) \<noteq> Inl Diverge" for s by (metis sum.distinct(1))
  have "?t0 \<le> clk (calls ?s)" using clk by (simp add: clock_ok_def log_call_def)
  then have "fst (wait_ch_ready E sock s) \<noteq> Inl Diverge"
    unfolding eq using n(2) nd
    by (intro poll_deadline_returns [OF clk]) (auto intro!: frame_rules simp: msg_def)
  with poll_deadline_outcome [of ?body E "Suc n" "?t0 + 10000" "Sleep 10" ?late ?s] body
  show ?thesis unfolding eq by auto
qed

theorem wait_ch_ready_returns_witness:
  "let E = calm_env\<lparr>loop_fuel := 1001, ans_bool := \<lambda>_ _. False,
             ans_clock := \<lambda>h. sum_list (map (\<lambda>c. case c of Os (P_Sleep d) \<Rightarrow> d | _ \<Rightarrow> 0) h)\<rparr>
   in fst (wait_ch_ready E ''/x'' \<lparr>calls = []\<rparr>) = Inr () \<or>
      fst (wait_ch_ready E ''/x'' \<lparr>calls = []\<rparr>) = Inl (msg ''CH API socket not ready: /x'')"
proof -
  let ?clk = "\<lambda>h. sum_list (map (\<lambda>c. case c of Os (P_Sleep d) \<Rightarrow> d | _ \<Rightarrow> 0) h)"
  let ?E = "calm_env\<lparr>loop_fuel := 1001, ans_bool := \<lambda>_ _. False, ans_clock := ?clk\<rparr>"
  have "clock_ok ?E ?clk" by (simp add: clock_ok_def)
  from wait_ch_ready_returns [OF this, of "''/x''" "\<lparr>calls = []\<rparr>"] show ?thesis by (simp add: Let_def)
qed

end
