(* ===== verification/Pool.thy ===== *)
theory Pool
  imports VmLifecycle
begin

text \<open>
  \<^verbatim>\<open>crates/daemon/src/pool.rs\<close>: the pool of VMs restored from the base snapshot. The state is
  the vector of ready VMs, the map of active VMs, the atomic counter of active VMs and the atomic
  CID allocator; the configuration is a parameter. The state record extends the call history,
  and the records of the components above extend it in turn, so every operation here runs
  unchanged in theirs. An operation runs to its end here; what two interleaved restores can do
  to each other is the subject of the theory of concurrent restores.
\<close>

record PoolVm =
  vm_id :: string
  vm_api_socket :: path
  vm_vsock_socket :: path
  vm_cid :: u64
  vm_ch_pid :: u32
  vm_created_at :: nat

record pool = world +
  ready :: "PoolVm list"
  active :: "PoolVm hmap"
  active_count :: u64
  next_cid :: u64

section \<open>Operations\<close>

definition Pool_new :: "call list \<Rightarrow> pool" where
  "Pool_new h = \<lparr>calls = h, ready = [], active = [], active_count = 0, next_cid = 3\<rparr>"

text \<open>\<^verbatim>\<open>fetch_add(1)\<close> on the allocator; the addition wraps.\<close>

definition alloc_cid :: "('z pool_scheme, u64) prog" where
  "alloc_cid = bindE (getE next_cid) (\<lambda>n. thenE (modE (\<lambda>s. s\<lparr>next_cid := n + 1\<rparr>)) (retE n))"

definition base_snapshot_valid :: "env \<Rightarrow> path \<Rightarrow> ('z world_scheme, bool) prog" where
  "base_snapshot_valid E base_dir =
     bindE (askb E (FsExists (join_path base_dir ''config.json''))) (\<lambda>c.
       if \<not> c then retE False else
       bindE (askb E (FsExists (join_path base_dir ''memory-ranges''))) (\<lambda>m.
         if \<not> m then retE False else askb E (FsExists (join_path base_dir ''state.json''))))"

definition create_base_snapshot :: "env \<Rightarrow> DaemonConfig \<Rightarrow> path \<Rightarrow> ('z pool_scheme, unit) prog" where
  "create_base_snapshot E cfg base_dir =
     thenE (ask (ans_unit E) (FsCreateDirAll base_dir))
    (bindE alloc_cid (\<lambda>cid.
     let dir = join_path (state_dir cfg) (''base-snapshot-'' @ dec (unat (process_id E)));
         api_socket = join_path dir ''api.sock''; vsock_socket = join_path dir ''vsock.sock'' in
     thenE (ask (ans_unit E) (FsCreateDirAll dir))
    (bindE (ctxE ''boot base VM'' (boot_vm E cfg dir cid None None [])) (\<lambda>ch_pid.
     thenE (ctxE ''agent connect for base snapshot'' (wait_for_agent E vsock_socket))
    (thenE (pause_vm E api_socket)
    (thenE (snapshot_vm E api_socket base_dir)
           (shutdown_and_destroy E api_socket ch_pid dir)))))))"

definition pool_vm_id :: "env \<Rightarrow> u64 \<Rightarrow> string" where
  "pool_vm_id E n = ''pool-'' @ dec (unat (process_id E)) @ ''-'' @ dec (unat n)"

text \<open>The part of \<^verbatim>\<open>restore_one\<close> after the identifier and the CID have been drawn.\<close>

definition restore_base :: "env \<Rightarrow> DaemonConfig \<Rightarrow> string \<Rightarrow> u64 \<Rightarrow> ('z world_scheme, PoolVm) prog" where
  "restore_base E cfg i cid =
     (let dir = join_path (state_dir cfg) i;
          vsock_socket = join_path dir ''vsock.sock''; api_socket = join_path dir ''api.sock'' in
     thenE (ask (ans_unit E) (FsCreateDirAll dir))
    (bindE (prepare_snapshot E (base_snapshot_dir cfg) dir cid vsock_socket) (\<lambda>snapshot_dir.
     bindE (spawn_ch E cfg dir) (\<lambda>ch_pid.
     thenE (wait_ch_ready E api_socket)
    (thenE (restore_vm E api_socket snapshot_dir)
    (thenE (resume_vm E api_socket)
    (thenE (ctxE ''agent connect after restore'' (wait_for_agent E vsock_socket))
    (bindE (clock_now E) (\<lambda>t.
       retE \<lparr>vm_id = i, vm_api_socket = api_socket, vm_vsock_socket = vsock_socket,
             vm_cid = cid, vm_ch_pid = ch_pid, vm_created_at = t\<rparr>)))))))))"

text \<open>The identifier is read from the allocator before the allocator is advanced.\<close>

definition restore_one :: "env \<Rightarrow> DaemonConfig \<Rightarrow> ('z pool_scheme, PoolVm) prog" where
  "restore_one E cfg =
     bindE (getE next_cid) (\<lambda>n. bindE alloc_cid (\<lambda>cid. restore_base E cfg (pool_vm_id E n) cid))"

definition push_ready :: "PoolVm \<Rightarrow> ('z pool_scheme, unit) prog" where
  "push_ready vm = modE (\<lambda>s. s\<lparr>ready := ready s @ [vm]\<rparr>)"

text \<open>The loop of \<^verbatim>\<open>initialize\<close>: a restore that fails is logged and skipped.\<close>

fun fill_pool :: "env \<Rightarrow> DaemonConfig \<Rightarrow> nat \<Rightarrow> ('z pool_scheme, unit) prog" where
  "fill_pool E cfg 0 = retE ()"
| "fill_pool E cfg (Suc n) =
     bindE (catchE (restore_one E cfg)) (\<lambda>r. case r of
        Inr vm \<Rightarrow> thenE (push_ready vm) (fill_pool E cfg n)
      | Inl _ \<Rightarrow> fill_pool E cfg n)"

definition initialize :: "env \<Rightarrow> DaemonConfig \<Rightarrow> ('z pool_scheme, unit) prog" where
  "initialize E cfg =
     bindE (base_snapshot_valid E (base_snapshot_dir cfg)) (\<lambda>v.
     thenE (if \<not> v then create_base_snapshot E cfg (base_snapshot_dir cfg) else retE ())
           (fill_pool E cfg (pool_size cfg)))"

text \<open>\<^verbatim>\<open>register_active\<close>: the counter first, then the map.\<close>

definition register_active :: "PoolVm \<Rightarrow> ('z pool_scheme, unit) prog" where
  "register_active vm =
     thenE (modE (\<lambda>s. s\<lparr>active_count := active_count s + 1\<rparr>))
           (modE (\<lambda>s. s\<lparr>active := AList.update (vm_id vm) vm (active s)\<rparr>))"

text \<open>\<^verbatim>\<open>Vec::pop\<close> takes the youngest ready VM.\<close>

definition pop_ready :: "('z pool_scheme, PoolVm option) prog" where
  "pop_ready = bindE (getE ready) (\<lambda>vs.
     if vs = [] then retE None
     else thenE (modE (\<lambda>s. s\<lparr>ready := butlast vs\<rparr>)) (retE (Some (last vs))))"

definition acquire :: "env \<Rightarrow> DaemonConfig \<Rightarrow> ('z pool_scheme, PoolVm) prog" where
  "acquire E cfg =
     bindE pop_ready (\<lambda>popped. case popped of
        Some vm \<Rightarrow> thenE (register_active vm) (retE vm)
      | None \<Rightarrow> bindE (restore_one E cfg) (\<lambda>vm. thenE (register_active vm) (retE vm)))"

text \<open>
  The directory scan of \<^verbatim>\<open>destroy_vm\<close>: the first \<^verbatim>\<open>ch.pid\<close> with a readable process id; an entry
  that cannot be read or parsed is passed over.
\<close>

fun find_ch_pid :: "env \<Rightarrow> path \<Rightarrow> string list \<Rightarrow> ('z world_scheme, u32 option) prog" where
  "find_ch_pid E dir [] = retE None"
| "find_ch_pid E dir (f # fs) =
     (if f = ''ch.pid'' then
        bindE (catchE (ask (ans_str E) (FsRead (join_path dir f)))) (\<lambda>r. case r of
           Inl _ \<Rightarrow> find_ch_pid E dir fs
         | Inr x \<Rightarrow> (case parse_uint 32 (trim x) of
              None \<Rightarrow> find_ch_pid E dir fs
            | Some n \<Rightarrow> retE (Some (word_of_nat n))))
      else find_ch_pid E dir fs)"

definition destroy_vm :: "env \<Rightarrow> DaemonConfig \<Rightarrow> string \<Rightarrow> ('z world_scheme, unit) prog" where
  "destroy_vm E cfg i =
     (let dir = join_path (state_dir cfg) i; api_socket = join_path dir ''api.sock'' in
      bindE (catchE (ask (ans_strs E) (FsReadDir dir))) (\<lambda>r.
      bindE (case r of Inl _ \<Rightarrow> retE None | Inr entries \<Rightarrow> find_ch_pid E dir entries) (\<lambda>po.
        case po of
          Some pid \<Rightarrow> shutdown_and_destroy E api_socket pid dir
        | None \<Rightarrow> tell (FsRemoveDirAll dir))))"

definition release :: "env \<Rightarrow> DaemonConfig \<Rightarrow> string \<Rightarrow> ('z pool_scheme, unit) prog" where
  "release E cfg i =
     bindE (getE (\<lambda>s. map_of (active s) i \<noteq> None)) (\<lambda>removed.
     thenE (modE (\<lambda>s. s\<lparr>active := AList.delete i (active s)\<rparr>))
    (thenE (if removed then modE (\<lambda>s. s\<lparr>active_count := active_count s - 1\<rparr>) else retE ())
           (destroy_vm E cfg i)))"

definition get_active :: "string \<Rightarrow> ('z pool_scheme, PoolVm option) prog" where
  "get_active i = getE (\<lambda>s. map_of (active s) i)"

definition replenish_one :: "env \<Rightarrow> DaemonConfig \<Rightarrow> ('z pool_scheme, unit) prog" where
  "replenish_one E cfg =
     bindE (getE (length \<circ> ready)) (\<lambda>current.
       if pool_size cfg \<le> current then retE ()
       else bindE (catchE (restore_one E cfg)) (\<lambda>r. case r of
          Inr vm \<Rightarrow> push_ready vm
        | Inl _ \<Rightarrow> retE ()))"

definition ready_count :: "('z pool_scheme, nat) prog" where
  "ready_count = getE (length \<circ> ready)"

definition read_active_count :: "('z pool_scheme, u64) prog" where
  "read_active_count = getE active_count"

section \<open>What the operations change\<close>

lemma only_calls_find_ch_pid [frame_rules]: "only_calls (find_ch_pid E dir fs)"
  by (induction fs) (auto intro!: frame_rules)

lemma only_calls_pool [frame_rules]:
  "only_calls (base_snapshot_valid E d)" "only_calls (restore_base E cfg i cid)"
  "only_calls (destroy_vm E cfg i)"
  unfolding base_snapshot_valid_def restore_base_def destroy_vm_def Let_def
  by (intro frame_rules)+

lemma alloc_cid_apply [prog_simps]: "alloc_cid s = (Inr (next_cid s), s\<lparr>next_cid := next_cid s + 1\<rparr>)"
  by (simp add: alloc_cid_def prog_simps)

lemma register_active_apply [prog_simps]:
  "register_active vm s = (Inr (), s\<lparr>active_count := active_count s + 1,
     active := AList.update (vm_id vm) vm (active s)\<rparr>)"
  by (simp add: register_active_def prog_simps)

lemma push_ready_apply [prog_simps]: "push_ready vm s = (Inr (), s\<lparr>ready := ready s @ [vm]\<rparr>)"
  by (simp add: push_ready_def prog_simps)

lemma restore_base_result:
  assumes "restore_base E cfg i cid s = (Inr vm, s')"
  shows "vm_id vm = i \<and> vm_cid vm = cid"
  using assms unfolding restore_base_def Let_def
  by (elim inr_elims) (fastforce simp: inr_simps)

text \<open>The one step all growth of the pool goes through.\<close>

lemma restore_one_step:
  obtains r cs where "restore_one E cfg s = (r, s\<lparr>next_cid := next_cid s + 1, calls := calls s @ cs\<rparr>)"
    and "\<And>vm. r = Inr vm \<Longrightarrow> vm_id vm = pool_vm_id E (next_cid s) \<and> vm_cid vm = next_cid s"
proof -
  let ?s = "s\<lparr>next_cid := next_cid s + 1\<rparr>"
  let ?run = "restore_base E cfg (pool_vm_id E (next_cid s)) (next_cid s)"
  obtain r s' where run: "?run ?s = (r, s')" by (cases "?run ?s")
  then obtain cs where "s' = ?s\<lparr>calls := calls ?s @ cs\<rparr>"
    using only_callsE [OF only_calls_pool(2) run] by blast
  then have "restore_one E cfg s = (r, s\<lparr>next_cid := next_cid s + 1, calls := calls s @ cs\<rparr>)"
    using run by (simp add: restore_one_def prog_simps)
  with run show thesis by (intro that [of r cs]) (auto dest: restore_base_result)
qed

section \<open>The invariant\<close>

text \<open>
  Ready and active VMs together have pairwise different identifiers and CIDs; the counter of
  active VMs is the size of the map; every CID has been handed out by the allocator and is not
  one of the reserved ones; the identifier of a ready VM is the one drawn with its CID, and an
  active VM either has such an identifier or one the pool can never draw.
\<close>

definition pool_vms :: "'z pool_scheme \<Rightarrow> PoolVm list" where
  "pool_vms s = ready s @ map snd (active s)"

definition keyed :: "PoolVm hmap \<Rightarrow> bool" where
  "keyed m \<longleftrightarrow> list_all (\<lambda>kv. vm_id (snd kv) = fst kv) m"

definition drawn :: "env \<Rightarrow> PoolVm \<Rightarrow> bool" where
  "drawn E vm \<longleftrightarrow> vm_id vm = pool_vm_id E (vm_cid vm)"

definition vm_ok :: "env \<Rightarrow> u64 \<Rightarrow> PoolVm \<Rightarrow> bool" where
  "vm_ok E n vm \<longleftrightarrow> GUEST_CID_START \<le> vm_cid vm \<and> vm_cid vm < n \<and>
     (drawn E vm \<or> \<not> starts_with ''pool-'' (vm_id vm))"

definition pool_inv :: "env \<Rightarrow> 'z pool_scheme \<Rightarrow> bool" where
  "pool_inv E s \<longleftrightarrow>
     keyed (active s) \<and>
     distinct (map vm_id (pool_vms s)) \<and> distinct (map vm_cid (pool_vms s)) \<and>
     active_count s = word_of_nat (length (active s)) \<and>
     GUEST_CID_START \<le> next_cid s \<and>
     list_all (vm_ok E (next_cid s)) (pool_vms s) \<and>
     list_all (drawn E) (ready s)"

text \<open>\<open>pool_ok E k s\<close>: the invariant holds and the allocator can hand out \<open>k\<close> more CIDs without wrapping.\<close>

definition pool_ok :: "env \<Rightarrow> nat \<Rightarrow> 'z pool_scheme \<Rightarrow> bool" where
  "pool_ok E k s \<longleftrightarrow> pool_inv E s \<and> unat (next_cid s) + k < 2 ^ 64"

lemma pool_vm_id_inject [simp]: "pool_vm_id E m = pool_vm_id E n \<longleftrightarrow> m = n"
  by (simp add: pool_vm_id_def word_unat_eq_iff)

lemma starts_with_pool_vm_id [simp]: "starts_with ''pool-'' (pool_vm_id E n)"
  unfolding pool_vm_id_def by (rule starts_with_append)

lemma alist_update_fresh: "k \<notin> fst ` set al \<Longrightarrow> AList.update k v al = al @ [(k, v)]"
  by (induction al) auto

lemma distinct_map_insert:
  "distinct (map f (xs @ v # ys)) \<longleftrightarrow> distinct (map f (xs @ ys)) \<and> f v \<notin> f ` set (xs @ ys)"
  by auto

lemma keyed_simps [simp]:
  "keyed []" "keyed (kv # m) \<longleftrightarrow> vm_id (snd kv) = fst kv \<and> keyed m" "keyed (m @ m') \<longleftrightarrow> keyed m \<and> keyed m'"
  by (simp_all add: keyed_def)

lemma keyed_ids: "keyed m \<Longrightarrow> map vm_id (map snd m) = map fst m"
  by (induction m) auto

lemma keyed_delete: "keyed m \<Longrightarrow> keyed (AList.delete k m)"
  by (induction m) auto

lemma pool_inv_calls [simp]: "pool_inv E (s\<lparr>calls := h\<rparr>) = pool_inv E s"
  by (simp add: pool_inv_def pool_vms_def)

lemma pool_ok_calls [simp]: "pool_ok E k (s\<lparr>calls := h\<rparr>) = pool_ok E k s"
  by (simp add: pool_ok_def)

lemma pool_ok_mono: "pool_ok E k s \<Longrightarrow> j \<le> k \<Longrightarrow> pool_ok E j s"
  by (simp add: pool_ok_def)

lemma pool_ok_inv: "pool_ok E k s \<Longrightarrow> pool_inv E s"
  by (simp add: pool_ok_def)

lemma pool_new_ok: "k + 3 < 2 ^ 64 \<Longrightarrow> pool_ok E k (Pool_new h)"
  by (simp add: pool_ok_def pool_inv_def pool_vms_def Pool_new_def GUEST_CID_START_def)

lemma vm_ok_mono: "vm_ok E n vm \<Longrightarrow> n \<le> m \<Longrightarrow> vm_ok E m vm"
  by (auto simp: vm_ok_def)

lemma succ_no_wrap: "unat (n :: u64) + Suc k < 2 ^ 64 \<Longrightarrow> n < n + 1 \<and> unat (n + 1) = unat n + 1"
proof -
  assume "unat n + Suc k < 2 ^ 64"
  then have "unat (n + 1) = unat n + 1" by (simp add: unat_word_ariths)
  then show ?thesis by (simp add: word_less_nat_alt)
qed

lemma pool_inv_advance:
  assumes "pool_inv E s" and "next_cid s \<le> n" shows "pool_inv E (s\<lparr>next_cid := n\<rparr>)"
proof -
  have "list_all (vm_ok E n) vs" if "list_all (vm_ok E (next_cid s)) vs" for vs
    using that assms(2) vm_ok_mono by (auto simp: list_all_iff)
  moreover have "GUEST_CID_START \<le> n" using assms by (auto simp: pool_inv_def)
  ultimately show ?thesis using assms(1) by (simp add: pool_inv_def pool_vms_def)
qed

lemma pool_ok_alloc: "pool_ok E (Suc k) s \<Longrightarrow> pool_ok E k (s\<lparr>next_cid := next_cid s + 1\<rparr>)"
  using succ_no_wrap [of "next_cid s" k] pool_inv_advance [of E s "next_cid s + 1"]
  by (auto simp: pool_ok_def)

text \<open>The VM drawn by the allocator is different from every VM the pool has.\<close>

lemma fresh_vm:
  assumes "pool_inv E s" and "vm_cid vm = next_cid s" "drawn E vm"
  shows "vm_id vm \<notin> vm_id ` set (pool_vms s)" "vm_cid vm \<notin> vm_cid ` set (pool_vms s)"
proof -
  have ok: "vm_ok E (next_cid s) v" if "v \<in> set (pool_vms s)" for v
    using assms(1) that by (simp add: pool_inv_def list_all_iff)
  show "vm_cid vm \<notin> vm_cid ` set (pool_vms s)" using assms(2) ok by (force simp: vm_ok_def)
  show "vm_id vm \<notin> vm_id ` set (pool_vms s)"
  proof
    assume "vm_id vm \<in> vm_id ` set (pool_vms s)"
    then obtain v where v: "v \<in> set (pool_vms s)" "vm_id v = pool_vm_id E (next_cid s)"
      using assms(2,3) by (auto simp: drawn_def)
    with ok [OF v(1)] show False by (auto simp: vm_ok_def drawn_def)
  qed
qed

lemma pool_inv_push:
  assumes inv: "pool_inv E s" and n: "next_cid s < n" and vm: "vm_cid vm = next_cid s" "drawn E vm"
  shows "pool_inv E (s\<lparr>next_cid := n, ready := ready s @ [vm]\<rparr>)"
proof -
  have adv: "pool_inv E (s\<lparr>next_cid := n\<rparr>)" using pool_inv_advance [OF inv, of n] n by simp
  have "pool_vms (s\<lparr>next_cid := n, ready := ready s @ [vm]\<rparr>) = ready s @ vm # map snd (active s)"
    by (simp add: pool_vms_def)
  moreover have "vm_ok E n vm" using inv n vm by (auto simp: pool_inv_def vm_ok_def)
  moreover have "pool_vms s = ready s @ map snd (active s)" by (simp add: pool_vms_def)
  ultimately show ?thesis using adv fresh_vm [OF inv vm] vm(2)
    unfolding pool_inv_def by (simp only: distinct_map_insert) (simp add: pool_vms_def)
qed

text \<open>Registering a VM the pool does not have.\<close>

lemma pool_inv_register:
  assumes inv: "pool_inv E s" and ok: "vm_ok E (next_cid s) vm"
    and new: "vm_id vm \<notin> vm_id ` set (pool_vms s)" "vm_cid vm \<notin> vm_cid ` set (pool_vms s)"
  shows "pool_inv E (snd (register_active vm s))"
proof -
  have "map vm_id (map snd (active s)) = map fst (active s)"
    using inv by (intro keyed_ids) (simp add: pool_inv_def)
  then have "fst ` set (active s) = vm_id ` snd ` set (active s)" by (metis list.set_map)
  then have "vm_id vm \<notin> fst ` set (active s)" using new(1) by (auto simp: pool_vms_def)
  then have "pool_vms (snd (register_active vm s)) = pool_vms s @ [vm]"
    and "active (snd (register_active vm s)) = active s @ [(vm_id vm, vm)]"
    by (simp_all add: register_active_apply alist_update_fresh pool_vms_def)
  then show ?thesis using inv ok new by (simp add: pool_inv_def register_active_apply add.commute)
qed

lemma pool_inv_pop:
  assumes inv: "pool_inv E s" and r: "ready s \<noteq> []"
  shows "pool_inv E (snd (register_active (last (ready s)) (s\<lparr>ready := butlast (ready s)\<rparr>)))"
proof -
  obtain vs vm where vs: "ready s = vs @ [vm]" using r by (metis append_butlast_last_id)
  let ?s = "s\<lparr>ready := vs\<rparr>"
  have all: "pool_vms s = vs @ vm # map snd (active s)" and s: "pool_vms ?s = vs @ map snd (active s)"
    by (simp_all add: pool_vms_def vs)
  have s1: "pool_inv E ?s" using inv unfolding pool_inv_def s all distinct_map_insert by (simp add: vs)
  have "vm_ok E (next_cid s) vm" using inv by (simp add: pool_inv_def all)
  moreover have "vm_id vm \<notin> vm_id ` set (pool_vms ?s)" "vm_cid vm \<notin> vm_cid ` set (pool_vms ?s)"
    using inv unfolding pool_inv_def all s distinct_map_insert by blast+
  ultimately show ?thesis using pool_inv_register [OF s1, of vm] by (simp add: vs)
qed

lemma keyed_delete_vms:
  "keyed m \<Longrightarrow> map snd (AList.delete k m) = filter (\<lambda>v. vm_id v \<noteq> k) (map snd m)"
  by (induction m) auto

lemma pool_inv_hm_ok:
  assumes "pool_inv E s" shows "hm_ok (active s)"
proof -
  have "map fst (active s) = map vm_id (map snd (active s))"
    using assms keyed_ids by (metis pool_inv_def)
  moreover have "distinct (map vm_id (map snd (active s)))"
    using assms by (simp only: pool_inv_def pool_vms_def map_append distinct_append)
  ultimately show ?thesis by metis
qed

lemma delete_count:
  assumes "pool_inv E s"
  shows "word_of_nat (length (AList.delete i (active s))) =
    active_count s - (if map_of (active s) i = None then 0 else 1)"
proof (cases "map_of (active s) i")
  case None
  then have "length (AList.delete i (active s)) = length (active s)"
    by (rule hm.len_rem_absent [OF pool_inv_hm_ok [OF assms]])
  with None assms show ?thesis by (simp add: pool_inv_def)
next
  case (Some vm)
  have "Suc (length (AList.delete i (active s))) = length (active s)"
    by (intro hm.len_rem_present [OF pool_inv_hm_ok [OF assms]]) (simp add: Some)
  then have "active_count s = word_of_nat (Suc (length (AList.delete i (active s))))"
    using assms by (simp add: pool_inv_def)
  with Some show ?thesis by simp
qed

lemma distinct_append_filter: "distinct (map f (xs @ ys)) \<Longrightarrow> distinct (map f (xs @ filter P ys))"
  by (auto simp: distinct_map_filter)

lemma pool_inv_remove:
  assumes inv: "pool_inv E s"
  shows "pool_inv E (s\<lparr>active := AList.delete i (active s),
     active_count := active_count s - (if map_of (active s) i = None then 0 else 1)\<rparr>)"
proof -
  have key: "keyed (active s)" using inv by (simp add: pool_inv_def)
  let ?s = "s\<lparr>active := AList.delete i (active s),
     active_count := active_count s - (if map_of (active s) i = None then 0 else 1)\<rparr>"
  have vms: "pool_vms ?s = ready s @ filter (\<lambda>v. vm_id v \<noteq> i) (map snd (active s))"
    by (simp add: pool_vms_def keyed_delete_vms [OF key])
  have "list_all (vm_ok E (next_cid s)) (pool_vms ?s)"
    using inv unfolding vms by (auto simp: pool_inv_def pool_vms_def list_all_iff)
  moreover have "distinct (map vm_id (pool_vms ?s))" "distinct (map vm_cid (pool_vms ?s))"
    using inv unfolding vms pool_inv_def pool_vms_def [of s] by (blast intro: distinct_append_filter)+
  moreover have "active_count ?s = word_of_nat (length (active ?s))"
    using delete_count [OF inv, of i] by simp
  ultimately show ?thesis
    using inv keyed_delete [OF key, of i] by (simp add: pool_inv_def)
qed

section \<open>Every operation keeps the invariant\<close>

text \<open>\<open>draws E c m\<close>: \<open>m\<close> keeps the invariant and takes at most \<open>c\<close> CIDs from the allocator.\<close>

abbreviation draws :: "env \<Rightarrow> nat \<Rightarrow> ('z pool_scheme, 'a) prog \<Rightarrow> bool" where
  "draws E \<equiv> costs (pool_ok E)"

interpretation pb: budget "pool_ok E" for E
  by unfold_locales (rule pool_ok_mono)

lemma draws_only_calls: "only_calls m \<Longrightarrow> draws E 0 m"
  by (rule costs_0, rule preserves_only_calls) simp_all

lemma draws_alloc_cid: "draws E 1 alloc_cid"
  by (rule costsI) (simp add: alloc_cid_apply pool_ok_alloc)

lemma draws_restore_one: "draws E 1 (restore_one E cfg)"
proof -
  have "draws E (0 + (1 + 0)) (restore_one E cfg)"
    unfolding restore_one_def
    by (intro pb.costs_bindE draws_alloc_cid draws_only_calls frame_rules)
  then show ?thesis by simp
qed

lemma restore_one_ok: "pool_ok E (Suc k) s \<Longrightarrow> pool_ok E k (snd (restore_one E cfg s))"
  using costsD [OF draws_restore_one] by simp

text \<open>A restored VM can be put among the ready ones, or among the active ones.\<close>

lemma restore_one_vm:
  assumes ok: "pool_ok E (Suc k) s" and run: "restore_one E cfg s = (Inr vm, s')"
  shows "pool_ok E k (s'\<lparr>ready := ready s' @ [vm]\<rparr>)" "pool_ok E k (snd (register_active vm s'))"
    "vm_id vm = pool_vm_id E (next_cid s)" "vm_cid vm = next_cid s"
    "ready s' = ready s" "active s' = active s" "active_count s' = active_count s"
proof -
  obtain cs where s': "s' = s\<lparr>next_cid := next_cid s + 1, calls := calls s @ cs\<rparr>"
    and vm: "vm_id vm = pool_vm_id E (next_cid s)" "vm_cid vm = next_cid s"
    using restore_one_step [of E cfg s] run by (metis Pair_inject)
  have n: "next_cid s < next_cid s + 1" "unat (next_cid s + 1) = unat (next_cid s) + 1"
    using ok succ_no_wrap [of "next_cid s" k] by (simp_all add: pool_ok_def)
  have inv: "pool_inv E s" and d: "drawn E vm" using ok vm by (simp_all add: pool_ok_def drawn_def)
  let ?s = "s\<lparr>next_cid := next_cid s + 1\<rparr>"
  have adv: "pool_inv E ?s" using pool_inv_advance [OF inv] n(1) by simp
  have vms: "pool_vms ?s = pool_vms s" by (simp add: pool_vms_def)
  have "vm_ok E (next_cid ?s) vm" using inv n d vm(2) by (simp add: vm_ok_def pool_inv_def)
  then have reg: "pool_inv E (snd (register_active vm ?s))"
    using pool_inv_register [OF adv] fresh_vm [OF inv vm(2) d] by (simp add: vms)
  have "pool_inv E (?s\<lparr>ready := ready s @ [vm]\<rparr>)" using pool_inv_push [OF inv n(1) vm(2) d] .
  then show "pool_ok E k (s'\<lparr>ready := ready s' @ [vm]\<rparr>)"
    using ok n(2) unfolding s' by (simp add: pool_ok_def pool_inv_def pool_vms_def)
  show "pool_ok E k (snd (register_active vm s'))"
    using ok n(2) reg unfolding s' by (simp add: pool_ok_def pool_inv_def pool_vms_def register_active_apply)
  show "vm_id vm = pool_vm_id E (next_cid s)" "vm_cid vm = next_cid s"
    "ready s' = ready s" "active s' = active s" "active_count s' = active_count s"
    by (simp_all add: vm s')
qed

lemma pop_ready_apply [prog_simps]:
  "pop_ready s = (if ready s = [] then (Inr None, s)
                  else (Inr (Some (last (ready s))), s\<lparr>ready := butlast (ready s)\<rparr>))"
  by (simp add: pop_ready_def prog_simps)

lemma acquire_ready:
  "ready s \<noteq> [] \<Longrightarrow> acquire E cfg s =
     (Inr (last (ready s)), snd (register_active (last (ready s)) (s\<lparr>ready := butlast (ready s)\<rparr>)))"
  by (simp add: acquire_def prog_simps)

lemma acquire_empty:
  "ready s = [] \<Longrightarrow> acquire E cfg s = (case restore_one E cfg s of
      (Inl e, s') \<Rightarrow> (Inl e, s')
    | (Inr vm, s') \<Rightarrow> (Inr vm, snd (register_active vm s')))"
  by (simp add: acquire_def prog_simps split: prod.split sum.split)

lemma acquire_ok:
  assumes ok: "pool_ok E (Suc k) s"
  shows "pool_ok E k (snd (acquire E cfg s))"
proof (cases "ready s = []")
  case False
  from pool_inv_pop [OF pool_ok_inv [OF ok] False] show ?thesis
    using ok by (simp add: acquire_ready [OF False] pool_ok_def register_active_apply)
next
  case True
  obtain r s' where run: "restore_one E cfg s = (r, s')" by (cases "restore_one E cfg s")
  then show ?thesis
    using restore_one_ok [OF ok, of cfg] restore_one_vm(2) [OF ok]
    by (cases r) (simp_all add: acquire_empty [OF True])
qed

lemma release_apply:
  "release E cfg i s = destroy_vm E cfg i (s\<lparr>active := AList.delete i (active s),
     active_count := active_count s - (if map_of (active s) i = None then 0 else 1)\<rparr>)"
  by (simp add: release_def prog_simps)

lemma release_ok: "pool_ok E k s \<Longrightarrow> pool_ok E k (snd (release E cfg i s))"
proof -
  assume ok: "pool_ok E k s"
  let ?s = "s\<lparr>active := AList.delete i (active s),
     active_count := active_count s - (if map_of (active s) i = None then 0 else 1)\<rparr>"
  have "pool_ok E k ?s" using ok pool_inv_remove [of E s i] by (simp add: pool_ok_def)
  then show ?thesis unfolding release_apply
    by (rule preservesD [OF preserves_only_calls [OF only_calls_pool(3)], rotated]) simp
qed

lemma replenish_ok:
  assumes ok: "pool_ok E (Suc k) s"
  shows "pool_ok E k (snd (replenish_one E cfg s))"
proof -
  obtain r s' where run: "restore_one E cfg s = (r, s')" by (cases "restore_one E cfg s")
  have "pool_ok E k s" using pool_ok_mono [OF ok] by simp
  with run show ?thesis
    using restore_one_ok [OF ok, of cfg] restore_one_vm(1) [OF ok]
    by (auto simp: replenish_one_def prog_simps split: sum.split err.split)
qed

lemma fill_pool_ok: "pool_ok E (n + k) s \<Longrightarrow> pool_ok E k (snd (fill_pool E cfg n s))"
proof (induction n arbitrary: s)
  case (Suc n)
  obtain r s' where run: "restore_one E cfg s = (r, s')" by (cases "restore_one E cfg s")
  have ok: "pool_ok E (Suc (n + k)) s" using Suc.prems by simp
  with run show ?case
    using restore_one_ok [OF ok, of cfg] restore_one_vm(1) [OF ok] Suc.IH pool_ok_mono [of E "n + k" s' k]
    by (auto simp: prog_simps split: sum.split err.split)
qed (simp add: retE_def)

lemma draws_create_base_snapshot: "draws E 1 (create_base_snapshot E cfg d)"
proof -
  have "draws E (0 + (1 + 0)) (create_base_snapshot E cfg d)"
    unfolding create_base_snapshot_def Let_def
    by (intro pb.costs_thenE [of E 0] pb.costs_bindE [of E 1] draws_alloc_cid draws_only_calls frame_rules)
  then show ?thesis by simp
qed

lemma draws_initialize: "draws E (Suc (pool_size cfg)) (initialize E cfg)"
proof -
  have "draws E (0 + (1 + pool_size cfg)) (initialize E cfg)"
    unfolding initialize_def
    by (intro pb.costs_bindE pb.costs_thenE draws_only_calls frame_rules)
      (auto intro: draws_create_base_snapshot [unfolded One_nat_def] pb.costs_mono [OF draws_only_calls] costsI fill_pool_ok frame_rules)
  then show ?thesis by simp
qed

lemma draws_pool:
  "draws E 1 (acquire E cfg)" "draws E 0 (release E cfg i)" "draws E 1 (replenish_one E cfg)"
  by (auto intro!: costsI acquire_ok release_ok replenish_ok)

section \<open>The pool as its clients see it\<close>

text \<open>
  What a client relies on: an acquired VM is new in the registry of active VMs, a failed
  acquisition and everything but acquire and release leave the registry alone, a release always
  succeeds and takes out exactly one entry.
\<close>

locale vm_pool =
  fixes inv :: "'s \<Rightarrow> bool" and look :: "'s \<Rightarrow> string \<Rightarrow> 'v option" and ident :: "'v \<Rightarrow> string"
    and acq :: "('s, 'v) prog" and rel :: "string \<Rightarrow> ('s, unit) prog"
  assumes acq_new: "inv s \<Longrightarrow> acq s = (Inr v, s') \<Longrightarrow> look s (ident v) = None \<and> look s' = (look s)(ident v \<mapsto> v)"
    and acq_err: "acq s = (Inl e, s') \<Longrightarrow> look s' = look s"
    and rel_look: "look (snd (rel i s)) = (look s)(i := None)"
    and rel_total: "fst (rel i s) = Inr ()"
begin

lemma bracket:
  "inv s \<Longrightarrow> acq s = (Inr v, s1) \<Longrightarrow> look s2 = look s1 \<Longrightarrow> look (snd (rel (ident v) s2)) = look s"
  using acq_new [of s v s1] by (simp add: rel_look fun_upd_idem)

lemma kept: "inv s \<Longrightarrow> acq s = (Inr v, s1) \<Longrightarrow> look s2 = look s1 \<Longrightarrow> look s2 (ident v) = Some v"
  using acq_new [of s v s1] by simp

lemma released: "look (snd (rel i s)) i = None"
  by (simp add: rel_look)

end

text \<open>A process id that reading \<^verbatim>\<open>ch.pid\<close> of a state directory has given.\<close>

definition recorded_pid :: "env \<Rightarrow> path \<Rightarrow> u32 \<Rightarrow> bool" where
  "recorded_pid E dir p \<longleftrightarrow> (\<exists>h x n. ans_str E h (FsRead (join_path dir ''ch.pid'')) = Inr x \<and>
     parse_uint 32 (trim x) = Some n \<and> p = word_of_nat n)"

lemma find_ch_pid_run:
  "\<exists>po cs. find_ch_pid E dir fs s = (Inr po, s\<lparr>calls := calls s @ cs\<rparr>) \<and>
     set cs \<subseteq> {FsRead (join_path dir ''ch.pid'')} \<and>
     (\<forall>p. po = Some p \<longrightarrow> recorded_pid E dir p)"
proof (induction fs arbitrary: s)
  case Nil
  show ?case by (rule exI [of _ None], rule exI [of _ "[]"]) (simp add: retE_def)
next
  case (Cons f fs)
  let ?c = "FsRead (join_path dir ''ch.pid'')"
  show ?case
  proof (cases "f = ''ch.pid''")
    case False
    then show ?thesis using Cons.IH [of s] by simp
  next
    case True
    obtain po cs where IH: "find_ch_pid E dir fs (log_call ?c s) =
        (Inr po, s\<lparr>calls := calls s @ ?c # cs\<rparr>)" "set cs \<subseteq> {?c}"
        "\<forall>p. po = Some p \<longrightarrow> recorded_pid E dir p"
      using Cons.IH [of "log_call ?c s"] by (auto simp: log_call_def)
    show ?thesis
    proof (cases "\<exists>x n. ans_str E (calls s) ?c = Inr x \<and> parse_uint 32 (trim x) = Some n")
      case True
      then obtain x n where x: "ans_str E (calls s) ?c = Inr x" "parse_uint 32 (trim x) = Some n" by blast
      then have "find_ch_pid E dir (f # fs) s = (Inr (Some (word_of_nat n)), s\<lparr>calls := calls s @ [?c]\<rparr>)"
        using \<open>f = ''ch.pid''\<close> by (simp add: prog_simps log_call_def)
      with x show ?thesis by (intro exI [of _ "Some (word_of_nat n)"] exI [of _ "[?c]"]) (auto simp: recorded_pid_def)
    next
      case False
      then have "find_ch_pid E dir (f # fs) s = find_ch_pid E dir fs (log_call ?c s)"
        using \<open>f = ''ch.pid''\<close> by (auto simp: prog_simps of_os_def split: sum.split option.split)
      with IH show ?thesis by (intro exI [of _ po] exI [of _ "?c # cs"]) simp
    qed
  qed
qed

lemma destroy_vm_run:
  obtains cs where
    "destroy_vm E cfg i s = (Inr (), s\<lparr>calls := calls s @ cs @ [FsRemoveDirAll (join_path (state_dir cfg) i)]\<rparr>)"
    "\<And>p sig. ProcKill p sig \<in> set cs \<Longrightarrow> recorded_pid E (join_path (state_dir cfg) i) p"
proof -
  let ?dir = "join_path (state_dir cfg) i" and ?sock = "join_path (join_path (state_dir cfg) i) ''api.sock''"
  let ?s = "log_call (FsReadDir ?dir) s"
  let ?fs = "case ans_strs E (calls s) (FsReadDir ?dir) of Inl _ \<Rightarrow> [] | Inr es \<Rightarrow> es"
  obtain po cs where f: "find_ch_pid E ?dir ?fs ?s = (Inr po, ?s\<lparr>calls := calls ?s @ cs\<rparr>)"
    and cs: "set cs \<subseteq> {FsRead (join_path ?dir ''ch.pid'')}"
    and po: "\<forall>p. po = Some p \<longrightarrow> recorded_pid E ?dir p"
    using find_ch_pid_run [of E ?dir ?fs ?s] by blast
  let ?t = "?s\<lparr>calls := calls ?s @ cs\<rparr>"
  have eq: "destroy_vm E cfg i s = (case po of Some p \<Rightarrow> shutdown_and_destroy E ?sock p ?dir ?t
      | None \<Rightarrow> tell (FsRemoveDirAll ?dir) ?t)"
    using f unfolding destroy_vm_def Let_def
    by (auto simp: bindE_def catchE_def ask_def of_os_def retE_def split: sum.splits option.splits)
  show thesis
  proof (cases po)
    case None
    with eq cs show thesis
      by (intro that [of "FsReadDir ?dir # cs"]) (auto simp: tell_def log_call_def)
  next
    case (Some p)
    obtain ds where "shutdown_and_destroy E ?sock p ?dir ?t =
        (Inr (), ?t\<lparr>calls := calls ?t @ ds @ [FsRemoveDirAll ?dir]\<rparr>)"
      "\<And>q sig. ProcKill q sig \<in> set ds \<Longrightarrow> q = p" using shutdown_and_destroy_Inr by blast
    with Some eq cs po show thesis
      by (intro that [of "FsReadDir ?dir # cs @ ds"]) (auto simp: log_call_def)
  qed
qed

lemma acquire_Inr:
  assumes ok: "pool_ok E (Suc k) s" and run: "acquire E cfg s = (Inr vm, s')"
  shows "map_of (active s) (vm_id vm) = None" "map_of (active s') = (map_of (active s))(vm_id vm \<mapsto> vm)"
    "active_count s' = active_count s + 1"
proof -
  have fresh: "map_of (active s) (vm_id v) = None" if "vm_id v \<notin> vm_id ` snd ` set (active s)" for v
  proof -
    have "map fst (active s) = map vm_id (map snd (active s))"
      using ok keyed_ids by (metis pool_inv_def pool_ok_inv)
    then have "fst ` set (active s) = vm_id ` snd ` set (active s)" by (metis list.set_map)
    with that show ?thesis by (simp add: map_of_eq_None_iff)
  qed
  have "map_of (active s) (vm_id vm) = None \<and> map_of (active s') = (map_of (active s))(vm_id vm \<mapsto> vm)
      \<and> active_count s' = active_count s + 1"
  proof (cases "ready s = []")
    case False
    then obtain vs v where vs: "ready s = vs @ [v]" by (metis append_butlast_last_id)
    have "distinct (map vm_id (pool_vms s))" using ok by (simp add: pool_ok_def pool_inv_def)
    then have "vm_id v \<notin> vm_id ` snd ` set (active s)" by (simp add: pool_vms_def vs image_image)
    with fresh run show ?thesis
      by (auto simp: acquire_ready [OF False] vs register_active_apply update_conv')
  next
    case True
    then obtain s1 where s1: "restore_one E cfg s = (Inr vm, s1)" and s': "s' = snd (register_active vm s1)"
      using run by (auto simp: acquire_empty split: prod.splits sum.splits)
    note vm = restore_one_vm [OF ok s1]
    have "vm_id vm \<notin> vm_id ` set (pool_vms s)"
      using fresh_vm(1) [OF pool_ok_inv [OF ok] vm(4)] vm(3,4) by (simp add: drawn_def)
    then show ?thesis using fresh [of vm] vm(6,7)
      by (auto simp: s' register_active_apply update_conv' pool_vms_def)
  qed
  then show "map_of (active s) (vm_id vm) = None" "map_of (active s') = (map_of (active s))(vm_id vm \<mapsto> vm)"
    "active_count s' = active_count s + 1" by blast+
qed

lemma acquire_Inl:
  assumes "acquire E cfg s = (Inl e, s')"
  shows "ready s = []" "\<exists>cs. s' = s\<lparr>next_cid := next_cid s + 1, calls := calls s @ cs\<rparr>"
proof -
  show r: "ready s = []" using assms acquire_ready [of s E cfg] by force
  then have "restore_one E cfg s = (Inl e, s')"
    using assms by (auto simp: acquire_empty split: prod.splits sum.splits)
  then show "\<exists>cs. s' = s\<lparr>next_cid := next_cid s + 1, calls := calls s @ cs\<rparr>"
    using restore_one_step [of E cfg s] by (metis Pair_inject)
qed

lemma release_state:
  obtains cs where "release E cfg i s =
     (Inr (), s\<lparr>active := AList.delete i (active s),
        active_count := active_count s - (if map_of (active s) i = None then 0 else 1),
        calls := calls s @ cs @ [FsRemoveDirAll (join_path (state_dir cfg) i)]\<rparr>)"
    and "\<And>p sig. ProcKill p sig \<in> set cs \<Longrightarrow> recorded_pid E (join_path (state_dir cfg) i) p"
proof (rule destroy_vm_run [of E cfg i "s\<lparr>active := AList.delete i (active s),
     active_count := active_count s - (if map_of (active s) i = None then 0 else 1)\<rparr>"])
  fix cs
  assume "destroy_vm E cfg i (s\<lparr>active := AList.delete i (active s),
      active_count := active_count s - (if map_of (active s) i = None then 0 else 1)\<rparr>) =
    (Inr (), s\<lparr>active := AList.delete i (active s),
      active_count := active_count s - (if map_of (active s) i = None then 0 else 1),
      calls := calls (s\<lparr>active := AList.delete i (active s),
      active_count := active_count s - (if map_of (active s) i = None then 0 else 1)\<rparr>) @
      cs @ [FsRemoveDirAll (join_path (state_dir cfg) i)]\<rparr>)"
    and "\<And>p sig. ProcKill p sig \<in> set cs \<Longrightarrow> recorded_pid E (join_path (state_dir cfg) i) p"
  then show thesis by (intro that [of cs]) (simp_all add: release_apply)
qed

lemma release_run:
  assumes "release E cfg i s = (r, s')"
  shows "r = Inr ()" "ready s' = ready s" "active s' = AList.delete i (active s)" "next_cid s' = next_cid s"
    "active_count s' = active_count s - (if map_of (active s) i = None then 0 else 1)"
    "\<exists>cs. calls s' = calls s @ cs @ [FsRemoveDirAll (join_path (state_dir cfg) i)] \<and>
       (\<forall>p sig. ProcKill p sig \<in> set cs \<longrightarrow> recorded_pid E (join_path (state_dir cfg) i) p)"
proof -
  obtain cs where "s' = s\<lparr>active := AList.delete i (active s),
        active_count := active_count s - (if map_of (active s) i = None then 0 else 1),
        calls := calls s @ cs @ [FsRemoveDirAll (join_path (state_dir cfg) i)]\<rparr>" "r = Inr ()"
    and "\<And>p sig. ProcKill p sig \<in> set cs \<Longrightarrow> recorded_pid E (join_path (state_dir cfg) i) p"
    using release_state [of E cfg i s] assms by (metis Pair_inject)
  then show "r = Inr ()" "ready s' = ready s" "active s' = AList.delete i (active s)" "next_cid s' = next_cid s"
    "active_count s' = active_count s - (if map_of (active s) i = None then 0 else 1)"
    "\<exists>cs. calls s' = calls s @ cs @ [FsRemoveDirAll (join_path (state_dir cfg) i)] \<and>
       (\<forall>p sig. ProcKill p sig \<in> set cs \<longrightarrow> recorded_pid E (join_path (state_dir cfg) i) p)"
    by auto
qed

lemma release_active: "map_of (active (snd (release E cfg i s))) = (map_of (active s))(i := None)"
  by (rule release_state [of E cfg i s]) (simp add: delete_conv')

interpretation pl: vm_pool "pool_ok E (Suc k)" "\<lambda>s. map_of (active s)" vm_id "acquire E cfg" "release E cfg"
  for E k cfg
proof unfold_locales
  fix s s' :: "'b pool_scheme" and v i e
  show "pool_ok E (Suc k) s \<Longrightarrow> acquire E cfg s = (Inr v, s') \<Longrightarrow>
      map_of (active s) (vm_id v) = None \<and> map_of (active s') = (map_of (active s))(vm_id v \<mapsto> v)"
    using acquire_Inr [of E k s cfg v s'] by blast
  show "acquire E cfg s = (Inl e, s') \<Longrightarrow> map_of (active s') = map_of (active s)"
    using acquire_Inl(2) [of E cfg s e s'] by auto
  show "map_of (active (snd (release E cfg i s))) = (map_of (active s))(i := None)"
    by (rule release_active)
  show "fst (release E cfg i s) = Inr ()" by (rule release_state [of E cfg i s]) simp
qed

section \<open>Reachable pools\<close>

text \<open>
  The states the pool can be in: created, then initialised once, then any sequence of the
  operations the daemon calls. The index counts the CIDs that may have been drawn. A VM from
  outside may be registered when it is new to the pool and its CID came from the allocator.
\<close>

inductive pool_reach :: "env \<Rightarrow> DaemonConfig \<Rightarrow> nat \<Rightarrow> pool \<Rightarrow> bool" for E cfg where
  new: "pool_reach E cfg 0 (Pool_new h)"
| initialized: "pool_reach E cfg (Suc (pool_size cfg)) (snd (initialize E cfg (Pool_new h)))"
| acquired: "pool_reach E cfg k s \<Longrightarrow> pool_reach E cfg (Suc k) (snd (acquire E cfg s))"
| released: "pool_reach E cfg k s \<Longrightarrow> pool_reach E cfg k (snd (release E cfg i s))"
| replenished: "pool_reach E cfg k s \<Longrightarrow> pool_reach E cfg (Suc k) (snd (replenish_one E cfg s))"
| cid_drawn: "pool_reach E cfg k s \<Longrightarrow> pool_reach E cfg (Suc k) (snd (alloc_cid s))"
| registered: "pool_reach E cfg k s \<Longrightarrow> vm_ok E (next_cid s) vm \<Longrightarrow>
    vm_id vm \<notin> vm_id ` set (pool_vms s) \<Longrightarrow> vm_cid vm \<notin> vm_cid ` set (pool_vms s) \<Longrightarrow>
    pool_reach E cfg k (snd (register_active vm s))"

inductive_cases pool_reach_startE: "pool_reach E cfg 0 s"

lemma pool_reach_ok: "pool_reach E cfg k s \<Longrightarrow> k + j + 3 < 2 ^ 64 \<Longrightarrow> pool_ok E j s"
proof (induction arbitrary: j rule: pool_reach.induct)
  case (new h)
  then show ?case using pool_new_ok [of j] by simp
next
  case (initialized h)
  then show ?case
    using costsD [OF draws_initialize, of E cfg j "Pool_new h"] pool_new_ok [of "Suc (pool_size cfg) + j"]
    by simp
next
  case (acquired k s)
  then show ?case using acquire_ok [of E j s cfg] acquired.IH [of "Suc j"] by simp
next
  case (released k s i)
  then show ?case using release_ok by blast
next
  case (replenished k s)
  then show ?case using replenish_ok [of E j s cfg] replenished.IH [of "Suc j"] by simp
next
  case (cid_drawn k s)
  then show ?case using pool_ok_alloc [of E j s] cid_drawn.IH [of "Suc j"] by (simp add: alloc_cid_apply)
next
  case (registered k s vm)
  then have "pool_ok E j s" by blast
  with registered show ?case
    using pool_inv_register [of E s vm] by (simp add: pool_ok_def register_active_apply)
qed

lemma active_bound:
  assumes inv: "pool_inv E s"
  shows "length (active s) \<le> unat (next_cid s)"
proof -
  let ?cids = "map (unat \<circ> vm_cid) (pool_vms s)"
  have "distinct ?cids" using inv
    by (simp add: pool_inv_def distinct_map inj_on_def word_unat_eq_iff)
  moreover have "set ?cids \<subseteq> {..<unat (next_cid s)}"
    using inv by (auto simp: pool_inv_def list_all_iff vm_ok_def word_less_nat_alt)
  ultimately have "length ?cids \<le> unat (next_cid s)"
    by (metis card_lessThan card_mono distinct_card finite_lessThan)
  then show ?thesis by (simp add: pool_vms_def)
qed

text \<open>What the operations do to the number of ready VMs.\<close>

lemma restore_one_frame:
  assumes "restore_one E cfg s = (r, s')"
  shows "ready s' = ready s" "active s' = active s" "active_count s' = active_count s"
proof -
  obtain cs where "s' = s\<lparr>next_cid := next_cid s + 1, calls := calls s @ cs\<rparr>"
    using assms restore_one_step [of E cfg s] by (metis Pair_inject)
  then show "ready s' = ready s" "active s' = active s" "active_count s' = active_count s" by simp_all
qed

lemma acquire_ready_count: "length (ready (snd (acquire E cfg s))) \<le> length (ready s)"
proof (cases "ready s = []")
  case True
  then show ?thesis
    by (auto simp: acquire_empty register_active_apply restore_one_frame split: prod.split sum.split)
qed (simp add: acquire_ready register_active_apply)

lemma replenish_ready_count:
  "length (ready (snd (replenish_one E cfg s))) \<le> max (length (ready s)) (pool_size cfg)"
proof -
  obtain r s' where run: "restore_one E cfg s = (r, s')" by (cases "restore_one E cfg s")
  note fr = restore_one_frame [OF run]
  show ?thesis
    using run fr by (auto simp: replenish_one_def prog_simps split: sum.split err.split)
qed

lemma fill_pool_state:
  "length (ready (snd (fill_pool E cfg n s))) \<le> length (ready s) + n \<and>
   active (snd (fill_pool E cfg n s)) = active s \<and> active_count (snd (fill_pool E cfg n s)) = active_count s"
proof (induction n arbitrary: s)
  case (Suc n)
  obtain r s' where run: "restore_one E cfg s = (r, s')" by (cases "restore_one E cfg s")
  note fr = restore_one_frame [OF run]
  show ?case
    using run fr Suc.IH [of s'] Suc.IH [of "s'\<lparr>ready := ready s' @ [v]\<rparr>" for v]
    by (fastforce simp: prog_simps split: sum.split err.split)
qed (simp add: retE_def)

lemma fill_pool_all:
  assumes "\<And>s :: 'z pool_scheme. \<exists>vm. fst (restore_one E cfg s) = Inr vm"
  shows "fst (fill_pool E cfg n (s :: 'z pool_scheme)) = Inr () \<and>
    length (ready (snd (fill_pool E cfg n s))) = length (ready s) + n"
proof (induction n arbitrary: s)
  case (Suc n)
  obtain vm s' where run: "restore_one E cfg s = (Inr vm, s')" using assms by (metis prod.collapse)
  show ?case
    using run restore_one_frame [OF run] Suc.IH [of "s'\<lparr>ready := ready s' @ [vm]\<rparr>"]
    by (simp add: prog_simps)
qed (simp add: retE_def)

lemma create_base_snapshot_frame:
  "ready (snd (create_base_snapshot E cfg d s)) = ready s \<and>
   active (snd (create_base_snapshot E cfg d s)) = active s \<and>
   active_count (snd (create_base_snapshot E cfg d s)) = active_count s"
proof -
  let ?P = "\<lambda>t. ready t = ready s \<and> active t = active s \<and> active_count t = active_count s"
  have oc: "preserves ?P m" if "only_calls m" for m :: "('z pool_scheme, 'b) prog"
    using that by (rule preserves_only_calls) simp
  have al: "preserves ?P alloc_cid" by (rule preservesI) (simp add: alloc_cid_apply)
  have "preserves ?P (create_base_snapshot E cfg d)"
    unfolding create_base_snapshot_def Let_def
    by (intro preserves_thenE [OF oc [OF only_calls_ask]] preserves_bindE [OF al]
        preserves_only_calls frame_rules) simp_all
  then show ?thesis using preservesD by fastforce
qed

lemma initialize_state:
  "length (ready (snd (initialize E cfg s))) \<le> length (ready s) + pool_size cfg \<and>
   active (snd (initialize E cfg s)) = active s \<and> active_count (snd (initialize E cfg s)) = active_count s"
proof -
  have "\<exists>b. fst (base_snapshot_valid E (base_snapshot_dir cfg) s) = Inr b"
    by (auto simp: base_snapshot_valid_def bindE_def askb_def retE_def intro: exI [of _ False])
  then obtain b s1 where b: "base_snapshot_valid E (base_snapshot_dir cfg) s = (Inr b, s1)"
    by (metis prod.collapse)
  then obtain cs where s1: "s1 = s\<lparr>calls := calls s @ cs\<rparr>"
    using only_callsE [OF only_calls_pool(1) b] by blast
  obtain r s2 where c: "(if \<not> b then create_base_snapshot E cfg (base_snapshot_dir cfg) else retE ()) s1 = (r, s2)"
    by (cases "(if \<not> b then create_base_snapshot E cfg (base_snapshot_dir cfg) else retE ()) s1")
  then have "ready s2 = ready s" "active s2 = active s" "active_count s2 = active_count s"
    using create_base_snapshot_frame [of E cfg "base_snapshot_dir cfg" s1]
    by (auto simp: s1 retE_def split: if_splits)
  then show ?thesis using b c fill_pool_state [of E cfg "pool_size cfg" s2]
    by (cases r) (simp_all add: initialize_def bindE_def thenE_def)
qed

lemma initialize_all:
  fixes s :: "'z pool_scheme"
  assumes "\<forall>h p. ans_bool E h (FsExists p)" and "ready s = []"
    and "\<forall>t :: 'z pool_scheme. \<exists>vm. fst (restore_one E cfg t) = Inr vm"
  shows "fst (initialize E cfg s) = Inr ()" "length (ready (snd (initialize E cfg s))) = pool_size cfg"
proof -
  obtain s1 where b: "base_snapshot_valid E (base_snapshot_dir cfg) s = (Inr True, s1)"
    using assms by (simp add: base_snapshot_valid_def prog_simps)
  then obtain cs where "s1 = s\<lparr>calls := calls s @ cs\<rparr>"
    using only_callsE [OF only_calls_pool(1) b] by blast
  then show "fst (initialize E cfg s) = Inr ()" "length (ready (snd (initialize E cfg s))) = pool_size cfg"
    using b assms fill_pool_all [of E cfg "pool_size cfg" s1]
    by (simp_all add: initialize_def bindE_def thenE_def retE_def)
qed

lemma pool_reach_ready: "pool_reach E cfg k s \<Longrightarrow> length (ready s) \<le> pool_size cfg"
proof (induction rule: pool_reach.induct)
  case (initialized h)
  show ?case using initialize_state [of E cfg "Pool_new h"] by (simp add: Pool_new_def)
next
  case (acquired k s)
  then show ?case using acquire_ready_count [of E cfg s] by simp
next
  case (released k s i)
  then show ?case by (rule_tac release_state [of E cfg i s]) simp
next
  case (replenished k s)
  then show ?case using replenish_ready_count [of E cfg s] by simp
qed (simp_all add: Pool_new_def alloc_cid_apply register_active_apply)

lemma pool_inv_facts:
  assumes inv: "pool_inv E s"
  shows "distinct (map vm_id (pool_vms s))" "distinct (map vm_cid (pool_vms s))"
    "\<forall>vm \<in> set (pool_vms s). 3 \<le> unat (vm_cid vm)" "unat (active_count s) = length (active s)"
    "\<forall>i vm. map_of (active s) i = Some vm \<longrightarrow> vm_id vm = i"
proof -
  have "length (active s) < 2 ^ 64"
    using active_bound [OF inv] unsigned_less [of "next_cid s", where 'a = nat] by simp
  then show "unat (active_count s) = length (active s)"
    using inv by (simp add: pool_inv_def unat_of_nat)
  show "\<forall>i vm. map_of (active s) i = Some vm \<longrightarrow> vm_id vm = i"
    using inv map_of_SomeD by (fastforce simp: pool_inv_def keyed_def list_all_iff)
  show "\<forall>vm \<in> set (pool_vms s). 3 \<le> unat (vm_cid vm)"
    using inv by (auto simp: pool_inv_def list_all_iff vm_ok_def GUEST_CID_START_def word_le_nat_alt)
qed (use inv in \<open>simp_all add: pool_inv_def\<close>)

section \<open>Properties\<close>




text \<open>A pool with one ready VM, for the witnesses.\<close>

definition sample_vm :: PoolVm where
  "sample_vm = \<lparr>vm_id = ''pool-1234-3'', vm_api_socket = ''/d/pool-1234-3/api.sock'',
     vm_vsock_socket = ''/d/pool-1234-3/vsock.sock'', vm_cid = 3, vm_ch_pid = 77, vm_created_at = 0\<rparr>"

definition sample_pool :: pool where
  "sample_pool = (Pool_new [])\<lparr>ready := [sample_vm], next_cid := 4\<rparr>"

lemma sample_vm_sel [simp]:
  "vm_id sample_vm = ''pool-1234-3''" "vm_cid sample_vm = 3" "vm_ch_pid sample_vm = 77"
  "vm_api_socket sample_vm = ''/d/pool-1234-3/api.sock''"
  "vm_vsock_socket sample_vm = ''/d/pool-1234-3/vsock.sock''"
  by (simp_all add: sample_vm_def)

lemma sample_pool_sel [simp]:
  "ready sample_pool = [sample_vm]" "next_cid sample_pool = 4" "active sample_pool = []"
  "active_count sample_pool = 0" "calls sample_pool = []"
  by (simp_all add: sample_pool_def Pool_new_def)

lemma dec_1234: "dec 1234 = ''1234''" and dec_3: "dec 3 = ''3''"
  by code_simp+

lemma dec_1234_3: "pool_vm_id E 3 = ''pool-1234-3''" if "process_id E = 1234"
  using that by (simp add: pool_vm_id_def dec_1234 dec_3)

lemma sample_pool_ok: "process_id E = 1234 \<Longrightarrow> k < 1000 \<Longrightarrow> pool_ok E k sample_pool"
  by (simp add: pool_ok_def pool_inv_def pool_vms_def vm_ok_def drawn_def dec_1234_3 GUEST_CID_START_def)


text \<open>
  Acquiring prefers the youngest ready VM and then restores nothing: no call is made, the
  VM moves from the ready to the active ones. With no ready VM it restores one, with the CID and
  the identifier drawn from the allocator; when that restore fails, the error is returned, one
  CID is spent, and the ready and active VMs and their count are untouched.
\<close>

theorem acquire_outcome:
  "acquire E cfg s =
     (if ready s \<noteq> [] then
        (let vm = last (ready s) in
         (Inr vm, s\<lparr>ready := butlast (ready s), active_count := active_count s + 1,
                    active := AList.update (vm_id vm) vm (active s)\<rparr>))
      else (case restore_one E cfg s of
          (Inl e, s') \<Rightarrow> (Inl e, s')
        | (Inr vm, s') \<Rightarrow> (Inr vm, s'\<lparr>active_count := active_count s + 1,
             active := AList.update (vm_id vm) vm (active s)\<rparr>))) \<and>
   (\<exists>cs. snd (restore_one E cfg s) = s\<lparr>next_cid := next_cid s + 1, calls := calls s @ cs\<rparr>) \<and>
   (case fst (restore_one E cfg s) of Inl _ \<Rightarrow> True
    | Inr vm \<Rightarrow> vm_cid vm = next_cid s \<and> vm_id vm = pool_vm_id E (next_cid s))"
proof -
  obtain r cs where run: "restore_one E cfg s = (r, s\<lparr>next_cid := next_cid s + 1, calls := calls s @ cs\<rparr>)"
    and vm: "\<And>vm. r = Inr vm \<Longrightarrow> vm_id vm = pool_vm_id E (next_cid s) \<and> vm_cid vm = next_cid s"
    using restore_one_step [of E cfg s] by blast
  have "fst (restore_one E cfg s) = r" using run by simp
  with vm have "case fst (restore_one E cfg s) of Inl _ \<Rightarrow> True
    | Inr vm \<Rightarrow> vm_cid vm = next_cid s \<and> vm_id vm = pool_vm_id E (next_cid s)"
    by (auto split: sum.split)
  moreover have "\<exists>cs. snd (restore_one E cfg s) = s\<lparr>next_cid := next_cid s + 1, calls := calls s @ cs\<rparr>"
    using run by auto
  ultimately show ?thesis using run
    by (cases "ready s = []"; cases r)
      (simp_all add: acquire_ready acquire_empty register_active_apply Let_def)
qed

text \<open>
  A pool that is initialised from empty has at most \<^verbatim>\<open>pool_size\<close> ready VMs and no active one
  afterwards, whatever fails; and when the base snapshot is there and every restore succeeds,
  initialisation succeeds with exactly \<^verbatim>\<open>pool_size\<close> ready VMs.
\<close>

theorem initialize_fills:
  fixes s :: "'z pool_scheme"
  assumes "ready s = []"
  shows "length (ready (snd (initialize E cfg s))) \<le> pool_size cfg \<and>
    active (snd (initialize E cfg s)) = active s \<and>
    active_count (snd (initialize E cfg s)) = active_count s \<and>
    ((\<forall>h p. ans_bool E h (FsExists p)) \<and> (\<forall>t :: 'z pool_scheme. \<exists>vm. fst (restore_one E cfg t) = Inr vm) \<longrightarrow>
      fst (initialize E cfg s) = Inr () \<and> length (ready (snd (initialize E cfg s))) = pool_size cfg)"
  using initialize_state [of E cfg s] initialize_all [of E s cfg] assms by simp

lemma live_restore: "\<exists>vm. fst (restore_one live_env sample_cfg s) = Inr vm"
  by (simp add: restore_one_def restore_base_def prepare_snapshot_def link_or_copy_def spawn_ch_def wait_ch_ready_def
      restore_vm_def resume_vm_def api_request_def wait_for_agent_def try_agent_health_def starts_with_def
      Let_def prog_simps cong: prog_congs)

theorem initialize_fills_witness:
  "fst (initialize live_env sample_cfg (Pool_new [])) = Inr () \<and>
   length (ready (snd (initialize live_env sample_cfg (Pool_new [])))) = 2"
  using initialize_fills [of "Pool_new []" live_env sample_cfg] live_restore
  by (auto simp: Pool_new_def)

end
