(* ===== verification/Shadow.thy ===== *)
theory Shadow
  imports Pool
begin

text \<open>
  \<^verbatim>\<open>crates/daemon/src/shadow.rs\<close>: the cache of warm workload snapshots and the shadow VMs that
  produce them. The manager's state extends the pool's by the cache, the registry of running
  shadows and the tasks that have been spawned and have not run yet (\<^verbatim>\<open>tokio::spawn\<close>); a task is run
  as a whole by the step relation of the API server. A hash map iterates in the order of its
  association list; the only iteration whose order matters breaks ties between equal times.
\<close>

record SnapshotEntry =
  se_dir :: path
  se_last_used :: nat
  se_erofs_mtime :: "nat option"

datatype task = Replenish | RunShadow string string

record snapmgr = pool +
  snapshots :: "SnapshotEntry hmap"
  active_shadows :: "unit hmap"
  tasks :: "task list"

section \<open>Operations\<close>

text \<open>\<^verbatim>\<open>SnapshotManager::new\<close>: an empty manager around a pool.\<close>

definition SnapshotManager_new :: "pool \<Rightarrow> snapmgr" where
  "SnapshotManager_new p = pool.extend p \<lparr>snapshots = [], active_shadows = [], tasks = []\<rparr>"

definition has_snapshot :: "env \<Rightarrow> string \<Rightarrow> string option \<Rightarrow> ('z snapmgr_scheme, bool) prog" where
  "has_snapshot E image_key erofs_path =
     bindE (getE (\<lambda>s. map_of (snapshots s) image_key)) (\<lambda>eo. case eo of
        None \<Rightarrow> retE False
      | Some entry \<Rightarrow>
          (case (erofs_path, se_erofs_mtime entry) of
             (Some erofs, Some snap_mtime) \<Rightarrow>
               bindE (catchE (ask (ans_nat E) (FsMtime erofs))) (\<lambda>m. case m of
                  Inl _ \<Rightarrow> retE True
                | Inr current_mtime \<Rightarrow>
                    if current_mtime \<noteq> snap_mtime then
                      thenE (modE (\<lambda>s. s\<lparr>snapshots := AList.delete image_key (snapshots s)\<rparr>))
                     (thenE (tell (FsRemoveDirAll (se_dir entry))) (retE False))
                    else retE True)
           | _ \<Rightarrow> retE True))"

definition get_snapshot_dir :: "env \<Rightarrow> string \<Rightarrow> ('z snapmgr_scheme, path option) prog" where
  "get_snapshot_dir E image_key =
     bindE (getE (\<lambda>s. map_of (snapshots s) image_key)) (\<lambda>eo. case eo of
        None \<Rightarrow> retE None
      | Some entry \<Rightarrow>
          bindE (clock_now E) (\<lambda>t.
          thenE (modE (\<lambda>s. s\<lparr>snapshots := AList.update image_key (entry\<lparr>se_last_used := t\<rparr>) (snapshots s)\<rparr>))
                (retE (Some (se_dir entry)))))"

definition restore_from_snapshot ::
  "env \<Rightarrow> DaemonConfig \<Rightarrow> string \<Rightarrow> u64 \<Rightarrow> path \<Rightarrow> ('z snapmgr_scheme, u32 \<times> path \<times> path) prog" where
  "restore_from_snapshot E cfg image_key cid dir =
     bindE (get_snapshot_dir E image_key) (\<lambda>so.
     bindE (ofOptE (msg ''snapshot not found'') so) (\<lambda>snap_dir.
     let vsock_socket = join_path dir ''vsock.sock''; api_socket = join_path dir ''api.sock'' in
     bindE (prepare_snapshot E snap_dir dir cid vsock_socket) (\<lambda>work_dir.
     bindE (spawn_ch E cfg dir) (\<lambda>ch_pid.
     thenE (wait_ch_ready E api_socket)
    (thenE (restore_vm E api_socket work_dir)
    (thenE (resume_vm E api_socket)
           (retE (ch_pid, api_socket, vsock_socket))))))))"

definition spawn_task :: "task \<Rightarrow> ('z snapmgr_scheme, unit) prog" where
  "spawn_task t = modE (\<lambda>s. s\<lparr>tasks := tasks s @ [t]\<rparr>)"

definition trigger_shadow :: "env \<Rightarrow> string \<Rightarrow> string \<Rightarrow> ('z snapmgr_scheme, unit) prog" where
  "trigger_shadow E image_key erofs_path =
     bindE (has_snapshot E image_key (Some erofs_path)) (\<lambda>h.
       if h then retE ()
       else bindE (getE (\<lambda>s. map_of (active_shadows s) image_key \<noteq> None)) (\<lambda>running.
         if running then retE ()
         else thenE (spawn_task (RunShadow image_key erofs_path))
                (modE (\<lambda>s. s\<lparr>active_shadows := AList.update image_key () (active_shadows s)\<rparr>))))"

text \<open>The kernel command line without its \<^verbatim>\<open>ip=\<close> arguments.\<close>

definition strip_ip :: "string \<Rightarrow> string" where
  "strip_ip cmdline = join_str '' '' (filter (\<lambda>part. \<not> starts_with ''ip='' part) (split_ws cmdline))"

definition strip_cmdline :: "json \<Rightarrow> json" where
  "strip_cmdline j = j_at [''payload'', ''cmdline''] (\<lambda>v. case as_str v of Some x \<Rightarrow> JStr (strip_ip x) | None \<Rightarrow> v) j"

definition strip_kernel_ip :: "env \<Rightarrow> path \<Rightarrow> ('z world_scheme, unit) prog" where
  "strip_kernel_ip E snap_dir =
     (let p = join_path snap_dir ''config.json'' in
      bindE (ask (ans_str E) (FsRead p)) (\<lambda>config_str.
      bindE (parse_json E config_str) (\<lambda>config.
        ask (ans_unit E) (FsWrite p (json_pretty E (strip_cmdline config))))))"

text \<open>Steps 2 to 5 of a shadow: run the workload in the acquired VM, let it warm up, take the snapshot.\<close>

definition shadow_snapshot :: "env \<Rightarrow> DaemonConfig \<Rightarrow> string \<Rightarrow> string \<Rightarrow> PoolVm \<Rightarrow> ('z world_scheme, unit) prog" where
  "shadow_snapshot E cfg image_key erofs_path vm =
     (let api_socket = vm_api_socket vm; snap_dir = join_path (snapshot_cache_dir cfg) image_key in
      thenE (ctxE ''hot-plug rootfs for shadow''
        (api_request_with_body E api_socket ''PUT'' ''/api/v1/vm.add-disk''
          (json_print E (JObj [(''path'', JStr erofs_path), (''readonly'', JBool True), (''id'', JStr ''ctr-rootfs'')]))))
     (bindE (connect_agent E (vm_vsock_socket vm)) (\<lambda>agent.
      thenE (ctxE ''RunContainer in shadow VM''
        (ask (ans_nat E) (RpcRunContainer agent (''shadow-ctr-'' @ image_key) ''{}'' 1)))
     (thenE (tell (Sleep (unat (warmup_duration_secs cfg) * 1000)))
     (thenE (ask (ans_unit E) (FsCreateDirAll snap_dir))
     (thenE (pause_vm E api_socket)
     (thenE (snapshot_vm E api_socket snap_dir)
            (strip_kernel_ip E snap_dir))))))))"

text \<open>The least recently used key: the first one with the smallest time.\<close>

fun lru_entry :: "SnapshotEntry hmap \<Rightarrow> (string \<times> SnapshotEntry) option" where
  "lru_entry [] = None"
| "lru_entry (x # xs) = (case lru_entry xs of
      None \<Rightarrow> Some x
    | Some y \<Rightarrow> if se_last_used (snd y) < se_last_used (snd x) then Some y else Some x)"

text \<open>
  The eviction loop. It removes one entry per round, so as many rounds as there are entries, and
  one to notice, are enough; the number of entries is passed as the bound.
\<close>

fun evict_loop :: "nat \<Rightarrow> nat \<Rightarrow> ('z snapmgr_scheme, unit) prog" where
  "evict_loop limit 0 = retE ()"
| "evict_loop limit (Suc n) =
     bindE (getE snapshots) (\<lambda>m.
       if limit \<le> length m then
         (case lru_entry m of
            None \<Rightarrow> retE ()
          | Some (key, entry) \<Rightarrow>
              thenE (modE (\<lambda>s. s\<lparr>snapshots := AList.delete key (snapshots s)\<rparr>))
             (thenE (tell (FsRemoveDirAll (se_dir entry))) (evict_loop limit n)))
       else retE ())"

definition cache_snapshot :: "env \<Rightarrow> DaemonConfig \<Rightarrow> string \<Rightarrow> string \<Rightarrow> ('z snapmgr_scheme, unit) prog" where
  "cache_snapshot E cfg image_key erofs_path =
     bindE (catchE (ask (ans_nat E) (FsMtime erofs_path))) (\<lambda>m.
     bindE (getE (length \<circ> snapshots)) (\<lambda>n.
     thenE (evict_loop (max_snapshots cfg) (Suc n))
    (bindE (clock_now E) (\<lambda>t.
       modE (\<lambda>s. s\<lparr>snapshots := AList.update image_key
         \<lparr>se_dir = join_path (snapshot_cache_dir cfg) image_key, se_last_used = t,
          se_erofs_mtime = (case m of Inl _ \<Rightarrow> None | Inr x \<Rightarrow> Some x)\<rparr> (snapshots s)\<rparr>)))))"

definition run_shadow :: "env \<Rightarrow> DaemonConfig \<Rightarrow> string \<Rightarrow> string \<Rightarrow> ('z snapmgr_scheme, unit) prog" where
  "run_shadow E cfg image_key erofs_path =
     (let vm_dir = join_path (state_dir cfg) (''shadow-'' @ image_key @ ''-'' @ dec (unat (process_id E))) in
      thenE (ask (ans_unit E) (FsCreateDirAll vm_dir))
     (bindE (ctxE ''acquire for shadow'' (acquire E cfg)) (\<lambda>vm.
      thenE (shadow_snapshot E cfg image_key erofs_path vm)
     (thenE (cache_snapshot E cfg image_key erofs_path)
            (release E cfg (vm_id vm))))))"

text \<open>The spawned task: an error is logged, the registration is removed in any case.\<close>

definition shadow_task :: "env \<Rightarrow> DaemonConfig \<Rightarrow> string \<Rightarrow> string \<Rightarrow> ('z snapmgr_scheme, unit) prog" where
  "shadow_task E cfg key erofs =
     thenE (ignoreE (run_shadow E cfg key erofs))
           (modE (\<lambda>s. s\<lparr>active_shadows := AList.delete key (active_shadows s)\<rparr>))"

definition active_shadow_count :: "('z snapmgr_scheme, nat) prog" where
  "active_shadow_count = getE (length \<circ> active_shadows)"

definition snapshot_keys :: "('z snapmgr_scheme, string list) prog" where
  "snapshot_keys = getE (map fst \<circ> snapshots)"

lemma only_calls_shadow [frame_rules]:
  "only_calls (strip_kernel_ip E d)" "only_calls (shadow_snapshot E cfg key erofs vm)"
  unfolding strip_kernel_ip_def shadow_snapshot_def Let_def by (intro frame_rules)+

section \<open>What the operations keep\<close>

text \<open>A property of the state that looks neither at the history nor at the cache.\<close>

definition cache_blind :: "('z snapmgr_scheme \<Rightarrow> bool) \<Rightarrow> bool" where
  "cache_blind P \<longleftrightarrow> (\<forall>s h. P s \<longrightarrow> P (s\<lparr>calls := h\<rparr>)) \<and> (\<forall>s m. P s \<longrightarrow> P (s\<lparr>snapshots := m\<rparr>))"

lemma cache_blindI:
  "(\<And>s h. P s \<Longrightarrow> P (s\<lparr>calls := h\<rparr>)) \<Longrightarrow> (\<And>s m. P s \<Longrightarrow> P (s\<lparr>snapshots := m\<rparr>)) \<Longrightarrow> cache_blind P"
  by (simp add: cache_blind_def)

lemma cache_blind_calls: "cache_blind P \<Longrightarrow> only_calls m \<Longrightarrow> preserves P m"
  by (rule preserves_only_calls) (simp_all add: cache_blind_def)

lemma cache_blind_asks:
  assumes "cache_blind P"
  shows "preserves P (ask f c)" "preserves P (askb E c)" "preserves P (tell c)" "preserves P (clock_now E)"
  using assms by (intro cache_blind_calls frame_rules; assumption)+

lemma cache_blind_mod: "cache_blind P \<Longrightarrow> preserves P (modE (\<lambda>s. s\<lparr>snapshots := f s\<rparr>))"
  by (rule preserves_modE) (simp add: cache_blind_def)

lemma cache_blind_evict: "cache_blind P \<Longrightarrow> preserves P (evict_loop limit n)"
proof (induction n)
  case (Suc n)
  then show ?case
    by (auto intro!: wp_rules cache_blind_mod cache_blind_asks)
qed (simp add: wp_rules)

lemma cache_blind_ops:
  assumes P: "cache_blind P"
  shows "preserves P (has_snapshot E key erofs)" "preserves P (get_snapshot_dir E key)"
    "preserves P (cache_snapshot E cfg key erofs')"
  unfolding has_snapshot_def get_snapshot_dir_def cache_snapshot_def
  by (auto intro!: wp_rules cache_blind_mod [OF P] cache_blind_asks [OF P] cache_blind_evict [OF P]
      split: option.split)

lemma cache_blind_restore:
  assumes P: "cache_blind P"
  shows "preserves P (restore_from_snapshot E cfg key cid dir)"
  unfolding restore_from_snapshot_def Let_def
  by (intro preserves_bindE cache_blind_ops(2) [OF P] cache_blind_calls [OF P] frame_rules)

section \<open>The command line\<close>

text \<open>
  Stripping the kernel command line removes exactly the words that start with \<^verbatim>\<open>ip=\<close>: what is
  left are the other words, in order, and stripping again changes nothing.
\<close>

theorem strip_ip_words:
  "split_ws (strip_ip s) = filter (\<lambda>w. \<not> starts_with ''ip='' w) (split_ws s) \<and> strip_ip (strip_ip s) = strip_ip s"
proof -
  have "split_ws (strip_ip s) = filter (\<lambda>w. \<not> starts_with ''ip='' w) (split_ws s)"
    unfolding strip_ip_def by (rule split_ws_join) (use split_ws_tokens in auto)
  then show ?thesis by (simp add: strip_ip_def)
qed

section \<open>The cache\<close>

lemma lru_entry_None [simp]: "lru_entry m = None \<longleftrightarrow> m = []"
  by (cases m) (auto split: option.split)

lemma lru_entry_min:
  "lru_entry m = Some x \<Longrightarrow> x \<in> set m \<and> (\<forall>y \<in> set m. se_last_used (snd x) \<le> se_last_used (snd y))"
proof (induction m arbitrary: x)
  case (Cons a m)
  then show ?case by (fastforce split: option.splits if_splits)
qed simp

text \<open>\<open>lru_kept m m'\<close>: \<open>m'\<close> is \<open>m\<close> without some of its least recently used entries.\<close>

definition lru_kept :: "SnapshotEntry hmap \<Rightarrow> SnapshotEntry hmap \<Rightarrow> bool" where
  "lru_kept m m' \<longleftrightarrow> set m' \<subseteq> set m \<and>
     (\<forall>x \<in> set m - set m'. \<forall>y \<in> set m'. se_last_used (snd x) \<le> se_last_used (snd y))"

lemma delete_set: "hm_ok m \<Longrightarrow> (k, v) \<in> set m \<Longrightarrow> set (AList.delete k m) = set m - {(k, v)}"
  by (induction m) (auto simp: image_iff)

lemma lru_kept_trans_step:
  assumes "hm_ok m" and "lru_entry m = Some (k, e)" and "lru_kept (AList.delete k m) m'"
  shows "lru_kept m m'"
proof -
  have ke: "(k, e) \<in> set m" and least: "\<forall>y \<in> set m. se_last_used e \<le> se_last_used (snd y)"
    using lru_entry_min [OF assms(2)] by auto
  have del: "set (AList.delete k m) = set m - {(k, e)}" by (rule delete_set [OF assms(1) ke])
  show ?thesis unfolding lru_kept_def
  proof (intro conjI ballI)
    show "set m' \<subseteq> set m" using assms(3) by (auto simp: lru_kept_def del)
    fix x y assume "x \<in> set m - set m'" "y \<in> set m'"
    moreover have "se_last_used (snd x) \<le> se_last_used (snd y)" if "x \<in> set m - {(k, e)} - set m'"
      using assms(3) that \<open>y \<in> set m'\<close> unfolding lru_kept_def del by blast
    moreover have "y \<in> set m" using assms(3) \<open>y \<in> set m'\<close> by (auto simp: lru_kept_def del)
    ultimately show "se_last_used (snd x) \<le> se_last_used (snd y)" using least by (cases "x = (k, e)") auto
  qed
qed

lemma evict_loop_result:
  fixes s :: "'z snapmgr_scheme"
  assumes "hm_ok (snapshots s)" and "length (snapshots s) < n"
  shows "\<exists>m' cs. evict_loop limit n s = (Inr (), s\<lparr>snapshots := m', calls := calls s @ cs\<rparr>) \<and>
    hm_ok m' \<and> lru_kept (snapshots s) m' \<and> length m' = min (length (snapshots s)) (limit - 1) \<and>
    (\<forall>x \<in> set (snapshots s) - set m'. FsRemoveDirAll (se_dir (snd x)) \<in> set cs)"
  using assms
proof (induction n arbitrary: s)
  case (Suc n)
  let ?m = "snapshots s"
  show ?case
  proof (cases "limit \<le> length ?m \<and> ?m \<noteq> []")
    case False
    have "evict_loop limit (Suc n) s = (Inr (), s\<lparr>snapshots := ?m, calls := calls s @ []\<rparr>)"
      using False by (auto simp: prog_simps)
    moreover have "length ?m = min (length ?m) (limit - 1)" using False by auto
    ultimately show ?thesis using Suc.prems by (intro exI [of _ ?m] exI [of _ "[]"]) (simp add: lru_kept_def)
  next
    case True
    then obtain k e where ke: "lru_entry ?m = Some (k, e)" by (metis lru_entry_None option.exhaust prod.exhaust)
    let ?s = "s\<lparr>snapshots := AList.delete k ?m, calls := calls s @ [FsRemoveDirAll (se_dir e)]\<rparr>"
    have mem: "(k, e) \<in> set ?m" using lru_entry_min [OF ke] by simp
    have del: "set (AList.delete k ?m) = set ?m - {(k, e)}" by (rule delete_set [OF Suc.prems(1) mem])
    have "map_of ?m k \<noteq> None" using mem by (metis map_of_eq_None_iff fst_conv image_eqI)
    then have len: "Suc (length (AList.delete k ?m)) = length ?m" by (rule hm.len_rem_present [OF Suc.prems(1)])
    have ok: "hm_ok (AList.delete k ?m)" using Suc.prems(1) by (rule distinct_delete)
    have "evict_loop limit (Suc n) s = evict_loop limit n ?s"
      using True ke by (simp add: prog_simps log_call_def)
    moreover obtain m' cs where IH: "evict_loop limit n ?s = (Inr (), ?s\<lparr>snapshots := m', calls := calls ?s @ cs\<rparr>)"
      "hm_ok m'" "lru_kept (AList.delete k ?m) m'" "length m' = min (length (AList.delete k ?m)) (limit - 1)"
      "\<forall>x \<in> set (AList.delete k ?m) - set m'. FsRemoveDirAll (se_dir (snd x)) \<in> set cs"
      using Suc.IH [of ?s] ok len Suc.prems(2) by auto
    moreover have "lru_kept ?m m'" by (rule lru_kept_trans_step [OF Suc.prems(1) ke IH(3)])
    moreover have "length m' = min (length ?m) (limit - 1)" using IH(4) len True by auto
    moreover have "\<forall>x \<in> set ?m - set m'. FsRemoveDirAll (se_dir (snd x)) \<in> set (FsRemoveDirAll (se_dir e) # cs)"
      using IH(5) unfolding del by auto
    ultimately show ?thesis
      by (intro exI [of _ m'] exI [of _ "FsRemoveDirAll (se_dir e) # cs"]) simp
  qed
qed simp

lemma cache_snapshot_result:
  assumes ok: "hm_ok (snapshots s)" and run: "cache_snapshot E cfg key erofs s = (Inr (), s')"
  shows "\<exists>m' cs e. hm_ok m' \<and> lru_kept (snapshots s) m' \<and> length m' = min (length (snapshots s)) (max_snapshots cfg - 1) \<and>
    (\<forall>x \<in> set (snapshots s) - set m'. FsRemoveDirAll (se_dir (snd x)) \<in> set cs) \<and>
    se_dir e = join_path (snapshot_cache_dir cfg) key \<and>
    s' = s\<lparr>snapshots := AList.update key e m', calls := calls s @ cs\<rparr>"
proof -
  let ?c = "FsMtime erofs"
  let ?s1 = "log_call ?c s" and ?mt = "case ans_nat E (calls s) ?c of Inl _ \<Rightarrow> None | Inr x \<Rightarrow> Some x"
  obtain m' cs where ev: "evict_loop (max_snapshots cfg) (Suc (length (snapshots s))) ?s1 =
      (Inr (), ?s1\<lparr>snapshots := m', calls := calls ?s1 @ cs\<rparr>)"
    and m': "hm_ok m'" "lru_kept (snapshots s) m'" "length m' = min (length (snapshots s)) (max_snapshots cfg - 1)"
      "\<forall>x \<in> set (snapshots s) - set m'. FsRemoveDirAll (se_dir (snd x)) \<in> set cs"
    using evict_loop_result [of ?s1 "Suc (length (snapshots s))" "max_snapshots cfg"] ok by (auto simp: log_call_def)
  let ?t = "ans_clock E (calls s @ ?c # cs)"
  have s': "s' = s\<lparr>snapshots := AList.update key \<lparr>se_dir = join_path (snapshot_cache_dir cfg) key, se_last_used = ?t,
        se_erofs_mtime = ?mt\<rparr> m', calls := calls s @ ?c # cs @ [Now]\<rparr>"
    using run ev unfolding cache_snapshot_def
    by (auto simp: bindE_def thenE_def catchE_def ask_def of_os_def getE_def modE_def clock_now_def log_call_def simp del: evict_loop.simps
        split: sum.splits)
  have "\<forall>x \<in> set (snapshots s) - set m'. FsRemoveDirAll (se_dir (snd x)) \<in> set (?c # cs @ [Now])"
    using m'(4) by simp
  with m'(1-3) s' show ?thesis
    by (intro exI [of _ m'] exI [of _ "?c # cs @ [Now]"] exI [of _ "\<lparr>se_dir = join_path (snapshot_cache_dir cfg) key,
        se_last_used = ?t, se_erofs_mtime = ?mt\<rparr>"]) simp
qed

lemma length_update_le: "length (AList.update k v m) \<le> Suc (length m)"
  by (induction m) auto


definition sample_mgr :: snapmgr where
  "sample_mgr = (SnapshotManager_new sample_pool)\<lparr>snapshots :=
     [(''old'', \<lparr>se_dir = ''/c/old'', se_last_used = 3, se_erofs_mtime = None\<rparr>),
      (''new'', \<lparr>se_dir = ''/c/new'', se_last_used = 5, se_erofs_mtime = None\<rparr>)]\<rparr>"

lemma sample_mgr_sel [simp]:
  "ready sample_mgr = [sample_vm]" "next_cid sample_mgr = 4" "active sample_mgr = []" "active_count sample_mgr = 0"
  "calls sample_mgr = []" "tasks sample_mgr = []" "active_shadows sample_mgr = []"
  "snapshots sample_mgr = [(''old'', \<lparr>se_dir = ''/c/old'', se_last_used = 3, se_erofs_mtime = None\<rparr>),
      (''new'', \<lparr>se_dir = ''/c/new'', se_last_used = 5, se_erofs_mtime = None\<rparr>)]"
  by (simp_all add: sample_mgr_def SnapshotManager_new_def pool.defs)


section \<open>Shadow VMs\<close>

text \<open>
  A shadow that completes has given its VM back: the registry of active VMs and the counter
  are what they were and the snapshot is cached. A shadow that fails has either not acquired a VM, or
  keeps the one it acquired: it stays in the registry and nothing releases it.
\<close>

theorem run_shadow_accounting:
  fixes s :: "'z snapmgr_scheme"
  assumes ok: "pool_ok E (Suc k) s" and run: "run_shadow E cfg key erofs s = (r, s')"
  shows "case r of
      Inr _ \<Rightarrow> map_of (active s') = map_of (active s) \<and> active_count s' = active_count s
    | Inl _ \<Rightarrow> (map_of (active s') = map_of (active s) \<and> active_count s' = active_count s) \<or>
        (\<exists>(s0 :: 'z snapmgr_scheme) vm s1. acquire E cfg s0 = (Inr vm, s1) \<and> map_of (active s) (vm_id vm) = None \<and>
           map_of (active s') = (map_of (active s))(vm_id vm \<mapsto> vm) \<and> active_count s' = active_count s + 1)"
proof -
  let ?c = "FsCreateDirAll (join_path (state_dir cfg) (''shadow-'' @ key @ ''-'' @ dec (unat (process_id E))))"
  let ?s0 = "log_call ?c s"
  have ok0: "pool_ok E (Suc k) ?s0" using ok by (simp add: log_call_def)
  let ?body = "\<lambda>vm. thenE (shadow_snapshot E cfg key erofs vm) (thenE (cache_snapshot E cfg key erofs) (release E cfg (vm_id vm)))
    :: ('z snapmgr_scheme, unit) prog"
  show ?thesis
  proof (cases "ans_unit E (calls s) ?c")
    case (Inl e)
    then show ?thesis using run by (auto simp: run_shadow_def Let_def prog_simps log_call_def)
  next
    case (Inr u)
    obtain ra s1 where a: "acquire E cfg ?s0 = (ra, s1)" by fastforce
    show ?thesis
    proof (cases ra)
      case (Inl e)
      then have "r = Inl (add_ctx ''acquire for shadow'' e)" "s' = s1"
        using run a Inr by (auto simp: run_shadow_def Let_def bindE_def thenE_def ctxE_def ask_def)
      then show ?thesis using acquire_Inl(2) [of E cfg ?s0 e s1] a Inl by (auto simp: log_call_def)
    next
      case (Inr vm)
      note acq = acquire_Inr [OF ok0, of cfg vm s1]
      have b: "?body vm s1 = (r, s')"
        using run a Inr \<open>ans_unit E (calls s) ?c = Inr u\<close>
        by (auto simp: run_shadow_def Let_def bindE_def thenE_def ctxE_def ask_def)
      let ?P = "\<lambda>t. active t = active s1 \<and> active_count t = active_count s1"
      have blind: "cache_blind ?P" by (rule cache_blindI) simp_all
      obtain r2 s2 where s2: "shadow_snapshot E cfg key erofs vm s1 = (r2, s2)" by fastforce
      have P2: "?P s2" using preservesD [OF cache_blind_calls [OF blind only_calls_shadow(2)], of s1 E cfg key erofs vm] s2 by simp
      obtain r3 s3 where s3: "cache_snapshot E cfg key erofs s2 = (r3, s3)" by fastforce
      have P3: "?P s3" using preservesD [OF cache_blind_ops(3) [OF blind], of s2 E cfg key erofs] P2 s3 by simp
      have leak: ?thesis if "r = Inl e" "?P s'" for e
      proof -
        have "acquire E cfg ?s0 = (Inr vm, s1) \<and> map_of (active s) (vm_id vm) = None \<and>
           map_of (active s') = (map_of (active s))(vm_id vm \<mapsto> vm) \<and> active_count s' = active_count s + 1"
          using that(2) a Inr acq by (simp add: log_call_def)
        with that(1) show ?thesis by (simp only: sum.case) blast
      qed
      show ?thesis
      proof (cases r2)
        case (Inl e)
        then show ?thesis using b s2 P2 leak by (auto simp: thenE_apply)
      next
        case (Inr u2)
        show ?thesis
        proof (cases r3)
          case (Inl e)
          then show ?thesis using b s2 s3 P3 leak Inr by (auto simp: thenE_apply)
        next
          case (Inr u3)
          then have rel: "release E cfg (vm_id vm) s3 = (r, s')"
            using b s2 s3 \<open>r2 = Inr u2\<close> by (simp add: thenE_apply)
          have "map_of (active s') = map_of (active s)"
            using pl.bracket [OF ok0, of cfg vm s1 s3] a \<open>ra = Inr vm\<close> P3 rel by (simp add: log_call_def)
          then show ?thesis
            using release_run(1,5) [OF rel] acq a \<open>ra = Inr vm\<close> P3 by (auto simp: log_call_def)
        qed
      qed
    qed
  qed
qed

theorem run_shadow_accounting_witness:
  "\<exists>e s'. run_shadow (live_env\<lparr>ans_nat := \<lambda>_ _. Inr 500\<rparr>) sample_cfg ''img'' ''/e'' sample_mgr = (Inl e, s') \<and>
     (\<exists>vm. map_of (active s') = [vm_id vm \<mapsto> vm]) \<and> active_count s' = 1"
proof -
  let ?E = "live_env\<lparr>ans_nat := \<lambda>_ _. Inr 500\<rparr>"
  have "\<exists>e s'. run_shadow ?E sample_cfg ''img'' ''/e'' sample_mgr = (Inl e, s') \<and> active_count s' = 1"
    by (simp add: run_shadow_def Let_def acquire_ready register_active_apply shadow_snapshot_def
        api_request_with_body_def api_request_def prog_simps log_call_def cong: prog_congs)
  then obtain e s' where run: "run_shadow ?E sample_cfg ''img'' ''/e'' sample_mgr = (Inl e, s')"
    and one: "active_count s' = 1" by blast
  have ok: "pool_ok ?E (Suc 0) sample_mgr"
    using sample_pool_ok [of ?E 1] by (simp add: pool_ok_def pool_inv_def pool_vms_def)
  from run_shadow_accounting [OF ok run] one have "\<exists>vm. map_of (active s') = [vm_id vm \<mapsto> vm]" by auto
  with run one show ?thesis by blast
qed

end
