(* ===== verification/Netns.thy ===== *)
theory Netns
  imports Netlink
begin

text \<open>
  \<^verbatim>\<open>crates/daemon/src/netns.rs\<close> and \<^verbatim>\<open>crates/shim/src/netns.rs\<close>: entering a pod's network namespace
  and leaving it again, discovering the pod's address, creating the TAP device and wiring it to
  the pod's interface, and the shim's cleanup. Integer arithmetic is that of the release build:
  additions wrap and a shift distance is taken modulo the width.
\<close>

section \<open>Entering a namespace\<close>

definition open_ns :: "env \<Rightarrow> path \<Rightarrow> ('z world_scheme, nat) prog" where
  "open_ns E p =
     (if CHR 0x00 \<in> set p
      then failE (msg (''nul byte found in provided data at position: '' @
                       dec (length (takeWhile (\<lambda>c. c \<noteq> CHR 0x00) p))))
      else ctxE (''open '' @ p) (ask (ans_nat E) (NsOpen p)))"

fun wait_ns :: "env \<Rightarrow> path \<Rightarrow> nat \<Rightarrow> ('z world_scheme, unit) prog" where
  "wait_ns E p 0 = retE ()"
| "wait_ns E p (Suc left) =
     bindE (askb E (FsExists p)) (\<lambda>ex.
       if ex then retE ()
       else if left = 0 then failE (msg (''netns '' @ p @ '' did not appear after 2s''))
       else thenE (tell (Sleep 100)) (wait_ns E p left))"

text \<open>The guard that is dropped at the end goes back to the original namespace.\<close>

definition enter_ns :: "env \<Rightarrow> path \<Rightarrow> ('z world_scheme, 'a) prog \<Rightarrow> ('z world_scheme, 'a) prog" where
  "enter_ns E p f =
     bindE (open_ns E ''/proc/self/ns/net'') (\<lambda>orig.
     bindE (open_ns E p) (\<lambda>target.
     thenE (ctxE ''setns into target'' (ask (ans_unit E) (NsSet target)))
           (finallyE f (tell (NsSet orig)))))"

definition in_netns :: "env \<Rightarrow> path \<Rightarrow> ('z world_scheme, 'a) prog \<Rightarrow> ('z world_scheme, 'a) prog" where
  "in_netns E p f = thenE (wait_ns E p 20) (enter_ns E p f)"

definition in_netns_nowait :: "env \<Rightarrow> path \<Rightarrow> ('z world_scheme, 'a) prog \<Rightarrow> ('z world_scheme, 'a) prog" where
  "in_netns_nowait E p f =
     bindE (askb E (FsExists p)) (\<lambda>ex.
       if \<not> ex then failE (msg (''netns '' @ p @ '' gone'')) else enter_ns E p f)"

definition retry :: "nat \<Rightarrow> nat \<Rightarrow> ('z world_scheme, 'a option) prog \<Rightarrow> ('z world_scheme, 'a) prog" where
  "retry max_n ms f =
     poll_times max_n f (Sleep ms) (failE (msg (''not found after '' @ dec max_n @ '' retries'')))"

section \<open>The pod's network\<close>

record PodNetInfo =
  ip_cidr :: string
  gateway :: string
  mac :: string

text \<open>The first address of the subnet. The shift distance is taken modulo 32.\<close>

definition infer_gateway :: "string \<Rightarrow> string option" where
  "infer_gateway cidr =
     (case split_on (CHR ''/'') cidr of
        ip_s # pfx_s # _ \<Rightarrow>
          (case (parse_ipv4 ip_s, parse_uint 32 pfx_s) of
             (Some ip, Some prefix) \<Rightarrow>
               if 30 < prefix then None
               else
                 let mask = NOT (push_bit ((32 - prefix) mod 32) 1 - 1);
                     network = ip AND mask
                 in Some (show_ipv4 (network + 1))
           | _ \<Rightarrow> None)
      | _ \<Rightarrow> None)"

definition prepare_tap :: "env \<Rightarrow> path \<Rightarrow> string \<Rightarrow> ('z world_scheme, PodNetInfo) prog" where
  "prepare_tap E netns_path tap_name =
     bindE (in_netns E netns_path
       (thenE (ctxE ''netlink'' (nl_open E)) (with_netlink
         (bindE (ctxE ''find veth'' (retry 20 100
             (bindE (dump_links E) (first_with_ipv4 E (\<lambda>name. name = ''lo'' \<or> name = [])))))
           (\<lambda>(_, _, cidr, veth_mac).
          bindE (catchE (get_default_gw E)) (\<lambda>g.
            let gw = (case g of
                Inr (Some gw) \<Rightarrow> gw
              | _ \<Rightarrow> (case infer_gateway cidr of Some gw \<Rightarrow> gw | None \<Rightarrow> []))
            in retE \<lparr>ip_cidr = cidr, gateway = gw, mac = veth_mac\<rparr>))))))
     (\<lambda>info.
       thenE (ctxE ''netlink'' (nl_open E))
      (thenE (with_netlink (ignoreE (del_link E tap_name)))
      (thenE (ctxE ''create TAP'' (create_tap E tap_name))
             (retE info))))"

text \<open>The arrow of two messages, in UTF-8.\<close>

definition arrow :: string where
  "arrow = [CHR 0xE2, CHR 0x86, CHR 0x92]"

definition activate_tap :: "env \<Rightarrow> path \<Rightarrow> string \<Rightarrow> ('z world_scheme, unit) prog" where
  "activate_tap E netns_path tap_name =
     thenE (ctxE ''netlink'' (nl_open E))
    (thenE (with_netlink
       (bindE (ctxE ''TAP index'' (get_link_index E tap_name)) (\<lambda>tap_idx.
        bindE (open_ns E netns_path) (\<lambda>ns_fd.
          ctxE ''move TAP to pod netns'' (set_link_netns_fd E tap_idx ns_fd)))))
    (in_netns E netns_path
      (thenE (ctxE ''netlink'' (nl_open E)) (with_netlink
        (bindE (ctxE ''TAP index'' (get_link_index E tap_name)) (\<lambda>tap_idx.
         thenE (ctxE ''TAP up'' (set_link_up E tap_idx))
        (bindE (ctxE ''find veth'' (retry 20 100 (find_veth E tap_name))) (\<lambda>(_, veth_idx, _, _).
         thenE (ctxE ''ingress veth'' (add_ingress_qdisc E veth_idx))
        (thenE (ctxE (''redir veth'' @ arrow @ ''tap'') (add_redirect_filter E veth_idx tap_idx))
        (thenE (ctxE ''ingress tap'' (add_ingress_qdisc E tap_idx))
        (thenE (ctxE (''redir tap'' @ arrow @ ''veth'') (add_redirect_filter E tap_idx veth_idx))
               (ignoreE (flush_addrs E veth_idx)))))))))))))"

text \<open>The shim's cleanup is best effort: every failure inside is dropped.\<close>

definition cleanup_tap :: "env \<Rightarrow> path \<Rightarrow> string \<Rightarrow> ('z world_scheme, unit) prog" where
  "cleanup_tap E netns_path tap_name =
     ignoreE (blockingE [] (ignoreE (in_netns_nowait E netns_path
       (bindE (catchE (nl_open E)) (\<lambda>nl. case nl of
          Inl _ \<Rightarrow> retE ()
        | Inr _ \<Rightarrow> with_netlink
            (bindE (catchE (find_veth E tap_name)) (\<lambda>v.
             thenE (case v of Inr (Some (_, veth_idx, _, _)) \<Rightarrow> ignoreE (del_ingress_qdisc E veth_idx) | _ \<Rightarrow> retE ())
            (bindE (catchE (get_link_index E tap_name)) (\<lambda>t.
             thenE (case t of Inr tap_idx \<Rightarrow> ignoreE (del_ingress_qdisc E tap_idx) | Inl _ \<Rightarrow> retE ())
                   (ignoreE (del_link E tap_name)))))))))))"

section \<open>Frame\<close>

lemma only_calls_open_ns [frame_rules]: "only_calls (open_ns E p)"
  unfolding open_ns_def by (intro frame_rules)

lemma only_calls_wait_ns [frame_rules]: "only_calls (wait_ns E p n)"
  by (induction n) (auto intro!: frame_rules)

lemma only_calls_enter_ns [frame_rules]: "only_calls f \<Longrightarrow> only_calls (enter_ns E p f)"
  unfolding enter_ns_def by (intro frame_rules)

lemma only_calls_in_netns [frame_rules]:
  "only_calls f \<Longrightarrow> only_calls (in_netns E p f)" "only_calls f \<Longrightarrow> only_calls (in_netns_nowait E p f)"
  unfolding in_netns_def in_netns_nowait_def by (intro frame_rules; assumption)+

lemma grows_poll_times [frame_rules]:
  "grows body \<Longrightarrow> grows late \<Longrightarrow> grows (poll_times n body (idle :: call) late)"
  by (induction n) (auto intro!: frame_rules)

lemma grows_retry [frame_rules]: "grows f \<Longrightarrow> grows (retry n ms f)"
  unfolding retry_def by (intro frame_rules)

lemma grows_open_ns [frame_rules]: "grows (open_ns E p)"
  by (rule grows_only_calls [OF only_calls_open_ns])

lemma only_calls_taps [frame_rules]:
  "only_calls (prepare_tap E ns tap)" "only_calls (activate_tap E ns tap)" "only_calls (cleanup_tap E ns tap)"
  unfolding prepare_tap_def activate_tap_def cleanup_tap_def Let_def
  by (intro frame_rules)+

section \<open>Properties\<close>

definition no_switch :: "call list \<Rightarrow> bool" where
  "no_switch cs \<longleftrightarrow> (\<forall>fd. NsSet fd \<notin> set cs)"

lemma no_switch_simps [simp]:
  "no_switch []" "no_switch (xs @ ys) \<longleftrightarrow> no_switch xs \<and> no_switch ys"
  "no_switch (c # cs) \<longleftrightarrow> (\<forall>fd. c \<noteq> NsSet fd) \<and> no_switch cs"
  by (auto simp: no_switch_def)

lemma wait_ns_run: "\<exists>r cs. wait_ns E p n s = (r, s\<lparr>calls := calls s @ cs\<rparr>) \<and> no_switch cs"
proof (induction n arbitrary: s)
  case 0
  have "wait_ns E p 0 s = (Inr (), s\<lparr>calls := calls s @ []\<rparr>)" by (simp add: retE_def)
  then show ?case by (metis no_switch_simps(1))
next
  case (Suc n)
  let ?c = "FsExists p"
  let ?s = "s\<lparr>calls := calls s @ [?c, Sleep 100]\<rparr>"
  obtain r cs where IH: "wait_ns E p n ?s = (r, ?s\<lparr>calls := calls ?s @ cs\<rparr>)" "no_switch cs" using Suc.IH by blast
  have "wait_ns E p (Suc n) s = (if ans_bool E (calls s) ?c then (Inr (), s\<lparr>calls := calls s @ [?c]\<rparr>)
      else if n = 0 then (Inl (msg (''netns '' @ p @ '' did not appear after 2s'')), s\<lparr>calls := calls s @ [?c]\<rparr>)
      else (r, s\<lparr>calls := calls s @ (?c # Sleep 100 # cs)\<rparr>))"
    using IH(1) by (simp add: prog_simps log_call_def)
  moreover have "no_switch [?c]" "no_switch (?c # Sleep 100 # cs)" using IH(2) by simp_all
  ultimately show ?case by (metis (full_types))
qed

lemma open_ns_run:
  "\<exists>r cs. open_ns E p s = (r, s\<lparr>calls := calls s @ cs\<rparr>) \<and> no_switch cs \<and>
     (\<forall>fd. r = Inr fd \<longrightarrow> ans_nat E (calls s) (NsOpen p) = Inr fd)"
proof (cases "CHR 0x00 \<in> set p")
  case True
  then obtain e where "open_ns E p s = (Inl e, s\<lparr>calls := calls s @ []\<rparr>)" by (simp add: open_ns_def failE_def)
  then show ?thesis by (intro exI [of _ "Inl e"] exI [of _ "[]"]) simp
next
  case False
  have "open_ns E p s = (map_sum (add_ctx (''open '' @ p) \<circ> of_os) id (ans_nat E (calls s) (NsOpen p)),
      s\<lparr>calls := calls s @ [NsOpen p]\<rparr>)"
    using False by (simp add: open_ns_def prog_simps log_call_def split: sum.split)
  then show ?thesis by (intro exI conjI) (assumption, auto simp: map_sum_def split: sum.splits)
qed

lemma enter_ns_cases:
  fixes f :: "('z world_scheme, 'a) prog"
  assumes run: "enter_ns E p f s = (r, s')" and ends: "\<And>t. fst (f t) \<noteq> Inl Diverge"
  shows "(\<exists>e cs. r = Inl e \<and> s' = s\<lparr>calls := calls s @ cs\<rparr> \<and>
       (no_switch cs \<or> (\<exists>fd x. no_switch (butlast cs) \<and> cs = butlast cs @ [NsSet fd] \<and> ans_unit E (calls s @ butlast cs) (NsSet fd) = Inl x))) \<or>
     (\<exists>orig target cs t. ans_nat E (calls s) (NsOpen ''/proc/self/ns/net'') = Inr orig \<and> no_switch cs \<and>
        ans_unit E (calls s @ cs) (NsSet target) = Inr () \<and>
        f (s\<lparr>calls := calls s @ cs @ [NsSet target]\<rparr>) = (r, t) \<and> s' = log_call (NsSet orig) t)"
proof -
  obtain ro cs where o1: "open_ns E ''/proc/self/ns/net'' s = (ro, s\<lparr>calls := calls s @ cs\<rparr>)" "no_switch cs"
    and ro: "\<And>fd. ro = Inr fd \<Longrightarrow> ans_nat E (calls s) (NsOpen ''/proc/self/ns/net'') = Inr fd"
    using open_ns_run by blast
  let ?s1 = "s\<lparr>calls := calls s @ cs\<rparr>"
  obtain rt ds where o2: "open_ns E p ?s1 = (rt, ?s1\<lparr>calls := calls ?s1 @ ds\<rparr>)" "no_switch ds"
    using open_ns_run [of E p ?s1] by blast
  show ?thesis
  proof (cases ro)
    case (Inl e)
    then show ?thesis using run o1 by (auto simp: enter_ns_def bindE_def)
  next
    case ro': (Inr orig)
    show ?thesis
    proof (cases rt)
      case (Inl e)
      then have "r = Inl e \<and> s' = s\<lparr>calls := calls s @ (cs @ ds)\<rparr> \<and> no_switch (cs @ ds)"
        using run o1 o2 ro' by (auto simp: enter_ns_def bindE_def)
      then show ?thesis by blast
    next
      case rt': (Inr target)
      let ?h = "calls s @ cs @ ds"
      show ?thesis
      proof (cases "ans_unit E ?h (NsSet target)")
        case (Inl x)
        then have "r = Inl (add_ctx ''setns into target'' (of_os x)) \<and> s' = s\<lparr>calls := calls s @ (cs @ ds @ [NsSet target])\<rparr>"
          using run o1 o2 ro' rt' by (auto simp: enter_ns_def bindE_def thenE_apply ctxE_def ask_def log_call_def)
        moreover have "no_switch (butlast (cs @ ds @ [NsSet target]))" using o1(2) o2(2) by (simp add: butlast_append)
        ultimately show ?thesis using Inl
          by (intro disjI1 exI [of _ "add_ctx ''setns into target'' (of_os x)"] exI [of _ "cs @ ds @ [NsSet target]"])
            (auto simp: butlast_append)
      next
        case (Inr u)
        obtain r1 t where f: "f (s\<lparr>calls := calls s @ (cs @ ds) @ [NsSet target]\<rparr>) = (r1, t)" by fastforce
        then have "r1 \<noteq> Inl Diverge" using ends [of "s\<lparr>calls := calls s @ (cs @ ds) @ [NsSet target]\<rparr>"] by simp
        then have "r = r1 \<and> s' = log_call (NsSet orig) t"
          using run o1 o2 ro' rt' Inr f
          by (simp add: enter_ns_def bindE_def thenE_apply ctxE_def ask_def log_call_def finallyE_def tell_def)
        then show ?thesis using f Inr ro [OF ro'] o1(2) o2(2)
          by (intro disjI2 exI [of _ orig] exI [of _ target] exI [of _ "cs @ ds"] exI [of _ t]) simp
      qed
    qed
  qed
qed

text \<open>
  C22: Whatever a program run in a pod's namespace does, and however it ends, with a value, an
  error or a panic: it starts right after a successful switch into a namespace, its outcome is
  passed on unchanged, and its calls are followed by the switch back to the namespace that was opened
  first. Otherwise the program is not run, the outcome is an error, and no switch has been made,
  except for a failed one at the very end.
\<close>

theorem in_netns_restores:
  fixes f :: "('z world_scheme, 'a) prog"
  assumes run: "in_netns E p f s = (r, s')" and ends: "\<And>t. fst (f t) \<noteq> Inl Diverge"
  shows "(\<exists>orig target cs h t. ans_nat E h (NsOpen ''/proc/self/ns/net'') = Inr orig \<and> no_switch cs \<and>
        ans_unit E (calls s @ cs) (NsSet target) = Inr () \<and>
        f (s\<lparr>calls := calls s @ cs @ [NsSet target]\<rparr>) = (r, t) \<and> s' = log_call (NsSet orig) t) \<or>
     (\<exists>e cs. r = Inl e \<and> s' = s\<lparr>calls := calls s @ cs\<rparr> \<and>
       (no_switch cs \<or> (\<exists>fd x. no_switch (butlast cs) \<and> cs = butlast cs @ [NsSet fd] \<and>
          ans_unit E (calls s @ butlast cs) (NsSet fd) = Inl x)))"
proof -
  obtain rw ws where w: "wait_ns E p 20 s = (rw, s\<lparr>calls := calls s @ ws\<rparr>)" "no_switch ws" using wait_ns_run by blast
  let ?s = "s\<lparr>calls := calls s @ ws\<rparr>"
  show ?thesis
  proof (cases rw)
    case (Inl e)
    then show ?thesis using run w by (auto simp: in_netns_def thenE_apply)
  next
    case (Inr u)
    then have "enter_ns E p f ?s = (r, s')" using run w by (simp add: in_netns_def thenE_apply)
    from enter_ns_cases [OF this ends] show ?thesis
    proof (elim disjE exE conjE)
      fix e cs assume "r = Inl e" "s' = ?s\<lparr>calls := calls ?s @ cs\<rparr>" "no_switch cs"
      then show ?thesis using w(2) by (intro disjI2 exI [of _ e] exI [of _ "ws @ cs"]) simp
    next
      fix e cs fd x assume *: "r = Inl e" "s' = ?s\<lparr>calls := calls ?s @ cs\<rparr>" "no_switch (butlast cs)"
        "cs = butlast cs @ [NsSet fd]" "ans_unit E (calls ?s @ butlast cs) (NsSet fd) = Inl x"
      have "cs \<noteq> []" using *(4) by (metis snoc_eq_iff_butlast)
      then have "butlast (ws @ cs) = ws @ butlast cs" by (simp add: butlast_append)
      then show ?thesis using w(2) *
        by (intro disjI2 exI [of _ e] exI [of _ "ws @ cs"] conjI exI [of _ fd] exI [of _ x]) simp_all
    next
      fix orig target cs t assume "ans_nat E (calls ?s) (NsOpen ''/proc/self/ns/net'') = Inr orig" "no_switch cs"
        "ans_unit E (calls ?s @ cs) (NsSet target) = Inr ()"
        "f (?s\<lparr>calls := calls ?s @ cs @ [NsSet target]\<rparr>) = (r, t)" "s' = log_call (NsSet orig) t"
      then show ?thesis using w(2)
        by (intro disjI1 exI [of _ orig] exI [of _ target] exI [of _ "ws @ cs"] exI [of _ "calls ?s"] exI [of _ t]) simp
    qed
  qed
qed

theorem in_netns_restores_witness:
  "\<exists>s' orig. in_netns live_env ''/n'' (retE () :: (world, unit) prog) \<lparr>calls = []\<rparr> = (Inr (), s') \<and>
     last (calls s') = NsSet orig"
proof -
  let ?f = "retE () :: (world, unit) prog"
  obtain r s' where run: "in_netns live_env ''/n'' ?f \<lparr>calls = []\<rparr> = (r, s')" by fastforce
  have w: "wait_ns live_env ''/n'' 20 \<lparr>calls = []\<rparr> = (Inr (), \<lparr>calls = [FsExists ''/n'']\<rparr>)"
  proof -
    have "wait_ns live_env ''/n'' (Suc k) \<lparr>calls = []\<rparr> = (Inr (), \<lparr>calls = [FsExists ''/n'']\<rparr>)" for k
      by (simp add: prog_simps log_call_def)
    from this [of 19] show ?thesis by simp
  qed
  have r: "r = Inr ()"
    using run w by (simp add: in_netns_def enter_ns_def open_ns_def prog_simps log_call_def split: if_splits)
  have ends: "fst (?f t) \<noteq> Inl Diverge" for t by (simp add: retE_def)
  from in_netns_restores [OF run ends] r obtain orig t where "s' = log_call (NsSet orig) t" by blast
  then show ?thesis using r run by (auto simp: log_call_def)
qed

lemma split_cidr: "split_on (CHR ''/'') (show_ipv4 ip @ ''/'' @ dec p) = [show_ipv4 ip, dec p]"
proof -
  have "CHR ''/'' \<notin> set (show_ipv4 ip)"
    by (simp add: show_ipv4_def octets_def dec_free)
  then have "split_on (CHR ''/'') (join_str ''/'' [show_ipv4 ip, dec p]) = [show_ipv4 ip, dec p]"
    by (intro split_join) (auto simp: dec_free)
  then show ?thesis by simp
qed

text \<open>
  C40: The gateway inferred for an address in a subnet of prefix length 1 to 30 is the subnet's first
  address: the address with all host bits cleared, plus one. Longer prefixes give none. For prefix
  length 0 the shift distance 32 is taken modulo the width, so the result is the address itself
  plus one instead of the first address.
\<close>

theorem infer_gateway_subnet:
  "infer_gateway (show_ipv4 ip @ ''/'' @ dec p) =
     (if 30 < p then None
      else if p = 0 then Some (show_ipv4 (ip + 1))
      else Some (show_ipv4 (push_bit (32 - p) (drop_bit (32 - p) ip) + 1)))"
proof -
  have mask: "(ip :: u32) AND NOT (push_bit k 1 - 1) = push_bit k (drop_bit k ip)" for k
  proof -
    have "push_bit k (1 :: u32) - 1 = mask k" by (simp add: mask_eq_exp_minus_1 push_bit_of_1)
    then show ?thesis by (intro bit_word_eqI) (auto simp: bit_simps)
  qed
  have "infer_gateway (show_ipv4 ip @ ''/'' @ dec p) = (if p < 2 ^ 32 then
      if 30 < p then None else Some (show_ipv4 (push_bit ((32 - p) mod 32) (drop_bit ((32 - p) mod 32) ip) + 1)) else None)"
    unfolding infer_gateway_def split_cidr Let_def mask by (simp add: parse_uint_dec_if parse_show_ipv4 mask [unfolded push_bit_of_1])
  then show ?thesis by auto
qed

end
