(* ===== verification/Api.thy ===== *)
theory Api
  imports Shadow Netns
begin

text \<open>
  \<^verbatim>\<open>crates/daemon/src/api.rs\<close> and the rest of \<^verbatim>\<open>main.rs\<close>: the handlers of the JSON-line API, the
  dispatch on the method name and the connection loop. The daemon's state extends the snapshot
  manager's by the registry of agent connections and the counter of warm VMs. A handler answers
  with a JSON value and has no error of its own; it can only panic (a byte slice that does not
  end at a character boundary) or not return.

  Spawned tasks are queued by the handlers and run as steps of their own; \<open>daemon_step\<close> is the
  relation between the states before and after a request or a task, and the reachable states are
  those of all their sequences.
\<close>

record daemon = snapmgr +
  agents :: "agent hmap"
  warm_counter :: u64

definition ApiServer_new :: "snapmgr \<Rightarrow> daemon" where
  "ApiServer_new m = snapmgr.extend m \<lparr>agents = [], warm_counter = 0\<rparr>"

definition err_json :: "string \<Rightarrow> json" where
  "err_json m = JObj [(''error'', JStr m)]"

definition ok_json :: json where
  "ok_json = JObj [(''ok'', JBool True)]"

section \<open>Networking\<close>

definition tap_name :: "string \<Rightarrow> err + string" where
  "tap_name i = map_sum id (\<lambda>x. ''tap_'' @ x) (slice_to (min 8 (length i)) i)"

definition setup_vm_networking ::
  "env \<Rightarrow> string \<Rightarrow> string \<Rightarrow> path \<Rightarrow> ('z world_scheme, string \<times> PodNetInfo) prog" where
  "setup_vm_networking E netns i api_socket =
     bindE (ofSumE (tap_name i)) (\<lambda>tap.
     bindE (blockingE ''prepare_tap panicked'' (ctxE ''prepare_tap'' (prepare_tap E netns tap))) (\<lambda>info.
     thenE (ctxE ''hot-plug TAP'' (api_request_with_body E api_socket ''PUT'' ''/api/v1/vm.add-net''
        (json_print E (JObj [(''tap'', JStr tap), (''mac'', JStr (mac info))]))))
    (thenE (blockingE ''activate_tap panicked'' (ctxE ''activate_tap'' (activate_tap E netns tap)))
           (retE (tap, info)))))"

definition configure_guest_network :: "env \<Rightarrow> agent \<Rightarrow> string \<Rightarrow> string \<Rightarrow> ('z world_scheme, unit) prog" where
  "configure_guest_network E ag cidr gw =
     (let parts = split_on (CHR ''/'') cidr; ip = hd parts;
          prefix = (case tl parts of [] \<Rightarrow> 24 | p # _ \<Rightarrow> (case parse_uint 32 p of None \<Rightarrow> 24 | Some n \<Rightarrow> n))
      in ctxE ''configure_network RPC'' (ask (ans_unit E) (RpcConfigureNetwork ag ip gw prefix ''eth0'' [])))"

section \<open>Running a container\<close>

record RunContainerParams =
  rp_api_socket :: path
  rp_vsock_socket :: path
  rp_vm_id :: string
  rp_netns :: string
  rp_erofs_path :: string
  rp_container_id :: string
  rp_config_json_b64 :: string

text \<open>The registered agent connection of a VM, or a new one, which is then registered.\<close>

definition agent_for :: "env \<Rightarrow> string \<Rightarrow> path \<Rightarrow> ('z daemon_scheme, agent) prog" where
  "agent_for E i vsock =
     bindE (getE (\<lambda>s. map_of (agents s) i)) (\<lambda>existing. case existing of
        Some a \<Rightarrow> retE a
      | None \<Rightarrow>
          bindE (ctxE ''agent connect for container'' (connect_agent E vsock)) (\<lambda>a.
          thenE (modE (\<lambda>s. s\<lparr>agents := AList.update i a (agents s)\<rparr>)) (retE a)))"

definition oci_config :: "env \<Rightarrow> string \<Rightarrow> string" where
  "oci_config E b64 = (if b64 = [] then ''{}'' else case b64_decode E b64 of None \<Rightarrow> ''{}'' | Some x \<Rightarrow> x)"

definition run_container_in_vm :: "env \<Rightarrow> RunContainerParams \<Rightarrow> ('z daemon_scheme, nat \<times> string) prog" where
  "run_container_in_vm E p =
     bindE (if rp_netns p \<noteq> [] then
              bindE (ctxE ''networking setup'' (setup_vm_networking E (rp_netns p) (rp_vm_id p) (rp_api_socket p)))
                (\<lambda>(tap, info). retE (tap, Some info))
            else retE ([], None)) (\<lambda>(tap, net_info).
     bindE (ofSumE (slice_to (min 12 (length (rp_container_id p))) (rp_container_id p))) (\<lambda>short.
     thenE (ctxE ''hot-plug rootfs'' (api_request_with_body E (rp_api_socket p) ''PUT'' ''/api/v1/vm.add-disk''
        (json_print E (JObj [(''path'', JStr (rp_erofs_path p)), (''readonly'', JBool True), (''id'', JStr (''ctr-'' @ short))]))))
    (bindE (agent_for E (rp_vm_id p) (rp_vsock_socket p)) (\<lambda>ag.
     thenE (case net_info of
         None \<Rightarrow> retE ()
       | Some info \<Rightarrow> ctxE ''configure guest network'' (configure_guest_network E ag (ip_cidr info) (gateway info)))
    (bindE (ctxE ''RunContainer'' (ask (ans_nat E)
        (RpcRunContainer ag (rp_container_id p) (oci_config E (rp_config_json_b64 p)) 1))) (\<lambda>pid.
       retE (pid, tap)))))))"

section \<open>AcquireSandbox\<close>

text \<open>The networking of a warm VM: the error response, or the name of the TAP device.\<close>

definition warm_network ::
  "env \<Rightarrow> string \<Rightarrow> string \<Rightarrow> path \<Rightarrow> path \<Rightarrow> ('z daemon_scheme, json + string) prog" where
  "warm_network E netns i api_socket vsock_socket =
     (if netns = [] then retE (Inr [])
      else bindE (catchE (setup_vm_networking E netns i api_socket)) (\<lambda>n. case n of
          Inl e \<Rightarrow> retE (Inl (err_json (''networking: '' @ show_chain e)))
        | Inr (tap, info) \<Rightarrow>
            bindE (catchE (connect_agent E vsock_socket)) (\<lambda>c. case c of
               Inl e \<Rightarrow> retE (Inl (err_json (''agent connect: '' @ show_chain e)))
             | Inr ag \<Rightarrow>
                 thenE (modE (\<lambda>s. s\<lparr>agents := AList.update i ag (agents s)\<rparr>))
                (thenE (ignoreE (configure_guest_network E ag (ip_cidr info) (gateway info)))
                       (retE (Inr tap))))))"

definition vm_json :: "PoolVm \<Rightarrow> bool \<Rightarrow> nat \<Rightarrow> string \<Rightarrow> json" where
  "vm_json vm from_snapshot container_pid tap = JObj
     [(''vm_id'', JStr (vm_id vm)), (''api_socket'', JStr (vm_api_socket vm)),
      (''vsock_socket'', JStr (vm_vsock_socket vm)), (''cid'', JNum (unat (vm_cid vm))),
      (''ch_pid'', JNum (unat (vm_ch_pid vm))), (''from_snapshot'', JBool from_snapshot),
      (''container_pid'', JNum container_pid), (''tap_name'', JStr tap)]"

definition warm_vm_id :: "string \<Rightarrow> u64 \<Rightarrow> string" where
  "warm_vm_id image_key seq = ''warm-'' @ image_key @ ''-'' @ dec (unat seq)"

text \<open>
  The warm path: \<open>Some\<close> response, or \<open>None\<close> to fall through to the pool. \<open>warm_finish\<close> is its part
  after the identifier and the CID have been drawn.
\<close>

definition warm_finish ::
  "env \<Rightarrow> DaemonConfig \<Rightarrow> string \<Rightarrow> string \<Rightarrow> string \<Rightarrow> u64 \<Rightarrow> path \<Rightarrow> ('z daemon_scheme, json option) prog" where
  "warm_finish E cfg netns image_key i cid dir =
     bindE (catchE (restore_from_snapshot E cfg image_key cid dir)) (\<lambda>r. case r of
        Inl _ \<Rightarrow> retE None
      | Inr (ch_pid, api_socket, vsock_socket) \<Rightarrow>
          bindE (warm_network E netns i api_socket vsock_socket) (\<lambda>w. case w of
             Inl resp \<Rightarrow> retE (Some resp)
           | Inr tap \<Rightarrow>
               bindE (clock_now E) (\<lambda>t.
               let vm = \<lparr>vm_id = i, vm_api_socket = api_socket, vm_vsock_socket = vsock_socket,
                         vm_cid = cid, vm_ch_pid = ch_pid, vm_created_at = t\<rparr> in
               thenE (register_active vm) (retE (Some (vm_json vm True 0 tap))))))"

definition warm_restore ::
  "env \<Rightarrow> DaemonConfig \<Rightarrow> string \<Rightarrow> string \<Rightarrow> ('z daemon_scheme, json option) prog" where
  "warm_restore E cfg netns image_key =
     bindE (getE warm_counter) (\<lambda>seq.
     thenE (modE (\<lambda>s. s\<lparr>warm_counter := seq + 1\<rparr>))
    (let i = warm_vm_id image_key seq; dir = join_path (state_dir cfg) i in
     bindE (catchE (ask (ans_unit E) (FsCreateDirAll dir))) (\<lambda>d. case d of
        Inl e \<Rightarrow> retE (Some (err_json (''create state dir: '' @ show_err e)))
      | Inr _ \<Rightarrow> bindE alloc_cid (\<lambda>cid. warm_finish E cfg netns image_key i cid dir))))"

text \<open>
  The cold path: a pool VM, its replenishment, the shadow and the container. \<open>cold_serve\<close> is its part after the VM has been acquired.
\<close>

definition cold_serve ::
  "env \<Rightarrow> string \<Rightarrow> string \<Rightarrow> string \<Rightarrow> string \<Rightarrow> string \<Rightarrow> PoolVm \<Rightarrow> ('z daemon_scheme, json) prog" where
  "cold_serve E netns image_key erofs_path container_id config_b64 vm =
     thenE (spawn_task Replenish)
    (thenE (if image_key \<noteq> [] \<and> erofs_path \<noteq> [] then trigger_shadow E image_key erofs_path else retE ())
    (if erofs_path \<noteq> [] \<and> container_id \<noteq> [] then
       bindE (catchE (run_container_in_vm E
          \<lparr>rp_api_socket = vm_api_socket vm, rp_vsock_socket = vm_vsock_socket vm, rp_vm_id = vm_id vm,
           rp_netns = netns, rp_erofs_path = erofs_path, rp_container_id = container_id,
           rp_config_json_b64 = config_b64\<rparr>)) (\<lambda>c. case c of
          Inl e \<Rightarrow> retE (err_json (''run container: '' @ show_chain e))
        | Inr (pid, tap) \<Rightarrow> retE (vm_json vm False pid tap))
     else retE (vm_json vm False 0 [])))"

definition cold_acquire ::
  "env \<Rightarrow> DaemonConfig \<Rightarrow> string \<Rightarrow> string \<Rightarrow> string \<Rightarrow> string \<Rightarrow> string \<Rightarrow> ('z daemon_scheme, json) prog" where
  "cold_acquire E cfg netns image_key erofs_path container_id config_b64 =
     bindE (catchE (acquire E cfg)) (\<lambda>a. case a of
        Inl e \<Rightarrow> retE (err_json (''acquire failed: '' @ show_chain e))
      | Inr vm \<Rightarrow> cold_serve E netns image_key erofs_path container_id config_b64 vm)"

definition handle_acquire :: "env \<Rightarrow> DaemonConfig \<Rightarrow> json \<Rightarrow> ('z daemon_scheme, json) prog" where
  "handle_acquire E cfg request =
     (let netns = str_field ''netns'' [] request; image_key = str_field ''image_key'' [] request;
          erofs_path = str_field ''erofs_path'' [] request; container_id = str_field ''container_id'' [] request;
          config_b64 = str_field ''config_json'' [] request in
      bindE (if image_key = [] then retE False
             else has_snapshot E image_key (if erofs_path = [] then None else Some erofs_path)) (\<lambda>warm.
      bindE (if warm then warm_restore E cfg netns image_key else retE None) (\<lambda>w. case w of
         Some resp \<Rightarrow> retE resp
       | None \<Rightarrow> cold_acquire E cfg netns image_key erofs_path container_id config_b64)))"

section \<open>The other handlers\<close>

definition handle_add_container :: "env \<Rightarrow> json \<Rightarrow> ('z daemon_scheme, json) prog" where
  "handle_add_container E request =
     (let i = str_field ''vm_id'' [] request; erofs_path = str_field ''erofs_path'' [] request;
          container_id = str_field ''container_id'' [] request; config_b64 = str_field ''config_json'' [] request in
      if i = [] \<or> container_id = [] then retE (err_json ''vm_id and container_id required'')
      else bindE (get_active i) (\<lambda>v. case v of
         None \<Rightarrow> retE (err_json (''VM '' @ i @ '' not found in active set''))
       | Some vm \<Rightarrow>
           bindE (catchE (run_container_in_vm E
               \<lparr>rp_api_socket = vm_api_socket vm, rp_vsock_socket = vm_vsock_socket vm, rp_vm_id = i,
                rp_netns = [], rp_erofs_path = erofs_path, rp_container_id = container_id,
                rp_config_json_b64 = config_b64\<rparr>)) (\<lambda>c. case c of
              Inr (pid, _) \<Rightarrow> retE (JObj [(''container_pid'', JNum pid)])
            | Inl e \<Rightarrow> retE (err_json (''add container: '' @ show_chain e)))))"

definition handle_release :: "env \<Rightarrow> DaemonConfig \<Rightarrow> json \<Rightarrow> ('z daemon_scheme, json) prog" where
  "handle_release E cfg request =
     (let i = str_field ''vm_id'' [] request in
      if i = [] then retE (err_json ''vm_id required'')
      else thenE (modE (\<lambda>s. s\<lparr>agents := AList.delete i (agents s)\<rparr>))
        (bindE (catchE (release E cfg i)) (\<lambda>r. case r of
           Inr _ \<Rightarrow> retE ok_json
         | Inl e \<Rightarrow> retE (err_json (''release failed: '' @ show_chain e)))))"

definition handle_kill_container :: "env \<Rightarrow> json \<Rightarrow> ('z daemon_scheme, json) prog" where
  "handle_kill_container E request =
     (let i = str_field ''vm_id'' [] request; container_id = str_field ''container_id'' [] request;
          signal = (case Option.bind (j_get ''signal'' request) as_num of None \<Rightarrow> 15 | Some n \<Rightarrow> n mod 2 ^ 32) in
      bindE (getE (\<lambda>s. map_of (agents s) i)) (\<lambda>a. case a of
         None \<Rightarrow> retE (err_json (''no agent for VM '' @ i))
       | Some ag \<Rightarrow>
           bindE (catchE (ask (ans_unit E) (RpcKill ag container_id signal))) (\<lambda>r. case r of
              Inr _ \<Rightarrow> retE ok_json
            | Inl e \<Rightarrow> retE (err_json (''kill_container: '' @ show_err e)))))"

definition handle_wait_container :: "env \<Rightarrow> json \<Rightarrow> ('z daemon_scheme, json) prog" where
  "handle_wait_container E request =
     (let i = str_field ''vm_id'' [] request; container_id = str_field ''container_id'' [] request in
      bindE (getE (\<lambda>s. map_of (agents s) i)) (\<lambda>a. case a of
         None \<Rightarrow> retE (err_json (''no agent for VM '' @ i))
       | Some ag \<Rightarrow>
           bindE (catchE (ask (ans_exit E) (RpcWait ag container_id))) (\<lambda>r. case r of
              Inr (status, at) \<Rightarrow> retE (JObj [(''exit_status'', JNum status), (''exited_at'', JStr at)])
            | Inl e \<Rightarrow> retE (JObj [(''exit_status'', JNum 137), (''exited_at'', JStr []),
                                   (''error'', JStr (''wait_container: '' @ show_err e))]))))"

definition handle_delete_container :: "env \<Rightarrow> json \<Rightarrow> ('z daemon_scheme, json) prog" where
  "handle_delete_container E request =
     (let i = str_field ''vm_id'' [] request; container_id = str_field ''container_id'' [] request in
      bindE (getE (\<lambda>s. map_of (agents s) i)) (\<lambda>a. case a of
         None \<Rightarrow> retE ok_json
       | Some ag \<Rightarrow> thenE (ignoreE (ask (ans_unit E) (RpcDelete ag container_id))) (retE ok_json)))"

definition handle_status :: "('z daemon_scheme, json) prog" where
  "handle_status =
     bindE ready_count (\<lambda>r. bindE read_active_count (\<lambda>a. bindE active_shadow_count (\<lambda>sh. bindE snapshot_keys (\<lambda>ks.
       retE (JObj [(''pool_ready'', JNum r), (''active_vms'', JNum (unat a)),
                   (''shadow_vms_running'', JNum sh), (''snapshot_keys'', JArr (map JStr ks))])))))"

section \<open>Dispatch\<close>

definition dispatch :: "env \<Rightarrow> DaemonConfig \<Rightarrow> json \<Rightarrow> ('z daemon_scheme, json) prog" where
  "dispatch E cfg request =
     (let m = str_field ''method'' [] request in
      if m = ''AcquireSandbox'' then handle_acquire E cfg request
      else if m = ''ReleaseSandbox'' then handle_release E cfg request
      else if m = ''AddContainer'' then handle_add_container E request
      else if m = ''KillContainer'' then handle_kill_container E request
      else if m = ''WaitContainer'' then handle_wait_container E request
      else if m = ''DeleteContainer'' then handle_delete_container E request
      else if m = ''Status'' then handle_status
      else retE (err_json (''unknown method: '' @ m)))"

text \<open>A connection: a line is a request; the loop ends at end of file or at the first line that is no JSON.\<close>

fun handle_connection :: "env \<Rightarrow> DaemonConfig \<Rightarrow> nat \<Rightarrow> ('z daemon_scheme, unit) prog" where
  "handle_connection E cfg 0 = failE Diverge"
| "handle_connection E cfg (Suc n) =
     bindE (ask (ans_str E) ConnRead) (\<lambda>line.
       if line = [] then retE ()
       else bindE (parse_json E (trim line)) (\<lambda>request.
         bindE (dispatch E cfg request) (\<lambda>response.
         thenE (ask (ans_unit E) (ConnWrite (json_print E response @ [CHR 0x0A])))
               (handle_connection E cfg n))))"

text \<open>Before it accepts connections the server removes a stale socket and makes its directory.\<close>

definition serve_setup :: "env \<Rightarrow> DaemonConfig \<Rightarrow> ('z world_scheme, unit) prog" where
  "serve_setup E cfg =
     thenE (tell (FsRemoveFile (socket_path cfg)))
    (thenE (case path_parent (socket_path cfg) of
        None \<Rightarrow> retE ()
      | Some parent \<Rightarrow> ask (ans_unit E) (FsCreateDirAll parent))
           (ask (ans_unit E) (ServerBind (socket_path cfg))))"

text \<open>\<^verbatim>\<open>main\<close>: configuration, pool, snapshot manager, server; the state at the first request.\<close>

definition daemon_start :: "env \<Rightarrow> string list \<Rightarrow> call list \<Rightarrow> err + DaemonConfig \<times> daemon" where
  "daemon_start E args h =
     (case DaemonConfig_load E (daemon_config_path args) \<lparr>calls = h\<rparr> of
        (Inl e, _) \<Rightarrow> Inl e
      | (Inr cfg, w) \<Rightarrow>
          (case initialize E cfg (Pool_new (calls w)) of
             (Inl e, _) \<Rightarrow> Inl e
           | (Inr _, p) \<Rightarrow>
               (case serve_setup E cfg (ApiServer_new (SnapshotManager_new p)) of
                  (Inl e, _) \<Rightarrow> Inl e
                | (Inr _, d) \<Rightarrow> Inr (cfg, d))))"

definition run_task :: "env \<Rightarrow> DaemonConfig \<Rightarrow> task \<Rightarrow> ('z snapmgr_scheme, unit) prog" where
  "run_task E cfg t = (case t of
      Replenish \<Rightarrow> thenE (tell (Sleep 100)) (replenish_one E cfg)
    | RunShadow key erofs \<Rightarrow> shadow_task E cfg key erofs)"

section \<open>The daemon's invariant\<close>

text \<open>Every warm VM has a sequence number below the counter, so the next warm identifier is new.\<close>

definition warm_below :: "u64 \<Rightarrow> PoolVm \<Rightarrow> bool" where
  "warm_below c vm \<longleftrightarrow> (\<forall>k n. vm_id vm = warm_vm_id k n \<longrightarrow> n < c)"

definition cache_ok :: "DaemonConfig \<Rightarrow> 'z snapmgr_scheme \<Rightarrow> bool" where
  "cache_ok cfg s \<longleftrightarrow> hm_ok (snapshots s) \<and> length (snapshots s) \<le> max 1 (max_snapshots cfg)"

text \<open>\<open>base_ok\<close> is the part of the invariant that does not look at the snapshot cache.\<close>

definition base_ok :: "env \<Rightarrow> DaemonConfig \<Rightarrow> nat \<Rightarrow> 'z daemon_scheme \<Rightarrow> bool" where
  "base_ok E cfg n s \<longleftrightarrow> pool_ok E n s \<and> unat (warm_counter s) + n < 2 ^ 64 \<and>
     list_all (warm_below (warm_counter s)) (pool_vms s) \<and> length (ready s) \<le> pool_size cfg"

definition daemon_ok :: "env \<Rightarrow> DaemonConfig \<Rightarrow> nat \<Rightarrow> 'z daemon_scheme \<Rightarrow> bool" where
  "daemon_ok E cfg n s \<longleftrightarrow> base_ok E cfg n s \<and> cache_ok cfg s"

lemma pool_ok_upd [simp]:
  "pool_ok E n (s\<lparr>agents := a\<rparr>) = pool_ok E n s" "pool_ok E n (s\<lparr>warm_counter := w\<rparr>) = pool_ok E n s"
  "pool_ok E n (t\<lparr>snapshots := m\<rparr>) = pool_ok E n t" "pool_ok E n (t\<lparr>tasks := ts\<rparr>) = pool_ok E n t"
  "pool_ok E n (t\<lparr>active_shadows := sh\<rparr>) = pool_ok E n t"
  by (simp_all add: pool_ok_def pool_inv_def pool_vms_def)

lemma base_ok_upd [simp]:
  "base_ok E cfg n (s\<lparr>agents := a\<rparr>) = base_ok E cfg n s" "base_ok E cfg n (s\<lparr>calls := h\<rparr>) = base_ok E cfg n s"
  "base_ok E cfg n (s\<lparr>snapshots := m\<rparr>) = base_ok E cfg n s" "base_ok E cfg n (s\<lparr>tasks := ts\<rparr>) = base_ok E cfg n s"
  "base_ok E cfg n (s\<lparr>active_shadows := sh\<rparr>) = base_ok E cfg n s"
  by (simp_all add: base_ok_def pool_vms_def)

lemma daemon_ok_upd [simp]:
  "daemon_ok E cfg n (s\<lparr>agents := a\<rparr>) = daemon_ok E cfg n s" "daemon_ok E cfg n (s\<lparr>calls := h\<rparr>) = daemon_ok E cfg n s"
  "daemon_ok E cfg n (s\<lparr>tasks := ts\<rparr>) = daemon_ok E cfg n s"
  "daemon_ok E cfg n (s\<lparr>active_shadows := sh\<rparr>) = daemon_ok E cfg n s"
  by (simp_all add: daemon_ok_def cache_ok_def)

lemma daemon_ok_mono: "daemon_ok E cfg n s \<Longrightarrow> m \<le> n \<Longrightarrow> daemon_ok E cfg m s"
  by (auto simp: daemon_ok_def base_ok_def intro: pool_ok_mono)

interpretation db: budget "daemon_ok E cfg" for E cfg
  by unfold_locales (rule daemon_ok_mono)

text \<open>A property of the state that looks neither at the history nor at the agents keeps through the
  programs that only talk to the outside and to agents.\<close>

lemma agents_keep:
  fixes P :: "'z daemon_scheme \<Rightarrow> bool"
  assumes "\<And>s h. P s \<Longrightarrow> P (s\<lparr>calls := h\<rparr>)" and "\<And>s a. P s \<Longrightarrow> P (s\<lparr>agents := a\<rparr>)"
  shows "preserves P (agent_for E i v)" "preserves P (run_container_in_vm E p)" "preserves P (warm_network E ns i a v)"
proof -
  have oc: "preserves P m" if "only_calls m" for m :: "('z daemon_scheme, 'b) prog"
    using that assms(1) by (rule preserves_only_calls)
  have ag: "preserves P (modE (\<lambda>s. s\<lparr>agents := f s\<rparr>))" for f by (rule preserves_modE) (rule assms(2))
  have net: "only_calls (setup_vm_networking E n j k)" "only_calls (configure_guest_network E b c d)"
    for n j k b c d and E :: env
    unfolding setup_vm_networking_def configure_guest_network_def Let_def by (intro frame_rules)+
  show a: "preserves P (agent_for E i v)" for i v
    unfolding agent_for_def by (intro preserves_bindE preserves_getE preserves_case_option preserves_retE
      preserves_thenE ag oc frame_rules)
  show "preserves P (run_container_in_vm E p)"
    unfolding run_container_in_vm_def
    by (intro preserves_bindE preserves_thenE preserves_case_prod a oc frame_rules net)
  show "preserves P (warm_network E ns i a v)"
    unfolding warm_network_def
    by (intro preserves_if preserves_bindE preserves_thenE preserves_case_prod preserves_case_sum preserves_retE
      preserves_catchE ag oc frame_rules net)
qed

section \<open>Warm VMs\<close>

lemma warm_vm_id_inj: "warm_vm_id k m = warm_vm_id k' n \<Longrightarrow> m = n"
proof -
  assume eq: "warm_vm_id k m = warm_vm_id k' n"
  have "takeWhile (\<lambda>c. c \<noteq> CHR ''-'') (rev (warm_vm_id j q)) = rev (dec (unat q))" for j and q :: u64
  proof -
    have "takeWhile (\<lambda>c. c \<noteq> CHR ''-'') (rev (dec (unat q)) @ CHR ''-'' # t) = rev (dec (unat q))" for t
      by (subst takeWhile_append2) (use dec_free(1) in auto)
    then show ?thesis by (simp add: warm_vm_id_def)
  qed
  with eq have "rev (dec (unat m)) = rev (dec (unat n))" by metis
  then show ?thesis by (simp add: word_unat_eq_iff)
qed

lemma warm_not_pool: "\<not> starts_with ''pool-'' (warm_vm_id k n)"
  by (simp add: warm_vm_id_def starts_with_def)

text \<open>
  A reserved slot: a CID drawn from the allocator and a warm identifier drawn from the counter that
  no VM has yet.
\<close>

definition slot :: "env \<Rightarrow> DaemonConfig \<Rightarrow> nat \<Rightarrow> u64 \<Rightarrow> string \<Rightarrow> 'z daemon_scheme \<Rightarrow> bool" where
  "slot E cfg n c i s \<longleftrightarrow> base_ok E cfg n s \<and> GUEST_CID_START \<le> c \<and> c < next_cid s \<and>
     c \<notin> vm_cid ` set (pool_vms s) \<and> i \<notin> vm_id ` set (pool_vms s) \<and>
     (\<exists>k m. i = warm_vm_id k m \<and> m < warm_counter s)"

lemma slot_upd [simp]:
  "slot E cfg n c i (s\<lparr>agents := a\<rparr>) = slot E cfg n c i s" "slot E cfg n c i (s\<lparr>calls := h\<rparr>) = slot E cfg n c i s"
  "slot E cfg n c i (s\<lparr>snapshots := m\<rparr>) = slot E cfg n c i s"
  by (simp_all add: slot_def pool_vms_def)

lemma slot_register:
  assumes slot: "slot E cfg n c i s" and vm: "vm_id vm = i" "vm_cid vm = c"
  shows "base_ok E cfg n (snd (register_active vm s))"
proof -
  have inv: "pool_inv E s" and base: "base_ok E cfg n s"
    using slot by (simp_all add: slot_def base_ok_def pool_ok_def)
  obtain k m where i: "i = warm_vm_id k m" "m < warm_counter s" using slot by (auto simp: slot_def)
  have "vm_ok E (next_cid s) vm" using slot vm warm_not_pool [of k m] i(1) by (simp add: vm_ok_def slot_def)
  then have "pool_inv E (snd (register_active vm s))"
    using pool_inv_register [OF inv, of vm] slot vm by (simp add: slot_def)
  moreover have "warm_below (warm_counter s) vm"
    unfolding warm_below_def using vm(1) i warm_vm_id_inj by metis
  moreover have "set (pool_vms (snd (register_active vm s))) \<subseteq> set (pool_vms s) \<union> {vm}"
  proof -
    have "snd ` set (AList.update j v al) \<subseteq> snd ` set al \<union> {v}" for j and v :: PoolVm and al
      by (induction al) auto
    from this [of "vm_id vm" vm "active s"] show ?thesis by (simp add: register_active_apply pool_vms_def) blast
  qed
  ultimately show ?thesis using base
    unfolding base_ok_def pool_ok_def list_all_iff by (auto simp: register_active_apply)
qed

section \<open>Every request and every task keeps the invariant\<close>

text \<open>The pool's operations touch only the pool's fields.\<close>

definition pool_step_of :: "'z pool_scheme \<Rightarrow> 'z pool_scheme \<Rightarrow> bool" where
  "pool_step_of s s' \<longleftrightarrow> pool.more s' = pool.more s"

lemma pool_step_mgr:
  fixes s :: "'z snapmgr_scheme"
  assumes "pool_step_of s s'"
  shows "snapshots s' = snapshots s" "tasks s' = tasks s" "active_shadows s' = active_shadows s"
  using assms by (cases s; cases s'; simp add: pool_step_of_def)+

lemma pool_step_daemon:
  fixes t :: "'z daemon_scheme"
  assumes "pool_step_of t t'"
  shows "warm_counter t' = warm_counter t" "agents t' = agents t"
  using assms by (cases t; cases t'; simp add: pool_step_of_def)+

lemmas pool_step_same = pool_step_mgr pool_step_daemon

lemma restore_one_pool_step: "pool_step_of s (snd (restore_one E cfg s))"
  by (rule restore_one_step [of E cfg s]) (simp add: pool_step_of_def)

lemma update_vms: "snd ` set (AList.update j v al) \<subseteq> snd ` set al \<union> {v}"
  by (induction al) auto

lemma acquire_pool_step:
  "pool_step_of s (snd (acquire E cfg s))"
  "vm \<in> set (pool_vms (snd (acquire E cfg s))) \<Longrightarrow> vm \<in> set (pool_vms s) \<or> starts_with ''pool-'' (vm_id vm)"
proof -
  have "pool_step_of s (snd (acquire E cfg s)) \<and>
    (vm \<in> set (pool_vms (snd (acquire E cfg s))) \<longrightarrow> vm \<in> set (pool_vms s) \<or> starts_with ''pool-'' (vm_id vm))"
  proof (cases "ready s = []")
    case False
    then obtain vs v where vs: "ready s = vs @ [v]" by (metis append_butlast_last_id)
    have "snd (acquire E cfg s) = s\<lparr>ready := vs, active := AList.update (vm_id v) v (active s),
        active_count := active_count s + 1, next_cid := next_cid s, calls := calls s\<rparr>"
      by (simp add: acquire_ready [OF False] vs register_active_apply)
    then show ?thesis using update_vms [of "vm_id v" v "active s"]
      by (auto simp: pool_vms_def vs pool_step_of_def)
  next
    case True
    obtain r cs where run: "restore_one E cfg s = (r, s\<lparr>next_cid := next_cid s + 1, calls := calls s @ cs\<rparr>)"
      and new: "\<And>vm. r = Inr vm \<Longrightarrow> vm_id vm = pool_vm_id E (next_cid s) \<and> vm_cid vm = next_cid s"
      using restore_one_step [of E cfg s] by blast
    show ?thesis
    proof (cases r)
      case (Inl e)
      then have "snd (acquire E cfg s) = s\<lparr>ready := ready s, active := active s,
          active_count := active_count s, next_cid := next_cid s + 1, calls := calls s @ cs\<rparr>"
        using run by (simp add: acquire_empty [OF True])
      then show ?thesis by (auto simp: pool_vms_def pool_step_of_def)
    next
      case (Inr v)
      then have "snd (acquire E cfg s) = s\<lparr>ready := ready s, active := AList.update (vm_id v) v (active s),
          active_count := active_count s + 1, next_cid := next_cid s + 1, calls := calls s @ cs\<rparr>"
        using run by (simp add: acquire_empty [OF True] register_active_apply)
      then show ?thesis using update_vms [of "vm_id v" v "active s"] new [OF Inr]
        by (auto simp: pool_vms_def pool_step_of_def)
    qed
  qed
  then show "pool_step_of s (snd (acquire E cfg s))"
    "vm \<in> set (pool_vms (snd (acquire E cfg s))) \<Longrightarrow> vm \<in> set (pool_vms s) \<or> starts_with ''pool-'' (vm_id vm)" by blast+
qed

lemma replenish_pool_step:
  "pool_step_of s (snd (replenish_one E cfg s))"
  "vm \<in> set (pool_vms (snd (replenish_one E cfg s))) \<Longrightarrow> vm \<in> set (pool_vms s) \<or> starts_with ''pool-'' (vm_id vm)"
proof -
  obtain r cs where run: "restore_one E cfg s = (r, s\<lparr>next_cid := next_cid s + 1, calls := calls s @ cs\<rparr>)"
    and new: "\<And>vm. r = Inr vm \<Longrightarrow> vm_id vm = pool_vm_id E (next_cid s) \<and> vm_cid vm = next_cid s"
    using restore_one_step [of E cfg s] by blast
  let ?keep = "s\<lparr>ready := ready s, active := active s, active_count := active_count s, next_cid := next_cid s, calls := calls s\<rparr>"
  let ?fail = "s\<lparr>ready := ready s, active := active s, active_count := active_count s,
      next_cid := next_cid s + 1, calls := calls s @ cs\<rparr>"
  let ?push = "\<lambda>v. s\<lparr>ready := ready s @ [v], active := active s, active_count := active_count s,
      next_cid := next_cid s + 1, calls := calls s @ cs\<rparr>"
  have "snd (replenish_one E cfg s) = ?keep \<or> snd (replenish_one E cfg s) = ?fail \<or>
      (\<exists>v. r = Inr v \<and> snd (replenish_one E cfg s) = ?push v)"
    using run by (cases r; cases "projl r")
      (auto simp: replenish_one_def bindE_def catchE_def getE_def push_ready_apply retE_def)
  then show "pool_step_of s (snd (replenish_one E cfg s))"
    "vm \<in> set (pool_vms (snd (replenish_one E cfg s))) \<Longrightarrow> vm \<in> set (pool_vms s) \<or> starts_with ''pool-'' (vm_id vm)"
    using new by (auto simp: pool_vms_def pool_step_of_def)
qed

lemma release_pool_step:
  "pool_step_of s (snd (release E cfg i s))"
  "vm \<in> set (pool_vms (snd (release E cfg i s))) \<Longrightarrow> vm \<in> set (pool_vms s)"
proof -
  have sub: "snd ` set (AList.delete i m) \<subseteq> snd ` set m" for m :: "PoolVm hmap" by (induction m) auto
  obtain h where eq: "snd (release E cfg i s) = s\<lparr>active := AList.delete i (active s),
      active_count := active_count s - (if map_of (active s) i = None then 0 else 1), calls := h\<rparr>"
    by (rule release_state [of E cfg i s]) simp
  show "pool_step_of s (snd (release E cfg i s))" by (simp add: eq pool_step_of_def)
  assume "vm \<in> set (pool_vms (snd (release E cfg i s)))"
  then have "vm \<in> set (ready s) \<union> snd ` set (AList.delete i (active s))" by (simp add: eq pool_vms_def)
  then have "vm \<in> set (ready s) \<union> snd ` set (active s)" using sub [of "active s"] by blast
  then show "vm \<in> set (pool_vms s)" by (simp add: pool_vms_def)
qed

lemma not_warm: "starts_with ''pool-'' (vm_id vm) \<Longrightarrow> warm_below c vm"
  unfolding warm_below_def using warm_not_pool by metis

text \<open>A pool operation that keeps the pool's invariant keeps the daemon's.\<close>

lemma daemon_ok_pool_step:
  assumes "daemon_ok E cfg n s" and "pool_step_of s s'" and "pool_ok E m s'" and "m \<le> n"
    and "\<And>vm. vm \<in> set (pool_vms s') \<Longrightarrow> vm \<in> set (pool_vms s) \<or> starts_with ''pool-'' (vm_id vm)"
    and "length (ready s') \<le> pool_size cfg"
  shows "daemon_ok E cfg m s'"
proof -
  note same = pool_step_mgr(1) [OF assms(2)] pool_step_daemon(1) [OF assms(2)]
  have "list_all (warm_below (warm_counter s)) (pool_vms s')"
    using assms(1,5) not_warm by (fastforce simp: daemon_ok_def base_ok_def list_all_iff)
  with assms same show ?thesis by (simp add: daemon_ok_def base_ok_def cache_ok_def)
qed

lemma daemon_acquire: "costs (daemon_ok E cfg) 1 (acquire E cfg)"
proof (rule costsI)
  fix k and s :: "'z daemon_scheme" assume ok: "daemon_ok E cfg (1 + k) s"
  then have "pool_ok E k (snd (acquire E cfg s))"
    by (intro costsD [OF draws_pool(1)]) (simp add: daemon_ok_def base_ok_def)
  then show "daemon_ok E cfg k (snd (acquire E cfg s))"
    using acquire_pool_step(2) acquire_ready_count [of E cfg s] ok
    by (intro daemon_ok_pool_step [OF ok acquire_pool_step(1)]) (auto simp: daemon_ok_def base_ok_def)
qed

lemma daemon_replenish: "costs (daemon_ok E cfg) 1 (replenish_one E cfg)"
proof (rule costsI)
  fix k and s :: "'z daemon_scheme" assume ok: "daemon_ok E cfg (1 + k) s"
  then have "pool_ok E k (snd (replenish_one E cfg s))"
    by (intro costsD [OF draws_pool(3)]) (simp add: daemon_ok_def base_ok_def)
  then show "daemon_ok E cfg k (snd (replenish_one E cfg s))"
    using replenish_pool_step(2) replenish_ready_count [of E cfg s] ok
    by (intro daemon_ok_pool_step [OF ok replenish_pool_step(1)]) (auto simp: daemon_ok_def base_ok_def)
qed

lemma daemon_release: "preserves (daemon_ok E cfg n) (release E cfg i)"
proof (rule preservesI)
  fix s :: "'z daemon_scheme" assume ok: "daemon_ok E cfg n s"
  then have "pool_ok E n (snd (release E cfg i s))" by (intro release_ok) (simp add: daemon_ok_def base_ok_def)
  moreover have "ready (snd (release E cfg i s)) = ready s" by (rule release_run(2) [OF surjective_pairing])
  ultimately show "daemon_ok E cfg n (snd (release E cfg i s))"
    using release_pool_step(2) ok
    by (intro daemon_ok_pool_step [OF ok release_pool_step(1)]) (auto simp: daemon_ok_def base_ok_def)
qed

text \<open>The cache operations keep the cache within its bound.\<close>

lemma cache_snapshot_total:
  assumes "hm_ok (snapshots s)" shows "\<exists>s'. cache_snapshot E cfg key erofs s = (Inr (), s')"
proof -
  let ?s = "log_call (FsMtime erofs) s"
  obtain m' cs where "evict_loop (max_snapshots cfg) (Suc (length (snapshots ?s))) ?s =
      (Inr (), ?s\<lparr>snapshots := m', calls := calls ?s @ cs\<rparr>)"
    using evict_loop_result [of ?s "Suc (length (snapshots ?s))" "max_snapshots cfg"] assms
    by (auto simp: log_call_def)
  then show ?thesis unfolding cache_snapshot_def
    by (auto simp: bindE_def thenE_def catchE_def ask_def of_os_def getE_def modE_def clock_now_def
        simp del: evict_loop.simps split: sum.split)
qed

lemma cache_keep:
  assumes P: "cache_blind P"
  shows "preserves (\<lambda>s. P s \<and> cache_ok cfg s) (has_snapshot E key erofs)"
    "preserves (\<lambda>s. P s \<and> cache_ok cfg s) (get_snapshot_dir E key)"
    "preserves (\<lambda>s. P s \<and> cache_ok cfg s) (cache_snapshot E cfg key erofs')"
proof -
  note upd = P [unfolded cache_blind_def, THEN conjunct2, rule_format]
    P [unfolded cache_blind_def, THEN conjunct1, rule_format]
  show "preserves (\<lambda>s. P s \<and> cache_ok cfg s) (has_snapshot E key erofs)"
  proof (rule preservesI)
    fix s assume s: "P s \<and> cache_ok cfg s"
    have "hm_ok (AList.delete key (snapshots s))" "length (AList.delete key (snapshots s)) \<le> length (snapshots s)"
      using s by (simp_all add: cache_ok_def distinct_delete length_delete_le)
    then show "P (snd (has_snapshot E key erofs s)) \<and> cache_ok cfg (snd (has_snapshot E key erofs s))"
      using s by (auto simp: has_snapshot_def prog_simps log_call_def upd cache_ok_def split: option.split sum.split prod.split err.split)
  qed
  show "preserves (\<lambda>s. P s \<and> cache_ok cfg s) (get_snapshot_dir E key)"
  proof (rule preservesI)
    fix s assume s: "P s \<and> cache_ok cfg s"
    have "hm_ok (AList.update key e (snapshots s))" for e using s by (simp add: cache_ok_def distinct_update)
    moreover have "length (AList.update key e (snapshots s)) = length (snapshots s)"
      if "map_of (snapshots s) key = Some d" for d e
      using s that by (intro hm.len_ins_present) (simp_all add: cache_ok_def)
    ultimately show "P (snd (get_snapshot_dir E key s)) \<and> cache_ok cfg (snd (get_snapshot_dir E key s))"
      using s by (auto simp: get_snapshot_dir_def prog_simps log_call_def upd cache_ok_def split: option.split)
  qed
  show "preserves (\<lambda>s. P s \<and> cache_ok cfg s) (cache_snapshot E cfg key erofs')"
  proof (rule preservesI)
    fix s assume s: "P s \<and> cache_ok cfg s"
    then obtain s' where run: "cache_snapshot E cfg key erofs' s = (Inr (), s')"
      using cache_snapshot_total unfolding cache_ok_def by blast
    obtain m' cs e where "hm_ok m'" "length m' = min (length (snapshots s)) (max_snapshots cfg - 1)"
      "s' = s\<lparr>snapshots := AList.update key e m', calls := calls s @ cs\<rparr>"
      using cache_snapshot_result [OF _ run] s by (auto simp: cache_ok_def)
    then show "P (snd (cache_snapshot E cfg key erofs' s)) \<and> cache_ok cfg (snd (cache_snapshot E cfg key erofs' s))"
      using run s length_update_le [of key e m'] by (auto simp: upd cache_ok_def distinct_update)
  qed
qed

lemma blind_ok: "cache_blind (base_ok E cfg n)" "cache_blind (slot E cfg n c i)"
  by (rule cache_blindI; simp)+

lemma daemon_ok_cache:
  "preserves (daemon_ok E cfg n) (has_snapshot E key erofs)"
  "preserves (daemon_ok E cfg n) (get_snapshot_dir E key)"
  "preserves (daemon_ok E cfg n) (cache_snapshot E cfg key erofs')"
  unfolding daemon_ok_def [abs_def] using cache_keep [OF blind_ok(1)] by blast+

lemma restore_keep:
  fixes P :: "'z snapmgr_scheme \<Rightarrow> bool"
  assumes P: "cache_blind P"
  shows "preserves (\<lambda>s. P s \<and> cache_ok cfg s) (restore_from_snapshot E cfg' key cid dir)"
proof -
  have "preserves (\<lambda>s. P s \<and> cache_ok cfg s) m" if "only_calls m" for m :: "('z snapmgr_scheme, 'b) prog"
    using that P by (intro preserves_only_calls) (auto simp: cache_blind_def cache_ok_def)
  note oc = this
  show ?thesis unfolding restore_from_snapshot_def Let_def
    by (intro preserves_bindE cache_keep(2) [OF P] oc frame_rules)
qed

text \<open>The warm path uses one CID and one warm identifier, whatever happens on the way.\<close>

lemma seq_rule:
  "preserves Q m \<Longrightarrow> (\<And>s. Q s \<Longrightarrow> P s) \<Longrightarrow> (\<And>x s. Q s \<Longrightarrow> P (snd (f x s))) \<Longrightarrow> Q s \<Longrightarrow> P (snd (bindE m f s))"
  by (simp add: preserves_def snd_bindE split: sum.split)

lemma daemon_reserve:
  assumes ok: "daemon_ok E cfg (Suc n) s"
  shows "slot E cfg n (next_cid s) (warm_vm_id key (warm_counter s))
      (s\<lparr>warm_counter := warm_counter s + 1, calls := h, next_cid := next_cid s + 1\<rparr>)"
    "daemon_ok E cfg n (s\<lparr>warm_counter := warm_counter s + 1, calls := h\<rparr>)"
proof -
  let ?w = "s\<lparr>warm_counter := warm_counter s + 1, calls := h\<rparr>"
  have w: "warm_counter s < warm_counter s + 1" "unat (warm_counter s + 1) = unat (warm_counter s) + 1"
    and c: "next_cid s < next_cid s + 1"
    using ok succ_no_wrap [of "warm_counter s" n] succ_no_wrap [of "next_cid s" n]
    by (simp_all add: daemon_ok_def base_ok_def pool_ok_def)
  have below: "warm_below (warm_counter s + 1) vm" if "warm_below (warm_counter s) vm" for vm
    using that w(1) unfolding warm_below_def by (meson less_trans)
  have pools: "pool_ok E (Suc n) ?w" "pool_vms ?w = pool_vms s" using ok
    by (simp_all add: daemon_ok_def base_ok_def pool_ok_def pool_inv_def pool_vms_def)
  then have base: "base_ok E cfg n ?w" using ok w(2) pool_ok_mono [OF pools(1), of n] below
    by (auto simp: daemon_ok_def base_ok_def list_all_iff)
  then show "daemon_ok E cfg n ?w" using ok by (simp add: daemon_ok_def cache_ok_def)
  have "base_ok E cfg n (?w\<lparr>next_cid := next_cid s + 1\<rparr>)"
    using base pool_ok_alloc [OF pools(1)] by (simp add: base_ok_def pool_vms_def)
  moreover have inv: "pool_inv E s" using ok by (simp add: daemon_ok_def base_ok_def pool_ok_def)
  then have "next_cid s \<notin> vm_cid ` set (pool_vms s)" "GUEST_CID_START \<le> next_cid s"
    by (auto simp: pool_inv_def list_all_iff vm_ok_def)
  moreover have "warm_vm_id key (warm_counter s) \<notin> vm_id ` set (pool_vms s)"
  proof
    assume "warm_vm_id key (warm_counter s) \<in> vm_id ` set (pool_vms s)"
    then obtain vm where "vm \<in> set (pool_vms s)" "vm_id vm = warm_vm_id key (warm_counter s)" by auto
    then show False using ok by (fastforce simp: daemon_ok_def base_ok_def list_all_iff warm_below_def)
  qed
  ultimately show "slot E cfg n (next_cid s) (warm_vm_id key (warm_counter s))
      (s\<lparr>warm_counter := warm_counter s + 1, calls := h, next_cid := next_cid s + 1\<rparr>)"
    using w(1) c by (auto simp: slot_def pool_vms_def)
qed

lemma daemon_warm_restore: "costs (daemon_ok E cfg) 1 (warm_restore E cfg netns key)"
proof (rule costsI)
  fix n and s :: "'z daemon_scheme" assume ok: "daemon_ok E cfg (1 + n) s"
  define i where "i = warm_vm_id key (warm_counter s)"
  let ?c = "FsCreateDirAll (join_path (state_dir cfg) i)"
  let ?s1 = "s\<lparr>warm_counter := warm_counter s + 1, calls := calls s @ [?c]\<rparr>"
  let ?s2 = "?s1\<lparr>next_cid := next_cid s + 1\<rparr>"
  let ?Q = "\<lambda>t. slot E cfg n (next_cid s) i t \<and> cache_ok cfg t"
  have ok1: "daemon_ok E cfg n ?s1" using daemon_reserve(2) [of E cfg n s] ok by simp
  have Q2: "?Q ?s2" using daemon_reserve(1) [of E cfg n s key "calls s @ [?c]"] ok
    by (simp add: i_def daemon_ok_def cache_ok_def)
  have Qok: "daemon_ok E cfg n t" if "?Q t" for t using that by (simp add: daemon_ok_def slot_def)
  have reg: "daemon_ok E cfg n (snd (register_active vm t))" if "?Q t" "vm_id vm = i" "vm_cid vm = next_cid s" for vm t
    using that slot_register [of E cfg n "next_cid s" i t vm] by (simp add: daemon_ok_def cache_ok_def register_active_apply)
  have net: "preserves ?Q (warm_network E netns i a v)" for a v
    by (rule agents_keep(3)) (simp_all add: cache_ok_def)
  have res: "preserves ?Q (catchE (restore_from_snapshot E cfg key (next_cid s) d))" for d
    by (intro preserves_catchE restore_keep blind_ok)
  have clk: "?Q t \<Longrightarrow> ?Q (log_call Now t)" for t by (simp add: log_call_def cache_ok_def)
  have last: "daemon_ok E cfg n (snd (bindE (clock_now E) (\<lambda>tm. thenE (register_active
      \<lparr>vm_id = i, vm_api_socket = a, vm_vsock_socket = v, vm_cid = next_cid s, vm_ch_pid = p, vm_created_at = tm\<rparr>)
      (retE (R tm))) t))" if "?Q t" for a v p t and R :: "nat \<Rightarrow> json option"
    using reg [OF clk [OF that]] by (simp add: bindE_def clock_now_def thenE_apply register_active_apply retE_def)
  have inner: "daemon_ok E cfg n (snd (bindE (warm_network E netns i a v) (\<lambda>w. case w of
      Inl resp \<Rightarrow> retE (Some resp) | Inr tap \<Rightarrow> bindE (clock_now E) (\<lambda>tm.
        let vm = \<lparr>vm_id = i, vm_api_socket = a, vm_vsock_socket = v, vm_cid = next_cid s, vm_ch_pid = p,
          vm_created_at = tm\<rparr> in thenE (register_active vm) (retE (Some (vm_json vm True 0 tap))))) t))"
    if "?Q t" for a v p t
    by (rule seq_rule [OF net Qok _ that]) (auto simp: retE_def Let_def intro: Qok last split: sum.split)
  have fin: "daemon_ok E cfg n (snd (warm_finish E cfg netns key i (next_cid s) d t))" if "?Q t" for d t
    unfolding warm_finish_def
    by (rule seq_rule [OF res Qok _ that]) (auto simp: retE_def intro: Qok inner split: sum.split prod.split)
  show "daemon_ok E cfg n (snd (warm_restore E cfg netns key s))"
    using ok1 fin [OF Q2]
    by (auto simp: warm_restore_def Let_def i_def [symmetric] bindE_def [of "getE _"] bindE_def [of "catchE _"]
        bindE_def [of alloc_cid] getE_def thenE_apply modE_def catchE_def ask_def alloc_cid_apply of_os_def retE_def
        log_call_def split: sum.split)
qed

text \<open>The handlers, the dispatch and the tasks, each with the number of CIDs it may draw.\<close>

lemma daemon_ok_calls_only: "only_calls m \<Longrightarrow> preserves (daemon_ok E cfg n) m"
  by (rule preserves_only_calls) simp_all

lemma daemon_spawn: "preserves (daemon_ok E cfg n) (spawn_task t)"
  unfolding spawn_task_def by (rule preserves_modE) simp

lemma daemon_trigger: "preserves (daemon_ok E cfg n) (trigger_shadow E key erofs)"
  unfolding trigger_shadow_def
  by (intro preserves_bindE preserves_if preserves_thenE preserves_getE preserves_retE daemon_ok_cache daemon_spawn
      preserves_modE) simp

lemma daemon_run_container: "preserves (daemon_ok E cfg n) (run_container_in_vm E p)"
  by (rule agents_keep) simp_all

lemmas daemon_free = preserves_bindE preserves_thenE preserves_if preserves_case_sum preserves_case_option
  preserves_case_prod preserves_retE preserves_getE preserves_catchE preserves_ignoreE daemon_spawn daemon_trigger daemon_run_container
  daemon_ok_cache

lemma daemon_cold: "costs (daemon_ok E cfg) 1 (cold_acquire E cfg netns key erofs cid b64)"
proof -
  have "costs (daemon_ok E cfg) (1 + 0) (cold_acquire E cfg netns key erofs cid b64)"
    unfolding cold_acquire_def cold_serve_def by (intro db.costs_bindE db.costs_catchE daemon_acquire costs_0) (intro daemon_free)
  then show ?thesis by simp
qed

lemma daemon_handle_acquire: "costs (daemon_ok E cfg) 2 (handle_acquire E cfg request)"
proof -
  let ?erofs = "str_field ''erofs_path'' [] request" and ?key = "str_field ''image_key'' [] request"
  let ?net = "str_field ''netns'' [] request"
  have w: "costs (daemon_ok E cfg) 1 (if b then warm_restore E cfg ?net ?key else retE None)" for b
    using daemon_warm_restore [of E cfg ?net ?key] db.costs_free [OF preserves_retE] by (cases b) simp_all
  have c: "costs (daemon_ok E cfg) 1 (case w of Some resp \<Rightarrow> retE resp | None \<Rightarrow> cold_acquire E cfg ?net ?key ?erofs ci b64)" for w ci b64
    using daemon_cold [of E cfg] db.costs_free [OF preserves_retE] by (cases w) simp_all
  have h: "costs (daemon_ok E cfg) 0 (if ?key = [] then retE False
             else has_snapshot E ?key (if ?erofs = [] then None else Some ?erofs))"
    by (intro costs_0 daemon_free)
  have "costs (daemon_ok E cfg) (0 + (1 + 1)) (handle_acquire E cfg request)"
    unfolding handle_acquire_def Let_def by (intro db.costs_bindE h w c)
  then show ?thesis by (simp add: numeral_2_eq_2)
qed

lemma daemon_get_active: "preserves (daemon_ok E cfg n) (get_active i)"
  by (simp add: preserves_def get_active_def getE_def)

lemma daemon_handlers:
  "preserves (daemon_ok E cfg n) (handle_release E cfg request)"
  "preserves (daemon_ok E cfg n) (handle_add_container E request)"
  "preserves (daemon_ok E cfg n) (handle_kill_container E request)"
  "preserves (daemon_ok E cfg n) (handle_wait_container E request)"
  "preserves (daemon_ok E cfg n) (handle_delete_container E request)"
  "preserves (daemon_ok E cfg n) handle_status"
proof -
  have ag: "preserves (daemon_ok E cfg n) (modE (\<lambda>s. s\<lparr>agents := f s\<rparr>))" for f by (rule preserves_modE) simp
  show "preserves (daemon_ok E cfg n) (handle_release E cfg request)"
    unfolding handle_release_def Let_def by (intro daemon_free ag daemon_release)
  show "preserves (daemon_ok E cfg n) (handle_add_container E request)"
    unfolding handle_add_container_def Let_def by (intro daemon_free daemon_get_active)
  show "preserves (daemon_ok E cfg n) (handle_kill_container E request)"
    "preserves (daemon_ok E cfg n) (handle_wait_container E request)"
    "preserves (daemon_ok E cfg n) (handle_delete_container E request)"
    unfolding handle_kill_container_def handle_wait_container_def handle_delete_container_def Let_def
    by (intro daemon_free daemon_ok_calls_only frame_rules)+
  show "preserves (daemon_ok E cfg n) handle_status"
    unfolding handle_status_def ready_count_def read_active_count_def active_shadow_count_def snapshot_keys_def
    by (intro daemon_free)
qed

lemma daemon_dispatch: "costs (daemon_ok E cfg) 2 (dispatch E cfg request)"
  unfolding dispatch_def Let_def
  by (intro costs_if daemon_handle_acquire db.costs_free daemon_handlers preserves_retE)

lemma daemon_run_shadow:
  "costs (daemon_ok E cfg) 1 (run_shadow E cfg key erofs :: ('z daemon_scheme, unit) prog)"
proof -
  let ?after = "\<lambda>vm. thenE (shadow_snapshot E cfg key erofs vm)
     (thenE (cache_snapshot E cfg key erofs) (release E cfg (vm_id vm))) :: ('z daemon_scheme, unit) prog"
  have a: "costs (daemon_ok E cfg) 0 (?after vm)" for vm
    by (intro costs_0 preserves_thenE daemon_ok_cache daemon_release daemon_ok_calls_only frame_rules)
  have "costs (daemon_ok E cfg) (0 + (1 + 0)) (run_shadow E cfg key erofs :: ('z daemon_scheme, unit) prog)"
    unfolding run_shadow_def Let_def
    by (intro db.costs_thenE db.costs_bindE db.costs_ctxE a daemon_acquire costs_0 daemon_ok_calls_only frame_rules)
  then show ?thesis by simp
qed

lemma daemon_run_task: "costs (daemon_ok E cfg) 1 (run_task E cfg t :: ('z daemon_scheme, unit) prog)"
proof -
  have sl: "costs (daemon_ok E cfg) 0 (tell c :: ('z daemon_scheme, unit) prog)" for c
    by (intro costs_0 daemon_ok_calls_only frame_rules)
  have un: "costs (daemon_ok E cfg) 0
    (modE (\<lambda>s. s\<lparr>active_shadows := AList.delete key (active_shadows s)\<rparr>) :: ('z daemon_scheme, unit) prog)" for key
    by (intro costs_0 preserves_modE) simp
  show ?thesis
    using db.costs_thenE [OF sl daemon_replenish] db.costs_thenE [OF db.costs_ignoreE [OF daemon_run_shadow] un]
    by (simp add: run_task_def shadow_task_def split: task.split)
qed

text \<open>The running daemon: requests on its connections and spawned tasks, in any order.\<close>

inductive daemon_step :: "env \<Rightarrow> DaemonConfig \<Rightarrow> daemon \<Rightarrow> daemon \<Rightarrow> bool" for E cfg where
  request: "daemon_step E cfg s (snd (dispatch E cfg request s))"
| task_run: "t \<in> set (tasks s) \<Longrightarrow>
    daemon_step E cfg s (snd (run_task E cfg t (s\<lparr>tasks := remove1 t (tasks s)\<rparr>)))"
| elsewhere: "daemon_step E cfg s (s\<lparr>calls := calls s @ cs\<rparr>)"

inductive daemon_reach :: "env \<Rightarrow> DaemonConfig \<Rightarrow> nat \<Rightarrow> daemon \<Rightarrow> bool" for E cfg where
  started: "daemon_start E args h = Inr (cfg, s) \<Longrightarrow> daemon_reach E cfg 0 s"
| step: "daemon_reach E cfg n s \<Longrightarrow> daemon_step E cfg s s' \<Longrightarrow> daemon_reach E cfg (Suc n) s'"

inductive_cases daemon_stepE: "daemon_step E cfg s s'"

lemma daemon_step_ok:
  assumes "daemon_step E cfg s s'" and ok: "daemon_ok E cfg (2 + k) s"
  shows "daemon_ok E cfg k s'"
  using assms(1)
proof cases
  case (request r)
  then show ?thesis using costsD [OF daemon_dispatch ok] by simp
next
  case (task_run t)
  then show ?thesis using ok
    by (simp add: costsD [OF db.costs_mono [OF daemon_run_task, of 2]])
next
  case (elsewhere cs)
  then show ?thesis using daemon_ok_mono [OF ok, of k] by simp
qed

lemma daemon_start_ok:
  assumes start: "daemon_start E args h = Inr (cfg, s)" and room: "k + pool_size cfg + 4 < 2 ^ 64"
  shows "daemon_ok E cfg k s"
proof -
  obtain w where load: "DaemonConfig_load E (daemon_config_path args) \<lparr>calls = h\<rparr> = (Inr cfg, w)"
    using start by (auto simp: daemon_start_def split: prod.splits sum.splits)
  define p where "p = snd (initialize E cfg (Pool_new (calls w)))"
  have s: "s = snd (serve_setup E cfg (ApiServer_new (SnapshotManager_new p)))"
    using start load by (auto simp: daemon_start_def p_def split: prod.splits sum.splits)
  have "only_calls (serve_setup E cfg)" unfolding serve_setup_def by (intro frame_rules)
  then obtain cs where cs: "s = (ApiServer_new (SnapshotManager_new p))\<lparr>calls := cs\<rparr>"
    unfolding s only_calls_def by metis
  have "pool_ok E (Suc (pool_size cfg) + k) (Pool_new (calls w))" by (rule pool_new_ok) (use room in simp)
  then have pok: "pool_ok E k p" unfolding p_def by (rule costsD [OF draws_initialize])
  have act: "active p = []" "length (ready p) \<le> pool_size cfg"
    using initialize_state [of E cfg "Pool_new (calls w)"] by (simp_all add: p_def Pool_new_def)
  have "list_all (warm_below 0) (ready p)"
    using pok starts_with_pool_vm_id not_warm unfolding pool_ok_def pool_inv_def list_all_iff drawn_def by metis
  with pok act room show ?thesis
    by (simp add: cs daemon_ok_def base_ok_def cache_ok_def ApiServer_new_def SnapshotManager_new_def pool_vms_def
        pool_ok_def pool_inv_def pool.defs snapmgr.defs)
qed

lemma daemon_reach_ok: "daemon_reach E cfg n s \<Longrightarrow> 2 * n + k + pool_size cfg + 4 < 2 ^ 64 \<Longrightarrow> daemon_ok E cfg k s"
proof (induction arbitrary: k rule: daemon_reach.induct)
  case (started args h s)
  then show ?case using daemon_start_ok by simp
next
  case (step n s s')
  then show ?case using daemon_step_ok [of E cfg s s' k] by simp
qed

section \<open>Properties\<close>


text \<open>An environment in which the daemon's configuration file is the sample configuration.\<close>

definition boot_env :: env where
  "boot_env = live_env\<lparr>json_parse := \<lambda>_. Some (DaemonConfig_to_json sample_cfg)\<rparr>"

lemma boot_env_sel [simp]:
  "ans_unit boot_env h c = Inr ()" "ans_bool boot_env h c"
  "ans_nat boot_env h c = Inr (case c of Ch _ \<Rightarrow> 200 | _ \<Rightarrow> 42)" "ans_clock boot_env h = 0"
  "ans_str boot_env h c = Inr []" "ans_strs boot_env h c = Inr []" "ans_line boot_env h c = Some (Inr ''OK'')"
  "loop_fuel boot_env = 1" "json_parse boot_env x = Some (DaemonConfig_to_json sample_cfg)"
  by (simp_all add: boot_env_def)

lemma boot_start: "\<exists>s. daemon_start boot_env [''d''] [] = Inr (sample_cfg, s) \<and> ready s \<noteq> []"
proof -
  have cfg: "DaemonConfig_from_json (DaemonConfig_to_json sample_cfg) = Some sample_cfg"
    by (simp add: DaemonConfig_from_json_def DaemonConfig_to_json_def) (simp add: sample_cfg_def)
  let ?w = "log_call (FsRead (daemon_config_path [''d''])) \<lparr>calls = []\<rparr>"
  have load: "DaemonConfig_load boot_env (daemon_config_path [''d'']) \<lparr>calls = []\<rparr> = (Inr sample_cfg, ?w)"
    by (simp add: DaemonConfig_load_def prog_simps cfg)
  have "\<exists>vm. fst (restore_one boot_env sample_cfg s) = Inr vm" for s :: pool
    by (simp add: restore_one_def restore_base_def prepare_snapshot_def link_or_copy_def spawn_ch_def wait_ch_ready_def
        restore_vm_def resume_vm_def api_request_def wait_for_agent_def try_agent_health_def starts_with_def
        Let_def prog_simps cong: prog_congs)
  then have "fst (initialize boot_env sample_cfg (Pool_new (calls ?w))) = Inr ()"
    "length (ready (snd (initialize boot_env sample_cfg (Pool_new (calls ?w))))) = 2"
    using initialize_all [of boot_env "Pool_new (calls ?w)" sample_cfg] by (simp_all add: Pool_new_def)
  then obtain p where p: "initialize boot_env sample_cfg (Pool_new (calls ?w)) = (Inr (), p)" "ready p \<noteq> []"
    by (cases "initialize boot_env sample_cfg (Pool_new (calls ?w))") fastforce
  show ?thesis using load p
    by (auto simp: daemon_start_def serve_setup_def prog_simps log_call_def ApiServer_new_def SnapshotManager_new_def
        pool.defs snapmgr.defs split: option.split)
qed


end
