(* ===== verification/Registry.thy ===== *)
theory Registry
  imports Api
begin

text \<open>
  What the daemon's requests do to the registry of active VMs: an acquisition that answers with a VM has registered
  it under a new identifier, a release takes exactly one VM out, and every other request leaves the
  registry alone. This is what a client of the daemon relies on.
\<close>

section \<open>Programs that leave the registry alone\<close>

abbreviation "active_is A \<equiv> \<lambda>s. map_of (active s) = A"

lemma active_calls: "only_calls m \<Longrightarrow> preserves (active_is A) m"
  by (rule preserves_only_calls) simp_all

lemma active_snapshots:
  "preserves (active_is A) (has_snapshot E key erofs)" "preserves (active_is A) (get_snapshot_dir E key)"
  "preserves (active_is A) (spawn_task t)" "preserves (active_is A) alloc_cid" "preserves (active_is A) (get_active i)"
  by (auto simp: preserves_def has_snapshot_def get_snapshot_dir_def spawn_task_def alloc_cid_def get_active_def prog_simps log_call_def
      split: option.split sum.split prod.split err.split)

lemma active_restore:
  "preserves (active_is A) (restore_from_snapshot E cfg key cid dir :: ('z snapmgr_scheme, u32 \<times> path \<times> path) prog)"
  unfolding restore_from_snapshot_def Let_def by (intro preserves_bindE active_snapshots active_calls frame_rules)

lemma active_trigger: "preserves (active_is A) (trigger_shadow E key erofs)"
  unfolding trigger_shadow_def
  by (intro preserves_bindE preserves_if preserves_thenE preserves_getE preserves_retE active_snapshots preserves_modE) simp

lemma active_agents:
  "preserves (active_is A) (run_container_in_vm E p)" "preserves (active_is A) (warm_network E ns i a v)"
  by (rule agents_keep; simp)+

lemma active_handlers:
  "preserves (active_is A) (handle_add_container E request)" "preserves (active_is A) (handle_kill_container E request)"
  "preserves (active_is A) (handle_wait_container E request)" "preserves (active_is A) (handle_delete_container E request)"
  "preserves (active_is A) handle_status"
  unfolding handle_add_container_def handle_kill_container_def handle_wait_container_def handle_delete_container_def
    handle_status_def ready_count_def read_active_count_def active_shadow_count_def snapshot_keys_def Let_def
  by (intro preserves_if preserves_bindE preserves_thenE preserves_case_option preserves_case_sum preserves_case_prod preserves_retE
      preserves_getE preserves_catchE preserves_ignoreE active_agents active_snapshots active_calls frame_rules)+

lemma keeps_active: "(\<And>A. preserves (active_is A) m) \<Longrightarrow> map_of (active (snd (m s))) = map_of (active s)"
  by (simp add: preserves_def)

section \<open>Acquiring\<close>

text \<open>The registry gains exactly one VM, under an identifier that was free.\<close>

definition gains :: "PoolVm \<Rightarrow> 'z pool_scheme \<Rightarrow> 'z pool_scheme \<Rightarrow> bool" where
  "gains vm s s' \<longleftrightarrow> vm_id vm \<noteq> [] \<and> map_of (active s) (vm_id vm) = None \<and> map_of (active s') = (map_of (active s))(vm_id vm \<mapsto> vm)"

lemma cold_serve_registry:
  fixes s :: "'z daemon_scheme"
  assumes "cold_serve E netns key erofs ci b64 vm s = (Inr resp, s')"
  shows "map_of (active s') = map_of (active s) \<and>
    ((\<exists>pid tap. resp = vm_json vm False pid tap) \<or> (\<exists>e. resp = err_json (''run container: '' @ e)))"
proof
  have "preserves (active_is A) (cold_serve E netns key erofs ci b64 vm :: ('z daemon_scheme, json) prog)" for A
    unfolding cold_serve_def
    by (intro preserves_thenE preserves_if preserves_bindE preserves_catchE preserves_case_sum preserves_case_prod preserves_retE
        active_snapshots active_trigger active_agents)
  from keeps_active [OF this, of s] assms show "map_of (active s') = map_of (active s)" by simp
  show "(\<exists>pid tap. resp = vm_json vm False pid tap) \<or> (\<exists>e. resp = err_json (''run container: '' @ e))"
    using assms unfolding cold_serve_def
    by (auto elim!: bindE_InrE thenE_InrE simp: inr_simps split: if_splits sum.splits prod.splits) blast+
qed

lemma acquire_named:
  assumes ok: "pool_ok E (Suc k) s" and run: "acquire E cfg s = (Inr vm, s')"
  shows "vm_id vm \<noteq> []"
proof (cases "ready s = []")
  case True
  then obtain s1 where "restore_one E cfg s = (Inr vm, s1)" using run by (auto simp: acquire_empty split: prod.splits sum.splits)
  from restore_one_vm(3) [OF ok this] show ?thesis by (simp add: pool_vm_id_def)
next
  case False
  then have "vm \<in> set (ready s)" using run by (auto simp: acquire_ready)
  then have "drawn E vm" using ok by (auto simp: pool_ok_def pool_inv_def list_all_iff)
  then show ?thesis by (simp add: drawn_def pool_vm_id_def)
qed

lemma catchE_Inr_cases:
  assumes "catchE m s = (Inr a, s')"
  shows "m s = (a, s')"
  using assms by (auto simp: catchE_def split: prod.splits sum.splits err.splits)

lemma cold_registry:
  fixes s :: "'z daemon_scheme"
  assumes ok: "pool_ok E (Suc k) s" and run: "cold_acquire E cfg netns key erofs ci b64 s = (Inr resp, s')"
  shows "(\<exists>e. resp = err_json (''acquire failed: '' @ e)) \<and> map_of (active s') = map_of (active s) \<or>
    (\<exists>vm. gains vm s s' \<and> ((\<exists>pid tap. resp = vm_json vm False pid tap) \<or> (\<exists>e. resp = err_json (''run container: '' @ e))))"
proof -
  obtain a s1 where c: "catchE (acquire E cfg) s = (Inr a, s1)"
    and rest: "(case a of Inl e \<Rightarrow> retE (err_json (''acquire failed: '' @ show_chain e))
      | Inr vm \<Rightarrow> cold_serve E netns key erofs ci b64 vm) s1 = (Inr resp, s')"
    using run unfolding cold_acquire_def by (rule bindE_InrE)
  have a: "acquire E cfg s = (a, s1)" using c by (rule catchE_Inr_cases)
  show ?thesis
  proof (cases a)
    case (Inl e)
    then show ?thesis using rest a pl.acq_err by (auto simp: retE_def)
  next
    case (Inr vm)
    then have "gains vm s s1" using pl.acq_new [OF ok] acquire_named [OF ok] a by (simp add: gains_def)
    then show ?thesis using rest Inr cold_serve_registry [of E netns key erofs ci b64 vm s1 resp s'] by (auto simp: gains_def)
  qed
qed

lemma warm_network_Inl:
  assumes "warm_network E netns i a v s = (Inr (Inl resp), s')" shows "\<exists>m. resp = err_json m"
  using assms unfolding warm_network_def
  by (auto elim!: bindE_InrE thenE_InrE simp: inr_simps split: if_splits sum.splits prod.splits) blast+

lemma warm_finish_registry:
  fixes s :: "'z daemon_scheme"
  assumes "warm_finish E cfg netns key i cid dir s = (Inr r, s')"
  shows "(r = None \<or> (\<exists>m. r = Some (err_json m))) \<and> map_of (active s') = map_of (active s) \<or>
    (\<exists>vm tap. r = Some (vm_json vm True 0 tap) \<and> vm_id vm = i \<and> map_of (active s') = (map_of (active s))(i \<mapsto> vm))"
proof -
  obtain x s1 where c: "catchE (restore_from_snapshot E cfg key cid dir) s = (Inr x, s1)"
    and rest: "(case x of Inl _ \<Rightarrow> retE None | Inr (ch_pid, api_socket, vsock_socket) \<Rightarrow>
          bindE (warm_network E netns i api_socket vsock_socket) (\<lambda>w. case w of
             Inl resp \<Rightarrow> retE (Some resp)
           | Inr tap \<Rightarrow>
               bindE (clock_now E) (\<lambda>t.
               let vm = \<lparr>vm_id = i, vm_api_socket = api_socket, vm_vsock_socket = vsock_socket,
                         vm_cid = cid, vm_ch_pid = ch_pid, vm_created_at = t\<rparr> in
               thenE (register_active vm) (retE (Some (vm_json vm True 0 tap)))))) s1 = (Inr r, s')"
    using assms unfolding warm_finish_def by (rule bindE_InrE)
  have 1: "map_of (active s1) = map_of (active s)"
    using keeps_active [OF preserves_catchE [OF active_restore], of E cfg key cid dir s] c by simp
  show ?thesis
  proof (cases x)
    case (Inl e)
    then show ?thesis using rest 1 by (auto simp: retE_def)
  next
    case (Inr y)
    obtain pid api vs where y: "y = (pid, api, vs)" by (cases y)
    obtain w s2 where w: "warm_network E netns i api vs s1 = (Inr w, s2)"
      and rest2: "(case w of Inl resp \<Rightarrow> retE (Some resp) | Inr tap \<Rightarrow> bindE (clock_now E) (\<lambda>t.
               let vm = \<lparr>vm_id = i, vm_api_socket = api, vm_vsock_socket = vs, vm_cid = cid, vm_ch_pid = pid, vm_created_at = t\<rparr> in
               thenE (register_active vm) (retE (Some (vm_json vm True 0 tap))))) s2 = (Inr r, s')"
      using rest unfolding Inr y sum.case prod.case by (rule bindE_InrE)
    have 2: "map_of (active s2) = map_of (active s)"
      using keeps_active [OF active_agents(2), of E netns i api vs s1] w 1 by simp
    show ?thesis
    proof (cases w)
      case (Inl resp)
      then show ?thesis using rest2 2 warm_network_Inl w by (fastforce simp: retE_def)
    next
      case (Inr tap)
      then show ?thesis using rest2 2
        by (auto simp: prog_simps log_call_def Let_def register_active_apply update_conv') blast?
    qed
  qed
qed

lemma warm_registry:
  fixes s :: "'z daemon_scheme"
  assumes ok: "daemon_ok E cfg (Suc n) s" and run: "warm_restore E cfg netns key s = (Inr r, s')"
  shows "(r = None \<or> (\<exists>m. r = Some (err_json m))) \<and> map_of (active s') = map_of (active s) \<or>
    (\<exists>vm tap. r = Some (vm_json vm True 0 tap) \<and> gains vm s s')"
proof -
  define i where "i = warm_vm_id key (warm_counter s)"
  let ?dir = "join_path (state_dir cfg) i"
  let ?s1 = "s\<lparr>warm_counter := warm_counter s + 1, calls := calls s @ [FsCreateDirAll ?dir]\<rparr>"
  let ?s2 = "?s1\<lparr>next_cid := next_cid s + 1\<rparr>"
  have "slot E cfg n (next_cid s) i ?s2" using daemon_reserve(1) [OF ok, of key] by (simp add: i_def)
  then have "i \<notin> vm_id ` set (pool_vms s)" by (simp add: slot_def pool_vms_def)
  moreover have "pool_inv E s" using ok by (simp add: daemon_ok_def base_ok_def pool_ok_def)
  then have "map_of (active s) j = Some vm \<Longrightarrow> vm_id vm = j" for j vm using pool_inv_facts by blast
  ultimately have free: "map_of (active s) i = None"
  proof (cases "map_of (active s) i")
    case (Some vm)
    then have "vm \<in> set (pool_vms s)" "vm_id vm = i"
      using \<open>\<And>vm j. map_of (active s) j = Some vm \<Longrightarrow> vm_id vm = j\<close> by (force simp: pool_vms_def dest: map_of_SomeD)+
    then show ?thesis using \<open>i \<notin> vm_id ` set (pool_vms s)\<close> by blast
  qed
  show ?thesis
  proof (cases "ans_unit E (calls s) (FsCreateDirAll ?dir)")
    case (Inl e)
    then show ?thesis using run
      by (auto simp: warm_restore_def i_def Let_def prog_simps log_call_def of_os_def)
  next
    case (Inr u)
    then have "warm_finish E cfg netns key i (next_cid s) ?dir ?s2 = (Inr r, s')"
      using run by (simp add: warm_restore_def i_def Let_def bindE_def thenE_apply getE_def modE_def catchE_def ask_def alloc_cid_apply log_call_def)
    from warm_finish_registry [OF this] free show ?thesis by (auto simp: gains_def i_def warm_vm_id_def)
  qed
qed

text \<open>The whole handler: a fall-through of the warm path leaves the registry as it was.\<close>

lemma acquire_registry:
  fixes s :: "'z daemon_scheme"
  assumes ok: "daemon_ok E cfg 2 s" and run: "handle_acquire E cfg request s = (Inr resp, s')"
  shows "(\<exists>m. resp = err_json m) \<and> map_of (active s') = map_of (active s) \<or>
    (\<exists>vm. gains vm s s' \<and> ((\<exists>warm pid tap. resp = vm_json vm warm pid tap \<and> (warm \<longrightarrow> pid = 0)) \<or> (\<exists>e. resp = err_json (''run container: '' @ e))))"
proof -
  define netns where "netns = str_field ''netns'' [] request"
  define key where "key = str_field ''image_key'' [] request"
  define erofs where "erofs = str_field ''erofs_path'' [] request"
  define ci where "ci = str_field ''container_id'' [] request"
  define b64 where "b64 = str_field ''config_json'' [] request"
  let ?look = "if key = [] then retE False else has_snapshot E key (if erofs = [] then None else Some erofs)"
  have eq: "handle_acquire E cfg request = bindE ?look (\<lambda>warm.
      bindE (if warm then warm_restore E cfg netns key else retE None) (\<lambda>w. case w of
         Some resp \<Rightarrow> retE resp | None \<Rightarrow> cold_acquire E cfg netns key erofs ci b64))"
    unfolding handle_acquire_def Let_def netns_def key_def erofs_def ci_def b64_def by (rule refl)
  obtain warm s1 where l: "?look s = (Inr warm, s1)"
    and rest: "bindE (if warm then warm_restore E cfg netns key else retE None) (\<lambda>w. case w of
         Some resp \<Rightarrow> retE resp | None \<Rightarrow> cold_acquire E cfg netns key erofs ci b64) s1 = (Inr resp, s')"
    using run unfolding eq by (rule bindE_InrE)
  have "preserves (daemon_ok E cfg 2) (?look :: ('z daemon_scheme, bool) prog)" by (intro daemon_free)
  then have ok1: "daemon_ok E cfg 2 s1" using ok l unfolding preserves_def by (metis snd_conv)
  have "preserves (active_is A) (?look :: ('z daemon_scheme, bool) prog)" for A
    by (intro preserves_if preserves_retE active_snapshots)
  from keeps_active [OF this, of s] l have a1: "map_of (active s1) = map_of (active s)" by simp
  obtain w s2 where w: "(if warm then warm_restore E cfg netns key else retE None) s1 = (Inr w, s2)"
    and rest2: "(case w of Some resp \<Rightarrow> retE resp | None \<Rightarrow> cold_acquire E cfg netns key erofs ci b64) s2 = (Inr resp, s')"
    using rest by (rule bindE_InrE)
  have w1: "(w = None \<or> (\<exists>m. w = Some (err_json m))) \<and> map_of (active s2) = map_of (active s) \<or>
    (\<exists>vm tap. w = Some (vm_json vm True 0 tap) \<and> gains vm s s2)"
  proof (cases warm)
    case True
    then show ?thesis using warm_registry [of E cfg 1 s1 netns key w s2] ok1 w a1 by (simp add: gains_def numeral_2_eq_2)
  qed (use w a1 in \<open>auto simp: retE_def\<close>)
  have "costs (daemon_ok E cfg) 1 (if warm then warm_restore E cfg netns key else retE None :: ('z daemon_scheme, json option) prog)"
    using daemon_warm_restore [of E cfg netns key] db.costs_free [OF preserves_retE] by (cases warm) simp_all
  from costsD [OF this, of 1 s1] ok1 w have ok2: "pool_ok E (Suc 0) s2" by (simp add: numeral_2_eq_2 daemon_ok_def base_ok_def)
  show ?thesis
  proof (cases w)
    case None
    then have "map_of (active s2) = map_of (active s)" using w1 by simp
    then show ?thesis using cold_registry [OF ok2, of cfg netns key erofs ci b64 resp s'] rest2 None
      by (fastforce simp: gains_def)
  next
    case (Some j)
    then have "resp = j" "s' = s2" using rest2 by (simp_all add: retE_def)
    then show ?thesis using w1 Some by auto blast
  qed
qed

lemma release_registry:
  assumes "str_field ''vm_id'' [] request = i" and "i \<noteq> []"
  shows "\<exists>s'. handle_release E cfg request s = (Inr ok_json, s') \<and> map_of (active s') = (map_of (active s))(i := None)"
proof -
  let ?s = "s\<lparr>agents := AList.delete i (agents s)\<rparr>"
  obtain t where t: "release E cfg i ?s = (Inr (), t)" using release_state [of E cfg i ?s] by metis
  then have "map_of (active t) = (map_of (active s))(i := None)" using release_active [of E cfg i ?s] by simp
  with t assms show ?thesis by (simp add: handle_release_def Let_def thenE_apply modE_def bindE_def catchE_def retE_def)
qed

section \<open>The specification\<close>

text \<open>
  What a request does to the registry, as a client may rely on it: an acquisition adds at most one VM, under a new identifier,
  and answers with that VM, without a container when it is a warm one, or with an error; a release always succeeds and removes its VM; the other requests change nothing.
\<close>

definition registry_spec :: "json \<Rightarrow> json \<Rightarrow> (string \<rightharpoonup> PoolVm) \<Rightarrow> (string \<rightharpoonup> PoolVm) \<Rightarrow> bool" where
  "registry_spec request resp A A' \<longleftrightarrow>
     (let m = str_field ''method'' [] request; i = str_field ''vm_id'' [] request in
      if m = ''AcquireSandbox'' then
        (\<exists>e. resp = err_json e) \<and> A' = A \<or>
        (\<exists>vm. vm_id vm \<noteq> [] \<and> A (vm_id vm) = None \<and> A' = A(vm_id vm \<mapsto> vm) \<and>
           ((\<exists>warm pid tap. resp = vm_json vm warm pid tap \<and> (warm \<longrightarrow> pid = 0)) \<or> (\<exists>e. resp = err_json (''run container: '' @ e))))
      else if m = ''ReleaseSandbox'' then
        (if i = [] then resp = err_json ''vm_id required'' \<and> A' = A else resp = ok_json \<and> A' = A(i := None))
      else A' = A)"

lemma dispatch_others:
  assumes "str_field ''method'' [] request \<noteq> ''AcquireSandbox''" and "str_field ''method'' [] request \<noteq> ''ReleaseSandbox''"
  shows "preserves (active_is A) (dispatch E cfg request)"
  using assms unfolding dispatch_def Let_def by (simp add: active_handlers preserves_retE)

lemma dispatch_registry:
  fixes s :: "'z daemon_scheme"
  assumes ok: "daemon_ok E cfg 2 s" and run: "dispatch E cfg request s = (Inr resp, s')"
  shows "registry_spec request resp (map_of (active s)) (map_of (active s'))"
proof -
  let ?m = "str_field ''method'' [] request" and ?i = "str_field ''vm_id'' [] request"
  consider (acquire) "?m = ''AcquireSandbox''" | (release) "?m = ''ReleaseSandbox''"
    | (other) "?m \<noteq> ''AcquireSandbox''" "?m \<noteq> ''ReleaseSandbox''" by blast
  then show ?thesis
  proof cases
    case acquire
    then have "handle_acquire E cfg request s = (Inr resp, s')" using run by (simp add: dispatch_def)
    from acquire_registry [OF ok this] acquire show ?thesis by (simp add: registry_spec_def gains_def Let_def)
  next
    case release
    then have run: "handle_release E cfg request s = (Inr resp, s')" using run by (simp add: dispatch_def)
    show ?thesis
    proof (cases "?i = []")
      case True
      then show ?thesis using run release by (simp add: registry_spec_def handle_release_def retE_def)
    next
      case False
      then show ?thesis using run release release_registry [OF refl False, of E cfg s] by (simp add: registry_spec_def)
    qed
  next
    case other
    then show ?thesis using run keeps_active [OF dispatch_others [OF other], of E cfg s] by (simp add: registry_spec_def)
  qed
qed

section \<open>Properties\<close>

text \<open>
  C2: The daemon refines the specification of its registry: in every state that it can reach by \<open>n\<close> requests and
  tasks before a 64-bit counter can wrap, a request that is answered changes the registry of active VMs as the specification
  says. An acquisition that answers with a VM has filed exactly that VM under an identifier that was free; one that answers with an error has
  left the registry alone, unless the container could not be started: then a VM that the client is never told
  about is registered. A release with an identifier always answers with success and removes exactly that entry; all other
  requests leave the registry as it is.
\<close>

theorem dispatch_refines_registry:
  assumes "daemon_reach E cfg n s" and "2 * n + pool_size cfg + 6 < 2 ^ 64" and "dispatch E cfg request s = (Inr resp, s')"
  shows "registry_spec request resp (map_of (active s)) (map_of (active s'))"
  using dispatch_registry [OF daemon_reach_ok [OF assms(1)] assms(3)] assms(2) by simp

theorem dispatch_refines_registry_witness:
  "\<exists>s s' vm. daemon_reach boot_env sample_cfg 0 s \<and> map_of (active s) (vm_id vm) = None \<and> map_of (active s') = (map_of (active s))(vm_id vm \<mapsto> vm) \<and>
     dispatch boot_env sample_cfg (JObj [(''method'', JStr ''AcquireSandbox'')]) s = (Inr (vm_json vm False 0 []), s')"
proof -
  obtain s where s: "daemon_start boot_env [''d''] [] = Inr (sample_cfg, s)" "ready s \<noteq> []" using boot_start by blast
  let ?req = "JObj [(''method'', JStr ''AcquireSandbox'')]"
  have r: "daemon_reach boot_env sample_cfg 0 s" using s(1) by (rule daemon_reach.started)
  have "\<exists>vm s'. dispatch boot_env sample_cfg ?req s = (Inr (vm_json vm False 0 []), s')"
    by (simp add: dispatch_def handle_acquire_def cold_acquire_def cold_serve_def str_field_def acquire_ready [OF s(2)]
        register_active_apply prog_simps spawn_task_def) blast?
  then obtain vm s' where d: "dispatch boot_env sample_cfg ?req s = (Inr (vm_json vm False 0 []), s')" by blast
  have "registry_spec ?req (vm_json vm False 0 []) (map_of (active s)) (map_of (active s'))"
    using dispatch_refines_registry [OF r _ d] by (simp add: sample_cfg_def)
  then have "\<exists>vm'. map_of (active s) (vm_id vm') = None \<and> map_of (active s') = (map_of (active s))(vm_id vm' \<mapsto> vm') \<and>
      vm_json vm False 0 [] = vm_json vm' False 0 []"
    by (auto simp: registry_spec_def str_field_def vm_json_def err_json_def)
  then show ?thesis using r d by metis
qed

end
