(* ===== verification/Answers.thy ===== *)
theory Answers
  imports Api
begin

text \<open>
  The type of the daemon's answers: what members the answer to each method has. The handlers have no error of their own; whatever
  fails inside them becomes an answer with a member \<^verbatim>\<open>error\<close>.
\<close>

named_theorems answer_rules \<open>programs without an error, and what holds of their results\<close>

definition answers :: "('a \<Rightarrow> bool) \<Rightarrow> ('s, 'a) prog \<Rightarrow> bool" where
  "answers Q m \<longleftrightarrow> (\<forall>s. (\<forall>x. fst (m s) = Inr x \<longrightarrow> Q x) \<and> (\<forall>cs n. fst (m s) \<noteq> Inl (Fail cs n)))"

abbreviation "no_error m \<equiv> answers (\<lambda>_. True) m"

lemma answers_retE [answer_rules]: "Q x \<Longrightarrow> answers Q (retE x)"
  by (simp add: answers_def retE_def)

lemma answers_basic [answer_rules]: "no_error (getE f)" "no_error (modE g)" "no_error (askb E c)" "no_error (tell c)" "no_error (clock_now E)"
  by (simp_all add: answers_def getE_def modE_def ask_defs)

lemma fst_catchE: "fst (catchE m s) = (case fst (m s) of Inl (Fail cs n) \<Rightarrow> Inr (Inl (Fail cs n)) | Inl e \<Rightarrow> Inl e | Inr x \<Rightarrow> Inr (Inr x))"
  by (simp add: catchE_def split: prod.split sum.split err.split)

lemma answers_catchE [answer_rules]: "no_error (catchE m)"
  by (simp add: answers_def fst_catchE split: sum.split err.split)

lemma answers_bind:
  assumes "answers R m" and "\<And>x. R x \<Longrightarrow> answers Q (f x)" shows "answers Q (bindE m f)"
  unfolding answers_def
proof
  fix s
  obtain r s' where run: "m s = (r, s')" by (cases "m s")
  show "(\<forall>x. fst (bindE m f s) = Inr x \<longrightarrow> Q x) \<and> (\<forall>cs n. fst (bindE m f s) \<noteq> Inl (Fail cs n))"
  proof (cases r)
    case (Inl e)
    then show ?thesis using assms(1) run by (simp add: answers_def bindE_def) (metis fst_conv)
  next
    case (Inr x)
    then have "R x" using assms(1) run unfolding answers_def by (metis fst_conv)
    then show ?thesis using assms(2) [of x] run Inr by (simp add: answers_def bindE_def)
  qed
qed

lemma answers_bindE [answer_rules]: "no_error m \<Longrightarrow> (\<And>x. answers Q (f x)) \<Longrightarrow> answers Q (bindE m f)"
  by (rule answers_bind)

lemma answers_thenE [answer_rules]: "no_error m \<Longrightarrow> answers Q n \<Longrightarrow> answers Q (thenE m n)"
  unfolding thenE_def by (rule answers_bindE)

lemma answers_ignoreE [answer_rules]: "no_error (ignoreE m)"
  unfolding ignoreE_def by (intro answer_rules TrueI)

lemma answers_cases [answer_rules]:
  "(b \<Longrightarrow> answers Q m) \<Longrightarrow> (\<not> b \<Longrightarrow> answers Q n) \<Longrightarrow> answers Q (if b then m else n)"
  "(\<And>e. r = Inl e \<Longrightarrow> answers Q (f e)) \<Longrightarrow> (\<And>x. r = Inr x \<Longrightarrow> answers Q (g x)) \<Longrightarrow> answers Q (case r of Inl e \<Rightarrow> f e | Inr x \<Rightarrow> g x)"
  "(xo = None \<Longrightarrow> answers Q m) \<Longrightarrow> (\<And>y. xo = Some y \<Longrightarrow> answers Q (h y)) \<Longrightarrow> answers Q (case xo of None \<Rightarrow> m | Some y \<Rightarrow> h y)"
  "(\<And>a c. p = (a, c) \<Longrightarrow> answers Q (k a c)) \<Longrightarrow> answers Q (case p of (a, c) \<Rightarrow> k a c)"
  by (cases b; cases r; cases xo; cases p; simp)+

section \<open>Types\<close>

definition has_str :: "string \<Rightarrow> json \<Rightarrow> bool" where
  "has_str k j \<longleftrightarrow> Option.bind (j_get k j) as_str \<noteq> None"

definition has_num :: "string \<Rightarrow> json \<Rightarrow> bool" where
  "has_num k j \<longleftrightarrow> Option.bind (j_get k j) as_num \<noteq> None"

definition has_bool :: "string \<Rightarrow> json \<Rightarrow> bool" where
  "has_bool k j \<longleftrightarrow> Option.bind (j_get k j) as_bool \<noteq> None"

definition has_strs :: "string \<Rightarrow> json \<Rightarrow> bool" where
  "has_strs k j \<longleftrightarrow> (case Option.bind (j_get k j) as_array of None \<Rightarrow> False | Some xs \<Rightarrow> list_all (\<lambda>x. as_str x \<noteq> None) xs)"

text \<open>The answer to a method that is not an error.\<close>

definition result_type :: "string \<Rightarrow> json \<Rightarrow> bool" where
  "result_type m j \<longleftrightarrow>
     (if m = ''AcquireSandbox'' then has_str ''vm_id'' j \<and> has_str ''api_socket'' j \<and> has_str ''vsock_socket'' j \<and> has_num ''cid'' j \<and>
          has_num ''ch_pid'' j \<and> has_bool ''from_snapshot'' j \<and> has_num ''container_pid'' j \<and> has_str ''tap_name'' j
      else if m = ''AddContainer'' then has_num ''container_pid'' j
      else if m = ''WaitContainer'' then has_num ''exit_status'' j \<and> has_str ''exited_at'' j
      else if m = ''Status'' then has_num ''pool_ready'' j \<and> has_num ''active_vms'' j \<and> has_num ''shadow_vms_running'' j \<and> has_strs ''snapshot_keys'' j
      else m \<in> {''ReleaseSandbox'', ''KillContainer'', ''DeleteContainer''} \<and> j = ok_json)"

definition answer_type :: "string \<Rightarrow> json \<Rightarrow> bool" where
  "answer_type m j \<longleftrightarrow> has_str ''error'' j \<or> result_type m j"

lemmas has_defs = has_str_def has_num_def has_bool_def has_strs_def

lemma answer_error [simp]: "answer_type m (err_json e)"
  by (simp add: answer_type_def has_str_def err_json_def)

lemma answer_vm [simp]: "answer_type ''AcquireSandbox'' (vm_json vm w pid tap)"
  by (simp add: answer_type_def result_type_def has_defs vm_json_def)

lemma answer_ok [simp]: "m \<in> {''ReleaseSandbox'', ''KillContainer'', ''DeleteContainer''} \<Longrightarrow> answer_type m ok_json"
  by (auto simp: answer_type_def result_type_def)

lemma answers_state [answer_rules]:
  "no_error alloc_cid" "no_error (register_active vm)" "no_error (spawn_task t)" "no_error (get_active i)" "no_error ready_count"
  "no_error read_active_count" "no_error active_shadow_count" "no_error snapshot_keys"
  unfolding alloc_cid_def register_active_def spawn_task_def get_active_def ready_count_def read_active_count_def
    active_shadow_count_def snapshot_keys_def
  by (intro answer_rules TrueI)+

lemma answers_shadow [answer_rules]: "no_error (has_snapshot E key erofs)" "no_error (trigger_shadow E key path)"
proof -
  show h: "no_error (has_snapshot E key erofs)" for erofs unfolding has_snapshot_def by (intro answer_rules TrueI)
  show "no_error (trigger_shadow E key path)" unfolding trigger_shadow_def by (intro answer_rules h TrueI)
qed

section \<open>The handlers\<close>

lemma answers_warm_network: "answers (\<lambda>w. case w of Inl resp \<Rightarrow> answer_type m resp | Inr _ \<Rightarrow> True) (warm_network E netns i a v)"
  unfolding warm_network_def by (intro answer_rules TrueI) simp_all

lemma answers_warm: "answers (\<lambda>w. case w of None \<Rightarrow> True | Some resp \<Rightarrow> answer_type ''AcquireSandbox'' resp) (warm_restore E cfg netns key)"
proof -
  have "answers (\<lambda>w. case w of None \<Rightarrow> True | Some resp \<Rightarrow> answer_type ''AcquireSandbox'' resp) (warm_finish E cfg netns key i cid dir)" for i cid dir
    unfolding warm_finish_def Let_def
    by (intro answers_bind [OF answers_catchE] answer_rules answers_bind [OF answers_warm_network]) (auto intro!: answer_rules)
  then show ?thesis unfolding warm_restore_def Let_def by (intro answer_rules TrueI) simp_all
qed

lemma answers_cold: "answers (answer_type ''AcquireSandbox'') (cold_acquire E cfg netns key erofs ci b64)"
  unfolding cold_acquire_def cold_serve_def by (intro answer_rules TrueI) simp_all

lemma answers_acquire: "answers (answer_type ''AcquireSandbox'') (handle_acquire E cfg request)"
proof -
  have w: "answers (\<lambda>w. case w of None \<Rightarrow> True | Some resp \<Rightarrow> answer_type ''AcquireSandbox'' resp)
      (if b then warm_restore E cfg netns key else retE None)" for b netns key
    using answers_warm [of E cfg netns key] by (cases b) (simp_all add: answers_retE)
  show ?thesis unfolding handle_acquire_def Let_def
    by (rule answers_bindE, intro answer_rules TrueI, rule answers_bind [OF w]) (auto intro!: answers_retE answers_cold split: option.split)
qed

lemma answers_others:
  "answers (answer_type ''ReleaseSandbox'') (handle_release E cfg request)" "answers (answer_type ''AddContainer'') (handle_add_container E request)"
  "answers (answer_type ''KillContainer'') (handle_kill_container E request)" "answers (answer_type ''WaitContainer'') (handle_wait_container E request)"
  "answers (answer_type ''DeleteContainer'') (handle_delete_container E request)" "answers (answer_type ''Status'') handle_status"
  unfolding handle_release_def handle_add_container_def handle_kill_container_def handle_wait_container_def handle_delete_container_def
    handle_status_def Let_def
  by (intro answer_rules TrueI; simp add: answer_type_def result_type_def has_defs err_json_def list_all_iff)+

section \<open>Properties\<close>

text \<open>
  C20: Every answer of the daemon has the type of its method, in every state and for every request, well-formed or not: a
  request that is answered is answered with an error text or with all the members that the method's result has, with their
  types, and never with an error of the handler itself: the only other outcomes are a panic and not returning.
\<close>

theorem dispatch_typed:
  fixes s :: "'z daemon_scheme"
  shows "(\<exists>resp. fst (dispatch E cfg request s) = Inr resp \<and> answer_type (str_field ''method'' [] request) resp) \<or>
   (\<exists>m. fst (dispatch E cfg request s) = Inl (Panic m)) \<or> fst (dispatch E cfg request s) = Inl Diverge"
proof -
  have "answers (answer_type (str_field ''method'' [] request)) (dispatch E cfg request :: ('z daemon_scheme, json) prog)"
    unfolding dispatch_def Let_def by (intro answers_cases) (simp_all add: answers_acquire answers_others answers_retE)
  then have "\<forall>x. fst (dispatch E cfg request s) = Inr x \<longrightarrow> answer_type (str_field ''method'' [] request) x"
    "\<forall>cs n. fst (dispatch E cfg request s) \<noteq> Inl (Fail cs n)" by (simp_all add: answers_def)
  then show ?thesis by (metis err.exhaust sumE)
qed

end
