(* ===== verification/Supply.thy ===== *)
theory Supply
  imports Api
begin

text \<open>
  How the pool stays filled: which requests and tasks take ready VMs, and which put them back. A request that takes a ready VM
  has queued its replacement; a shadow takes one, too, and queues nothing.
\<close>

section \<open>Programs and the ready VMs\<close>

text \<open>A property of the state that looks at nothing but the ready VMs and the queued tasks.\<close>

definition supply_only :: "('z daemon_scheme \<Rightarrow> bool) \<Rightarrow> bool" where
  "supply_only P \<longleftrightarrow> (\<forall>s t. ready s = ready t \<longrightarrow> tasks s = tasks t \<longrightarrow> P s = P t)"

lemma supply_onlyD: "supply_only P \<Longrightarrow> P t \<Longrightarrow> ready s = ready t \<Longrightarrow> tasks s = tasks t \<Longrightarrow> P s"
  unfolding supply_only_def by blast

lemma supply_calls: "supply_only P \<Longrightarrow> only_calls m \<Longrightarrow> preserves P m"
  by (rule preserves_only_calls, assumption, rule supply_onlyD) simp_all

lemma supply_state:
  fixes P :: "'z daemon_scheme \<Rightarrow> bool"
  assumes P: "supply_only P"
  shows "preserves P alloc_cid" "preserves P (register_active vm)" "preserves P (has_snapshot E key erofs)"
    "preserves P (get_snapshot_dir E key)" "preserves P (cache_snapshot E cfg key path)"
proof -
  have blind: "cache_blind P" by (rule cache_blindI; rule supply_onlyD [OF P]; simp)
  show "preserves P (has_snapshot E key erofs)" "preserves P (get_snapshot_dir E key)" "preserves P (cache_snapshot E cfg key path)"
    by (rule cache_blind_ops [OF blind])+
  show "preserves P alloc_cid" "preserves P (register_active vm)"
    by (rule preservesI, rule supply_onlyD [OF P]; simp add: alloc_cid_apply register_active_apply)+
qed

lemma supply_agents:
  assumes P: "supply_only P"
  shows "preserves P (run_container_in_vm E p)" "preserves P (warm_network E ns i a v)"
  by (rule agents_keep; rule supply_onlyD [OF P]; simp)+

lemma supply_release:
  assumes P: "supply_only P"
  shows "preserves P (release E cfg i)"
proof (rule preservesI)
  fix s assume "P s"
  then show "P (snd (release E cfg i s))"
    by (rule supply_onlyD [OF P]) (rule release_state [of E cfg i s]; simp)+
qed

text \<open>Tasks are only ever added behind the queued ones.\<close>

definition queued :: "PoolVm list \<Rightarrow> 'z daemon_scheme \<Rightarrow> bool" where
  "queued vs s \<longleftrightarrow> ready s = vs \<and> Replenish \<in> set (tasks s)"

lemma supply_preds: "supply_only (\<lambda>s. ready s = vs)" "supply_only (queued vs)" "supply_only (\<lambda>s. ready s = vs \<and> tasks s = ts)"
  by (auto simp: supply_only_def queued_def)

lemma queued_trigger: "preserves (queued vs) (trigger_shadow E key erofs)"
proof -
  have sp: "preserves (queued vs) (spawn_task t)" for t unfolding spawn_task_def by (rule preserves_modE) (simp add: queued_def)
  show ?thesis unfolding trigger_shadow_def
    by (intro preserves_bindE preserves_if preserves_thenE preserves_getE preserves_retE supply_state supply_preds sp preserves_modE)
      (simp add: queued_def)
qed

lemma ready_warm: "preserves (\<lambda>s. ready s = vs) (warm_restore E cfg netns key)"
proof -
  let ?P = "\<lambda>s :: 'a daemon_scheme. ready s = vs"
  note keep = preserves_bindE preserves_thenE preserves_case_sum preserves_case_prod preserves_retE preserves_catchE preserves_getE
    supply_state [OF supply_preds(1)] supply_agents [OF supply_preds(1)]
  have asks: "preserves ?P (ask f c)" "preserves ?P (clock_now E)" for f c
    by (rule supply_calls [OF supply_preds(1)], rule frame_rules)+
  have "preserves ?P (restore_from_snapshot E cfg key cid dir)" for cid dir
    unfolding restore_from_snapshot_def Let_def by (intro keep supply_calls [OF supply_preds(1)] frame_rules)
  then have "preserves ?P (warm_finish E cfg netns key i cid dir)" for i cid dir
    unfolding warm_finish_def Let_def by (intro keep asks)
  then show ?thesis unfolding warm_restore_def Let_def by (intro keep asks preserves_modE) simp_all
qed

section \<open>Taking ready VMs\<close>

lemma acquire_supply:
  assumes "ready s \<noteq> []" and "acquire E cfg s = (r, s')"
  shows "r = Inr (last (ready s))" "ready s' = butlast (ready s)" "tasks s' = tasks s"
  using assms by (auto simp: acquire_ready register_active_apply)

lemma cold_supply:
  fixes s :: "'z daemon_scheme"
  assumes "ready s \<noteq> []"
  shows "queued (butlast (ready s)) (snd (cold_acquire E cfg netns key erofs ci b64 s))"
proof -
  let ?vs = "butlast (ready s)"
  obtain s1 where a: "acquire E cfg s = (Inr (last (ready s)), s1)" "ready s1 = ?vs"
    using acquire_supply [OF assms, of E cfg] by (metis prod.collapse)
  have sp: "queued ?vs (snd (spawn_task Replenish s1))" using a(2) by (simp add: spawn_task_def modE_def queued_def)
  let ?rest = "\<lambda>vm. thenE (if key \<noteq> [] \<and> erofs \<noteq> [] then trigger_shadow E key erofs else retE ())
    (if erofs \<noteq> [] \<and> ci \<noteq> [] then
       bindE (catchE (run_container_in_vm E
          \<lparr>rp_api_socket = vm_api_socket vm, rp_vsock_socket = vm_vsock_socket vm, rp_vm_id = vm_id vm,
           rp_netns = netns, rp_erofs_path = erofs, rp_container_id = ci, rp_config_json_b64 = b64\<rparr>)) (\<lambda>c. case c of
          Inl e \<Rightarrow> retE (err_json (''run container: '' @ show_chain e))
        | Inr (pid, tap) \<Rightarrow> retE (vm_json vm False pid tap))
     else retE (vm_json vm False 0 [])) :: ('z daemon_scheme, json) prog"
  have "preserves (queued ?vs) (?rest vm)" for vm
    by (intro preserves_thenE preserves_if preserves_bindE preserves_catchE preserves_case_sum preserves_case_prod preserves_retE
        queued_trigger supply_agents supply_preds)
  from preservesD [OF this sp] have "queued ?vs (snd (cold_serve E netns key erofs ci b64 vm s1))" for vm
    by (simp add: cold_serve_def thenE_apply spawn_task_def modE_def)
  then show ?thesis using a(1) by (simp add: cold_acquire_def bindE_def catchE_def)
qed

lemma acquire_takes:
  fixes s :: "'z daemon_scheme"
  assumes s: "ready s \<noteq> []"
  shows "ready (snd (handle_acquire E cfg request s)) = ready s \<or> queued (butlast (ready s)) (snd (handle_acquire E cfg request s))"
proof -
  let ?P = "\<lambda>t :: 'z daemon_scheme. ready t = ready s" and ?Q = "\<lambda>t :: 'z daemon_scheme. ready t = ready s \<or> queued (butlast (ready s)) t"
  let ?key = "str_field ''image_key'' [] request" and ?f = "str_field ''erofs_path'' [] request" and ?n = "str_field ''netns'' [] request"
  have look: "preserves ?P (if ?key = [] then retE False else has_snapshot E ?key (if ?f = [] then None else Some ?f))"
    by (intro preserves_if preserves_retE supply_state supply_preds)
  have warm: "preserves ?P (if w then warm_restore E cfg ?n ?key else retE None)" for w
    by (intro preserves_if preserves_retE ready_warm)
  have cold: "?Q (snd (cold_acquire E cfg ?n ?key ?f ci b64 t))" if "?P t" for t ci b64
    using cold_supply [of t E cfg ?n ?key ?f ci b64] that s by simp
  have tail: "?Q (snd (bindE (if w then warm_restore E cfg ?n ?key else retE None)
      (\<lambda>w. case w of Some resp \<Rightarrow> retE resp | None \<Rightarrow> cold_acquire E cfg ?n ?key ?f ci b64) t))" if "?P t" for w t ci b64
    by (rule seq_rule [OF warm _ _ that]) (use cold in \<open>auto simp: retE_def split: option.split\<close>)
  show ?thesis unfolding handle_acquire_def Let_def
    by (rule seq_rule [where P = ?Q, OF look _ tail refl]) simp
qed

lemma replenish_adds:
  fixes s :: "'z daemon_scheme"
  assumes "\<exists>vm. fst (restore_one E cfg (log_call (Sleep 100) s)) = Inr vm" and "length (ready s) < pool_size cfg"
  shows "length (ready (snd (run_task E cfg Replenish s))) = Suc (length (ready s))"
proof -
  let ?s = "log_call (Sleep 100) s"
  obtain vm s' where run: "restore_one E cfg ?s = (Inr vm, s')" using assms(1) by (metis prod.collapse)
  note fr = restore_one_frame [OF run]
  show ?thesis using assms(2) run fr
    by (simp add: run_task_def replenish_one_def thenE_apply tell_def bindE_def getE_def catchE_def push_ready_apply log_call_def)
qed

section \<open>Properties\<close>

text \<open>
  C17: A ready VM that a request takes comes back: when an \<^verbatim>\<open>AcquireSandbox\<close> request, whatever its outcome,
  leaves fewer ready VMs than before, then it has taken exactly one and queued a replenishment, and running that task, when
  the restore succeeds, brings the pool back to the number of ready VMs it had before the request.
\<close>

theorem taken_vm_replenished:
  fixes s :: "'z daemon_scheme"
  assumes "ready s \<noteq> []" and "length (ready s) \<le> pool_size cfg"
    and restore: "\<forall>t :: 'z daemon_scheme. \<exists>vm. fst (restore_one E cfg t) = Inr vm"
    and s': "s' = snd (dispatch E cfg request s)" and m: "str_field ''method'' [] request = ''AcquireSandbox''"
    and less: "length (ready s') < length (ready s)"
  shows "length (ready s') = length (ready s) - 1 \<and> Replenish \<in> set (tasks s') \<and>
    length (ready (snd (run_task E cfg Replenish (s'\<lparr>tasks := remove1 Replenish (tasks s')\<rparr>)))) = length (ready s)"
proof -
  have "s' = snd (handle_acquire E cfg request s)" using s' m by (simp add: dispatch_def)
  then have q: "queued (butlast (ready s)) s'" using acquire_takes [OF assms(1), of E cfg request] less by auto
  then have n: "Suc (length (ready s')) = length (ready s)" using assms(1) by (simp add: queued_def)
  then show ?thesis using q replenish_adds [of E cfg "s'\<lparr>tasks := remove1 Replenish (tasks s')\<rparr>"] restore assms(2)
    by (simp add: queued_def) linarith?
qed

lemma boot_restore: "\<exists>vm. fst (restore_one boot_env sample_cfg s) = Inr vm"
  by (simp add: restore_one_def restore_base_def prepare_snapshot_def link_or_copy_def spawn_ch_def wait_ch_ready_def
      restore_vm_def resume_vm_def api_request_def wait_for_agent_def try_agent_health_def starts_with_def
      Let_def prog_simps cong: prog_congs)

text \<open>A daemon with one ready VM.\<close>

definition small_daemon :: daemon where
  "small_daemon = ApiServer_new (SnapshotManager_new sample_pool)"

lemma small_daemon_sel [simp]: "ready small_daemon = [sample_vm]" "tasks small_daemon = []" "calls small_daemon = calls sample_pool"
  "active small_daemon = []" "snapshots small_daemon = []" "agents small_daemon = []"
  by (simp_all add: small_daemon_def ApiServer_new_def SnapshotManager_new_def sample_pool_def Pool_new_def pool.defs snapmgr.defs)

theorem taken_vm_replenished_witness:
  "let s' = snd (dispatch boot_env sample_cfg (JObj [(''method'', JStr ''AcquireSandbox'')]) small_daemon)
   in ready s' = [] \<and> length (ready (snd (run_task boot_env sample_cfg Replenish (s'\<lparr>tasks := remove1 Replenish (tasks s')\<rparr>)))) = 1"
proof -
  let ?req = "JObj [(''method'', JStr ''AcquireSandbox'')]"
  let ?s = "snd (dispatch boot_env sample_cfg ?req small_daemon)"
  have a: "ready ?s = []"
    by (simp add: dispatch_def handle_acquire_def cold_acquire_def cold_serve_def str_field_def acquire_ready register_active_apply prog_simps spawn_task_def)
  have "ready small_daemon \<noteq> []" "length (ready small_daemon) \<le> pool_size sample_cfg"
    "\<forall>t :: daemon. \<exists>vm. fst (restore_one boot_env sample_cfg t) = Inr vm"
    "str_field ''method'' [] ?req = ''AcquireSandbox''" "length (ready ?s) < length (ready small_daemon)"
    by (simp_all add: boot_restore str_field_def a)
  from taken_vm_replenished [OF this(1-3) refl this(4,5)] a show ?thesis by (simp add: Let_def)
qed



end
