(* ===== verification/DaemonClient.thy ===== *)
theory DaemonClient
  imports Config
begin

text \<open>
  \<^verbatim>\<open>crates/shim/src/daemon_client.rs\<close>: the shim's client of the daemon's JSON-line API. Each request is a
  connection of its own. The operations take the way a request is answered as an argument: \<open>rpc\<close> is
  the socket of the source, and in the composed system the daemon's own dispatch takes its place.
\<close>

type_synonym 's service = "json \<Rightarrow> ('s, json) prog"

record AcquireRequest =
  aq_netns :: string
  aq_image_key :: string
  aq_erofs_path :: string
  aq_container_id :: string
  aq_config_json :: string

record AcquiredVm =
  av_vm_id :: string
  av_ch_pid :: u32
  av_from_snapshot :: bool
  av_container_pid :: u32
  av_tap_name :: string

section \<open>Transport\<close>

text \<open>A read without a time limit that is never answered does not return.\<close>

definition rpc :: "env \<Rightarrow> path \<Rightarrow> 'z world_scheme service" where
  "rpc E sock request =
     thenE (ctxE (''connect to daemon: '' @ sock) (ask (ans_unit E) (DaemonConnect sock)))
    (thenE (ask (ans_unit E) (DaemonWrite sock (json_print E request @ [CHR 0x0A])))
    (bindE (askl E (DaemonReadLine sock True)) (\<lambda>r. case r of
        None \<Rightarrow> failE (msg ''daemon RPC timed out after 30s'')
      | Some x \<Rightarrow> bindE (ctxE ''read daemon response'' (ofSumE (map_sum of_os id x))) (\<lambda>line.
          ctxE ''parse daemon response'' (parse_json E (trim line))))))"

definition rpc_no_timeout :: "env \<Rightarrow> path \<Rightarrow> 'z world_scheme service" where
  "rpc_no_timeout E sock request =
     thenE (ctxE (''connect to daemon: '' @ sock) (ask (ans_unit E) (DaemonConnect sock)))
    (thenE (ask (ans_unit E) (DaemonWrite sock (json_print E request @ [CHR 0x0A])))
    (bindE (askl E (DaemonReadLine sock False)) (\<lambda>r. case r of
        None \<Rightarrow> failE Diverge
      | Some x \<Rightarrow> bindE (ctxE ''read daemon response'' (ofSumE (map_sum of_os id x))) (\<lambda>line.
          ctxE ''parse daemon response'' (parse_json E (trim line))))))"

definition check_error :: "json \<Rightarrow> string \<Rightarrow> ('s, unit) prog" where
  "check_error resp m = (case Option.bind (j_get ''error'' resp) as_str of
      Some err \<Rightarrow> failE (msg (''daemon '' @ m @ '': '' @ err))
    | None \<Rightarrow> retE ())"

text \<open>\<^verbatim>\<open>resp[k].as_u64().unwrap_or(d) as u32\<close>\<close>

definition u32_field :: "string \<Rightarrow> nat \<Rightarrow> json \<Rightarrow> u32" where
  "u32_field k d resp = word_of_nat (case Option.bind (j_get k resp) as_num of None \<Rightarrow> d | Some n \<Rightarrow> n)"

section \<open>Requests\<close>

definition acquire_request :: "env \<Rightarrow> AcquireRequest \<Rightarrow> json" where
  "acquire_request E params = JObj
     [(''method'', JStr ''AcquireSandbox''), (''netns'', JStr (aq_netns params)),
      (''image_key'', JStr (aq_image_key params)), (''erofs_path'', JStr (aq_erofs_path params)),
      (''container_id'', JStr (aq_container_id params)),
      (''config_json'', JStr (b64_encode E (aq_config_json params)))]"

definition release_request :: "string \<Rightarrow> json" where
  "release_request i = JObj [(''method'', JStr ''ReleaseSandbox''), (''vm_id'', JStr i)]"

definition add_request :: "env \<Rightarrow> string \<Rightarrow> string \<Rightarrow> string \<Rightarrow> string \<Rightarrow> json" where
  "add_request E i erofs_path container_id config_json = JObj
     [(''method'', JStr ''AddContainer''), (''vm_id'', JStr i), (''erofs_path'', JStr erofs_path),
      (''container_id'', JStr container_id), (''config_json'', JStr (b64_encode E config_json))]"

definition kill_request :: "string \<Rightarrow> string \<Rightarrow> u32 \<Rightarrow> json" where
  "kill_request i container_id signal = JObj
     [(''method'', JStr ''KillContainer''), (''vm_id'', JStr i), (''container_id'', JStr container_id),
      (''signal'', JNum (unat signal))]"

definition wait_request :: "string \<Rightarrow> string \<Rightarrow> json" where
  "wait_request i container_id = JObj
     [(''method'', JStr ''WaitContainer''), (''vm_id'', JStr i), (''container_id'', JStr container_id)]"

definition delete_request :: "string \<Rightarrow> string \<Rightarrow> json" where
  "delete_request i container_id = JObj
     [(''method'', JStr ''DeleteContainer''), (''vm_id'', JStr i), (''container_id'', JStr container_id)]"

section \<open>Operations\<close>

definition acquire_sandbox :: "env \<Rightarrow> 's service \<Rightarrow> AcquireRequest \<Rightarrow> ('s, AcquiredVm) prog" where
  "acquire_sandbox E call params =
     bindE (call (acquire_request E params)) (\<lambda>resp.
     thenE (check_error resp ''AcquireSandbox'')
    (bindE (ofOptE (msg ''missing vm_id'') (Option.bind (j_get ''vm_id'' resp) as_str)) (\<lambda>i.
     bindE (ofOptE (msg ''missing ch_pid'') (Option.bind (j_get ''ch_pid'' resp) as_num)) (\<lambda>pid.
       retE \<lparr>av_vm_id = i, av_ch_pid = word_of_nat pid,
             av_from_snapshot = (case Option.bind (j_get ''from_snapshot'' resp) as_bool of None \<Rightarrow> False | Some b \<Rightarrow> b),
             av_container_pid = u32_field ''container_pid'' 0 resp, av_tap_name = str_field ''tap_name'' [] resp\<rparr>))))"

definition release_sandbox :: "'s service \<Rightarrow> string \<Rightarrow> ('s, unit) prog" where
  "release_sandbox call i = bindE (call (release_request i)) (\<lambda>resp. check_error resp ''ReleaseSandbox'')"

definition add_container :: "env \<Rightarrow> 's service \<Rightarrow> string \<Rightarrow> string \<Rightarrow> string \<Rightarrow> string \<Rightarrow> ('s, u32) prog" where
  "add_container E call i erofs_path container_id config_json =
     bindE (call (add_request E i erofs_path container_id config_json)) (\<lambda>resp.
     thenE (check_error resp ''AddContainer'') (retE (u32_field ''container_pid'' 0 resp)))"

definition client_kill_container :: "'s service \<Rightarrow> string \<Rightarrow> string \<Rightarrow> u32 \<Rightarrow> ('s, unit) prog" where
  "client_kill_container call i container_id signal =
     bindE (call (kill_request i container_id signal)) (\<lambda>resp. check_error resp ''KillContainer'')"

definition client_wait_container :: "'s service \<Rightarrow> string \<Rightarrow> string \<Rightarrow> ('s, u32 \<times> string) prog" where
  "client_wait_container call_no_timeout i container_id =
     bindE (call_no_timeout (wait_request i container_id)) (\<lambda>resp.
     thenE (check_error resp ''WaitContainer'')
           (retE (u32_field ''exit_status'' 137 resp, str_field ''exited_at'' [] resp)))"

definition client_delete_container :: "'s service \<Rightarrow> string \<Rightarrow> string \<Rightarrow> ('s, unit) prog" where
  "client_delete_container call i container_id =
     bindE (call (delete_request i container_id)) (\<lambda>resp. check_error resp ''DeleteContainer'')"

section \<open>Frame\<close>

lemma only_calls_rpc [frame_rules]: "only_calls (rpc E sock req)" "only_calls (rpc_no_timeout E sock req)"
  unfolding rpc_def rpc_no_timeout_def by (intro frame_rules)+

lemma plain_rpc [plain_rules]: "plain (rpc E sock req)"
proof -
  have "plain (ofSumE (map_sum of_os id x))" for x
    by (cases x) (auto simp: plain_def ofSumE_def of_os_def)
  then show ?thesis unfolding rpc_def by (intro plain_rules)
qed

lemma snd_check_error [simp]: "snd (check_error resp m s) = s"
  by (simp add: check_error_def failE_def retE_def split: option.split)

lemma plain_check_error [plain_rules]: "plain (check_error resp m)"
  unfolding check_error_def by (intro plain_rules)

end
