(* ===== verification/ShimInstance.thy ===== *)
theory ShimInstance
  imports DaemonClient Netns
begin

text \<open>
  \<^verbatim>\<open>crates/shim/src/instance.rs\<close>: the containerd shim. All instances of a shim process share the map \<^verbatim>\<open>VMS\<close> from sandboxes to
  reference-counted VM states; an instance may hold on to a state that the map no longer refers to, so
  the states are cells with an address and the map gives addresses. The exit cell of an instance comes from the shim
  framework: the model keeps every value that is set, in order, and what a wait sees of them is an argument.
  Exit watchers are queued when they are spawned and run as steps of their own.

  The daemon's service is an argument of the operations, one for each socket path. A lock file is released when its
  descriptor is closed; closing descriptors is not modelled.
\<close>

section \<open>State\<close>

record SharedVmState =
  sv_ch_pid :: u32
  sv_container_count :: u64
  sv_tap_name :: "string option"
  sv_netns :: "string option"
  sv_cgroups_path :: "string option"
  sv_daemon_vm_id :: string
  sv_daemon_socket :: path

record CloudHvInstance =
  in_id :: string
  in_sandbox_id :: string
  in_bundle :: path

record watcher =
  wt_id :: string
  wt_ch_pid :: u32
  wt_socket :: path
  wt_vm_id :: string

record shim = world +
  cells :: "SharedVmState list"
  vms :: "nat hmap"
  exits :: "(string \<times> u32 \<times> string) list"
  watchers :: "watcher list"

definition EROFS_CACHE_DIR :: path where
  "EROFS_CACHE_DIR = ''/run/cloudhv/erofs-cache''"

definition CRI_CONTAINER_TYPE :: "string list" where
  "CRI_CONTAINER_TYPE = [''annotations'', ''io.kubernetes.cri.container-type'']"

definition CRI_SANDBOX_ID :: "string list" where
  "CRI_SANDBOX_ID = [''annotations'', ''io.kubernetes.cri.sandbox-id'']"

text \<open>\<^verbatim>\<open>r.ctx(m)\<close>: the error's own text after \<open>m\<close>; the rest of its chain is lost.\<close>

definition ctx :: "string \<Rightarrow> ('s, 'a) prog \<Rightarrow> ('s, 'a) prog" where
  "ctx m = map_err (\<lambda>e. m @ '': '' @ show_err e)"

definition get_vm :: "string \<Rightarrow> ('z shim_scheme, nat option) prog" where
  "get_vm sandbox_id = getE (\<lambda>s. map_of (vms s) sandbox_id)"

definition set_exit :: "env \<Rightarrow> string \<Rightarrow> u32 \<Rightarrow> ('z shim_scheme, unit) prog" where
  "set_exit E i code = bindE (wall_now E) (\<lambda>t. modE (\<lambda>s. s\<lparr>exits := exits s @ [(i, code, t)]\<rparr>))"

text \<open>\<^verbatim>\<open>fetch_add\<close> and \<^verbatim>\<open>fetch_sub\<close> on the count of a cell: the old value; the count wraps.\<close>

definition fetch_count :: "nat \<Rightarrow> (u64 \<Rightarrow> u64) \<Rightarrow> ('z shim_scheme, u64) prog" where
  "fetch_count c f =
     bindE (getE (\<lambda>s. sv_container_count (cells s ! c))) (\<lambda>old.
     thenE (modE (\<lambda>s. s\<lparr>cells := (cells s)[c := (cells s ! c)\<lparr>sv_container_count := f old\<rparr>]\<rparr>)) (retE old))"

definition new_vm :: "string \<Rightarrow> SharedVmState \<Rightarrow> ('z shim_scheme, nat) prog" where
  "new_vm sandbox_id v =
     bindE (getE (\<lambda>s. length (cells s))) (\<lambda>c.
     thenE (modE (\<lambda>s. s\<lparr>cells := cells s @ [v], vms := AList.update sandbox_id c (vms s)\<rparr>)) (retE c))"

definition drop_vm :: "string \<Rightarrow> ('z shim_scheme, unit) prog" where
  "drop_vm sandbox_id = modE (\<lambda>s. s\<lparr>vms := AList.delete sandbox_id (vms s)\<rparr>)"

section \<open>Helpers\<close>

text \<open>FNV-1a with 128 bits, printed with 32 hexadecimal digits.\<close>

definition fnv_step :: "u128 \<Rightarrow> char \<Rightarrow> u128" where
  "fnv_step hash c = (hash XOR word_of_nat (of_char c)) * 0x0000000001000000000000000000013b"

definition stable_hash_hex :: "string \<Rightarrow> string" where
  "stable_hash_hex input = hex_fixed 32 (unat (foldl fnv_step 0x6c62272e07bb014262b821756295c58d input))"

text \<open>The prefixes of a slice name, each with its suffix.\<close>

fun slice_prefixes :: "string \<Rightarrow> string list \<Rightarrow> string list" where
  "slice_prefixes pre [] = []"
| "slice_prefixes pre (segment # segments) =
     (let p = (if pre = [] then segment else pre @ ''-'' @ segment)
      in (p @ ''.slice'') # slice_prefixes p segments)"

definition build_systemd_cgroup_path :: "string \<Rightarrow> path" where
  "build_systemd_cgroup_path slice_name =
     (let name = (case strip_suffix ''.slice'' slice_name of None \<Rightarrow> slice_name | Some n \<Rightarrow> n)
      in join_str ''/'' (slice_prefixes [] (split_on (CHR ''-'') name)))"

definition place_in_pod_cgroup :: "env \<Rightarrow> u32 \<Rightarrow> path \<Rightarrow> ('z world_scheme, unit) prog" where
  "place_in_pod_cgroup E pid cgroups_path =
     (let full_path = ''/sys/fs/cgroup/'' @ cgroups_path @ ''/cgroup.procs'' in
      bindE (askb E (FsExists full_path)) (\<lambda>ex.
        if ex then map_err show_err (ask (ans_unit E) (FsWrite full_path (dec (unat pid))))
        else let parts = split_on (CHR '':'') cgroups_path in
          if length parts = 3 then
            (let path = ''/sys/fs/cgroup/'' @ build_systemd_cgroup_path (parts ! 0) @ ''/'' @ (parts ! 1) @ ''-'' @ (parts ! 2) @ ''.scope'';
                 procs_path = path @ ''/cgroup.procs'' in
             thenE (bindE (askb E (FsExists procs_path)) (\<lambda>there.
                 if there then retE ()
                 else map_err (\<lambda>e. ''create cgroup '' @ path @ '': '' @ show_err e) (ask (ans_unit E) (FsCreateDirAll path))))
               (map_err (\<lambda>e. ''write to '' @ procs_path @ '': '' @ show_err e)
                 (ask (ans_unit E) (FsWrite procs_path (dec (unat pid))))))
          else failE (msg (''no cgroup found for path '' @ cgroups_path @ '' (tried v2 direct, systemd v2)''))))"

text \<open>The network namespace and the cgroup of a sandbox; a spec that cannot be read or parsed has neither.\<close>

fun find_netns :: "json list \<Rightarrow> string option" where
  "find_netns [] = None"
| "find_netns (n # ns) =
     (if Option.bind (j_get ''type'' n) as_str = Some ''network''
      then (case Option.bind (j_get ''path'' n) as_str of Some p \<Rightarrow> Some p | None \<Rightarrow> find_netns ns)
      else find_netns ns)"

definition parse_sandbox_spec :: "env \<Rightarrow> path \<Rightarrow> ('z world_scheme, string option \<times> string option) prog" where
  "parse_sandbox_spec E spec_path =
     bindE (catchE (ask (ans_str E) (FsRead spec_path))) (\<lambda>r.
     let spec_str = (case r of Inl _ \<Rightarrow> [] | Inr x \<Rightarrow> x);
         spec = (case json_parse E spec_str of None \<Rightarrow> JNull | Some j \<Rightarrow> j)
     in retE (Option.bind (Option.bind (j_path [''linux'', ''namespaces''] spec) as_array) find_netns,
              Option.bind (j_path [''linux'', ''cgroupsPath''] spec) as_str))"

definition image_key_from_spec :: "env \<Rightarrow> path \<Rightarrow> ('z world_scheme, string option) prog" where
  "image_key_from_spec E bundle =
     bindE (catchE (ask (ans_str E) (FsRead (join_path bundle ''config.json'')))) (\<lambda>r. case r of
        Inl _ \<Rightarrow> retE None
      | Inr spec_str \<Rightarrow>
          (case Option.bind (json_parse E spec_str) (\<lambda>j.
               Option.bind (j_path [''annotations'', ''io.kubernetes.cri.image-name''] j) as_str) of
             None \<Rightarrow> retE None
           | Some image_name \<Rightarrow>
               if image_name = [] then retE None
               else bindE (asko E (ImageDigest image_name)) (\<lambda>d. case d of
                  Some digest \<Rightarrow> retE (Some (stable_hash_hex digest))
                | None \<Rightarrow> retE (Some (stable_hash_hex image_name)))))"

definition prepare_erofs :: "env \<Rightarrow> path \<Rightarrow> string \<Rightarrow> ('z world_scheme, path) prog" where
  "prepare_erofs E rootfs cache_key =
     (let cache_path = join_path EROFS_CACHE_DIR (cache_key @ ''.erofs'');
          lock_path = join_path EROFS_CACHE_DIR (cache_key @ ''.lock'');
          tmp_path = join_path EROFS_CACHE_DIR (cache_key @ ''.'' @ dec (unat (process_id E)) @ ''.tmp'') in
      bindE (askb E (FsExists cache_path)) (\<lambda>ex.
        if ex then retE cache_path
        else thenE (ctx ''create erofs cache dir'' (ask (ans_unit E) (FsCreateDirAll EROFS_CACHE_DIR)))
          (thenE (ctx ''create lock'' (ask (ans_unit E) (FsCreate lock_path)))
          (thenE (ctx ''flock'' (ask (ans_unit E) (FsFlock lock_path)))
          (bindE (askb E (FsExists cache_path)) (\<lambda>ex2.
             if ex2 then retE cache_path
             else bindE (ctx ''mkfs.erofs'' (ask (ans_exit E) (ProcOutput ''mkfs.erofs'' [tmp_path, rootfs]))) (\<lambda>(status, err).
               if status \<noteq> 0 then failE (msg (''mkfs.erofs failed: '' @ from_utf8_lossy (str_bytes err)))
               else thenE (ctx ''rename erofs'' (ask (ans_unit E) (FsRename tmp_path cache_path)))
                          (retE cache_path))))))))"

text \<open>The attempts that are left, by number, and the error of the last one.\<close>

fun erofs_attempts :: "env \<Rightarrow> path \<Rightarrow> string \<Rightarrow> err option \<Rightarrow> nat list \<Rightarrow> ('z world_scheme, path) prog" where
  "erofs_attempts E rootfs key last_err [] =
     (case last_err of Some e \<Rightarrow> failE e | None \<Rightarrow> failE (Panic ''called `Option::unwrap()` on a `None` value''))"
| "erofs_attempts E rootfs key last_err (attempt # attempts) =
     bindE (catchE (prepare_erofs E rootfs key)) (\<lambda>r. case r of
        Inr p \<Rightarrow> retE p
      | Inl e \<Rightarrow> thenE (tell (Sleep (100 * (attempt + 1)))) (erofs_attempts E rootfs key (Some e) attempts))"

fun wait_for_pid_exit :: "env \<Rightarrow> nat \<Rightarrow> u32 \<Rightarrow> ('z world_scheme, unit) prog" where
  "wait_for_pid_exit E 0 pid = failE Diverge"
| "wait_for_pid_exit E (Suc n) pid =
     bindE (askb E (FsExists (''/proc/'' @ dec (unat pid)))) (\<lambda>ex.
       if ex then thenE (tell (Sleep 100)) (wait_for_pid_exit E n pid) else retE ())"

section \<open>The instance\<close>

definition read_spec :: "env \<Rightarrow> path \<Rightarrow> ('z world_scheme, json) prog" where
  "read_spec E bundle =
     bindE (map_err (\<lambda>e. ''read spec: '' @ show_err e) (ask (ans_str E) (FsRead (join_path bundle ''config.json'')))) (\<lambda>x.
       map_err (\<lambda>e. ''parse spec: '' @ show_err e) (parse_json E x))"

definition instance_new :: "env \<Rightarrow> string \<Rightarrow> path \<Rightarrow> ('z world_scheme, CloudHvInstance) prog" where
  "instance_new E i bundle =
     bindE (read_spec E bundle) (\<lambda>spec.
       retE \<lparr>in_id = i, in_sandbox_id = (case Option.bind (j_path CRI_SANDBOX_ID spec) as_str of None \<Rightarrow> i | Some x \<Rightarrow> x),
             in_bundle = bundle\<rparr>)"

definition start_sandbox :: "env \<Rightarrow> bool \<Rightarrow> CloudHvInstance \<Rightarrow> ('z shim_scheme, u32) prog" where
  "start_sandbox E aarch64 inst =
     bindE (parse_sandbox_spec E (join_path (in_bundle inst) ''config.json'')) (\<lambda>(netns, cgroups).
     bindE (ctx ''config error'' (load_config E aarch64 None)) (\<lambda>config.
     thenE (new_vm (in_id inst)
         \<lparr>sv_ch_pid = 0, sv_container_count = 1, sv_tap_name = None, sv_netns = netns, sv_cgroups_path = cgroups,
          sv_daemon_vm_id = [], sv_daemon_socket = rc_daemon_socket config\<rparr>)
       (retE (process_id E))))"

text \<open>
  A container's start up to the request to the daemon: the address of the sandbox's state, the image key, the root
  file system image and the OCI configuration.
\<close>

definition prepare_container :: "env \<Rightarrow> CloudHvInstance \<Rightarrow> ('z shim_scheme, nat \<times> string \<times> path \<times> string) prog" where
  "prepare_container E inst =
     bindE (get_vm (in_sandbox_id inst)) (\<lambda>v.
     bindE (ofOptE (msg (''sandbox VM not found: '' @ in_sandbox_id inst)) v) (\<lambda>c.
     bindE (image_key_from_spec E (in_bundle inst)) (\<lambda>k.
     let rootfs = join_path (in_bundle inst) ''rootfs'';
         image_key = (case k of None \<Rightarrow> stable_hash_hex rootfs | Some x \<Rightarrow> x) in
     bindE (erofs_attempts E rootfs image_key None [0, 1, 2]) (\<lambda>erofs_path.
     bindE (catchE (ask (ans_str E) (FsRead (join_path (in_bundle inst) ''config.json'')))) (\<lambda>r.
       retE (c, image_key, erofs_path, case r of Inl _ \<Rightarrow> [] | Inr x \<Rightarrow> x))))))"

text \<open>What the first container does with the VM it got: a new state replaces the sandbox's.\<close>

definition register_acquired :: "env \<Rightarrow> CloudHvInstance \<Rightarrow> nat \<Rightarrow> AcquiredVm \<Rightarrow> ('z shim_scheme, nat) prog" where
  "register_acquired E inst c acquired =
     bindE (getE (\<lambda>s. cells s ! c)) (\<lambda>vm_state.
     bindE (new_vm (in_sandbox_id inst) (vm_state\<lparr>sv_ch_pid := av_ch_pid acquired,
         sv_tap_name := (if av_tap_name acquired = [] then None else Some (av_tap_name acquired)),
         sv_daemon_vm_id := av_vm_id acquired\<rparr>)) (\<lambda>n.
     thenE (case sv_cgroups_path vm_state of
         None \<Rightarrow> retE ()
       | Some cg \<Rightarrow> ignoreE (place_in_pod_cgroup E (av_ch_pid acquired) cg))
       (retE n)))"

text \<open>The end of every start: the exit watcher and the reference.\<close>

definition finish_start :: "CloudHvInstance \<Rightarrow> nat \<Rightarrow> ('z shim_scheme, unit) prog" where
  "finish_start inst n =
     thenE (modE (\<lambda>s. s\<lparr>watchers := watchers s @ [\<lparr>wt_id = in_id inst, wt_ch_pid = sv_ch_pid (cells s ! n),
               wt_socket = sv_daemon_socket (cells s ! n), wt_vm_id = sv_daemon_vm_id (cells s ! n)\<rparr>]\<rparr>))
    (thenE (fetch_count n (\<lambda>x. x + 1)) (retE ()))"

definition start_prepared ::
  "env \<Rightarrow> (path \<Rightarrow> 'z shim_scheme service) \<Rightarrow> CloudHvInstance \<Rightarrow> nat \<Rightarrow> string \<Rightarrow> path \<Rightarrow> string \<Rightarrow> ('z shim_scheme, u32) prog" where
  "start_prepared E svc inst c image_key erofs_path config_json =
     bindE (getE (\<lambda>s. cells s ! c)) (\<lambda>vm_state.
     bindE (if sv_daemon_vm_id vm_state \<noteq> [] then
              bindE (ctx ''daemon add_container'' (add_container E (svc (sv_daemon_socket vm_state))
                 (sv_daemon_vm_id vm_state) erofs_path (in_id inst) config_json)) (\<lambda>pid. retE (c, pid))
            else
              bindE (ctx ''daemon acquire'' (acquire_sandbox E (svc (sv_daemon_socket vm_state))
                 \<lparr>aq_netns = (case sv_netns vm_state of None \<Rightarrow> [] | Some x \<Rightarrow> x), aq_image_key = image_key,
                  aq_erofs_path = erofs_path, aq_container_id = in_id inst, aq_config_json = config_json\<rparr>)) (\<lambda>acquired.
              bindE (register_acquired E inst c acquired) (\<lambda>n. retE (n, av_container_pid acquired))))
       (\<lambda>(active_state, container_pid).
     thenE (finish_start inst active_state) (retE container_pid)))"

definition instance_start_container ::
  "env \<Rightarrow> (path \<Rightarrow> 'z shim_scheme service) \<Rightarrow> CloudHvInstance \<Rightarrow> ('z shim_scheme, u32) prog" where
  "instance_start_container E svc inst =
     bindE (prepare_container E inst) (\<lambda>(c, image_key, erofs_path, config_json).
       start_prepared E svc inst c image_key erofs_path config_json)"

definition instance_start ::
  "env \<Rightarrow> bool \<Rightarrow> (path \<Rightarrow> 'z shim_scheme service) \<Rightarrow> CloudHvInstance \<Rightarrow> ('z shim_scheme, u32) prog" where
  "instance_start E aarch64 svc inst =
     bindE (read_spec E (in_bundle inst)) (\<lambda>spec.
       if Option.bind (j_path CRI_CONTAINER_TYPE spec) as_str = Some ''sandbox''
       then start_sandbox E aarch64 inst else instance_start_container E svc inst)"

definition cleanup_vm :: "env \<Rightarrow> SharedVmState \<Rightarrow> ('z world_scheme, unit) prog" where
  "cleanup_vm E vm_state = (case (sv_netns vm_state, sv_tap_name vm_state) of
      (Some netns, Some tap) \<Rightarrow> cleanup_tap E netns tap
    | _ \<Rightarrow> retE ())"

definition instance_kill ::
  "env \<Rightarrow> (path \<Rightarrow> 'z shim_scheme service) \<Rightarrow> CloudHvInstance \<Rightarrow> u32 \<Rightarrow> ('z shim_scheme, unit) prog" where
  "instance_kill E svc inst signal =
     bindE (get_vm (in_sandbox_id inst)) (\<lambda>v. case v of
        None \<Rightarrow> set_exit E (in_id inst) 0
      | Some c \<Rightarrow> bindE (getE (\<lambda>s. cells s ! c)) (\<lambda>vm_state.
          let client = svc (sv_daemon_socket vm_state) in
          if in_id inst = in_sandbox_id inst \<and> (signal = 9 \<or> signal = 15) then
            thenE (if sv_daemon_vm_id vm_state \<noteq> [] then ignoreE (release_sandbox client (sv_daemon_vm_id vm_state)) else retE ())
           (thenE (cleanup_vm E vm_state)
           (thenE (drop_vm (in_sandbox_id inst))
                  (set_exit E (in_id inst) 0)))
          else ignoreE (client_kill_container client (sv_daemon_vm_id vm_state) (in_id inst) signal)))"

definition instance_delete ::
  "env \<Rightarrow> (path \<Rightarrow> 'z shim_scheme service) \<Rightarrow> CloudHvInstance \<Rightarrow> ('z shim_scheme, unit) prog" where
  "instance_delete E svc inst =
     bindE (get_vm (in_sandbox_id inst)) (\<lambda>v.
     thenE (case v of
        None \<Rightarrow> retE ()
      | Some c \<Rightarrow>
          bindE (fetch_count c (\<lambda>x. x - 1)) (\<lambda>prev.
          bindE (getE (\<lambda>s. cells s ! c)) (\<lambda>vm_state.
          let client = svc (sv_daemon_socket vm_state) in
          if prev \<le> 1 then
            thenE (ignoreE (release_sandbox client (sv_daemon_vm_id vm_state)))
           (thenE (cleanup_vm E vm_state)
                  (drop_vm (in_sandbox_id inst)))
          else ignoreE (client_delete_container client (sv_daemon_vm_id vm_state) (in_id inst)))))
       (set_exit E (in_id inst) 0))"

text \<open>The two ways in which an exit watcher ends.\<close>

definition watcher_answer ::
  "env \<Rightarrow> (path \<Rightarrow> 'z shim_scheme service) \<Rightarrow> watcher \<Rightarrow> ('z shim_scheme, unit) prog" where
  "watcher_answer E svc w =
     bindE (catchE (client_wait_container (svc (wt_socket w)) (wt_vm_id w) (wt_id w))) (\<lambda>r.
       set_exit E (wt_id w) (case r of Inr (exit_code, _) \<Rightarrow> exit_code | Inl _ \<Rightarrow> 137))"

definition watcher_pid :: "env \<Rightarrow> watcher \<Rightarrow> ('z shim_scheme, unit) prog" where
  "watcher_pid E w = thenE (wait_for_pid_exit E (loop_fuel E) (wt_ch_pid w)) (set_exit E (wt_id w) 137)"

text \<open>What a wait returns, where \<open>read_cell\<close> is the exit cell's answer to the values set so far; \<open>None\<close> while it waits.\<close>

definition exit_values :: "string \<Rightarrow> 'z shim_scheme \<Rightarrow> (u32 \<times> string) list" where
  "exit_values i s = map snd (filter (\<lambda>(k, _). k = i) (exits s))"

definition instance_wait ::
  "((u32 \<times> string) list \<Rightarrow> (u32 \<times> string) option) \<Rightarrow> CloudHvInstance \<Rightarrow> 'z shim_scheme \<Rightarrow> (u32 \<times> string) option" where
  "instance_wait read_cell inst s = read_cell (exit_values (in_id inst) s)"

section \<open>Frame\<close>

lemma only_calls_ctx [frame_rules]: "only_calls m \<Longrightarrow> only_calls (ctx c m)"
  by (simp add: ctx_def frame_rules)

lemma ctx_Inr [inr_simps]: "ctx c m s = (Inr x, s') \<longleftrightarrow> m s = (Inr x, s')"
  by (simp add: ctx_def inr_simps)

lemma snd_ctx [simp]: "snd (ctx c m s) = snd (m s)"
  by (simp add: ctx_def)

lemma only_calls_shim_helpers [frame_rules]:
  "only_calls (prepare_erofs E r k)" "only_calls (parse_sandbox_spec E p)" "only_calls (image_key_from_spec E b)"
  "only_calls (read_spec E b)" "only_calls (instance_new E i b)"
  unfolding prepare_erofs_def parse_sandbox_spec_def image_key_from_spec_def read_spec_def instance_new_def Let_def
  by (intro frame_rules)+

lemma only_calls_place [frame_rules]: "only_calls (place_in_pod_cgroup E pid cg)"
  unfolding place_in_pod_cgroup_def Let_def by (intro frame_rules)

lemma only_calls_erofs_attempts [frame_rules]: "only_calls (erofs_attempts E r k l as)"
  by (induction as arbitrary: l) (auto intro!: frame_rules)

lemma only_calls_pid_exit [frame_rules]: "only_calls (wait_for_pid_exit E n pid)"
  by (induction n) (auto intro!: frame_rules)

lemma only_calls_prepare [frame_rules]: "only_calls (prepare_container E inst :: ('z shim_scheme, nat \<times> string \<times> path \<times> string) prog)"
  unfolding prepare_container_def get_vm_def Let_def by (intro frame_rules)

lemma prepare_Inr:
  assumes "prepare_container E inst s = (Inr x, s1)" and "map_of (vms s) (in_sandbox_id inst) = Some c"
  obtains k f y where "x = (c, k, f, y)"
  using assms unfolding prepare_container_def get_vm_def Let_def
  by (auto elim!: bindE_InrE simp: inr_simps)

lemma only_calls_cleanup [frame_rules]: "only_calls (cleanup_vm E v)"
  unfolding cleanup_vm_def by (intro frame_rules)

lemma calls_shim [simp]:
  "cells (s\<lparr>calls := h\<rparr>) = cells s" "vms (s\<lparr>calls := h\<rparr>) = vms s" "exits (s\<lparr>calls := h\<rparr>) = exits s" "watchers (s\<lparr>calls := h\<rparr>) = watchers s"
  by simp_all

text \<open>The part of a state that belongs to the shim, and programs that leave it alone.\<close>

definition own :: "'z shim_scheme \<Rightarrow> SharedVmState list \<times> nat hmap \<times> (string \<times> u32 \<times> string) list \<times> watcher list" where
  "own s = (cells s, vms s, exits s, watchers s)"

lemma own_only_calls: "only_calls m \<Longrightarrow> m s = (r, s') \<Longrightarrow> own s' = own s"
  by (auto simp: own_def elim: only_callsE)

lemma own_D: "own s' = own s \<Longrightarrow> cells s' = cells s \<and> vms s' = vms s \<and> exits s' = exits s \<and> watchers s' = watchers s"
  by (simp add: own_def)

text \<open>Starting and deleting several instances, one after the other.\<close>

fun start_all :: "env \<Rightarrow> (path \<Rightarrow> 'z shim_scheme service) \<Rightarrow> CloudHvInstance list \<Rightarrow> ('z shim_scheme, unit) prog" where
  "start_all E svc [] = retE ()"
| "start_all E svc (inst # insts) = thenE (instance_start_container E svc inst) (start_all E svc insts)"

fun delete_all :: "env \<Rightarrow> (path \<Rightarrow> 'z shim_scheme service) \<Rightarrow> CloudHvInstance list \<Rightarrow> ('z shim_scheme, unit) prog" where
  "delete_all E svc [] = retE ()"
| "delete_all E svc (inst # insts) = thenE (instance_delete E svc inst) (delete_all E svc insts)"

text \<open>A sandbox with \<open>k\<close> references to its VM \<open>i\<close>, none yet where \<open>i\<close> is empty.\<close>

definition pod :: "'z shim_scheme \<Rightarrow> string \<Rightarrow> nat \<Rightarrow> string \<Rightarrow> bool" where
  "pod s sb k i \<longleftrightarrow> (\<exists>c. map_of (vms s) sb = Some c \<and> c < length (cells s) \<and>
     sv_container_count (cells s ! c) = word_of_nat k \<and> sv_daemon_vm_id (cells s ! c) = i)"

lemma finish_start_run:
  "finish_start inst n t = (Inr (), t\<lparr>watchers := watchers t @ [\<lparr>wt_id = in_id inst, wt_ch_pid = sv_ch_pid (cells t ! n),
       wt_socket = sv_daemon_socket (cells t ! n), wt_vm_id = sv_daemon_vm_id (cells t ! n)\<rparr>],
     cells := (cells t)[n := (cells t ! n)\<lparr>sv_container_count := sv_container_count (cells t ! n) + 1\<rparr>]\<rparr>)"
  by (simp add: finish_start_def fetch_count_def prog_simps)

lemma register_acquired_run:
  fixes t u :: "'z shim_scheme"
  assumes run: "register_acquired E inst c av t = (Inr n, u)" and c: "c < length (cells t)"
  shows "\<exists>cs v. u = t\<lparr>calls := cs, cells := cells t @ [v], vms := AList.update (in_sandbox_id inst) (length (cells t)) (vms t)\<rparr> \<and>
    n = length (cells t) \<and> sv_daemon_vm_id v = av_vm_id av \<and> sv_container_count v = sv_container_count (cells t ! c)"
proof -
  let ?v = "(cells t ! c)\<lparr>sv_ch_pid := av_ch_pid av,
         sv_tap_name := (if av_tap_name av = [] then None else Some (av_tap_name av)), sv_daemon_vm_id := av_vm_id av\<rparr>"
  let ?t = "t\<lparr>cells := cells t @ [?v], vms := AList.update (in_sandbox_id inst) (length (cells t)) (vms t)\<rparr>"
  let ?pl = "case sv_cgroups_path (cells t ! c) of None \<Rightarrow> retE () | Some cg \<Rightarrow> ignoreE (place_in_pod_cgroup E (av_ch_pid av) cg)"
  have "thenE ?pl (retE (length (cells t))) ?t = (Inr n, u)"
    using run by (simp add: register_acquired_def new_vm_def bindE_def [of "getE _"] getE_def split del: if_split)
      (simp add: bindE_def thenE_apply [of "modE _"] modE_def getE_def retE_def split del: if_split)
  then obtain y w where w: "?pl ?t = (Inr y, w)" "n = length (cells t)" "u = w" by (auto elim!: thenE_InrE simp: inr_simps)
  have oc: "only_calls (?pl :: ('z shim_scheme, unit) prog)" by (intro frame_rules)
  obtain cs where "w = ?t\<lparr>calls := calls ?t @ cs\<rparr>" by (rule only_callsE [OF oc w(1)])
  then show ?thesis using w by (intro exI [of _ "calls t @ cs"] exI [of _ ?v]) simp
qed

section \<open>The daemon as the shim sees it\<close>

text \<open>
  What the shim relies on: a request leaves the shim's own state alone; an answer to an acquisition that is no error names a VM
  that was not registered before and now is; a release takes exactly that VM out of the registry; the
  other requests leave the registry alone. \<open>reg\<close> is the set of registered VMs, \<open>good\<close> what has to hold for the daemon to keep
  its promises.
\<close>

locale sandbox_service =
  fixes E :: env and svc :: "path \<Rightarrow> 'z shim_scheme service" and reg :: "'z shim_scheme \<Rightarrow> string set"
    and good :: "'z shim_scheme \<Rightarrow> bool"
  assumes svc_own: "svc p req s = (r, s') \<Longrightarrow> own s' = own s"
    and reg_own: "reg (s\<lparr>calls := h, cells := cs, vms := vs, exits := es, watchers := ws\<rparr>) = reg s"
    and good_own: "good (s\<lparr>calls := h, cells := cs, vms := vs, exits := es, watchers := ws\<rparr>) = good s"
    and acquire_law: "good s \<Longrightarrow> svc p (acquire_request E a) s = (Inr resp, s') \<Longrightarrow>
      Option.bind (j_get ''error'' resp) as_str = None \<Longrightarrow> Option.bind (j_get ''vm_id'' resp) as_str = Some i \<Longrightarrow>
      i \<noteq> [] \<and> i \<notin> reg s \<and> reg s' = insert i (reg s)"
    and release_law: "svc p (release_request i) s = (r, s') \<Longrightarrow> i \<noteq> [] \<Longrightarrow> reg s' = reg s - {i}"
    and add_law: "svc p (add_request E i f k x) s = (r, s') \<Longrightarrow> reg s' = reg s"
    and kill_law: "svc p (kill_request i k sig) s = (r, s') \<Longrightarrow> reg s' = reg s"
    and delete_law: "svc p (delete_request i k) s = (r, s') \<Longrightarrow> reg s' = reg s"
begin

lemma reg_upd [simp]:
  "reg (s\<lparr>calls := h\<rparr>) = reg s" "reg (s\<lparr>cells := cs\<rparr>) = reg s" "reg (s\<lparr>vms := vs\<rparr>) = reg s"
  "reg (s\<lparr>exits := es\<rparr>) = reg s" "reg (s\<lparr>watchers := ws\<rparr>) = reg s"
proof -
  show "reg (s\<lparr>calls := h\<rparr>) = reg s"
    using reg_own [where s = s and h = "h" and cs = "cells s" and vs = "vms s" and es = "exits s" and ws = "watchers s"] by simp
  show "reg (s\<lparr>cells := cs\<rparr>) = reg s"
    using reg_own [where s = s and h = "calls s" and cs = "cs" and vs = "vms s" and es = "exits s" and ws = "watchers s"] by simp
  show "reg (s\<lparr>vms := vs\<rparr>) = reg s"
    using reg_own [where s = s and h = "calls s" and cs = "cells s" and vs = "vs" and es = "exits s" and ws = "watchers s"] by simp
  show "reg (s\<lparr>exits := es\<rparr>) = reg s"
    using reg_own [where s = s and h = "calls s" and cs = "cells s" and vs = "vms s" and es = "es" and ws = "watchers s"] by simp
  show "reg (s\<lparr>watchers := ws\<rparr>) = reg s"
    using reg_own [where s = s and h = "calls s" and cs = "cells s" and vs = "vms s" and es = "exits s" and ws = "ws"] by simp
qed

lemma good_calls: "good (s\<lparr>calls := h\<rparr>) = good s"
  using good_own [where s = s and h = "h" and cs = "cells s" and vs = "vms s" and es = "exits s" and ws = "watchers s"] by simp

text \<open>A request through the client: the answer is looked at, the state is the daemon's.\<close>

lemma client_state:
  "snd (release_sandbox (svc p) i s) = snd (svc p (release_request i) s)"
  "snd (client_delete_container (svc p) i k s) = snd (svc p (delete_request i k) s)"
  "snd (client_kill_container (svc p) i k sig s) = snd (svc p (kill_request i k sig) s)"
  "snd (add_container E (svc p) i f k x s) = snd (svc p (add_request E i f k x) s)"
  "snd (acquire_sandbox E (svc p) a s) = snd (svc p (acquire_request E a) s)"
  unfolding release_sandbox_def client_delete_container_def client_kill_container_def add_container_def acquire_sandbox_def
  by (simp_all add: snd_bindE thenE_def retE_def ofOptE_def failE_def split: sum.split option.split)

lemma svc_own': "own (snd (svc p req s)) = own s"
  using svc_own by (metis prod.collapse)

lemma svc_frame [simp]: "cells (snd (svc p req s)) = cells s" "vms (snd (svc p req s)) = vms s"
  using svc_own' [of p req s] by (simp_all add: own_def)

lemma svc_reg [simp]:
  "i \<noteq> [] \<Longrightarrow> reg (snd (svc p (release_request i) s)) = reg s - {i}"
  "reg (snd (svc p (add_request E i f k x) s)) = reg s" "reg (snd (svc p (kill_request i k sig) s)) = reg s"
  "reg (snd (svc p (delete_request i k) s)) = reg s"
  using release_law add_law kill_law delete_law by (metis prod.collapse)+

lemma delete_more:
  assumes p: "pod s (in_sandbox_id inst) (Suc (Suc k)) i" and k: "Suc (Suc k) < 2 ^ 64"
    and run: "instance_delete E svc inst s = (Inr (), s')"
  shows "pod s' (in_sandbox_id inst) (Suc k) i \<and> reg s' = reg s"
proof -
  obtain c where c: "map_of (vms s) (in_sandbox_id inst) = Some c" "c < length (cells s)"
    "sv_container_count (cells s ! c) = word_of_nat (Suc (Suc k))" "sv_daemon_vm_id (cells s ! c) = i"
    using p by (auto simp: pod_def)
  have prev: "\<not> (word_of_nat (Suc (Suc k)) :: u64) \<le> 1"
    using k by (simp add: word_le_nat_alt unat_of_nat del: of_nat_Suc)
  let ?s1 = "s\<lparr>cells := (cells s)[c := (cells s ! c)\<lparr>sv_container_count := word_of_nat (Suc (Suc k)) - 1\<rparr>]\<rparr>"
  let ?m = "client_delete_container (svc (sv_daemon_socket (cells s ! c))) i (in_id inst)"
  have eq: "instance_delete E svc inst s = thenE (ignoreE ?m) (set_exit E (in_id inst) 0) ?s1"
    using c prev by (simp add: instance_delete_def get_vm_def fetch_count_def prog_simps Let_def del: of_nat_Suc)
  obtain x t where "ignoreE ?m ?s1 = (Inr x, t)" and t2: "set_exit E (in_id inst) 0 t = (Inr (), s')"
    using run unfolding eq by (rule thenE_InrE)
  then have t: "snd (ignoreE ?m ?s1) = t" by simp
  have t': "t = snd (svc (sv_daemon_socket (cells s ! c)) (delete_request i (in_id inst)) ?s1)"
    using t client_state(2) by simp
  then have own: "cells t = cells ?s1" "vms t = vms s" "reg t = reg s" by simp_all
  have s': "cells s' = cells t" "vms s' = vms t" "reg s' = reg t"
    using t2 by (auto simp: set_exit_def prog_simps log_call_def)
  have cnt: "(word_of_nat (Suc (Suc k)) :: u64) - 1 = word_of_nat (Suc k)" by simp
  show ?thesis unfolding pod_def using c own s' by (auto simp: cnt)
qed

lemma delete_last:
  assumes p: "pod s (in_sandbox_id inst) 1 i" and i: "i \<noteq> []"
    and run: "instance_delete E svc inst s = (Inr (), s')"
  shows "map_of (vms s') (in_sandbox_id inst) = None \<and> reg s' = reg s - {i}"
proof -
  obtain c where c: "map_of (vms s) (in_sandbox_id inst) = Some c" "c < length (cells s)"
    "sv_container_count (cells s ! c) = 1" "sv_daemon_vm_id (cells s ! c) = i"
    using p by (auto simp: pod_def)
  let ?v = "(cells s ! c)\<lparr>sv_container_count := 0\<rparr>"
  let ?s1 = "s\<lparr>cells := (cells s)[c := ?v]\<rparr>"
  let ?m = "release_sandbox (svc (sv_daemon_socket (cells s ! c))) i"
  have eq: "instance_delete E svc inst s = thenE (thenE (ignoreE ?m)
      (thenE (cleanup_vm E ?v) (drop_vm (in_sandbox_id inst)))) (set_exit E (in_id inst) 0) ?s1"
    using c by (simp add: instance_delete_def get_vm_def fetch_count_def prog_simps Let_def)
  obtain x u where "thenE (ignoreE ?m) (thenE (cleanup_vm E ?v) (drop_vm (in_sandbox_id inst))) ?s1 = (Inr x, u)"
    and u: "set_exit E (in_id inst) 0 u = (Inr (), s')"
    using run unfolding eq by (rule thenE_InrE)
  then obtain y t where "ignoreE ?m ?s1 = (Inr y, t)" and "thenE (cleanup_vm E ?v) (drop_vm (in_sandbox_id inst)) t = (Inr x, u)"
    by (blast elim: thenE_InrE)
  moreover from this(2) obtain z w where w: "cleanup_vm E ?v t = (Inr z, w)" "drop_vm (in_sandbox_id inst) w = (Inr x, u)"
    by (blast elim: thenE_InrE)
  ultimately have t: "t = snd (svc (sv_daemon_socket (cells s ! c)) (release_request i) ?s1)"
    using client_state(1) by (metis snd_conv snd_ignoreE)
  obtain cs where "w = t\<lparr>calls := calls t @ cs\<rparr>" using only_callsE [OF only_calls_cleanup w(1)] by blast
  with t i w(2) u show ?thesis
    by (auto simp: drop_vm_def set_exit_def prog_simps log_call_def delete_conv')
qed

lemma start_more:
  assumes p: "pod s (in_sandbox_id inst) k i" and i: "i \<noteq> []"
    and run: "instance_start_container E svc inst s = (Inr pid, s')"
  shows "pod s' (in_sandbox_id inst) (Suc k) i \<and> reg s' = reg s"
proof -
  obtain c where c: "map_of (vms s) (in_sandbox_id inst) = Some c" "c < length (cells s)"
    "sv_container_count (cells s ! c) = word_of_nat k" "sv_daemon_vm_id (cells s ! c) = i"
    using p by (auto simp: pod_def)
  obtain x s1 where x: "prepare_container E inst s = (Inr x, s1)"
    and rest: "(case x of (c, image_key, erofs_path, config_json) \<Rightarrow> start_prepared E svc inst c image_key erofs_path config_json) s1 = (Inr pid, s')"
    using run unfolding instance_start_container_def by (rule bindE_InrE)
  obtain k' f y where x': "x = (c, k', f, y)" using prepare_Inr [OF x c(1)] by blast
  obtain cs where s1: "s1 = s\<lparr>calls := calls s @ cs\<rparr>" using only_callsE [OF only_calls_prepare x] by blast
  let ?m = "add_container E (svc (sv_daemon_socket (cells s ! c))) i f (in_id inst) y"
  have "bindE (bindE (ctx ''daemon add_container'' ?m) (\<lambda>pid. retE (c, pid)))
      (\<lambda>(n, pid). thenE (finish_start inst n) (retE pid)) s1 = (Inr pid, s')"
    using rest c i unfolding x' by (simp add: start_prepared_def s1 bindE_def [of "getE _"] getE_def)
  then obtain q t where t: "?m s1 = (Inr q, t)" "thenE (finish_start inst c) (retE q) t = (Inr pid, s')"
    by (auto elim!: bindE_InrE simp: inr_simps)
  have "t = snd (svc (sv_daemon_socket (cells s ! c)) (add_request E i f (in_id inst) y) s1)"
    using t(1) client_state(4) by (metis snd_conv)
  then have "cells t = cells s" "vms t = vms s" "reg t = reg s" by (simp_all add: s1)
  moreover have "s' = snd (finish_start inst c t)" using t(2) by (simp add: thenE_apply finish_start_run retE_def)
  ultimately show ?thesis using c by (auto simp: pod_def finish_start_run add.commute)
qed

lemma acquire_sandbox_reg:
  assumes g: "good s" and run: "acquire_sandbox E (svc p) a s = (Inr av, t)"
  shows "av_vm_id av \<noteq> [] \<and> av_vm_id av \<notin> reg s \<and> reg t = insert (av_vm_id av) (reg s)"
proof -
  obtain resp s1 where r: "svc p (acquire_request E a) s = (Inr resp, s1)"
    and rest: "thenE (check_error resp ''AcquireSandbox'')
      (bindE (ofOptE (msg ''missing vm_id'') (Option.bind (j_get ''vm_id'' resp) as_str)) (\<lambda>i.
       bindE (ofOptE (msg ''missing ch_pid'') (Option.bind (j_get ''ch_pid'' resp) as_num)) (\<lambda>pid.
         retE \<lparr>av_vm_id = i, av_ch_pid = word_of_nat pid,
             av_from_snapshot = (case Option.bind (j_get ''from_snapshot'' resp) as_bool of None \<Rightarrow> False | Some b \<Rightarrow> b),
             av_container_pid = u32_field ''container_pid'' 0 resp, av_tap_name = str_field ''tap_name'' [] resp\<rparr>))) s1 = (Inr av, t)"
    using run unfolding acquire_sandbox_def by (rule bindE_InrE)
  have "Option.bind (j_get ''error'' resp) as_str = None"
    using rest by (cases "Option.bind (j_get ''error'' resp) as_str") (auto simp: check_error_def thenE_apply failE_def)
  moreover have "Option.bind (j_get ''vm_id'' resp) as_str = Some (av_vm_id av)" "t = s1"
    using rest calculation by (auto elim!: bindE_InrE thenE_InrE simp: inr_simps check_error_def)
  ultimately show ?thesis using acquire_law [OF g r] by blast
qed

lemma start_first:
  assumes p: "pod s (in_sandbox_id inst) k []" and g: "good s"
    and run: "instance_start_container E svc inst s = (Inr pid, s')"
  shows "\<exists>i. i \<noteq> [] \<and> i \<notin> reg s \<and> pod s' (in_sandbox_id inst) (Suc k) i \<and> reg s' = insert i (reg s)"
proof -
  obtain c where c: "map_of (vms s) (in_sandbox_id inst) = Some c" "c < length (cells s)"
    "sv_container_count (cells s ! c) = word_of_nat k" "sv_daemon_vm_id (cells s ! c) = []"
    using p by (auto simp: pod_def)
  obtain x s1 where x: "prepare_container E inst s = (Inr x, s1)"
    and rest: "(case x of (c, image_key, erofs_path, config_json) \<Rightarrow> start_prepared E svc inst c image_key erofs_path config_json) s1 = (Inr pid, s')"
    using run unfolding instance_start_container_def by (rule bindE_InrE)
  obtain k' f y where x': "x = (c, k', f, y)" using prepare_Inr [OF x c(1)] by blast
  obtain cs where s1: "s1 = s\<lparr>calls := calls s @ cs\<rparr>" using only_callsE [OF only_calls_prepare x] by blast
  obtain a where "bindE (bindE (ctx ''daemon acquire'' (acquire_sandbox E (svc (sv_daemon_socket (cells s ! c))) a)) (\<lambda>acquired.
      bindE (register_acquired E inst c acquired) (\<lambda>n. retE (n, av_container_pid acquired))))
      (\<lambda>(n, pid). thenE (finish_start inst n) (retE pid)) s1 = (Inr pid, s')"
    using rest c unfolding x' by (simp add: start_prepared_def s1 bindE_def [of "getE _"] getE_def)
  then obtain av t n u where av: "acquire_sandbox E (svc (sv_daemon_socket (cells s ! c))) a s1 = (Inr av, t)"
    and n: "register_acquired E inst c av t = (Inr n, u)" and fin: "thenE (finish_start inst n) (retE (av_container_pid av)) u = (Inr pid, s')"
    by (auto elim!: bindE_InrE simp: inr_simps)
  have "good s1" using g by (simp add: s1 good_calls)
  then have reg: "av_vm_id av \<noteq> []" "av_vm_id av \<notin> reg s" "reg t = insert (av_vm_id av) (reg s)"
    using acquire_sandbox_reg [OF _ av] by (simp_all add: s1)
  have "t = snd (svc (sv_daemon_socket (cells s ! c)) (acquire_request E a) s1)" using av client_state(5) by (metis snd_conv)
  then have t: "cells t = cells s" "vms t = vms s" by (simp_all add: s1)
  obtain ds v where u: "u = t\<lparr>calls := ds, cells := cells t @ [v], vms := AList.update (in_sandbox_id inst) (length (cells t)) (vms t)\<rparr>"
    "n = length (cells t)" "sv_daemon_vm_id v = av_vm_id av" "sv_container_count v = word_of_nat k"
    using register_acquired_run [OF n] c t by auto
  have s': "s' = snd (finish_start inst n u)" using fin by (simp add: thenE_apply finish_start_run retE_def)
  have "pod s' (in_sandbox_id inst) (Suc k) (av_vm_id av)"
    unfolding pod_def by (rule exI [of _ n]) (simp add: s' finish_start_run u update_conv' add.commute)
  moreover have "reg s' = reg t" by (simp add: s' finish_start_run u)
  ultimately show ?thesis using reg by blast
qed

lemma start_all_more:
  "pod s sb k i \<Longrightarrow> i \<noteq> [] \<Longrightarrow> \<forall>x \<in> set insts. in_sandbox_id x = sb \<Longrightarrow> start_all E svc insts s = (Inr (), s') \<Longrightarrow>
   pod s' sb (k + length insts) i \<and> reg s' = reg s"
proof (induction insts arbitrary: s k)
  case (Cons inst insts)
  obtain pid s1 where run: "instance_start_container E svc inst s = (Inr pid, s1)" "start_all E svc insts s1 = (Inr (), s')"
    using Cons.prems(4) unfolding start_all.simps by (rule thenE_InrE)
  have "pod s1 sb (Suc k) i \<and> reg s1 = reg s" using start_more [OF _ _ run(1), of k i] Cons.prems(1-3) by simp
  then show ?case using Cons.IH [of s1 "Suc k"] Cons.prems(2,3) run(2) by simp
qed (simp add: retE_def)

lemma delete_all_more:
  "pod s sb (Suc (length insts)) i \<Longrightarrow> Suc (length insts) < 2 ^ 64 \<Longrightarrow> \<forall>x \<in> set insts. in_sandbox_id x = sb \<Longrightarrow>
   delete_all E svc insts s = (Inr (), s') \<Longrightarrow> pod s' sb 1 i \<and> reg s' = reg s"
proof (induction insts arbitrary: s)
  case (Cons inst insts)
  obtain u s1 where run: "instance_delete E svc inst s = (Inr u, s1)" "delete_all E svc insts s1 = (Inr (), s')"
    using Cons.prems(4) unfolding delete_all.simps by (rule thenE_InrE)
  have "pod s1 sb (Suc (length insts)) i \<and> reg s1 = reg s"
    using delete_more [of s inst "length insts" i s1] Cons.prems(1-3) run(1) by simp
  then show ?case using Cons.IH [of s1] Cons.prems(2,3) run(2) by simp
qed (simp add: retE_def)

lemma pod_lifecycle:
  assumes p: "pod s sb 1 []" and g: "good s" and sb: "\<forall>x \<in> set (a # as @ ds @ [d]). in_sandbox_id x = sb"
    and n: "length ds = Suc (length as)" "Suc (length ds) < 2 ^ 64"
    and up: "start_all E svc (a # as) s = (Inr (), s1)" and down: "delete_all E svc ds s1 = (Inr (), s2)"
    and last: "instance_delete E svc d s2 = (Inr (), s3)"
  shows "\<exists>i. i \<notin> reg s \<and> reg s1 = insert i (reg s) \<and> reg s2 = insert i (reg s) \<and> reg s3 = reg s \<and> map_of (vms s3) sb = None"
proof -
  obtain pid t where t: "instance_start_container E svc a s = (Inr pid, t)" "start_all E svc as t = (Inr (), s1)"
    using up unfolding start_all.simps by (rule thenE_InrE)
  obtain i where i: "i \<noteq> []" "i \<notin> reg s" "pod t sb 2 i" "reg t = insert i (reg s)"
    using start_first [OF _ g t(1), of 1] p sb by (auto simp: eval_nat_numeral)
  have 1: "pod s1 sb (Suc (length ds)) i" "reg s1 = reg t"
    using start_all_more [OF i(3,1) _ t(2)] sb n(1) by (simp_all add: add.commute)
  have 2: "pod s2 sb 1 i" "reg s2 = reg s1" using delete_all_more [OF 1(1) n(2) _ down] sb by simp_all
  have "in_sandbox_id d = sb" using sb by simp
  then have "map_of (vms s3) sb = None \<and> reg s3 = reg s2 - {i}" using delete_last [of s2 d i s3] 2(1) i(1) last by simp
  then show ?thesis using i 1 2 by (intro exI [of _ i]) auto
qed

text \<open>Killing the sandbox releases the VM whatever the number of references.\<close>

lemma kill_sandbox:
  assumes p: "pod s (in_sandbox_id inst) k i" and sb: "in_id inst = in_sandbox_id inst" and sig: "sig = 9 \<or> sig = 15"
    and run: "instance_kill E svc inst sig s = (Inr (), s')"
  shows "map_of (vms s') (in_sandbox_id inst) = None \<and> reg s' = (if i = [] then reg s else reg s - {i})"
proof -
  obtain c where c: "map_of (vms s) (in_sandbox_id inst) = Some c" "sv_daemon_vm_id (cells s ! c) = i" using p by (auto simp: pod_def)
  let ?v = "cells s ! c"
  let ?m = "if i \<noteq> [] then ignoreE (release_sandbox (svc (sv_daemon_socket ?v)) i) else retE ()"
  have eq: "instance_kill E svc inst sig s = thenE ?m (thenE (cleanup_vm E ?v) (thenE (drop_vm (in_sandbox_id inst))
      (set_exit E (in_id inst) 0))) s"
    using c sb sig by (auto simp: instance_kill_def get_vm_def bindE_def getE_def Let_def)
  obtain x t where t: "?m s = (Inr x, t)" and "thenE (cleanup_vm E ?v) (thenE (drop_vm (in_sandbox_id inst))
      (set_exit E (in_id inst) 0)) t = (Inr (), s')"
    using run unfolding eq by (rule thenE_InrE)
  then obtain y w where w: "cleanup_vm E ?v t = (Inr y, w)"
    and u: "thenE (drop_vm (in_sandbox_id inst)) (set_exit E (in_id inst) 0) w = (Inr (), s')"
    by (blast elim: thenE_InrE)
  have "t = (if i \<noteq> [] then snd (svc (sv_daemon_socket ?v) (release_request i) s) else s)"
  proof (cases "i = []")
    case False
    then have "snd (ignoreE (release_sandbox (svc (sv_daemon_socket ?v)) i) s) = t" using t by simp
    then show ?thesis using False client_state(1) by simp
  qed (use t in \<open>simp add: retE_def\<close>)
  then have "reg t = (if i = [] then reg s else reg s - {i})" "vms t = vms s" by simp_all
  moreover obtain cs where "w = t\<lparr>calls := calls t @ cs\<rparr>" using only_callsE [OF only_calls_cleanup w] by blast
  ultimately show ?thesis using u by (auto simp: drop_vm_def set_exit_def prog_simps log_call_def delete_conv')
qed

end

section \<open>Properties\<close>

subsection \<open>Names\<close>

lemma slice_prefixes_eq:
  assumes "pre \<noteq> []"
  shows "slice_prefixes pre segs = map (\<lambda>n. join_str ''-'' (pre # take n segs) @ ''.slice'') [1..<Suc (length segs)]"
  using assms
proof (induction segs arbitrary: pre)
  case (Cons x segs)
  have join: "join_str ''-'' ((pre @ CHR ''-'' # x) # ys) = pre @ CHR ''-'' # join_str ''-'' (x # ys)" for ys
    by (cases ys) simp_all
  have "slice_prefixes pre (x # segs) = (pre @ ''-'' @ x @ ''.slice'') #
      map (\<lambda>n. join_str ''-'' ((pre @ ''-'' @ x) # take n segs) @ ''.slice'') [1..<Suc (length segs)]"
    using Cons by (simp add: Let_def)
  also have "\<dots> = map (\<lambda>n. join_str ''-'' (pre # take n (x # segs)) @ ''.slice'') (1 # map Suc [1..<Suc (length segs)])"
    by (simp add: join comp_def del: upt_Suc)
  also have "1 # map Suc [1..<Suc (length segs)] = [1..<Suc (length (x # segs))]"
    by (simp add: map_Suc_upt upt_conv_Cons del: upt_Suc)
  finally show ?case .
qed simp

text \<open>
  The cgroup of a systemd slice is the path of its ancestors: for a slice whose dash-separated segments are
  not empty, \<^verbatim>\<open>build_systemd_cgroup_path\<close> gives one component for each prefix of the segments, from the
  first to the whole name, each with the suffix \<^verbatim>\<open>.slice\<close>; the suffix of the argument is optional.
\<close>

theorem systemd_cgroup_path_prefixes:
  assumes "segs \<noteq> []" and "\<forall>x \<in> set segs. x \<noteq> [] \<and> CHR ''-'' \<notin> set x"
  shows "build_systemd_cgroup_path (join_str ''-'' segs @ ''.slice'') =
      join_str ''/'' (map (\<lambda>n. join_str ''-'' (take n segs) @ ''.slice'') [1..<Suc (length segs)])"
proof -
  have strip: "strip_suffix ''.slice'' (x @ ''.slice'') = Some x" for x by (simp add: strip_suffix_def)
  have split: "split_on (CHR ''-'') (join_str ''-'' segs) = segs" using assms by (intro split_join) auto
  obtain x xs where segs: "segs = x # xs" "x \<noteq> []" using assms by (cases segs) auto
  have "slice_prefixes [] segs = (x @ ''.slice'') # map (\<lambda>n. join_str ''-'' (x # take n xs) @ ''.slice'') [1..<Suc (length xs)]"
    using slice_prefixes_eq [OF segs(2), of xs] segs by (simp add: Let_def)
  also have "\<dots> = map (\<lambda>n. join_str ''-'' (take n segs) @ ''.slice'') (1 # map Suc [1..<Suc (length xs)])"
    by (simp add: segs comp_def del: upt_Suc)
  also have "1 # map Suc [1..<Suc (length xs)] = [1..<Suc (length segs)]"
    by (simp add: segs map_Suc_upt upt_conv_Cons del: upt_Suc)
  finally show ?thesis by (simp add: build_systemd_cgroup_path_def strip split)
qed

theorem systemd_cgroup_path_prefixes_witness:
  "build_systemd_cgroup_path ''kubepods-burstable-pod1.slice'' =
     ''kubepods.slice/kubepods-burstable.slice/kubepods-burstable-pod1.slice''"
proof -
  have "[''kubepods'', ''burstable'', ''pod1''] \<noteq> []" "\<forall>x \<in> set [''kubepods'', ''burstable'', ''pod1'']. x \<noteq> [] \<and> CHR ''-'' \<notin> set x"
    by simp_all
  from systemd_cgroup_path_prefixes [OF this] show ?thesis by (simp add: upt_conv_Cons)
qed

lemma hash_chars: "set (stable_hash_hex x) \<subseteq> {c. is_hex c}"
  by (auto simp: stable_hash_hex_def hex_fixed_chars)

text \<open>
  An image key is a safe file name of fixed length: 32 lower-case hexadecimal digits, whatever the
  image, so the cache entry of an image is a direct child of the cache directory; two images share a key only if their
  128-bit hashes agree.
\<close>

theorem image_key_file_name:
  "length (stable_hash_hex x) = 32 \<and> CHR ''/'' \<notin> set (stable_hash_hex x) \<and>
   join_path EROFS_CACHE_DIR (stable_hash_hex x @ ''.erofs'') = ''/run/cloudhv/erofs-cache/'' @ stable_hash_hex x @ ''.erofs'' \<and>
   (stable_hash_hex x = stable_hash_hex y \<longleftrightarrow>
      foldl fnv_step 0x6c62272e07bb014262b821756295c58d x = foldl fnv_step 0x6c62272e07bb014262b821756295c58d y)"
proof (intro conjI)
  have nohex: "\<not> is_hex (CHR ''/'')" by (simp add: is_hex_def is_digit_def)
  show "length (stable_hash_hex x) = 32" by (simp add: stable_hash_hex_def)
  show slash: "CHR ''/'' \<notin> set (stable_hash_hex x)" using hash_chars nohex by blast
  have "stable_hash_hex x \<noteq> []" by (simp add: stable_hash_hex_def flip: length_0_conv)
  then have "\<not> starts_with ''/'' (stable_hash_hex x @ ''.erofs'')" using slash
    by (cases "stable_hash_hex x") (auto simp: starts_with_def)
  then show "join_path EROFS_CACHE_DIR (stable_hash_hex x @ ''.erofs'') = ''/run/cloudhv/erofs-cache/'' @ stable_hash_hex x @ ''.erofs''"
    by (simp add: join_path_def EROFS_CACHE_DIR_def)
  have lt: "unat (w :: u128) < 16 ^ 32" for w using unsigned_less [of w] by simp
  show "stable_hash_hex x = stable_hash_hex y \<longleftrightarrow>
      foldl fnv_step 0x6c62272e07bb014262b821756295c58d x = foldl fnv_step 0x6c62272e07bb014262b821756295c58d y"
    using hex_fixed_inj [OF lt lt] by (auto simp: stable_hash_hex_def word_unat_eq_iff)
qed

subsection \<open>The image cache\<close>

definition cache_file :: "string \<Rightarrow> path" where
  "cache_file key = join_path EROFS_CACHE_DIR (key @ ''.erofs'')"

definition temp_file :: "env \<Rightarrow> string \<Rightarrow> path" where
  "temp_file E key = join_path EROFS_CACHE_DIR (key @ ''.'' @ dec (unat (process_id E)) @ ''.tmp'')"

text \<open>How a run that returned the image ended: it was there, or it was built under another name and renamed.\<close>

definition published :: "env \<Rightarrow> path \<Rightarrow> string \<Rightarrow> call list \<Rightarrow> bool" where
  "published E rootfs key h \<longleftrightarrow>
     (\<exists>h'. h = h' @ [FsExists (cache_file key)] \<and> ans_bool E h' (FsExists (cache_file key))) \<or>
     (\<exists>h' x. h = h' @ [ProcOutput ''mkfs.erofs'' [temp_file E key, rootfs], FsRename (temp_file E key) (cache_file key)] \<and>
        ans_exit E h' (ProcOutput ''mkfs.erofs'' [temp_file E key, rootfs]) = Inr (0, x))"

lemma prepare_erofs_Inr:
  assumes "prepare_erofs E rootfs key s = (Inr p, s')"
  shows "p = cache_file key \<and> published E rootfs key (calls s')"
  using assms unfolding prepare_erofs_def Let_def cache_file_def [symmetric] temp_file_def [symmetric]
  by (auto elim!: bindE_InrE thenE_InrE simp: inr_simps log_call_def published_def split: if_splits)

lemma plain_erofs [plain_rules]: "plain (prepare_erofs E rootfs key)"
  unfolding prepare_erofs_def ctx_def Let_def by (intro plain_rules)

lemma erofs_attempts_run:
  "(\<exists>s'. erofs_attempts E rootfs key l as s = (Inr (cache_file key), s') \<and> published E rootfs key (calls s')) \<or>
   (\<exists>cs n s'. erofs_attempts E rootfs key l as s = (Inl (Fail cs n), s')) \<or> as = [] \<and> (\<forall>cs n. l \<noteq> Some (Fail cs n))"
proof (induction "as" arbitrary: l s)
  case Nil
  show ?case by (cases l; cases "the l") (auto simp: failE_def)
next
  case (Cons a "as")
  obtain r s1 where run: "prepare_erofs E rootfs key s = (r, s1)" by (cases "prepare_erofs E rootfs key s")
  show ?case
  proof (cases r)
    case (Inr p)
    then have "catchE (prepare_erofs E rootfs key) s = (Inr (Inr p), s1)" using run by (simp add: catchE_def)
    then show ?thesis using prepare_erofs_Inr run Inr by (fastforce simp: bindE_def retE_def)
  next
    case (Inl e)
    then obtain cs n where e: "e = Fail cs n" using plain_erofs [of E rootfs key] run unfolding plain_def by (metis fst_conv)
    then have "catchE (prepare_erofs E rootfs key) s = (Inr (Inl e), s1)" using run Inl by (simp add: catchE_def)
    then have "erofs_attempts E rootfs key l (a # as) s = erofs_attempts E rootfs key (Some e) as (log_call (Sleep (100 * (a + 1))) s1)"
      by (simp add: bindE_def thenE_apply tell_def)
    then show ?thesis using Cons.IH [of "Some e" "log_call (Sleep (100 * (a + 1))) s1"] e by auto
  qed
qed

text \<open>
  C31: Preparing the root file system image never panics, and when it succeeds the result is the cache entry of the
  image key, which either was there when the last call looked, or was built completely by a successful \<^verbatim>\<open>mkfs.erofs\<close> under a
  temporary name and then renamed; after three failed attempts the last error is returned.
\<close>

theorem erofs_image_published:
  "(\<exists>s'. erofs_attempts E rootfs key None [0, 1, 2] s = (Inr (cache_file key), s') \<and> published E rootfs key (calls s')) \<or>
   (\<exists>cs n s'. erofs_attempts E rootfs key None [0, 1, 2] s = (Inl (Fail cs n), s'))"
  using erofs_attempts_run [of E rootfs key None "[0, 1, 2]" s] by blast

subsection \<open>References\<close>

text \<open>
  C34: Deleting any container of a sandbox that has no running container takes the sandbox down with it: with one
  reference left, the sandbox's own, the deletion of a container, also of one whose start
  failed and which never took a reference, removes the sandbox from the map; every later start of a
  container of the sandbox fails with \<^verbatim>\<open>sandbox VM not found\<close>, without any request to the daemon.
\<close>

theorem delete_drops_sandbox:
  fixes s s' :: "'z shim_scheme"
  assumes "pod s (in_sandbox_id inst) 1 i" and "instance_delete E svc inst s = (Inr (), s')"
    and "in_sandbox_id other = in_sandbox_id inst"
  shows "instance_start_container E svc other s' = (Inl (msg (''sandbox VM not found: '' @ in_sandbox_id inst)), s')"
proof -
  obtain c where c: "map_of (vms s) (in_sandbox_id inst) = Some c" "sv_container_count (cells s ! c) = 1" "c < length (cells s)"
    using assms(1) by (auto simp: pod_def)
  let ?v = "(cells s ! c)\<lparr>sv_container_count := 0\<rparr>"
  let ?rest = "thenE (cleanup_vm E ?v) (drop_vm (in_sandbox_id inst))"
  let ?m = "release_sandbox (svc (sv_daemon_socket (cells s ! c))) (sv_daemon_vm_id (cells s ! c))"
  let ?s1 = "s\<lparr>cells := (cells s)[c := ?v]\<rparr>"
  have eq: "instance_delete E svc inst s = thenE (thenE (ignoreE ?m) ?rest) (set_exit E (in_id inst) 0) ?s1"
    using c by (simp add: instance_delete_def get_vm_def fetch_count_def prog_simps Let_def)
  obtain x u where "thenE (ignoreE ?m) ?rest ?s1 = (Inr x, u)" and u: "set_exit E (in_id inst) 0 u = (Inr (), s')"
    using assms(2) unfolding eq by (rule thenE_InrE)
  then obtain t y w where "cleanup_vm E ?v t = (Inr y, w)" "drop_vm (in_sandbox_id inst) w = (Inr x, u)"
    by (blast elim: thenE_InrE)
  then have "map_of (vms s') (in_sandbox_id inst) = None"
    using u by (auto simp: drop_vm_def set_exit_def prog_simps log_call_def delete_conv')
  then show ?thesis using assms(3)
    by (simp add: instance_start_container_def prepare_container_def get_vm_def prog_simps)
qed

text \<open>A sandbox without a VM and a daemon that answers everything with an empty object.\<close>

definition one_sandbox :: shim where
  "one_sandbox = \<lparr>calls = [], cells = [\<lparr>sv_ch_pid = 0, sv_container_count = 1, sv_tap_name = None, sv_netns = None,
       sv_cgroups_path = None, sv_daemon_vm_id = [], sv_daemon_socket = ''/s''\<rparr>], vms = [(''sb'', 0)], exits = [], watchers = []\<rparr>"

definition silent :: "path \<Rightarrow> 'z shim_scheme service" where
  "silent p req = retE (JObj [])"

definition in_pod :: "string \<Rightarrow> CloudHvInstance" where
  "in_pod i = \<lparr>in_id = i, in_sandbox_id = ''sb'', in_bundle = ''/b''\<rparr>"

theorem delete_drops_sandbox_witness:
  "\<exists>s'. instance_delete live_env silent (in_pod ''a'') one_sandbox = (Inr (), s') \<and>
     instance_start_container live_env silent (in_pod ''b'') s' = (Inl (msg ''sandbox VM not found: sb''), s')"
proof -
  have p: "pod one_sandbox (in_sandbox_id (in_pod ''a'')) 1 []" by (simp add: pod_def one_sandbox_def in_pod_def)
  obtain s' where d: "instance_delete live_env silent (in_pod ''a'') one_sandbox = (Inr (), s')"
    by (simp add: instance_delete_def get_vm_def fetch_count_def one_sandbox_def in_pod_def silent_def release_sandbox_def check_error_def
        cleanup_vm_def drop_vm_def set_exit_def prog_simps Let_def)
  have "in_sandbox_id (in_pod ''b'') = in_sandbox_id (in_pod ''a'')" by (simp add: in_pod_def)
  from delete_drops_sandbox [OF p d this] d show ?thesis by (auto simp: in_pod_def)
qed

text \<open>
  C33: The first containers of a sandbox race: when two of them have both asked the daemon for a VM before either of them
  has registered its answer, as the shim allows, then afterwards the sandbox refers to the VM of the one that registered last and
  counts one reference for the two of them, and no sandbox refers to the VM of the other, so nothing will ever
  release it.
\<close>

theorem first_containers_race:
  fixes s :: "'z shim_scheme"
  assumes "pod s sb k []" and "in_sandbox_id a = sb" and "in_sandbox_id b = sb" and "map_of (vms s) sb = Some c"
    and refs: "\<forall>x d. map_of (vms s) x = Some d \<longrightarrow> d < length (cells s) \<and> sv_daemon_vm_id (cells s ! d) \<noteq> av_vm_id av1"
    and "av_vm_id av1 \<noteq> av_vm_id av2"
    and "register_acquired E a c av1 s = (Inr n1, s1)" and "finish_start a n1 s1 = (Inr (), s2)"
    and "register_acquired E b c av2 s2 = (Inr n2, s3)" and "finish_start b n2 s3 = (Inr (), s4)"
  shows "pod s4 sb (Suc k) (av_vm_id av2) \<and>
    (\<forall>x d. map_of (vms s4) x = Some d \<longrightarrow> sv_daemon_vm_id (cells s4 ! d) \<noteq> av_vm_id av1)"
proof -
  have c: "c < length (cells s)" "sv_container_count (cells s ! c) = word_of_nat k" using assms(1,4) by (auto simp: pod_def)
  obtain cs v where s1: "s1 = s\<lparr>calls := cs, cells := cells s @ [v], vms := AList.update sb (length (cells s)) (vms s)\<rparr>"
    "n1 = length (cells s)" "sv_daemon_vm_id v = av_vm_id av1"
    using register_acquired_run [OF assms(7) c(1)] assms(2) by auto
  obtain w ws where w: "s2 = s1\<lparr>watchers := ws, cells := cells s @ [w]\<rparr>" "sv_daemon_vm_id w = av_vm_id av1"
    using assms(8) s1 by (auto simp: finish_start_run)
  have c2: "c < length (cells s2)" "cells s2 ! c = cells s ! c" using c(1) by (simp_all add: w nth_append)
  obtain ds v2 where s3: "s3 = s2\<lparr>calls := ds, cells := cells s2 @ [v2], vms := AList.update sb (length (cells s2)) (vms s2)\<rparr>"
    "n2 = length (cells s2)" "sv_daemon_vm_id v2 = av_vm_id av2" "sv_container_count v2 = word_of_nat k"
    using register_acquired_run [OF assms(9) c2(1)] assms(3) c c2 by auto
  obtain us where s4: "s4 = s3\<lparr>watchers := us, cells := cells s2 @ [v2\<lparr>sv_container_count := word_of_nat k + 1\<rparr>]\<rparr>"
    using assms(10) s3 by (auto simp: finish_start_run)
  have "pod s4 sb (Suc k) (av_vm_id av2)"
    unfolding pod_def by (rule exI [of _ n2]) (simp add: s4 s3 update_conv' add.commute)
  moreover have "sv_daemon_vm_id (cells s4 ! d) \<noteq> av_vm_id av1" if "map_of (vms s4) x = Some d" for x d
  proof (cases "x = sb")
    case True
    then have "d = length (cells s2)" using that by (simp add: s4 s3 update_conv')
    then show ?thesis using assms(6) by (simp add: s4 s3)
  next
    case False
    then have "map_of (vms s) x = Some d" using that by (simp add: s4 s3 w s1 update_conv')
    then have "d < length (cells s)" "sv_daemon_vm_id (cells s ! d) \<noteq> av_vm_id av1" using refs by blast+
    then show ?thesis by (simp add: s4 w nth_append)
  qed
  ultimately show ?thesis by blast
qed

theorem first_containers_race_witness:
  "let av = \<lambda>i. \<lparr>av_vm_id = i, av_ch_pid = 7, av_from_snapshot = False, av_container_pid = 0, av_tap_name = []\<rparr>;
       s2 = snd (finish_start (in_pod ''a'') 1 (snd (register_acquired live_env (in_pod ''a'') 0 (av ''x'') one_sandbox)));
       s4 = snd (finish_start (in_pod ''b'') 2 (snd (register_acquired live_env (in_pod ''b'') 0 (av ''y'') s2)))
   in pod s4 ''sb'' 2 ''y''"
proof -
  let ?av = "\<lambda>i. \<lparr>av_vm_id = i, av_ch_pid = 7, av_from_snapshot = False, av_container_pid = 0, av_tap_name = []\<rparr>"
  let ?s1 = "snd (register_acquired live_env (in_pod ''a'') 0 (?av ''x'') one_sandbox)"
  let ?s2 = "snd (finish_start (in_pod ''a'') 1 ?s1)"
  let ?s3 = "snd (register_acquired live_env (in_pod ''b'') 0 (?av ''y'') ?s2)"
  let ?s4 = "snd (finish_start (in_pod ''b'') 2 ?s3)"
  have 1: "register_acquired live_env (in_pod ''a'') 0 (?av ''x'') one_sandbox = (Inr 1, ?s1)"
    and 2: "finish_start (in_pod ''a'') 1 ?s1 = (Inr (), ?s2)"
    and 3: "register_acquired live_env (in_pod ''b'') 0 (?av ''y'') ?s2 = (Inr 2, ?s3)"
    and 4: "finish_start (in_pod ''b'') 2 ?s3 = (Inr (), ?s4)"
    by (simp_all add: finish_start_run register_acquired_def new_vm_def prog_simps one_sandbox_def in_pod_def)
  have "pod one_sandbox ''sb'' 1 []" "in_sandbox_id (in_pod ''a'') = ''sb''" "in_sandbox_id (in_pod ''b'') = ''sb''"
    "map_of (vms one_sandbox) ''sb'' = Some 0"
    "\<forall>x d. map_of (vms one_sandbox) x = Some d \<longrightarrow> d < length (cells one_sandbox) \<and> sv_daemon_vm_id (cells one_sandbox ! d) \<noteq> av_vm_id (?av ''x'')"
    "av_vm_id (?av ''x'') \<noteq> av_vm_id (?av ''y'')"
    by (simp_all add: pod_def one_sandbox_def in_pod_def)
  from first_containers_race [OF this 1 2 3 4] show ?thesis by (simp add: Let_def numeral_2_eq_2)
qed

subsection \<open>Exit status\<close>



end
