(* ===== verification/System.thy ===== *)
theory System
  imports Registry Answers Supply ShimInstance
begin

text \<open>
  The composed system: a shim and the daemon that it talks to. The state of a node is the shim's state with the daemon's
  inside it, and the shim's requests are answered by the daemon's own \<open>dispatch\<close>. Between two requests of a shim the daemon may
  serve others and run its tasks; the theorems about a pod's life speak of the runs in which the requests follow each
  other.
\<close>

record node = shim +
  the_daemon :: daemon

lemma the_daemon_upd [simp]: "the_daemon (s\<lparr>calls := h\<rparr>) = the_daemon s"
  by (cases s) simp

text \<open>
  A request over the daemon's socket. A panic of the handler closes the connection without an answer, and the client fails to
  parse the empty line it reads; a request that is not answered times out, except for a wait, which has no time limit.
\<close>

definition via :: "env \<Rightarrow> env \<Rightarrow> DaemonConfig \<Rightarrow> path \<Rightarrow> 'z node_scheme service" where
  "via E Ed cfg p request s =
     (let (r, d) = dispatch Ed cfg request (the_daemon s); s' = s\<lparr>the_daemon := d\<rparr> in
      case r of
        Inr resp \<Rightarrow> (Inr resp, s')
      | Inl Diverge \<Rightarrow> (Inl (if str_field ''method'' [] request = ''WaitContainer'' then Diverge else msg ''daemon RPC timed out after 30s''), s')
      | Inl _ \<Rightarrow> (Inl (add_ctx ''parse daemon response'' (msg (json_error E []))), s'))"

lemma via_state: "snd (via E Ed cfg p request s) = s\<lparr>the_daemon := snd (dispatch Ed cfg request (the_daemon s))\<rparr>"
  by (simp add: via_def Let_def split: prod.split sum.split err.split)

lemma via_Inr: "via E Ed cfg p request s = (Inr resp, s') \<longleftrightarrow>
   (\<exists>d. dispatch Ed cfg request (the_daemon s) = (Inr resp, d) \<and> s' = s\<lparr>the_daemon := d\<rparr>)"
  by (auto simp: via_def Let_def split: prod.splits sum.splits err.splits)

text \<open>The registered VMs, and the states in which the daemon keeps its promises.\<close>

definition registered :: "'z node_scheme \<Rightarrow> string set" where
  "registered s = dom (map_of (active (the_daemon s)))"

definition sound :: "env \<Rightarrow> DaemonConfig \<Rightarrow> 'z node_scheme \<Rightarrow> bool" where
  "sound Ed cfg s \<longleftrightarrow> daemon_ok Ed cfg 2 (the_daemon s)"

lemma request_fields [simp]:
  "str_field ''method'' [] (acquire_request E a) = ''AcquireSandbox''" "str_field ''method'' [] (release_request i) = ''ReleaseSandbox''"
  "str_field ''method'' [] (add_request E i f k x) = ''AddContainer''" "str_field ''method'' [] (kill_request i k sig) = ''KillContainer''"
  "str_field ''method'' [] (delete_request i k) = ''DeleteContainer''" "str_field ''method'' [] (wait_request i k) = ''WaitContainer''"
  "str_field ''vm_id'' [] (release_request i) = i"
  by (simp_all add: str_field_def acquire_request_def release_request_def add_request_def kill_request_def delete_request_def wait_request_def)

lemma others_registered:
  assumes "str_field ''method'' [] request \<noteq> ''AcquireSandbox''" and "str_field ''method'' [] request \<noteq> ''ReleaseSandbox''"
    and "via E Ed cfg p request s = (r, s')"
  shows "registered s' = registered s"
  using keeps_active [OF dispatch_others [OF assms(1,2)], of Ed cfg "the_daemon s"] via_state [of E Ed cfg p request s] assms(3)
  by (simp add: registered_def)

interpretation sys: sandbox_service E "via E Ed cfg" registered "sound Ed cfg" for E Ed cfg
proof unfold_locales
  fix p request and s s' :: "'z node_scheme" and r a resp i f k x sig h cs vs es ws
  show "via E Ed cfg p request s = (r, s') \<Longrightarrow> own s' = own s"
    using via_state [of E Ed cfg p request s] by (simp add: own_def)
  show "registered (s\<lparr>calls := h, cells := cs, vms := vs, exits := es, watchers := ws\<rparr>) = registered s"
    "sound Ed cfg (s\<lparr>calls := h, cells := cs, vms := vs, exits := es, watchers := ws\<rparr>) = sound Ed cfg s"
    by (simp_all add: registered_def sound_def)
  show "via E Ed cfg p (add_request E i f k x) s = (r, s') \<Longrightarrow> registered s' = registered s"
    "via E Ed cfg p (kill_request i k sig) s = (r, s') \<Longrightarrow> registered s' = registered s"
    "via E Ed cfg p (delete_request i k) s = (r, s') \<Longrightarrow> registered s' = registered s"
    by (rule others_registered; simp)+
  show "registered s' = registered s - {i}" if "via E Ed cfg p (release_request i) s = (r, s')" "i \<noteq> []"
  proof -
    have "map_of (active (the_daemon s')) = (map_of (active (the_daemon s)))(i := None)"
      using release_registry [of "release_request i" i Ed cfg "the_daemon s"] via_state [of E Ed cfg p "release_request i" s] that
      by (auto simp: dispatch_def)
    then show ?thesis by (auto simp: registered_def)
  qed
  show "i \<noteq> [] \<and> i \<notin> registered s \<and> registered s' = insert i (registered s)"
    if g: "sound Ed cfg s" and v: "via E Ed cfg p (acquire_request E a) s = (Inr resp, s')"
      and e: "Option.bind (j_get ''error'' resp) as_str = None" and n: "Option.bind (j_get ''vm_id'' resp) as_str = Some i"
  proof -
    obtain d where d: "dispatch Ed cfg (acquire_request E a) (the_daemon s) = (Inr resp, d)" "s' = s\<lparr>the_daemon := d\<rparr>"
      using v by (auto simp: via_Inr)
    have "registry_spec (acquire_request E a) resp (map_of (active (the_daemon s))) (map_of (active d))"
      using dispatch_registry [OF _ d(1)] g by (simp add: sound_def)
    then obtain vm where "vm_id vm \<noteq> []" "map_of (active (the_daemon s)) (vm_id vm) = None"
        "map_of (active d) = (map_of (active (the_daemon s)))(vm_id vm \<mapsto> vm)" "vm_id vm = i"
      using e n by (auto simp: registry_spec_def err_json_def vm_json_def)
    then show ?thesis using d(2) by (auto simp: registered_def)
  qed
qed

section \<open>Properties\<close>


text \<open>A node with one sandbox and one ready VM.\<close>

definition small_node :: node where
  "small_node = shim.extend one_sandbox \<lparr>the_daemon = small_daemon\<rparr>"

lemma small_node_sel [simp]: "the_daemon small_node = small_daemon" "cells small_node = cells one_sandbox" "vms small_node = vms one_sandbox"
  "calls small_node = []"
  by (simp_all add: small_node_def shim.defs one_sandbox_def)

lemma small_daemon_ok: "daemon_ok boot_env sample_cfg 2 small_daemon"
proof -
  have "process_id boot_env = 1234" by (simp add: boot_env_def)
  then have "pool_ok boot_env 2 sample_pool" by (rule sample_pool_ok) simp
  then have p: "pool_ok boot_env 2 small_daemon"
    by (simp add: pool_ok_def pool_inv_def pool_vms_def small_daemon_def ApiServer_new_def SnapshotManager_new_def pool.defs snapmgr.defs)
  have "drawn boot_env sample_vm" using p by (simp add: pool_ok_def pool_inv_def)
  then have "warm_below 0 sample_vm" using starts_with_pool_vm_id not_warm unfolding drawn_def by metis
  with p show ?thesis
    by (simp add: daemon_ok_def base_ok_def cache_ok_def pool_vms_def) (simp add: small_daemon_def ApiServer_new_def snapmgr.defs sample_cfg_def)
qed

lemma small_acquire:
  assumes "aq_container_id a = ''a''" and "aq_netns a = []"
  obtains d n where "dispatch boot_env sample_cfg (acquire_request E a) small_daemon = (Inr (vm_json sample_vm False n []), d)"
proof -
  have "fst (cold_acquire boot_env sample_cfg [] k f ''a'' b64 small_daemon) = Inr (vm_json sample_vm False (if f = [] then 0 else 42) [])" for k f b64
    by (cases "k = []"; cases "f = []"; simp add: cold_acquire_def cold_serve_def acquire_ready register_active_apply
      spawn_task_def trigger_shadow_def has_snapshot_def run_container_in_vm_def agent_for_def connect_agent_def api_request_with_body_def
      api_request_def slice_to_def is_char_boundary_def starts_with_def prog_simps log_call_def cong: prog_congs)
  then have "\<exists>n. fst (dispatch boot_env sample_cfg (acquire_request E a) small_daemon) = Inr (vm_json sample_vm False n [])"
    using assms by (auto simp: dispatch_def handle_acquire_def acquire_request_def str_field_def has_snapshot_def Let_def prog_simps)
  then obtain n where "fst (dispatch boot_env sample_cfg (acquire_request E a) small_daemon) = Inr (vm_json sample_vm False n [])" by blast
  then show thesis using that [of n] by (metis prod.collapse)
qed

lemma in_pod_sel [simp]: "in_id (in_pod i) = i" "in_sandbox_id (in_pod i) = ''sb''" "in_bundle (in_pod i) = ''/b''"
  by (simp_all add: in_pod_def)

text \<open>One container is started in the sandbox.\<close>

lemma small_start:
  obtains s1 where "start_all live_env (via live_env boot_env sample_cfg) [in_pod ''a''] small_node = (Inr (), s1)"
    and "map_of (vms s1) ''sb'' = Some 1" and "length (cells s1) = 2" and "sv_netns (cells s1 ! 1) = None"
    and "sv_container_count (cells s1 ! 1) = 2"
proof -
  let ?key = "stable_hash_hex (join_path ''/b'' ''rootfs'')"
  let ?a = "\<lparr>aq_netns = [], aq_image_key = ?key, aq_erofs_path = join_path EROFS_CACHE_DIR (?key @ ''.erofs''),
     aq_container_id = ''a'', aq_config_json = []\<rparr>"
  let ?rd = "FsRead (join_path ''/b'' ''config.json'')"
  let ?s = "small_node\<lparr>calls := [?rd, FsExists (join_path EROFS_CACHE_DIR (?key @ ''.erofs'')), ?rd]\<rparr>"
  obtain d n where d: "dispatch boot_env sample_cfg (acquire_request live_env ?a) small_daemon = (Inr (vm_json sample_vm False n []), d)"
    by (rule small_acquire [of ?a]) simp_all
  have prep: "prepare_container live_env (in_pod ''a'') small_node =
      (Inr (0, ?key, join_path EROFS_CACHE_DIR (?key @ ''.erofs''), []), ?s)"
    by (simp add: prepare_container_def get_vm_def image_key_from_spec_def prepare_erofs_def one_sandbox_def Let_def prog_simps log_call_def)
  have acq: "acquire_sandbox live_env (via live_env boot_env sample_cfg p) ?a ?s =
      (Inr \<lparr>av_vm_id = vm_id sample_vm, av_ch_pid = vm_ch_pid sample_vm, av_from_snapshot = False, av_container_pid = word_of_nat n, av_tap_name = []\<rparr>,
       ?s\<lparr>the_daemon := d\<rparr>)" for p
    using d by (simp add: acquire_sandbox_def via_def vm_json_def check_error_def u32_field_def str_field_def prog_simps)
  let ?m = "instance_start_container live_env (via live_env boot_env sample_cfg) (in_pod ''a'')"
  have run: "\<exists>pid. fst (?m small_node) = Inr pid" and fin: "map_of (vms (snd (?m small_node))) ''sb'' = Some 1"
    "length (cells (snd (?m small_node))) = 2" "sv_netns (cells (snd (?m small_node)) ! 1) = None"
    "sv_container_count (cells (snd (?m small_node)) ! 1) = 2"
    using acq by (simp_all add: instance_start_container_def prep start_prepared_def ctx_def map_err_def register_acquired_def new_vm_def finish_start_run
        one_sandbox_def prog_simps)
  then obtain pid s1 where m: "?m small_node = (Inr pid, s1)" by (metis prod.collapse)
  then have "start_all live_env (via live_env boot_env sample_cfg) [in_pod ''a''] small_node = (Inr (), s1)"
    by (simp add: thenE_apply retE_def)
  then show thesis using fin m by (intro that) simp_all
qed

text \<open>Requests other than a wait end with an answer or an ordinary error, so ignoring the outcome always returns.\<close>

lemma plain_via: "str_field ''method'' [] request \<noteq> ''WaitContainer'' \<Longrightarrow> plain (via E Ed cfg p request)"
  by (auto simp: plain_def via_def Let_def msg_def split: prod.splits sum.splits err.splits)

lemma request_returns:
  fixes s :: "'z node_scheme"
  shows "fst (ignoreE (release_sandbox (via E Ed cfg p) i) s) = Inr ()" "fst (ignoreE (client_delete_container (via E Ed cfg p) i k) s) = Inr ()"
proof -
  have "plain (via E Ed cfg p (release_request i) :: ('z node_scheme, json) prog)" "plain (via E Ed cfg p (delete_request i k) :: ('z node_scheme, json) prog)"
    by (rule plain_via; simp)+
  then have "plain (release_sandbox (via E Ed cfg p :: 'z node_scheme service) i)" "plain (client_delete_container (via E Ed cfg p :: 'z node_scheme service) i k)"
    unfolding release_sandbox_def client_delete_container_def by (simp_all add: plain_bindE plain_check_error)
  then show "fst (ignoreE (release_sandbox (via E Ed cfg p) i) s) = Inr ()" "fst (ignoreE (client_delete_container (via E Ed cfg p) i k) s) = Inr ()"
    by (simp_all add: plain_ignoreE_Inr)
qed

lemma delete_returns:
  fixes s :: "'z node_scheme"
  assumes c: "map_of (vms s) (in_sandbox_id inst) = Some c" "c < length (cells s)" and ns: "sv_netns (cells s ! c) = None"
  obtains s' where "instance_delete E (via E Ed cfg) inst s = (Inr (), s')"
    and "1 < sv_container_count (cells s ! c) \<longrightarrow> vms s' = vms s \<and> c < length (cells s') \<and> sv_netns (cells s' ! c) = None"
proof -
  let ?v = "(cells s ! c)\<lparr>sv_container_count := sv_container_count (cells s ! c) - 1\<rparr>"
  let ?s = "s\<lparr>cells := (cells s)[c := ?v]\<rparr>"
  let ?sock = "sv_daemon_socket (cells s ! c)" and ?i = "sv_daemon_vm_id (cells s ! c)"
  obtain t where t: "ignoreE (release_sandbox (via E Ed cfg ?sock) ?i) ?s = (Inr (), t)"
    using request_returns(1) by (metis prod.collapse)
  obtain u where u: "ignoreE (client_delete_container (via E Ed cfg ?sock) ?i (in_id inst)) ?s = (Inr (), u)"
    using request_returns(2) by (metis prod.collapse)
  have "snd (client_delete_container (via E Ed cfg ?sock) ?i (in_id inst) ?s) = u" using u by (metis snd_conv snd_ignoreE)
  then have "u = snd (via E Ed cfg ?sock (delete_request ?i (in_id inst)) ?s)" using sys.client_state(2) [of E Ed cfg ?sock ?i "in_id inst" ?s] by simp
  then have own: "cells u = cells ?s" "vms u = vms s" by (simp_all add: sys.svc_frame)
  show thesis
  proof (cases "sv_container_count (cells s ! c) \<le> 1")
    case True
    have "instance_delete E (via E Ed cfg) inst s = thenE (thenE (ignoreE (release_sandbox (via E Ed cfg ?sock) ?i))
        (thenE (cleanup_vm E ?v) (drop_vm (in_sandbox_id inst)))) (set_exit E (in_id inst) 0) ?s"
      using c True by (simp add: instance_delete_def get_vm_def fetch_count_def prog_simps Let_def)
    also have "\<dots> = thenE (drop_vm (in_sandbox_id inst)) (set_exit E (in_id inst) 0) t"
      using ns by (simp add: thenE_apply t cleanup_vm_def retE_def drop_vm_def modE_def)
    finally show thesis using True by (intro that) (simp_all add: drop_vm_def set_exit_def thenE_apply bindE_def modE_def wall_now_def leD)
  next
    case False
    have "instance_delete E (via E Ed cfg) inst s = thenE (ignoreE (client_delete_container (via E Ed cfg ?sock) ?i (in_id inst)))
        (set_exit E (in_id inst) 0) ?s"
      using c False by (simp add: instance_delete_def get_vm_def fetch_count_def prog_simps Let_def)
    also have "\<dots> = set_exit E (in_id inst) 0 u" by (simp add: thenE_apply u)
    also have "\<dots> = (Inr (), snd (set_exit E (in_id inst) 0 u))" by (simp add: set_exit_def bindE_def modE_def wall_now_def)
    finally show thesis by (rule that) (use c ns own in \<open>simp add: set_exit_def bindE_def modE_def wall_now_def log_call_def\<close>)
  qed
qed


text \<open>The client's view of the two kinds of answers.\<close>

lemma acquire_client:
  "call (acquire_request E a) s = (Inr (vm_json vm w n tap), s') \<Longrightarrow> acquire_sandbox E call a s =
     (Inr \<lparr>av_vm_id = vm_id vm, av_ch_pid = vm_ch_pid vm, av_from_snapshot = w, av_container_pid = word_of_nat n, av_tap_name = tap\<rparr>, s')"
  "call (acquire_request E a) s = (Inr (err_json e), s') \<Longrightarrow> acquire_sandbox E call a s = (Inl (msg (''daemon AcquireSandbox: '' @ e)), s')"
  by (simp_all add: acquire_sandbox_def vm_json_def err_json_def check_error_def u32_field_def str_field_def prog_simps)



lemma agent_for_Inr:
  assumes "agent_for E i vsock s = (Inr ag, s')" shows "map_of (agents s') i = Some ag"
  using assms by (auto simp: agent_for_def inr_simps update_conv' split: option.splits elim!: bindE_InrE thenE_InrE)

lemma run_container_Inr:
  fixes s :: "'z daemon_scheme"
  assumes run: "run_container_in_vm E p s = (Inr (pid, tap), s')" and netns: "rp_netns p = []"
  obtains ag h where "map_of (agents s') (rp_vm_id p) = Some ag"
    and "calls s' = h @ [RpcRunContainer ag (rp_container_id p) (oci_config E (rp_config_json_b64 p)) 1]"
    and "ans_nat E h (RpcRunContainer ag (rp_container_id p) (oci_config E (rp_config_json_b64 p)) 1) = Inr pid"
proof -
  obtain ag s1 s2 where a: "agent_for E (rp_vm_id p) (rp_vsock_socket p) s1 = (Inr ag, s2)"
    and rpc: "ans_nat E (calls s2) (RpcRunContainer ag (rp_container_id p) (oci_config E (rp_config_json_b64 p)) 1) = Inr pid"
    and s': "s' = log_call (RpcRunContainer ag (rp_container_id p) (oci_config E (rp_config_json_b64 p)) 1) s2"
    using run unfolding run_container_in_vm_def netns
    by (auto elim!: bindE_InrE thenE_InrE simp: inr_simps)
  show thesis using agent_for_Inr [OF a] rpc s' by (intro that [of ag "calls s2"]) (simp_all add: log_call_def)
qed

text \<open>
  A container's configuration arrives unchanged and its process id comes back: when the client's \<^verbatim>\<open>add_container\<close> returns, the
  VM was registered with the daemon, and the last thing the daemon did was to ask the agent of that VM to run the container with the
  OCI configuration that the shim had read, byte for byte; the result is the process id that the agent answered with, in 32 bits. This
  relies on base64: decoding undoes encoding, and only the empty text has an empty encoding.
\<close>

theorem container_config_arrives:
  fixes s :: "'z node_scheme"
  assumes b64: "\<forall>x. b64_decode Ed (b64_encode E x) = Some x" "\<forall>x. x \<noteq> [] \<longrightarrow> b64_encode E x \<noteq> []" and x: "x \<noteq> []"
    and run: "add_container E (via E Ed cfg p) i f k x s = (Inr pid, s')"
  shows "\<exists>vm ag h n. map_of (active (the_daemon s)) i = Some vm \<and> map_of (agents (the_daemon s')) i = Some ag \<and>
    calls (the_daemon s') = h @ [RpcRunContainer ag k x 1] \<and> ans_nat Ed h (RpcRunContainer ag k x 1) = Inr n \<and> pid = word_of_nat n"
proof -
  obtain resp s1 where v: "via E Ed cfg p (add_request E i f k x) s = (Inr resp, s1)"
    and rest: "thenE (check_error resp ''AddContainer'') (retE (u32_field ''container_pid'' 0 resp)) s1 = (Inr pid, s')"
    using run unfolding add_container_def by (rule bindE_InrE)
  obtain d where "dispatch Ed cfg (add_request E i f k x) (the_daemon s) = (Inr resp, d)" and s1: "s1 = s\<lparr>the_daemon := d\<rparr>"
    using v by (auto simp: via_Inr)
  then have h: "handle_add_container Ed (add_request E i f k x) (the_daemon s) = (Inr resp, d)" by (simp add: dispatch_def)
  have noerr: "Option.bind (j_get ''error'' resp) as_str = None"
    using rest by (cases "Option.bind (j_get ''error'' resp) as_str") (auto simp: check_error_def thenE_apply failE_def)
  then have pid: "pid = u32_field ''container_pid'' 0 resp" "s' = s1" using rest by (simp_all add: check_error_def thenE_apply retE_def)
  let ?f = "\<lambda>vm. \<lparr>rp_api_socket = vm_api_socket vm, rp_vsock_socket = vm_vsock_socket vm, rp_vm_id = i,
     rp_netns = [], rp_erofs_path = f, rp_container_id = k, rp_config_json_b64 = b64_encode E x\<rparr>"
  have notmsg: "Option.bind (j_get ''error'' (err_json e)) as_str = Some e" for e by (simp add: err_json_def)
  obtain vm n tap where vm: "map_of (active (the_daemon s)) i = Some vm" "run_container_in_vm Ed (?f vm) (the_daemon s) = (Inr (n, tap), d)"
    and resp: "resp = JObj [(''container_pid'', JNum n)]"
    using h noerr
    by (auto simp: handle_add_container_def add_request_def str_field_def Let_def inr_simps get_active_def notmsg split: if_splits option.splits sum.splits
        elim!: bindE_InrE dest!: catchE_Inr_cases)
  have cfg: "oci_config Ed (b64_encode E x) = x" using b64 x by (simp add: oci_config_def)
  obtain ag h where "map_of (agents d) i = Some ag" "calls d = h @ [RpcRunContainer ag k x 1]" "ans_nat Ed h (RpcRunContainer ag k x 1) = Inr n"
    using run_container_Inr [OF vm(2)] cfg by auto
  then show ?thesis using vm(1) pid s1 resp by (auto simp: u32_field_def)
qed

theorem container_config_arrives_witness:
  "\<exists>s' h. add_container live_env (via live_env boot_env sample_cfg ''/s'') ''vm'' ''/e'' ''a'' ''{conf}''
      (small_node\<lparr>the_daemon := small_daemon\<lparr>active := [(''vm'', sample_vm)]\<rparr>\<rparr>) = (Inr 42, s') \<and>
     calls (the_daemon s') = h @ [RpcRunContainer 42 ''a'' ''{conf}'' 1]"
proof -
  let ?s = "small_node\<lparr>the_daemon := small_daemon\<lparr>active := [(''vm'', sample_vm)]\<rparr>\<rparr>"
  let ?m = "add_container live_env (via live_env boot_env sample_cfg ''/s'') ''vm'' ''/e'' ''a'' ''{conf}''"
  have run: "fst (?m ?s) = Inr 42" and ag: "map_of (agents (the_daemon (snd (?m ?s)))) ''vm'' = Some 42"
    by (simp_all add: add_container_def via_def dispatch_def handle_add_container_def add_request_def str_field_def get_active_def
      run_container_in_vm_def agent_for_def connect_agent_def api_request_with_body_def api_request_def slice_to_def is_char_boundary_def starts_with_def
      check_error_def u32_field_def Let_def prog_simps log_call_def cong: prog_congs)
  then obtain s' where m: "?m ?s = (Inr 42, s')" by (metis prod.collapse)
  have "\<forall>x. b64_decode boot_env (b64_encode live_env x) = Some x" "\<forall>x. x \<noteq> [] \<longrightarrow> b64_encode live_env x \<noteq> []" "''{conf}'' \<noteq> []"
    by (simp_all add: boot_env_def)
  from container_config_arrives [OF this m] ag m show ?thesis by auto
qed


text \<open>A node whose daemon has a snapshot of one image.\<close>

definition warm_node :: node where
  "warm_node = small_node\<lparr>the_daemon := small_daemon\<lparr>snapshots := [(''k'', \<lparr>se_dir = ''/c/k'', se_last_used = 0, se_erofs_mtime = None\<rparr>)]\<rparr>\<rparr>"


end
