(* ===== verification/GuestLink.thy ===== *)
theory GuestLink
  imports AgentWire System
begin

text \<open>
  The daemon and the agent of a VM, joined: the requests that \<^verbatim>\<open>api.rs\<close> builds, sent through the generated client to the
  handlers of the agent. In the daemon's model an RPC is a call that the environment answers; \<open>guest_serves\<close> says
  that for one connection these answers are those of the agent behind the wire, in the state \<open>G h\<close> in which the agent
  is when the calls \<open>h\<close> have been made. The properties follow a value from the shim to the agent and back.
\<close>

section \<open>The requests of the daemon\<close>

definition run_request :: "'u pb_runtime \<Rightarrow> string \<Rightarrow> string \<Rightarrow> nat \<Rightarrow> 'u CreateContainerRequestMsg" where
  "run_request rt container_id config_json layers =
     (CreateContainerRequest_new rt)\<lparr>ccr_container_id := container_id, ccr_config_json := str_bytes config_json,
        ccr_rootfs_preattached := False, ccr_erofs_layers := of_nat layers\<rparr>"

definition kill_message :: "'u pb_runtime \<Rightarrow> string \<Rightarrow> nat \<Rightarrow> 'u KillContainerRequestMsg" where
  "kill_message rt container_id signal =
     (KillContainerRequest_new rt)\<lparr>kcr_container_id := container_id, kcr_signal := of_nat signal\<rparr>"

definition wait_message :: "'u pb_runtime \<Rightarrow> string \<Rightarrow> 'u WaitContainerRequestMsg" where
  "wait_message rt container_id = (WaitContainerRequest_new rt)\<lparr>wcr_container_id := container_id\<rparr>"

definition delete_message :: "'u pb_runtime \<Rightarrow> string \<Rightarrow> 'u DeleteContainerRequestMsg" where
  "delete_message rt container_id = (DeleteContainerRequest_new rt)\<lparr>dcr_container_id := container_id\<rparr>"

definition configure_message :: "'u pb_runtime \<Rightarrow> string \<Rightarrow> string \<Rightarrow> nat \<Rightarrow> 'u ConfigureNetworkRequestMsg" where
  "configure_message rt ip gw prefix_len =
     (ConfigureNetworkRequest_new rt)\<lparr>cnr_ip_address := ip, cnr_gateway := gw, cnr_prefix_len := of_nat prefix_len, cnr_device := ''eth0''\<rparr>"

text \<open>What the daemon makes of a response: the fields it reads, or the printed error.\<close>

definition outcome :: "ttrpc_runtime \<Rightarrow> ('p \<Rightarrow> 'a) \<Rightarrow> (ttrpc_error + 'p) \<times> 's \<Rightarrow> os_err + 'a" where
  "outcome tt f r = (case fst r of Inl e \<Rightarrow> Inl (None, tt_show tt e) | Inr resp \<Rightarrow> Inr (f resp))"

definition guest_serves :: "ttrpc_runtime \<Rightarrow> 'u pb_runtime \<Rightarrow> manager connection \<Rightarrow> (call list \<Rightarrow> manager) \<Rightarrow> env \<Rightarrow> nat \<Rightarrow> bool" where
  "guest_serves tt rt conn G Ed ag \<longleftrightarrow>
     (\<forall>h i cfg layers. ans_nat Ed h (RpcRunContainer ag i cfg layers) =
        outcome tt (\<lambda>resp. unat (scs_pid resp)) (AgentServiceClient_run_container tt rt conn (run_request rt i cfg layers) (G h))) \<and>
     (\<forall>h i sig. ans_unit Ed h (RpcKill ag i sig) =
        outcome tt (\<lambda>_. ()) (AgentServiceClient_kill_container tt rt conn (kill_message rt i sig) (G h))) \<and>
     (\<forall>h i. ans_exit Ed h (RpcWait ag i) =
        outcome tt (\<lambda>resp. (unat (wcs_exit_status resp), wcs_exited_at resp))
          (AgentServiceClient_wait_container tt rt conn (wait_message rt i) (G h))) \<and>
     (\<forall>h i. ans_unit Ed h (RpcDelete ag i) =
        outcome tt (\<lambda>_. ()) (AgentServiceClient_delete_container tt rt conn (delete_message rt i) (G h))) \<and>
     (\<forall>h ip gw n. ans_unit Ed h (RpcConfigureNetwork ag ip gw n ''eth0'' []) =
        outcome tt (\<lambda>_. ()) (AgentServiceClient_configure_network tt rt conn (configure_message rt ip gw n) (G h)))"

section \<open>From the daemon to the handlers\<close>

lemma message_new_ok [simp]: "string_ok []"
  by (simp add: string_ok_def ascii_utf8 ascii_def)

lemma run_request_ok:
  "string_ok i \<Longrightarrow> length cfg < 2 ^ 32 \<Longrightarrow> CreateContainerRequest_ok rt (run_request rt i cfg layers)"
  by (simp add: CreateContainerRequest_ok_def run_request_def CreateContainerRequest_new_def SpecialFields_new_def bytes_ok_def)

lemma wait_message_ok: "string_ok i \<Longrightarrow> WaitContainerRequest_ok rt (wait_message rt i)"
  by (simp add: WaitContainerRequest_ok_def wait_message_def WaitContainerRequest_new_def SpecialFields_new_def)

lemma request_of_run:
  "request_of (run_request rt i cfg layers) =
     \<lparr>cr_container_id = i, cr_volumes = [], cr_config_json = cfg, cr_rootfs_preattached = False, cr_erofs_layers = layers mod 2 ^ 32\<rparr>"
  by (simp add: request_of_def run_request_def CreateContainerRequest_new_def unat_of_nat take_bit_eq_mod)

lemma run_answered:
  assumes "protobuf_runtime rt" "agent_connection tt rt Ea during v conn" "guest_serves tt rt conn G Ed ag"
    and "string_ok i" "length cfg < 2 ^ 32" and "ans_nat Ed h (RpcRunContainer ag i cfg layers) = Inr n"
  obtains pid g where "run_container Ea (request_of (run_request rt i cfg layers)) (G h) = (Inr pid, g)" and "n = unat pid"
proof -
  have "outcome tt (\<lambda>resp. unat (scs_pid resp)) (AgentServiceClient_run_container tt rt conn (run_request rt i cfg layers) (G h)) = Inr n"
    using assms(3,6) by (simp add: guest_serves_def)
  then show thesis
    unfolding run_wire [OF assms(1,2) run_request_ok [OF assms(4,5)]]
    by (auto simp: outcome_def intro: that split: prod.splits sum.splits)
qed

lemma wait_answered:
  assumes "protobuf_runtime rt" "agent_connection tt rt Ea during v conn" "guest_serves tt rt conn G Ed ag" and "string_ok i"
    and "\<And>code at g. wait_container Ea during i (G h) = (Inr (code, at), g) \<Longrightarrow> string_ok at"
    and "ans_exit Ed h (RpcWait ag i) = Inr (n, at)"
  obtains code g where "wait_container Ea during i (G h) = (Inr (code, at), g)" and "n = unat code"
proof -
  have i: "wcr_container_id (wait_message rt i) = i" by (simp add: wait_message_def)
  have "outcome tt (\<lambda>resp. (unat (wcs_exit_status resp), wcs_exited_at resp))
      (AgentServiceClient_wait_container tt rt conn (wait_message rt i) (G h)) = Inr (n, at)"
    using assms(3,6) by (simp add: guest_serves_def)
  moreover have "AgentServiceClient_wait_container tt rt conn (wait_message rt i) (G h) =
    (case wait_container Ea during i (G h) of
       (Inl e, s') \<Rightarrow> (Inl (tt_service_error tt (handler_error e)), s')
     | (Inr (code, at), s') \<Rightarrow> (Inr ((WaitContainerResponse_new rt)\<lparr>wcs_exit_status := code, wcs_exited_at := at\<rparr>), s'))"
    using wait_wire [OF assms(1,2) wait_message_ok [OF assms(4)], of "G h"] assms(5) i by simp
  ultimately show thesis
    by (auto simp: outcome_def intro: that split: prod.splits sum.splits)
qed

text \<open>Calls that were made stay made.\<close>

abbreviation made :: "call \<Rightarrow> 'z world_scheme \<Rightarrow> bool" where
  "made c \<equiv> \<lambda>s. c \<in> set (calls s)"

lemma made_calls:
  fixes m :: "('z world_scheme, 'a) prog"
  assumes m: "only_calls m" shows "preserves (made c) m"
proof (rule preservesI)
  fix s :: "'z world_scheme" assume c: "made c s"
  obtain cs where "snd (m s) = s\<lparr>calls := calls s @ cs\<rparr>" using m unfolding only_calls_def by blast
  then show "made c (snd (m s))" using c by simp
qed

lemma made_discover: "preserves (made c) (discover_block_device E)"
  unfolding discover_block_device_def
  by (intro preserves_bindE preserves_getE made_calls [OF only_calls_container(1)])
    (auto simp: preserves_def prog_simps split: list.split)

lemma made_volume_mounts: "preserves (made c) (volume_mounts E vols)"
  by (induction vols) (auto intro!: wp_rules made_discover)

lemma made_adapt: "preserves (made c) (adapt_oci_spec_for_vm E b vols)"
  unfolding adapt_oci_spec_for_vm_def Let_def
  by (intro preserves_bindE made_volume_mounts made_calls frame_rules)

lemma preserves_run: "preserves P m \<Longrightarrow> m s = (r, s') \<Longrightarrow> P s \<Longrightarrow> P s'"
  using preservesD [of P m s] by simp

lemma prepare_writes_config:
  fixes s :: "'z world_scheme"
  assumes run: "prepare_bundle E i vs cfg n s = (Inr (), s')" and cfg: "cfg \<noteq> []"
  shows "FsWrite (join_path (bundle_dir i) ''config.json'') cfg \<in> set (calls s')"
proof -
  let ?b = "bundle_dir i" and ?c = "FsWrite (join_path (bundle_dir i) ''config.json'') cfg"
  let ?rest = "bindE (askb E (FsExists (join_path (join_path ?b ''_disk'') ''volumes''))) (\<lambda>d.
        if d then bindE (askb E (FsExists (join_path ?b ''volumes''))) (\<lambda>b.
               if b then retE ()
               else ctxE ''symlink disk volumes to bundle''
                 (ask (ans_unit E) (FsSymlink (join_path (join_path ?b ''_disk'') ''volumes'') (join_path ?b ''volumes''))))
        else retE ()) :: ('z world_scheme, unit) prog"
  obtain s1 s2 where w: "write_volumes E ?b vs (log_call ?c s1) = (Inr (), s2)" and r: "?rest s2 = (Inr (), s')"
    using run cfg unfolding prepare_bundle_def Let_def by (auto simp: inr_simps elim!: thenE_InrE)
  have "preserves (made ?c) (write_volumes E ?b vs :: ('z world_scheme, unit) prog)" by (intro made_calls frame_rules)
  from preserves_run [OF this w] have "made ?c s2" by (simp add: log_call_def)
  moreover have "preserves (made ?c) ?rest" by (intro made_calls frame_rules)
  ultimately have "made ?c (snd (?rest s2))" by (intro preservesD [where P = "made ?c"])
  then show ?thesis by (simp only: r snd_conv)
qed

lemma run_writes_config:
  fixes s :: "'z manager_scheme"
  assumes run: "run_container E req s = (Inr pid, s')" and cfg: "cr_config_json req \<noteq> []"
  shows "FsWrite (join_path (bundle_dir (cr_container_id req)) ''config.json'') (cr_config_json req) \<in> set (calls s')"
proof -
  let ?i = "cr_container_id req" and ?c = "FsWrite (join_path (bundle_dir (cr_container_id req)) ''config.json'') (cr_config_json req)"
  obtain p s1 where c: "create E ?i (proto_volumes_to_info (cr_volumes req)) (cr_config_json req) (cr_rootfs_preattached req) (cr_erofs_layers req) s = (Inr p, s1)"
    and st: "start E ?i s1 = (Inr pid, s')"
    using run by (auto simp: run_container_def inr_simps run_def elim!: thenE_InrE)
  obtain s2 s3 where b: "prepare_bundle E ?i (proto_volumes_to_info (cr_volumes req)) (cr_config_json req) (cr_erofs_layers req) s = (Inr (), s2)"
    and a: "adapt_oci_spec_for_vm E (bundle_dir ?i) (proto_volumes_to_info (cr_volumes req)) s2 = (Inr (), s3)" and s1: "calls s1 = calls s3"
    using c by (auto simp: create_def inr_simps split: if_splits elim!: thenE_InrE)
  have "?c \<in> set (calls s3)"
    using preserves_run [OF made_adapt a] prepare_writes_config [OF b cfg] by blast
  moreover have "set (calls s1) \<subseteq> set (calls s')"
    using st by (auto simp: start_def prog_simps log_call_def Let_def register_started_def split: option.splits sum.splits)
  ultimately show ?thesis using s1 by auto
qed

section \<open>From the shim to the agent and back\<close>


text \<open>A daemon whose connections all lead to one agent, which has a container that ended with status 3.\<close>

definition at_once :: "manager \<Rightarrow> wait_event \<times> manager" where
  "at_once s = (TimedOut, s)"

definition guest_env :: env where
  "guest_env = live_env\<lparr>ans_bytes := \<lambda>_ _. Inr (zeros 32)\<rparr>"

lemma guest_env_sel [simp]:
  "ans_unit guest_env h c = Inr ()" "ans_bool guest_env h c" "ans_nat guest_env h c = Inr (case c of Ch _ \<Rightarrow> 200 | _ \<Rightarrow> 42)"
  "ans_clock guest_env h = 0" "ans_str guest_env h c = Inr []" "ans_strs guest_env h c = Inr []" "ans_opt guest_env h c = None"
  "process_id guest_env = 1234" "loop_fuel guest_env = 1" "json_parse guest_env x = Some (JObj [])" "json_print guest_env j = []"
  "json_pretty guest_env j = []" "ans_code guest_env h c = Inr (Some 0)" "ans_try guest_env h c = Inr (Some (Some 0))" "ans_time guest_env h = []"
  "ans_bytes guest_env h c = Inr (zeros 32)"
  by (simp_all add: guest_env_def)

definition guest_conn :: "manager connection" where
  "guest_conn = direct (server_services tt0 wire (AgentServiceHandler guest_env at_once wire) (HealthServiceHandler ''0'' wire))"

definition guest_state :: manager where
  "guest_state = \<lparr>calls = [], containers = [(''a'', \<lparr>ct_pid = Some 1, ct_exit_code = None, ct_state = Running\<rparr>)], known_disks = [],
     exit_receivers = [(''a'', 0)], logs = [], channels = [Some \<lparr>es_code = 3, es_exited_at = ''now''\<rparr>], buffers = [], jobs = []\<rparr>"

definition linked_env :: env where
  "linked_env = boot_env\<lparr>
     ans_nat := \<lambda>h c. case c of
         Guest (R_Run ag i cfg layers) \<Rightarrow>
           outcome tt0 (\<lambda>resp. unat (scs_pid resp)) (AgentServiceClient_run_container tt0 wire guest_conn (run_request wire i cfg layers) guest_state)
       | _ \<Rightarrow> ans_nat boot_env h c,
     ans_unit := \<lambda>h c. case c of
         Guest (R_Kill ag i sig) \<Rightarrow> outcome tt0 (\<lambda>_. ()) (AgentServiceClient_kill_container tt0 wire guest_conn (kill_message wire i sig) guest_state)
       | Guest (R_Delete ag i) \<Rightarrow> outcome tt0 (\<lambda>_. ()) (AgentServiceClient_delete_container tt0 wire guest_conn (delete_message wire i) guest_state)
       | Guest (R_ConfigureNetwork ag ip gw n dev hw) \<Rightarrow>
           outcome tt0 (\<lambda>_. ()) (AgentServiceClient_configure_network tt0 wire guest_conn (configure_message wire ip gw n) guest_state)
       | _ \<Rightarrow> Inr (),
     ans_exit := \<lambda>h c. case c of
         Guest (R_Wait ag i) \<Rightarrow>
           outcome tt0 (\<lambda>resp. (unat (wcs_exit_status resp), wcs_exited_at resp)) (AgentServiceClient_wait_container tt0 wire guest_conn (wait_message wire i) guest_state)
       | _ \<Rightarrow> ans_exit boot_env h c\<rparr>"

lemma linked_env_sel [simp]:
  "ans_bool linked_env h c = ans_bool boot_env h c" "ans_clock linked_env h = ans_clock boot_env h" "ans_line linked_env h c = ans_line boot_env h c"
  "loop_fuel linked_env = 1" "ans_unit linked_env h (Ch a) = Inr ()" "ans_nat linked_env h (Ch a) = Inr 200" "ans_str linked_env h c = Inr []"
  "ans_unit linked_env h (VsockConnect q) = Inr ()" "ans_unit linked_env h (VsockWrite q y) = Inr ()" "ans_nat linked_env h (VsockOpen q) = Inr 42"
  "json_print linked_env j = []" "b64_decode linked_env y = Some y" "os_text linked_env e = []" "ans_unit linked_env h (VsockOpen q) = Inr ()"
  by (simp_all add: linked_env_def boot_env_def live_env_def calm_env_def)

lemma linked_guest: "agent_connection tt0 wire guest_env at_once ''0'' guest_conn" "guest_serves tt0 wire guest_conn (\<lambda>_. guest_state) linked_env ag"
  by (simp_all add: agent_connection_def guest_conn_def delivers_direct guest_serves_def linked_env_def)

lemma short_ok: "string_ok ''a''" "string_ok ''now''"
  by (simp_all add: string_ok_def ascii_utf8 ascii_def)

lemma linked_run: "ans_nat linked_env h (RpcRunContainer ag ''a'' ''{conf}'' 1) = Inr 42"
proof -
  have req: "request_of (run_request wire ''a'' ''{conf}'' 1) =
      \<lparr>cr_container_id = ''a'', cr_volumes = [], cr_config_json = ''{conf}'', cr_rootfs_preattached = False, cr_erofs_layers = 1\<rparr>"
    by (simp add: request_of_run)
  have "fst (run_container guest_env (request_of (run_request wire ''a'' ''{conf}'' 1)) guest_state) = Inr 42"
    unfolding req by (simp add: run_container_def run_def create_def prepare_bundle_def compose_rootfs_def mount_layer_def
      eval_nat_numeral adapt_oci_spec_for_vm_def start_def register_started_def map_err_def proto_volumes_to_info_def Let_def prog_simps
      parse_json_def log_call_def update_conv' cong: prog_congs)
  moreover have "CreateContainerRequest_ok wire (run_request wire ''a'' ''{conf}'' 1)" by (rule run_request_ok) (simp_all add: short_ok)
  ultimately show ?thesis
    by (cases "run_container guest_env (request_of (run_request wire ''a'' ''{conf}'' 1)) guest_state")
      (simp add: linked_env_def outcome_def run_wire [OF wire_laws linked_guest(1)])
qed


text \<open>
  C8: The exit status of a container comes back unchanged: when the shim's \<^verbatim>\<open>wait_container\<close> returns an exit status and a time, the agent of the VM has answered a
  wait for that container with exactly these; an error of the agent or a VM without an agent never shows up as an exit status.
\<close>

theorem exit_status_returns:
  fixes s :: "'z node_scheme"
  assumes rt: "protobuf_runtime rt" and conn: "agent_connection tt rt Ea during v conn"
    and guest: "\<forall>ag. map_of (agents (the_daemon s)) i = Some ag \<longrightarrow> guest_serves tt rt conn G Ed ag"
    and time: "\<forall>h code t g. wait_container Ea during k (G h) = (Inr (code, t), g) \<longrightarrow> string_ok t"
    and k: "string_ok k"
    and wait: "client_wait_container (via E Ed cfg p) i k s = (Inr (code, t), s')"
  shows "\<exists>ag h g. map_of (agents (the_daemon s)) i = Some ag \<and> calls (the_daemon s') = h @ [RpcWait ag k] \<and>
     wait_container Ea during k (G h) = (Inr (code, t), g)"
proof -
  obtain resp s1 where v: "via E Ed cfg p (wait_request i k) s = (Inr resp, s1)"
    and rest: "thenE (check_error resp ''WaitContainer'') (retE (u32_field ''exit_status'' 137 resp, str_field ''exited_at'' [] resp)) s1 = (Inr (code, t), s')"
    using wait unfolding client_wait_container_def by (rule bindE_InrE)
  obtain d where "dispatch Ed cfg (wait_request i k) (the_daemon s) = (Inr resp, d)" and s1: "s1 = s\<lparr>the_daemon := d\<rparr>"
    using v by (auto simp: via_Inr)
  then have d: "handle_wait_container Ed (wait_request i k) (the_daemon s) = (Inr resp, d)" by (simp add: dispatch_def wait_request_def str_field_def)
  have noerr: "Option.bind (j_get ''error'' resp) as_str = None"
    using rest by (cases "Option.bind (j_get ''error'' resp) as_str") (auto simp: check_error_def thenE_apply failE_def)
  then have ct: "code = u32_field ''exit_status'' 137 resp" "t = str_field ''exited_at'' [] resp" "s' = s1"
    using rest by (simp_all add: check_error_def thenE_apply retE_def)
  obtain ag n t' where ag: "map_of (agents (the_daemon s)) i = Some ag"
    and n: "ans_exit Ed (calls (the_daemon s)) (RpcWait ag k) = Inr (n, t')" and dd: "d = log_call (RpcWait ag k) (the_daemon s)"
    and resp: "resp = JObj [(''exit_status'', JNum n), (''exited_at'', JStr t')]"
    using d noerr
    by (auto simp: handle_wait_container_def wait_request_def str_field_def err_json_def Let_def prog_simps of_os_def
        split: option.splits sum.splits prod.splits)
  have "guest_serves tt rt conn G Ed ag" using guest ag by blast
  from wait_answered [OF rt conn this k _ n] time obtain code' g
    where "wait_container Ea during k (G (calls (the_daemon s))) = (Inr (code', t'), g)" "n = unat code'" by blast
  then show ?thesis using ag dd ct s1 resp by (auto simp: u32_field_def str_field_def log_call_def)
qed

theorem exit_status_returns_witness:
  "\<exists>s' h. client_wait_container (via live_env linked_env sample_cfg ''/s'') ''vm'' ''a''
      (small_node\<lparr>the_daemon := small_daemon\<lparr>agents := [(''vm'', 42)]\<rparr>\<rparr>) = (Inr (3, ''now''), s') \<and>
     calls (the_daemon s') = h @ [RpcWait 42 ''a'']"
proof -
  let ?s = "small_node\<lparr>the_daemon := small_daemon\<lparr>agents := [(''vm'', 42)]\<rparr>\<rparr>"
  let ?m = "client_wait_container (via live_env linked_env sample_cfg ''/s'') ''vm'' ''a''"
  have w: "wait_container guest_env at_once ''a'' guest_state = (Inr (3, ''now''), snd (wait_container guest_env at_once ''a'' guest_state))"
    by (simp add: wait_container_def wait_begin_def get_exit_receiver_def mark_stopped_def guest_state_def prog_simps)
  then have t: "string_ok t" if "wait_container guest_env at_once ''a'' guest_state = (Inr (code, t), g)" for code t g
    using that short_ok(2) by simp
  have i: "wcr_container_id (wait_message wire ''a'') = ''a''" by (simp add: wait_message_def)
  have "ans_exit linked_env h (RpcWait 42 ''a'') = Inr (3, ''now'')" for h
  proof -
    have "AgentServiceClient_wait_container tt0 wire guest_conn (wait_message wire ''a'') guest_state =
        (Inr ((WaitContainerResponse_new wire)\<lparr>wcs_exit_status := 3, wcs_exited_at := ''now''\<rparr>), snd (wait_container guest_env at_once ''a'' guest_state))"
      by (subst wait_wire [OF wire_laws linked_guest(1) wait_message_ok [OF short_ok(1)]], use t i in simp, unfold i, subst w, simp)
    then show ?thesis by (simp add: linked_env_def outcome_def)
  qed
  then have "fst (?m ?s) = Inr (3, ''now'')"
    by (simp add: client_wait_container_def via_def dispatch_def handle_wait_container_def wait_request_def str_field_def u32_field_def
      check_error_def Let_def prog_simps log_call_def)
  then obtain s' where m: "?m ?s = (Inr (3, ''now''), s')" by (metis prod.collapse)
  have "\<forall>ag. map_of (agents (the_daemon ?s)) ''vm'' = Some ag \<longrightarrow> guest_serves tt0 wire guest_conn (\<lambda>_. guest_state) linked_env ag"
    "\<forall>h code t g. wait_container guest_env at_once ''a'' ((\<lambda>_. guest_state) (h :: call list)) = (Inr (code, t), g) \<longrightarrow> string_ok t"
    using t by (simp_all add: linked_guest)
  from exit_status_returns [OF wire_laws linked_guest(1) this short_ok(1) m] m show ?thesis by auto
qed

end
