(* ===== verification/GuestNetwork.thy ===== *)
theory GuestNetwork
  imports GuestLink
begin

text \<open>
  The network of a pod in its VM: the address that the kernel reports for the pod's interface in its name space, read by the
  daemon with netlink, printed, sent to the agent, parsed there and set on the device of the guest.
\<close>

section \<open>What configuring an interface sends\<close>

lemma made_next_seq: "preserves (made c) next_seq"
  unfolding next_seq_def by (intro wp_rules) (auto simp: preserves_def prog_simps)

lemma made_nl_request: "preserves (made c) (nl_request E b)"
  unfolding nl_request_def nl_send_def recv_buf_def Let_def by (intro made_calls frame_rules)

lemma made_tolerate: "preserves (made c) m \<Longrightarrow> preserves (made c) (tolerate_exists m)"
  unfolding tolerate_exists_def by (intro wp_rules)

lemma made_requests:
  "preserves (made c) (set_link_up E idx)" "preserves (made c) (add_default_route E gw idx)" "preserves (made c) (add_address E idx ip p)"
  unfolding set_link_up_def add_default_route_def add_address_def by (intro preserves_bindE made_next_seq made_nl_request)+

lemma nl_request_sends: "made (NlSend b) (snd (nl_request E b s))"
proof -
  let ?rest = "bindE (recv_buf E (zeros 4096)) (\<lambda>(n, r). bindE (ofSumE (nl_error_code n r)) (\<lambda>e.
       if e \<noteq> 0 then failE (add_ctx ''netlink request'' (of_os (nl_os_err E e))) else retE ())) :: (netlink, unit) prog"
  have r: "preserves (made (NlSend b)) ?rest"
    unfolding recv_buf_def Let_def by (intro made_calls frame_rules)
  have "made (NlSend b) (snd (nl_send E b s))"
    by (simp add: nl_send_def prog_simps log_call_def split: sum.splits)
  then show ?thesis
    using preservesD [OF r, of "snd (nl_send E b s)"]
    unfolding nl_request_def thenE_apply by (cases "nl_send E b s") (auto split: sum.splits)
qed

lemma request_sends:
  "\<exists>seq. made (NlSend (address_msg idx ip p seq)) (snd (tolerate_exists (add_address E idx ip p) s))"
  "\<exists>seq. made (NlSend (default_route_msg gw idx seq)) (snd (tolerate_exists (add_default_route E gw idx) s))"
proof -
  have t: "snd (tolerate_exists m s) = snd (m s)" for m and s :: netlink
    by (cases "m s") (auto simp: tolerate_exists_def prog_simps split: sum.splits err.splits)
  show "\<exists>seq. made (NlSend (address_msg idx ip p seq)) (snd (tolerate_exists (add_address E idx ip p) s))"
    "\<exists>seq. made (NlSend (default_route_msg gw idx seq)) (snd (tolerate_exists (add_default_route E gw idx) s))"
    unfolding t add_address_def add_default_route_def next_seq_def by (auto simp: prog_simps intro!: exI nl_request_sends)
qed

lemma configure_interface_sends:
  fixes s :: "'z world_scheme"
  assumes run: "configure_interface E d ip p gw None s = (Inr (), s')"
  shows "\<exists>idx. (\<exists>seq. made (NlSend (address_msg idx ip p seq)) s') \<and>
    (\<forall>a. gw = Some a \<longrightarrow> (\<exists>seq. made (NlSend (default_route_msg a idx seq)) s'))"
proof -
  obtain t0 t1 t2 t3 t idx where
    a: "tolerate_exists (add_address E idx ip p) t1 = (Inr (), t2)" and u: "set_link_up E idx t2 = (Inr (), t3)"
    and r: "(case gw of None \<Rightarrow> retE () | Some gw \<Rightarrow> tolerate_exists (add_default_route E gw idx)) t3 = (Inr (), t)"
    and t: "calls s' = calls t"
    using run unfolding configure_interface_def
    by (auto simp: inr_simps with_netlink_def split: prod.splits elim!: thenE_InrE bindE_InrE)
  obtain seq where "made (NlSend (address_msg idx ip p seq)) t2" using request_sends(1) [of idx ip p E t1] a by auto
  from preserves_run [OF made_requests(1) u this] have "made (NlSend (address_msg idx ip p seq)) t3" .
  moreover have route: "preserves (made (NlSend (address_msg idx ip p seq))) (case gw of None \<Rightarrow> retE () | Some gw \<Rightarrow> tolerate_exists (add_default_route E gw idx))"
    by (auto intro: made_tolerate made_requests preserves_retE split: option.split)
  ultimately have "made (NlSend (address_msg idx ip p seq)) s'" using preserves_run [OF route r] t by simp
  moreover have "\<exists>seq. made (NlSend (default_route_msg b idx seq)) s'" if "gw = Some b" for b
    using request_sends(2) [of b idx E t3] r t that by auto
  ultimately show ?thesis by blast
qed

section \<open>The request of the daemon\<close>

lemma unat_byte: "unat (b :: u8) < 256"
  using unsigned_less [of b] by simp

lemma show_ipv4_ok: "string_ok (show_ipv4 a)"
proof -
  have l: "length (dec (unat b)) \<le> 3" for b :: u8
    using length_dec_le [of "unat b" 2] unat_byte [of b] by simp
  have "length (show_ipv4 a) \<le> 15"
    using l [of "octets a ! 0"] l [of "octets a ! 1"] l [of "octets a ! 2"] l [of "octets a ! 3"]
    by (simp add: show_ipv4_def octets_def)
  moreover have "ascii (show_ipv4 a)"
    using dec_ascii by (auto simp: show_ipv4_def octets_def ascii_def)
  ultimately show ?thesis by (simp add: string_ok_def ascii_utf8)
qed

lemma configure_message_ok:
  "string_ok i \<Longrightarrow> string_ok g \<Longrightarrow> ConfigureNetworkRequest_ok rt (configure_message rt i g n)"
  by (simp add: ConfigureNetworkRequest_ok_def configure_message_def ConfigureNetworkRequest_new_def SpecialFields_new_def)
    (simp add: string_ok_def ascii_utf8 ascii_def)

abbreviation gateway_text :: "ipv4 option \<Rightarrow> string" where
  "gateway_text gw \<equiv> case_option [] show_ipv4 gw"

lemma show_ipv4_not_Nil [simp]: "show_ipv4 a \<noteq> []"
  using parse_show_ipv4 [of a] by (auto simp: show_ipv4_def octets_def)

lemma configure_network_Inr:
  fixes s :: "'z world_scheme"
  assumes run: "configure_network E (show_ipv4 ip) (gateway_text gw) p ''eth0'' [] s = (Inr (), s')"
  shows "p \<le> 32 \<and> (\<exists>s1. configure_interface E ''eth0'' ip (word_of_nat p) gw None s1 = (Inr (), s'))"
proof -
  obtain s1 where w: "map_err (\<lambda>e. ''device wait: '' @ show_err e) (wait_for_device E ''eth0'') s = (Inr (), s1)"
    using run unfolding configure_network_def Let_def by (auto elim: thenE_InrE)
  have "(if 32 < p then (Inl (msg prefix_error), s1) else blocking_configure E ''eth0'' ip (word_of_nat p) gw None s1) = (Inr (), s')"
    using run configure_network_after_wait [of "[]" E "''eth0''" s s1 "show_ipv4 ip" "gateway_text gw" p] w
    by (cases gw) (auto simp: parse_show_ipv4)
  then show ?thesis
    by (auto simp: blocking_configure_def map_err_def split: if_splits prod.splits sum.splits err.splits)
qed

lemma configure_guest_network_cidr:
  "configure_guest_network E ag (show_ipv4 ip @ ''/'' @ dec (unat (p :: u8))) gw =
     ctxE ''configure_network RPC'' (ask (ans_unit E) (RpcConfigureNetwork ag (show_ipv4 ip) gw (unat p) ''eth0'' []))"
proof -
  have "unat p < 2 ^ 32" using unat_byte [of p] by simp
  then show ?thesis unfolding configure_guest_network_def split_cidr Let_def by (simp add: parse_uint_dec)
qed

section \<open>From the kernel of the host to the kernel of the guest\<close>


lemma guest_recv:
  "recv_buf guest_env (zeros 4096) s = (Inr (32, zeros 4096), log_call (NlRecv 4096) s)"
  "nl_error_code 32 (zeros 4096) = Inr 0" "i32_at (zeros 4096) 20 = Inr 0"
  by (simp_all add: recv_buf_def prog_simps zeros_def nl_error_code_def u16_at_def i32_at_def u32_at_def log_call_def Let_def flip: replicate_add)

lemma guest_request: "\<exists>t. nl_request guest_env b s = (Inr (), t)"
  by (simp add: nl_request_def nl_send_def prog_simps guest_recv)

lemma guest_requests:
  "\<exists>t. tolerate_exists (add_address guest_env idx ip p) s = (Inr (), t)"
  "\<exists>t. set_link_up guest_env idx s = (Inr (), t)"
  "\<exists>t. tolerate_exists (add_default_route guest_env gw idx) s = (Inr (), t)"
  "\<exists>t. retry_get_link_index guest_env d n w (Suc k) s = (Inr 0, t)"
proof -
  have r: "\<exists>t. bindE next_seq (\<lambda>seq. nl_request guest_env (f seq)) s = (Inr (), t)" for f and s :: netlink
    using guest_request by (simp add: next_seq_def prog_simps)
  show "\<exists>t. set_link_up guest_env idx s = (Inr (), t)" unfolding set_link_up_def by (rule r)
  show "\<exists>t. tolerate_exists (add_address guest_env idx ip p) s = (Inr (), t)"
    using r [of "address_msg idx ip p" s] by (auto simp: tolerate_exists_def add_address_def prog_simps)
  show "\<exists>t. tolerate_exists (add_default_route guest_env gw idx) s = (Inr (), t)"
    using r [of "default_route_msg gw idx" s] by (auto simp: tolerate_exists_def add_default_route_def prog_simps)
  show "\<exists>t. retry_get_link_index guest_env d n w (Suc k) s = (Inr 0, t)"
    by (simp add: get_link_index_def next_seq_def nl_send_def prog_simps guest_recv)
qed

lemma guest_configures:
  fixes s :: "'z world_scheme"
  shows "\<exists>t. configure_interface guest_env d ip p (Some gw) None s = (Inr (), t)"
proof -
  obtain s1 where o: "nl_open guest_env s = (Inr (), s1)" by (simp add: nl_open_def prog_simps)
  obtain t1 where "retry_get_link_index guest_env d 20 100 20 \<lparr>calls = calls s1, nl_seq = 1\<rparr> = (Inr 0, t1)"
    using guest_requests(4) [of d 20 100 19] by force
  moreover obtain t2 where "tolerate_exists (add_address guest_env 0 ip p) t1 = (Inr (), t2)" using guest_requests(1) by blast
  moreover obtain t3 where "set_link_up guest_env 0 t2 = (Inr (), t3)" using guest_requests(2) by blast
  moreover obtain t4 where "tolerate_exists (add_default_route guest_env gw 0) t3 = (Inr (), t4)" using guest_requests(3) by blast
  ultimately show ?thesis using o by (simp add: configure_interface_def with_netlink_def prog_simps)
qed

lemma linked_configures: "ans_unit linked_env h (RpcConfigureNetwork ag (show_ipv4 ip) (show_ipv4 gw) 16 ''eth0'' []) = Inr ()"
proof -
  let ?s = guest_state and ?req = "configure_message wire (show_ipv4 ip) (show_ipv4 gw) 16"
  have w: "\<exists>s1. map_err (\<lambda>e. ''device wait: '' @ show_err e) (wait_for_device guest_env ''eth0'') ?s = (Inr (), s1)"
    by (simp add: wait_for_device_def map_err_def Let_def prog_simps)
  then obtain s1 where "map_err (\<lambda>e. ''device wait: '' @ show_err e) (wait_for_device guest_env ''eth0'') ?s = (Inr (), s1)" by blast
  from configure_network_after_wait [of "[]" guest_env "''eth0''" ?s s1 "show_ipv4 ip" "show_ipv4 gw" 16] this
  have c: "configure_network guest_env (show_ipv4 ip) (show_ipv4 gw) 16 ''eth0'' [] ?s = blocking_configure guest_env ''eth0'' ip 16 (Some gw) None s1"
    by (simp add: parse_show_ipv4)
  obtain t where "configure_interface guest_env ''eth0'' ip 16 (Some gw) None s1 = (Inr (), t)" using guest_configures by blast
  then have "fst (configure_network guest_env (show_ipv4 ip) (show_ipv4 gw) 16 ''eth0'' [] ?s) = Inr ()"
    unfolding c by (simp add: blocking_configure_def map_err_def)
  moreover have "cnr_ip_address ?req = show_ipv4 ip" "cnr_gateway ?req = show_ipv4 gw" "cnr_prefix_len ?req = 16" "cnr_device ?req = ''eth0''" "cnr_mac ?req = []"
    by (simp_all add: configure_message_def ConfigureNetworkRequest_new_def)
  ultimately show ?thesis
    using configure_wire [OF wire_laws linked_guest(1) configure_message_ok [OF show_ipv4_ok [of ip] show_ipv4_ok [of gw], of wire 16], of ?s]
    by (cases "configure_network guest_env (show_ipv4 ip) (show_ipv4 gw) 16 ''eth0'' [] ?s")
      (simp add: linked_env_def outcome_def)
qed


end
