(* ===== verification/PoolRace.thy ===== *)
theory PoolRace
  imports Supply
begin

text \<open>
  Concurrent replenishments. The daemon spawns one task for each acquisition, on several threads; \<^verbatim>\<open>replenish_one\<close> looks at the pool under a
  lock that it gives up again, reads the allocator for the identifier, advances it for the CID, restores the VM and takes the lock a second
  time. Here these are steps of their own, and the tasks take them in any order.
\<close>

section \<open>Steps\<close>

datatype stage = Waiting | Checked | Named string | Drawn string u64 | Finished

type_synonym crew = "pool \<times> stage list"

inductive refill :: "env \<Rightarrow> DaemonConfig \<Rightarrow> crew \<Rightarrow> crew \<Rightarrow> bool" for E cfg where
  enough: "t < length st \<Longrightarrow> st ! t = Waiting \<Longrightarrow> pool_size cfg \<le> length (ready s) \<Longrightarrow> refill E cfg (s, st) (s, st[t := Finished])"
| check: "t < length st \<Longrightarrow> st ! t = Waiting \<Longrightarrow> length (ready s) < pool_size cfg \<Longrightarrow> refill E cfg (s, st) (s, st[t := Checked])"
| name: "t < length st \<Longrightarrow> st ! t = Checked \<Longrightarrow> refill E cfg (s, st) (s, st[t := Named (pool_vm_id E (next_cid s))])"
| draw: "t < length st \<Longrightarrow> st ! t = Named i \<Longrightarrow>
    refill E cfg (s, st) (s\<lparr>next_cid := next_cid s + 1\<rparr>, st[t := Drawn i (next_cid s)])"
| restored: "t < length st \<Longrightarrow> st ! t = Drawn i c \<Longrightarrow> restore_base E cfg i c s = (Inr vm, s') \<Longrightarrow>
    refill E cfg (s, st) (s'\<lparr>ready := ready s' @ [vm]\<rparr>, st[t := Finished])"
| failed: "t < length st \<Longrightarrow> st ! t = Drawn i c \<Longrightarrow> restore_base E cfg i c s = (Inl (Fail cs n), s') \<Longrightarrow>
    refill E cfg (s, st) (s', st[t := Finished])"

abbreviation refills :: "env \<Rightarrow> DaemonConfig \<Rightarrow> crew \<Rightarrow> crew \<Rightarrow> bool" where
  "refills E cfg \<equiv> (refill E cfg)\<^sup>*\<^sup>*"

inductive_cases refillE: "refill E cfg x y"

section \<open>One task alone\<close>

text \<open>Where a task that runs alone can be, after it started in \<open>s\<close>.\<close>

fun alone :: "env \<Rightarrow> DaemonConfig \<Rightarrow> pool \<Rightarrow> crew \<Rightarrow> bool" where
  "alone E cfg s (s', st) \<longleftrightarrow> length st = 1 \<and> (case st ! 0 of
      Waiting \<Rightarrow> s' = s
    | Checked \<Rightarrow> s' = s \<and> length (ready s) < pool_size cfg
    | Named i \<Rightarrow> s' = s \<and> length (ready s) < pool_size cfg \<and> i = pool_vm_id E (next_cid s)
    | Drawn i c \<Rightarrow> s' = s\<lparr>next_cid := next_cid s + 1\<rparr> \<and> length (ready s) < pool_size cfg \<and>
        i = pool_vm_id E (next_cid s) \<and> c = next_cid s
    | Finished \<Rightarrow> replenish_one E cfg s = (Inr (), s'))"

lemma replenish_steps:
  "replenish_one E cfg s = (if pool_size cfg \<le> length (ready s) then (Inr (), s)
     else case restore_base E cfg (pool_vm_id E (next_cid s)) (next_cid s) (s\<lparr>next_cid := next_cid s + 1\<rparr>) of
       (Inr vm, s') \<Rightarrow> (Inr (), s'\<lparr>ready := ready s' @ [vm]\<rparr>)
     | (Inl (Fail cs n), s') \<Rightarrow> (Inr (), s')
     | (Inl e, s') \<Rightarrow> (Inl e, s'))"
  by (simp add: replenish_one_def restore_one_def bindE_def getE_def catchE_def alloc_cid_apply retE_def push_ready_apply
      split: prod.split sum.split err.split)

lemma alone_step: "refill E cfg x y \<Longrightarrow> alone E cfg s x \<Longrightarrow> alone E cfg s y"
  by (induction rule: refill.induct) (auto simp: replenish_steps)

lemma alone_run: "refills E cfg x y \<Longrightarrow> alone E cfg s x \<Longrightarrow> alone E cfg s y"
  by (induction rule: rtranclp_induct) (auto intro: alone_step)

lemma alone_finish:
  assumes "replenish_one E cfg s = (Inr (), s')"
  shows "refills E cfg (s, [Waiting]) (s', [Finished])"
proof (cases "pool_size cfg \<le> length (ready s)")
  case True
  then show ?thesis using assms refill.enough [of 0 "[Waiting]" cfg s E] by (auto simp: replenish_steps)
next
  case False
  let ?i = "pool_vm_id E (next_cid s)" and ?c = "next_cid s" and ?s = "s\<lparr>next_cid := next_cid s + 1\<rparr>"
  have steps: "refill E cfg (s, [Waiting]) (s, [Checked])" "refill E cfg (s, [Checked]) (s, [Named ?i])"
    "refill E cfg (s, [Named ?i]) (?s, [Drawn ?i ?c])"
    using False refill.check [of 0 "[Waiting]" s cfg E] refill.name [of 0 "[Checked]" E cfg s] refill.draw [of 0 "[Named ?i]" ?i E cfg s] by simp_all
  have "refill E cfg (?s, [Drawn ?i ?c]) (s', [Finished])"
    using assms False refill.restored [of 0 "[Drawn ?i ?c]" ?i ?c E cfg ?s] refill.failed [of 0 "[Drawn ?i ?c]" ?i ?c E cfg ?s]
    by (auto simp: replenish_steps split: prod.splits sum.splits err.splits)
  with steps show ?thesis by (meson converse_rtranclp_into_rtranclp r_into_rtranclp)
qed

section \<open>Many tasks\<close>

lemma filter_update_length:
  assumes "t < length xs"
  shows "length (filter P (xs[t := x])) + (if P (xs ! t) then 1 else 0) = length (filter P xs) + (if P x then 1 else 0)"
proof -
  have "filter P xs = filter P (take t xs) @ filter P (xs ! t # drop (Suc t) xs)"
    using id_take_nth_drop [OF assms] filter_append by metis
  moreover have "filter P (xs[t := x]) = filter P (take t xs) @ filter P (x # drop (Suc t) xs)"
    using upd_conv_take_nth_drop [OF assms] by (metis filter_append)
  ultimately show ?thesis by simp
qed

fun undrawn :: "stage \<Rightarrow> bool" where
  "undrawn (Drawn i c) = False" | "undrawn Finished = False" | "undrawn _ = True"

definition started :: "stage \<Rightarrow> bool" where
  "started x \<longleftrightarrow> x \<noteq> Waiting"

definition busy :: "stage \<Rightarrow> bool" where
  "busy x \<longleftrightarrow> x \<noteq> Waiting \<and> x \<noteq> Finished"

lemma busy_started: "length (filter busy st) \<le> length (filter started st)"
  by (induction st) (auto simp: busy_def started_def)

text \<open>The CIDs of the ready VMs and of the tasks are different and below the allocator, which can serve the remaining tasks.\<close>

fun cids_ok :: "crew \<Rightarrow> bool" where
  "cids_ok (s, st) \<longleftrightarrow> distinct (map vm_cid (ready s)) \<and> (\<forall>vm \<in> set (ready s). vm_cid vm < next_cid s) \<and>
     (\<forall>t i c. t < length st \<longrightarrow> st ! t = Drawn i c \<longrightarrow> c < next_cid s \<and> c \<notin> vm_cid ` set (ready s)) \<and>
     (\<forall>t u i j c. t < length st \<longrightarrow> u < length st \<longrightarrow> st ! t = Drawn i c \<longrightarrow> st ! u = Drawn j c \<longrightarrow> t = u) \<and>
     unat (next_cid s) + length (filter undrawn st) < 2 ^ 64"

text \<open>The ready VMs and the tasks that will add one; \<open>l\<close> is the number of ready VMs at the beginning.\<close>

fun count_ok :: "DaemonConfig \<Rightarrow> nat \<Rightarrow> crew \<Rightarrow> bool" where
  "count_ok cfg l (s, st) \<longleftrightarrow>
     length (ready s) + length (filter busy st) \<le> max l (pool_size cfg - 1 + length (filter started st))"

lemma restore_base_frame:
  assumes "restore_base E cfg i c s = (r, s')"
  shows "ready s' = ready s" "next_cid s' = next_cid s" "r = Inr vm \<Longrightarrow> vm_cid vm = c \<and> vm_id vm = i"
proof -
  obtain cs where "s' = s\<lparr>calls := calls s @ cs\<rparr>" using only_callsE [OF only_calls_pool(2) assms] by blast
  then show "ready s' = ready s" "next_cid s' = next_cid s" by simp_all
  show "r = Inr vm \<Longrightarrow> vm_cid vm = c \<and> vm_id vm = i" using assms restore_base_result by metis
qed

lemma count_step: "refill E cfg x y \<Longrightarrow> count_ok cfg l x \<Longrightarrow> count_ok cfg l y"
proof (induction rule: refill.induct)
  case (enough t st s)
  then show ?case
    using filter_update_length [OF enough(1), of busy Finished] filter_update_length [OF enough(1), of started Finished]
    by (simp add: started_def busy_def)
next
  case (check t st s)
  then show ?case using busy_started [of st]
      filter_update_length [OF check(1), of busy Checked] filter_update_length [OF check(1), of started Checked]
    by (simp add: started_def busy_def)
next
  case (name t st s)
  let ?x = "Named (pool_vm_id E (next_cid s))"
  show ?case using name filter_update_length [OF name(1), of busy ?x] filter_update_length [OF name(1), of started ?x]
    by (simp add: started_def busy_def)
next
  case (draw t st i s)
  let ?x = "Drawn i (next_cid s)"
  show ?case using draw filter_update_length [OF draw(1), of busy ?x] filter_update_length [OF draw(1), of started ?x]
    by (simp add: started_def busy_def)
next
  case (restored t st i c s vm s')
  then show ?case using restore_base_frame [OF restored(3)]
      filter_update_length [OF restored(1), of busy Finished] filter_update_length [OF restored(1), of started Finished]
    by (simp add: started_def busy_def)
next
  case (failed t st i c s cs n s')
  then show ?case using restore_base_frame [OF failed(3)]
      filter_update_length [OF failed(1), of busy Finished] filter_update_length [OF failed(1), of started Finished]
    by (simp add: started_def busy_def)
qed

lemma cids_step: "refill E cfg x y \<Longrightarrow> cids_ok x \<Longrightarrow> cids_ok y"
proof (induction rule: refill.induct)
  case (enough t st s)
  then show ?case using filter_update_length [OF enough(1), of undrawn Finished] by (auto simp: nth_list_update split: if_splits)
next
  case (check t st s)
  then show ?case using filter_update_length [OF check(1), of undrawn Checked] by (auto simp: nth_list_update split: if_splits)
next
  case (name t st s)
  then show ?case using filter_update_length [OF name(1), of undrawn "Named (pool_vm_id E (next_cid s))"]
    by (auto simp: nth_list_update split: if_splits)
next
  case (draw t st i s)
  have u: "length (filter undrawn (st[t := Drawn i (next_cid s)])) + 1 = length (filter undrawn st)"
    using filter_update_length [OF draw(1), of undrawn "Drawn i (next_cid s)"] draw(2) by simp
  then have n: "next_cid s < next_cid s + 1" "unat (next_cid s + 1) = unat (next_cid s) + 1"
    using succ_no_wrap [of "next_cid s" 0] draw(3) by simp_all
  have lt: "c < next_cid s \<Longrightarrow> c < next_cid s + 1" for c using n(1) by order
  show ?case using draw u n(2) lt n(1) by (auto simp: nth_list_update split: if_splits)
next
  case (restored t st i c s vm s')
  then show ?case using filter_update_length [OF restored(1), of undrawn Finished] restore_base_frame [OF restored(3)]
    by (auto simp: nth_list_update split: if_splits)
next
  case (failed t st i c s cs n s')
  then show ?case using filter_update_length [OF failed(1), of undrawn Finished] restore_base_frame [OF failed(3)]
    by (auto simp: nth_list_update split: if_splits)
qed

section \<open>Properties\<close>


text \<open>
  C14: Replenishments in any number and any interleaving never give two VMs the same CID, and never fill the pool beyond the
  larger of what it held and its size plus the number of tasks less one.
\<close>

theorem concurrent_refills:
  assumes "distinct (map vm_cid (ready s))" and "\<forall>vm \<in> set (ready s). vm_cid vm < next_cid s" and "unat (next_cid s) + n < 2 ^ 64"
    and "refills E cfg (s, replicate n Waiting) (s', st)" and "0 < n" and "0 < pool_size cfg"
  shows "distinct (map vm_cid (ready s')) \<and> length (ready s') \<le> max (length (ready s)) (pool_size cfg + n - 1)"
proof -
  have len: "length st = n" if "refills E cfg (s, replicate n Waiting) (s', st)" for s' st
    using that by (induction "(s', st)" arbitrary: s' st rule: rtranclp_induct) (auto elim!: refillE)
  have "cids_ok (s, replicate n Waiting)" "count_ok cfg (length (ready s)) (s, replicate n Waiting)"
    using assms(1-3) by (simp_all add: busy_def started_def filter_replicate)
  with assms(4) have "cids_ok (s', st)" "count_ok cfg (length (ready s)) (s', st)"
    by (induction rule: rtranclp_induct) (auto intro: cids_step count_step)
  then have "distinct (map vm_cid (ready s'))" "length (ready s') \<le> max (length (ready s)) (pool_size cfg - 1 + length (filter started st))" by simp_all
  moreover have "length (filter started st) \<le> n" using length_filter_le [of started st] len [OF assms(4)] by simp
  then have "max (length (ready s)) (pool_size cfg - 1 + length (filter started st)) \<le> max (length (ready s)) (pool_size cfg + n - 1)"
    using assms(5,6) by (intro max.mono) auto
  ultimately show ?thesis by linarith
qed

lemma boot_restore_base:
  "\<exists>vm h. restore_base boot_env sample_cfg i c s = (Inr vm, s\<lparr>calls := h\<rparr>)"
proof -
  have "\<exists>vm. fst (restore_base boot_env sample_cfg i c s) = Inr vm"
    by (simp add: restore_base_def prepare_snapshot_def link_or_copy_def spawn_ch_def wait_ch_ready_def
      restore_vm_def resume_vm_def api_request_def wait_for_agent_def try_agent_health_def starts_with_def
      Let_def prog_simps cong: prog_congs)
  then obtain vm s' where run: "restore_base boot_env sample_cfg i c s = (Inr vm, s')" by (metis prod.collapse)
  then show ?thesis using only_callsE [OF only_calls_pool(2) run] by blast
qed

lemma collision_run:
  obtains s' vm vm' where "refills boot_env sample_cfg (sample_pool, [Waiting, Waiting]) (s', [Finished, Finished])"
    and "ready s' = [sample_vm, vm, vm']" and "vm_id vm = vm_id vm'" and "vm_cid vm \<noteq> vm_cid vm'"
proof -
  let ?R = "refill boot_env sample_cfg" and ?s = sample_pool and ?i = "pool_vm_id boot_env (next_cid sample_pool)" and ?c = "next_cid sample_pool"
  let ?s1 = "?s\<lparr>next_cid := ?c + 1\<rparr>" and ?s2 = "?s\<lparr>next_cid := ?c + 1 + 1\<rparr>"
  have 1: "?R (?s, [Waiting, Waiting]) (?s, [Checked, Waiting])" using refill.check [of 0 "[Waiting, Waiting]" ?s sample_cfg boot_env] by simp
  have 2: "?R (?s, [Checked, Waiting]) (?s, [Checked, Checked])" using refill.check [of 1 "[Checked, Waiting]" ?s sample_cfg boot_env] by simp
  have 3: "?R (?s, [Checked, Checked]) (?s, [Named ?i, Checked])" using refill.name [of 0 "[Checked, Checked]" boot_env sample_cfg ?s] by simp
  have 4: "?R (?s, [Named ?i, Checked]) (?s, [Named ?i, Named ?i])" using refill.name [of 1 "[Named ?i, Checked]" boot_env sample_cfg ?s] by simp
  have 5: "?R (?s, [Named ?i, Named ?i]) (?s1, [Drawn ?i ?c, Named ?i])"
    using refill.draw [of 0 "[Named ?i, Named ?i]" ?i boot_env sample_cfg ?s] by simp
  have 6: "?R (?s1, [Drawn ?i ?c, Named ?i]) (?s2, [Drawn ?i ?c, Drawn ?i (?c + 1)])"
    using refill.draw [of 1 "[Drawn ?i ?c, Named ?i]" ?i boot_env sample_cfg ?s1] by simp
  obtain vm h where vm: "restore_base boot_env sample_cfg ?i ?c ?s2 = (Inr vm, ?s2\<lparr>calls := h\<rparr>)" using boot_restore_base by blast
  let ?s3 = "?s2\<lparr>calls := h, ready := [sample_vm, vm]\<rparr>"
  have 7: "?R (?s2, [Drawn ?i ?c, Drawn ?i (?c + 1)]) (?s3, [Finished, Drawn ?i (?c + 1)])"
    using refill.restored [of 0 "[Drawn ?i ?c, Drawn ?i (?c + 1)]" ?i ?c boot_env sample_cfg, OF _ _ vm] by simp
  obtain vm' h' where vm': "restore_base boot_env sample_cfg ?i (?c + 1) ?s3 = (Inr vm', ?s3\<lparr>calls := h'\<rparr>)" using boot_restore_base by blast
  have 8: "?R (?s3, [Finished, Drawn ?i (?c + 1)]) (?s3\<lparr>calls := h', ready := [sample_vm, vm, vm']\<rparr>, [Finished, Finished])"
    using refill.restored [of 1 "[Finished, Drawn ?i (?c + 1)]" ?i "?c + 1" boot_env sample_cfg, OF _ _ vm'] by simp
  have run: "refills boot_env sample_cfg (?s, [Waiting, Waiting]) (?s3\<lparr>calls := h', ready := [sample_vm, vm, vm']\<rparr>, [Finished, Finished])"
    using 1 2 3 4 5 6 7 8 by (meson converse_rtranclp_into_rtranclp r_into_rtranclp)
  have "vm_id vm = vm_id vm'" "vm_cid vm \<noteq> vm_cid vm'"
    using restore_base_frame(3) [OF vm refl] restore_base_frame(3) [OF vm' refl] by simp_all
  then show thesis by (intro that [OF run]) simp_all
qed


theorem concurrent_refills_witness:
  "\<exists>s'. refills boot_env sample_cfg (sample_pool, replicate 2 Waiting) (s', [Finished, Finished]) \<and>
     distinct (map vm_cid (ready s')) \<and> length (ready s') = 3"
proof -
  obtain s' vm vm' where run: "refills boot_env sample_cfg (sample_pool, [Waiting, Waiting]) (s', [Finished, Finished])"
    and r: "ready s' = [sample_vm, vm, vm']" by (rule collision_run)
  have two: "replicate 2 Waiting = [Waiting, Waiting]" by (simp add: eval_nat_numeral)
  have "distinct (map vm_cid (ready sample_pool))" "\<forall>vm \<in> set (ready sample_pool). vm_cid vm < next_cid sample_pool"
    "unat (next_cid sample_pool) + 2 < 2 ^ 64" "refills boot_env sample_cfg (sample_pool, replicate 2 Waiting) (s', [Finished, Finished])"
    "0 < (2 :: nat)" "0 < pool_size sample_cfg"
    using run two by simp_all
  from concurrent_refills [OF this] this(4) r show ?thesis by auto
qed

end
