(* ===== verification/VmTypes.thy ===== *)
theory VmTypes
  imports Config
begin

text \<open>
  The rest of \<^verbatim>\<open>crates/common/src/types.rs\<close>: the VM configuration of Cloud Hypervisor's REST API with the form that the derive attributes
  give it as JSON, in both directions, and the serialisation of the runtime configuration. A field with \<^verbatim>\<open>skip_serializing_if\<close> is left
  out; on the way back a missing optional field is \<^verbatim>\<open>None\<close>, and every other missing field without a default is an error.
  Deserialisation is modelled from objects, not from the sequences that the derived code also takes.
\<close>

section \<open>Members\<close>

definition opt_member :: "string \<Rightarrow> ('a \<Rightarrow> json) \<Rightarrow> 'a option \<Rightarrow> (string \<times> json) list" where
  "opt_member k f xo = (case xo of None \<Rightarrow> [] | Some x \<Rightarrow> [(k, f x)])"

definition vec_member :: "string \<Rightarrow> ('a \<Rightarrow> json) \<Rightarrow> 'a list \<Rightarrow> (string \<times> json) list" where
  "vec_member k f xs = (if xs = [] then [] else [(k, JArr (map f xs))])"

definition num_req :: "nat \<Rightarrow> string \<Rightarrow> json \<Rightarrow> nat option" where
  "num_req bits k j = Option.bind (Option.bind (j_get k j) as_num) (\<lambda>n. if n < 2 ^ bits then Some n else None)"

definition struct_req :: "(json \<Rightarrow> 'a option) \<Rightarrow> string \<Rightarrow> json \<Rightarrow> 'a option" where
  "struct_req f k j = Option.bind (j_get k j) f"

definition opt_of :: "(json \<Rightarrow> 'a option) \<Rightarrow> string \<Rightarrow> json \<Rightarrow> 'a option option" where
  "opt_of f k j = (case j_get k j of None \<Rightarrow> Some None | Some JNull \<Rightarrow> Some None | Some v \<Rightarrow> map_option Some (f v))"

definition vec_req :: "(json \<Rightarrow> 'a option) \<Rightarrow> string \<Rightarrow> json \<Rightarrow> 'a list option" where
  "vec_req f k j = Option.bind (Option.bind (j_get k j) as_array) (\<lambda>xs. those (map f xs))"

definition as_u64 :: "json \<Rightarrow> u64 option" where
  "as_u64 j = Option.bind (as_num j) (\<lambda>n. if n < 2 ^ 64 then Some (word_of_nat n) else None)"

lemma map_of_members [simp]:
  "map_of (opt_member k f xo) k' = (if k' = k then map_option f xo else None)"
  "map_of (vec_member k g xs) k' = (if k' = k \<and> xs \<noteq> [] then Some (JArr (map g xs)) else None)"
  by (auto simp: opt_member_def vec_member_def split: option.split)

lemma those_inverse: "(\<And>x. f (g x) = Some x) \<Longrightarrow> those (map f (map g xs)) = Some xs"
  by (induction xs) simp_all

lemma member_back [simp]:
  "j_get k j = Some (JNum (unat (x :: u64))) \<Longrightarrow> num_req 64 k j = Some (unat x)"
  "j_get k j = Some (JNum (unat (y :: u32))) \<Longrightarrow> num_req 32 k j = Some (unat y)"
  "as_u64 (JNum (unat x)) = Some x"
  using unsigned_less [of x, where 'a = nat] unsigned_less [of y, where 'a = nat]
  by (simp_all add: num_req_def as_u64_def)

lemma opt_back:
  assumes "j_get k j = map_option g xo" and "\<And>x. f (g x) = Some x" and "\<And>x. g x \<noteq> JNull"
  shows "opt_of f k j = Some xo"
proof (cases xo)
  case (Some x)
  then show ?thesis using assms by (cases "g x") (simp_all add: opt_of_def, metis+)
qed (use assms in \<open>simp add: opt_of_def\<close>)

lemma vec_back:
  assumes "j_get k j = (if xs = [] then None else Some (JArr (map g xs)))" and "\<And>x. f (g x) = Some x"
  shows "vec_req f k j = (if xs = [] then None else Some xs)"
  using assms(1) those_inverse [of f g xs, OF assms(2)] by (simp add: vec_req_def)

section \<open>The parts of a VM configuration\<close>

record VmPayload =
  vp_kernel :: string
  vp_cmdline :: "string option"
  vp_initramfs :: "string option"

definition VmPayload_to_json :: "VmPayload \<Rightarrow> json" where
  "VmPayload_to_json x = JObj ([(''kernel'', JStr (vp_kernel x))] @ opt_member ''cmdline'' JStr (vp_cmdline x) @ opt_member ''initramfs'' JStr (vp_initramfs x))"

definition VmPayload_from_json :: "json \<Rightarrow> VmPayload option" where
  "VmPayload_from_json j =
     Option.bind (str_req ''kernel'' j) (\<lambda>x0.
     Option.bind (opt_of as_str ''cmdline'' j) (\<lambda>x1.
     Option.bind (opt_of as_str ''initramfs'' j) (\<lambda>x2.
       Some \<lparr>vp_kernel = x0, vp_cmdline = x1, vp_initramfs = x2\<rparr>)))"

record VmCpus =
  vc_boot_vcpus :: u32
  vc_max_vcpus :: u32

definition VmCpus_to_json :: "VmCpus \<Rightarrow> json" where
  "VmCpus_to_json x = JObj ([(''boot_vcpus'', JNum (unat (vc_boot_vcpus x))), (''max_vcpus'', JNum (unat (vc_max_vcpus x)))])"

definition VmCpus_from_json :: "json \<Rightarrow> VmCpus option" where
  "VmCpus_from_json j =
     Option.bind (num_req 32 ''boot_vcpus'' j) (\<lambda>x0.
     Option.bind (num_req 32 ''max_vcpus'' j) (\<lambda>x1.
       Some \<lparr>vc_boot_vcpus = word_of_nat x0, vc_max_vcpus = word_of_nat x1\<rparr>))"

record VmMemory =
  vmem_size :: u64
  vmem_shared :: bool
  vmem_hotplug_size :: "u64 option"
  vmem_hotplug_method :: "string option"

definition VmMemory_to_json :: "VmMemory \<Rightarrow> json" where
  "VmMemory_to_json x = JObj ([(''size'', JNum (unat (vmem_size x))), (''shared'', JBool (vmem_shared x))] @ opt_member ''hotplug_size'' (\<lambda>n. JNum (unat n)) (vmem_hotplug_size x) @ opt_member ''hotplug_method'' JStr (vmem_hotplug_method x))"

definition VmMemory_from_json :: "json \<Rightarrow> VmMemory option" where
  "VmMemory_from_json j =
     Option.bind (num_req 64 ''size'' j) (\<lambda>x0.
     Option.bind (bool_or False ''shared'' j) (\<lambda>x1.
     Option.bind (opt_of as_u64 ''hotplug_size'' j) (\<lambda>x2.
     Option.bind (opt_of as_str ''hotplug_method'' j) (\<lambda>x3.
       Some \<lparr>vmem_size = word_of_nat x0, vmem_shared = x1, vmem_hotplug_size = x2, vmem_hotplug_method = x3\<rparr>))))"

record VmDisk =
  vd_path :: string
  vd_readonly :: bool
  vd_id :: "string option"

definition VmDisk_to_json :: "VmDisk \<Rightarrow> json" where
  "VmDisk_to_json x = JObj ([(''path'', JStr (vd_path x)), (''readonly'', JBool (vd_readonly x))] @ opt_member ''id'' JStr (vd_id x))"

definition VmDisk_from_json :: "json \<Rightarrow> VmDisk option" where
  "VmDisk_from_json j =
     Option.bind (str_req ''path'' j) (\<lambda>x0.
     Option.bind (bool_or False ''readonly'' j) (\<lambda>x1.
     Option.bind (opt_of as_str ''id'' j) (\<lambda>x2.
       Some \<lparr>vd_path = x0, vd_readonly = x1, vd_id = x2\<rparr>)))"

record VmFs =
  vf_tag :: string
  vf_socket :: string
  vf_num_queues :: u32
  vf_queue_size :: u32

definition default_fs_queues :: nat where "default_fs_queues = 1"
definition default_fs_queue_size :: nat where "default_fs_queue_size = 128"

definition VmFs_to_json :: "VmFs \<Rightarrow> json" where
  "VmFs_to_json x = JObj ([(''tag'', JStr (vf_tag x)), (''socket'', JStr (vf_socket x)), (''num_queues'', JNum (unat (vf_num_queues x))), (''queue_size'', JNum (unat (vf_queue_size x)))])"

definition VmFs_from_json :: "json \<Rightarrow> VmFs option" where
  "VmFs_from_json j =
     Option.bind (str_req ''tag'' j) (\<lambda>x0.
     Option.bind (str_req ''socket'' j) (\<lambda>x1.
     Option.bind (num_or 32 default_fs_queues ''num_queues'' j) (\<lambda>x2.
     Option.bind (num_or 32 default_fs_queue_size ''queue_size'' j) (\<lambda>x3.
       Some \<lparr>vf_tag = x0, vf_socket = x1, vf_num_queues = word_of_nat x2, vf_queue_size = word_of_nat x3\<rparr>))))"

record VmNet =
  vn_tap :: string
  vn_mac :: "string option"

definition VmNet_to_json :: "VmNet \<Rightarrow> json" where
  "VmNet_to_json x = JObj ([(''tap'', JStr (vn_tap x))] @ opt_member ''mac'' JStr (vn_mac x))"

definition VmNet_from_json :: "json \<Rightarrow> VmNet option" where
  "VmNet_from_json j =
     Option.bind (str_req ''tap'' j) (\<lambda>x0.
     Option.bind (opt_of as_str ''mac'' j) (\<lambda>x1.
       Some \<lparr>vn_tap = x0, vn_mac = x1\<rparr>))"

record VmVsock =
  vv_cid :: u64
  vv_socket :: string

definition VmVsock_to_json :: "VmVsock \<Rightarrow> json" where
  "VmVsock_to_json x = JObj ([(''cid'', JNum (unat (vv_cid x))), (''socket'', JStr (vv_socket x))])"

definition VmVsock_from_json :: "json \<Rightarrow> VmVsock option" where
  "VmVsock_from_json j =
     Option.bind (num_req 64 ''cid'' j) (\<lambda>x0.
     Option.bind (str_req ''socket'' j) (\<lambda>x1.
       Some \<lparr>vv_cid = word_of_nat x0, vv_socket = x1\<rparr>))"

record VmConsoleConfig =
  vcc_mode :: string
  vcc_file :: "string option"

definition VmConsoleConfig_to_json :: "VmConsoleConfig \<Rightarrow> json" where
  "VmConsoleConfig_to_json x = JObj ([(''mode'', JStr (vcc_mode x))] @ opt_member ''file'' JStr (vcc_file x))"

definition VmConsoleConfig_from_json :: "json \<Rightarrow> VmConsoleConfig option" where
  "VmConsoleConfig_from_json j =
     Option.bind (str_req ''mode'' j) (\<lambda>x0.
     Option.bind (opt_of as_str ''file'' j) (\<lambda>x1.
       Some \<lparr>vcc_mode = x0, vcc_file = x1\<rparr>))"

record VmTpm =
  vt_socket :: string

definition VmTpm_to_json :: "VmTpm \<Rightarrow> json" where
  "VmTpm_to_json x = JObj ([(''socket'', JStr (vt_socket x))])"

definition VmTpm_from_json :: "json \<Rightarrow> VmTpm option" where
  "VmTpm_from_json j =
     Option.bind (str_req ''socket'' j) (\<lambda>x0.
       Some \<lparr>vt_socket = x0\<rparr>)"

record VmBalloon =
  vb_size :: u64
  vb_free_page_reporting :: bool

definition VmBalloon_to_json :: "VmBalloon \<Rightarrow> json" where
  "VmBalloon_to_json x = JObj ([(''size'', JNum (unat (vb_size x))), (''free_page_reporting'', JBool (vb_free_page_reporting x))])"

definition VmBalloon_from_json :: "json \<Rightarrow> VmBalloon option" where
  "VmBalloon_from_json j =
     Option.bind (num_req 64 ''size'' j) (\<lambda>x0.
     Option.bind (bool_or False ''free_page_reporting'' j) (\<lambda>x1.
       Some \<lparr>vb_size = word_of_nat x0, vb_free_page_reporting = x1\<rparr>))"

definition VmConsoleConfig_off :: VmConsoleConfig where
  "VmConsoleConfig_off = \<lparr>vcc_mode = ''Off'', vcc_file = None\<rparr>"

definition VmConsoleConfig_file :: "path \<Rightarrow> VmConsoleConfig" where
  "VmConsoleConfig_file p = \<lparr>vcc_mode = ''File'', vcc_file = Some p\<rparr>"

section \<open>The VM configuration\<close>

record VmConfig =
  vm_payload :: VmPayload
  vm_cpus :: VmCpus
  vm_memory :: VmMemory
  vm_disks :: "VmDisk list"
  vm_net :: "VmNet list"
  vm_fs :: "VmFs list"
  vm_vsock :: "VmVsock option"
  vm_serial :: "VmConsoleConfig option"
  vm_console :: "VmConsoleConfig option"
  vm_balloon :: "VmBalloon option"
  vm_tpm :: "VmTpm option"

definition VmConfig_to_json :: "VmConfig \<Rightarrow> json" where
  "VmConfig_to_json x = JObj
     ([(''payload'', VmPayload_to_json (vm_payload x)), (''cpus'', VmCpus_to_json (vm_cpus x)), (''memory'', VmMemory_to_json (vm_memory x))] @
      vec_member ''disks'' VmDisk_to_json (vm_disks x) @ vec_member ''net'' VmNet_to_json (vm_net x) @ vec_member ''fs'' VmFs_to_json (vm_fs x) @
      opt_member ''vsock'' VmVsock_to_json (vm_vsock x) @ opt_member ''serial'' VmConsoleConfig_to_json (vm_serial x) @
      opt_member ''console'' VmConsoleConfig_to_json (vm_console x) @ opt_member ''balloon'' VmBalloon_to_json (vm_balloon x) @
      opt_member ''tpm'' VmTpm_to_json (vm_tpm x))"

definition VmConfig_from_json :: "json \<Rightarrow> VmConfig option" where
  "VmConfig_from_json j =
     Option.bind (struct_req VmPayload_from_json ''payload'' j) (\<lambda>x0.
     Option.bind (struct_req VmCpus_from_json ''cpus'' j) (\<lambda>x1.
     Option.bind (struct_req VmMemory_from_json ''memory'' j) (\<lambda>x2.
     Option.bind (vec_req VmDisk_from_json ''disks'' j) (\<lambda>x3.
     Option.bind (vec_req VmNet_from_json ''net'' j) (\<lambda>x4.
     Option.bind (vec_req VmFs_from_json ''fs'' j) (\<lambda>x5.
     Option.bind (opt_of VmVsock_from_json ''vsock'' j) (\<lambda>x6.
     Option.bind (opt_of VmConsoleConfig_from_json ''serial'' j) (\<lambda>x7.
     Option.bind (opt_of VmConsoleConfig_from_json ''console'' j) (\<lambda>x8.
     Option.bind (opt_of VmBalloon_from_json ''balloon'' j) (\<lambda>x9.
     Option.bind (opt_of VmTpm_from_json ''tpm'' j) (\<lambda>x10.
       Some \<lparr>vm_payload = x0, vm_cpus = x1, vm_memory = x2, vm_disks = x3, vm_net = x4, vm_fs = x5, vm_vsock = x6,
             vm_serial = x7, vm_console = x8, vm_balloon = x9, vm_tpm = x10\<rparr>)))))))))))"

section \<open>The runtime configuration as JSON\<close>

definition RuntimeConfig_to_json :: "RuntimeConfig \<Rightarrow> json" where
  "RuntimeConfig_to_json c = JObj
     [(''cloud_hypervisor_binary'', JStr (rc_cloud_hypervisor_binary c)), (''kernel_path'', JStr (rc_kernel_path c)),
      (''rootfs_path'', JStr (rc_rootfs_path c)), (''default_vcpus'', JNum (unat (rc_default_vcpus c))),
      (''max_default_vcpus'', JNum (unat (rc_max_default_vcpus c))), (''default_memory_mb'', JNum (unat (rc_default_memory_mb c))),
      (''vsock_port'', JNum (unat (rc_vsock_port c))), (''agent_startup_timeout_secs'', JNum (unat (rc_agent_startup_timeout_secs c))),
      (''kernel_args'', JStr (rc_kernel_args c)), (''debug'', JBool (rc_debug c)),
      (''max_containers_per_vm'', JNum (rc_max_containers_per_vm c)), (''hotplug_memory_mb'', JNum (unat (rc_hotplug_memory_mb c))),
      (''hotplug_method'', JStr (rc_hotplug_method c)), (''tpm_enabled'', JBool (rc_tpm_enabled c)),
      (''daemon_socket'', JStr (rc_daemon_socket c))]"

section \<open>Properties\<close>

lemma RuntimeConfig_back:
  "rc_max_containers_per_vm c < 2 ^ 64 \<Longrightarrow> RuntimeConfig_from_json aarch64 (RuntimeConfig_to_json c) = Some c"
  unfolding RuntimeConfig_from_json_def RuntimeConfig_to_json_def by simp

lemma VmPayload_back [simp]: "VmPayload_from_json (VmPayload_to_json x) = Some x"
proof -
  let ?j = "VmPayload_to_json x"
  have o_cmdline: "opt_of as_str ''cmdline'' ?j = Some (vp_cmdline x)"
    by (rule opt_back [of _ _ "JStr"]) (simp_all add: VmPayload_to_json_def map_add_def split: option.split)
  have o_initramfs: "opt_of as_str ''initramfs'' ?j = Some (vp_initramfs x)"
    by (rule opt_back [of _ _ "JStr"]) (simp_all add: VmPayload_to_json_def map_add_def split: option.split)
  show ?thesis unfolding VmPayload_from_json_def o_cmdline o_initramfs by (simp add: VmPayload_to_json_def)
qed

lemma VmCpus_back [simp]: "VmCpus_from_json (VmCpus_to_json x) = Some x"
  by (simp add: VmCpus_from_json_def VmCpus_to_json_def)

lemma VmMemory_back [simp]: "VmMemory_from_json (VmMemory_to_json x) = Some x"
proof -
  let ?j = "VmMemory_to_json x"
  have o_hotplug_size: "opt_of as_u64 ''hotplug_size'' ?j = Some (vmem_hotplug_size x)"
    by (rule opt_back [of _ _ "\<lambda>n :: u64. JNum (unat n)"]) (simp_all add: VmMemory_to_json_def map_add_def split: option.split)
  have o_hotplug_method: "opt_of as_str ''hotplug_method'' ?j = Some (vmem_hotplug_method x)"
    by (rule opt_back [of _ _ "JStr"]) (simp_all add: VmMemory_to_json_def map_add_def split: option.split)
  show ?thesis unfolding VmMemory_from_json_def o_hotplug_size o_hotplug_method by (simp add: VmMemory_to_json_def)
qed

lemma VmDisk_back [simp]: "VmDisk_from_json (VmDisk_to_json x) = Some x"
proof -
  let ?j = "VmDisk_to_json x"
  have o_id: "opt_of as_str ''id'' ?j = Some (vd_id x)"
    by (rule opt_back [of _ _ "JStr"]) (simp_all add: VmDisk_to_json_def map_add_def split: option.split)
  show ?thesis unfolding VmDisk_from_json_def o_id by (simp add: VmDisk_to_json_def)
qed

lemma VmFs_back [simp]: "VmFs_from_json (VmFs_to_json x) = Some x"
  by (simp add: VmFs_from_json_def VmFs_to_json_def)

lemma VmNet_back [simp]: "VmNet_from_json (VmNet_to_json x) = Some x"
proof -
  let ?j = "VmNet_to_json x"
  have o_mac: "opt_of as_str ''mac'' ?j = Some (vn_mac x)"
    by (rule opt_back [of _ _ "JStr"]) (simp_all add: VmNet_to_json_def map_add_def split: option.split)
  show ?thesis unfolding VmNet_from_json_def o_mac by (simp add: VmNet_to_json_def)
qed

lemma VmVsock_back [simp]: "VmVsock_from_json (VmVsock_to_json x) = Some x"
  by (simp add: VmVsock_from_json_def VmVsock_to_json_def)

lemma VmConsoleConfig_back [simp]: "VmConsoleConfig_from_json (VmConsoleConfig_to_json x) = Some x"
proof -
  let ?j = "VmConsoleConfig_to_json x"
  have o_file: "opt_of as_str ''file'' ?j = Some (vcc_file x)"
    by (rule opt_back [of _ _ "JStr"]) (simp_all add: VmConsoleConfig_to_json_def map_add_def split: option.split)
  show ?thesis unfolding VmConsoleConfig_from_json_def o_file by (simp add: VmConsoleConfig_to_json_def)
qed

lemma VmTpm_back [simp]: "VmTpm_from_json (VmTpm_to_json x) = Some x"
  by (simp add: VmTpm_from_json_def VmTpm_to_json_def)

lemma VmBalloon_back [simp]: "VmBalloon_from_json (VmBalloon_to_json x) = Some x"
  by (simp add: VmBalloon_from_json_def VmBalloon_to_json_def)

lemma to_json_object [simp]:
  "VmPayload_to_json x0 \<noteq> JNull"
  "VmCpus_to_json x1 \<noteq> JNull"
  "VmMemory_to_json x2 \<noteq> JNull"
  "VmDisk_to_json x3 \<noteq> JNull"
  "VmFs_to_json x4 \<noteq> JNull"
  "VmNet_to_json x5 \<noteq> JNull"
  "VmVsock_to_json x6 \<noteq> JNull"
  "VmConsoleConfig_to_json x7 \<noteq> JNull"
  "VmTpm_to_json x8 \<noteq> JNull"
  "VmBalloon_to_json x9 \<noteq> JNull"
  by (simp_all add: VmPayload_to_json_def VmCpus_to_json_def VmMemory_to_json_def VmDisk_to_json_def VmFs_to_json_def VmNet_to_json_def VmVsock_to_json_def VmConsoleConfig_to_json_def VmTpm_to_json_def VmBalloon_to_json_def)

text \<open>
  C39: A VM configuration comes back from its JSON form unchanged, whatever optional parts it has, exactly when it
  has a disk, a network device and a shared file system: an empty list is not written, and because its field has no default, reading the
  result back fails. The benchmark of the shim reads back a configuration without network devices.
\<close>

theorem VmConfig_roundtrip:
  "VmConfig_from_json (VmConfig_to_json c) = (if vm_disks c = [] \<or> vm_net c = [] \<or> vm_fs c = [] then None else Some c)"
proof -
  let ?j = "VmConfig_to_json c"
  have vecs: "vec_req VmDisk_from_json ''disks'' ?j = (if vm_disks c = [] then None else Some (vm_disks c))"
    "vec_req VmNet_from_json ''net'' ?j = (if vm_net c = [] then None else Some (vm_net c))"
    "vec_req VmFs_from_json ''fs'' ?j = (if vm_fs c = [] then None else Some (vm_fs c))"
    by (rule vec_back [of _ _ _ VmDisk_to_json] vec_back [of _ _ _ VmNet_to_json] vec_back [of _ _ _ VmFs_to_json]; simp add: VmConfig_to_json_def map_add_def split: option.split)+
  have opts: "opt_of VmVsock_from_json ''vsock'' ?j = Some (vm_vsock c)" "opt_of VmConsoleConfig_from_json ''serial'' ?j = Some (vm_serial c)"
    "opt_of VmConsoleConfig_from_json ''console'' ?j = Some (vm_console c)" "opt_of VmBalloon_from_json ''balloon'' ?j = Some (vm_balloon c)"
    "opt_of VmTpm_from_json ''tpm'' ?j = Some (vm_tpm c)"
    by (rule opt_back [of _ _ VmVsock_to_json] opt_back [of _ _ VmConsoleConfig_to_json] opt_back [of _ _ VmBalloon_to_json]
        opt_back [of _ _ VmTpm_to_json]; simp add: VmConfig_to_json_def map_add_def split: option.split)+
  have "struct_req VmPayload_from_json ''payload'' ?j = Some (vm_payload c)" "struct_req VmCpus_from_json ''cpus'' ?j = Some (vm_cpus c)"
    "struct_req VmMemory_from_json ''memory'' ?j = Some (vm_memory c)"
    by (simp_all add: struct_req_def VmConfig_to_json_def)
  then show ?thesis unfolding VmConfig_from_json_def vecs opts by simp
qed

end
