(* ===== verification/Spec2Isabelle.thy ===== *)
theory Spec2Isabelle
  imports GuestNetwork PoolRace VmTypes
begin

text \<open>
  A verification development for the Cloud Hypervisor runtime of containerd.

  \<^bold>\<open>The program.\<close> A pod runs as containers in one micro VM. Four crates under \<^verbatim>\<open>src/crates\<close> do this.
  The \<^emph>\<open>daemon\<close> keeps a pool of VMs that are restored from a base snapshot, hands them out, takes snapshots of warmed-up
  workloads, connects a VM to the pod's network, and serves a JSON-line API on a Unix socket. The \<^emph>\<open>shim\<close>, one process per pod, is
  called by containerd; it builds the root file system image of a container and asks the daemon for VMs and containers. The
  \<^emph>\<open>agent\<close> is the first process in the VM; it mounts the layers, runs containers with crun and reports their exit. The
  \<^emph>\<open>common\<close> crate has the constants, the configuration types and the netlink client.

  \<^bold>\<open>How programs are modelled.\<close> A fallible function with effects is a program: a function from a state to a result and a state
  (\<open>prog\<close> in \<open>Prelude\<close>). A result is a value or an error: \<open>Fail\<close> with the chain of messages that \<^verbatim>\<open>anyhow\<close> keeps, \<open>Panic\<close>, or
  \<open>Diverge\<close> for a loop that is still running when its fuel is used up. Panics cross every \<^verbatim>\<open>?\<close> and \<^verbatim>\<open>match\<close> on an
  error; only \<^verbatim>\<open>spawn_blocking\<close> turns them into errors. The state of each component extends \<open>world\<close>, the history of the calls made to the
  outside (\<open>Host\<close>): files, processes, sockets, the hypervisor, peers, clocks. An environment, a parameter of the definitions, answers a
  call from the history before it, so a theorem about all environments holds for every behaviour and every failure of the outside. JSON text and
  base64 are parameters as well; JSON values are a data type. Integers have the width of the source and wrap, as in a release
  build; Rust's hash maps are association lists, interpreted in the locale \<open>hash_map\<close>, and string slices panic off a character
  boundary (\<open>RustStd\<close>).

  \<^bold>\<open>The theories, in the order of their imports.\<close>

  \<^item> \<open>Prelude\<close>, \<open>RustStd\<close>, \<open>Host\<close>: programs and the rules for them (\<open>preserves\<close>, \<open>only_calls\<close>, \<open>plain\<close>, \<open>makes\<close>,
    the locale \<open>budget\<close> for counters that must not wrap), the parts of the standard library that the source uses, the boundary to the outside.
  \<^item> \<open>Config\<close>, \<open>VmTypes\<close>: \<^verbatim>\<open>daemon/src/config.rs\<close>, \<^verbatim>\<open>common/src/lib.rs\<close>, \<^verbatim>\<open>common/src/types.rs\<close>,
    \<^verbatim>\<open>shim/src/config.rs\<close>: configurations, their defaults and their JSON form. Round trips; which VM configurations cannot be read back.
  \<^item> \<open>VmLifecycle\<close>: \<^verbatim>\<open>daemon/src/vm_lifecycle.rs\<close>: the hypervisor's API client, booting, snapshots, restoring and destroying VMs. The
    exact calls of a shutdown, what a prepared snapshot changes, termination of the waits.
  \<^item> \<open>Pool\<close>: \<^verbatim>\<open>daemon/src/pool.rs\<close>. The invariant of the pool and that every operation keeps it, the reachable
    states, the outcome of an acquisition, acquire and release as a bracket (the locale \<open>vm_pool\<close>).
  \<^item> \<open>Netlink\<close>, \<open>Netns\<close>: \<^verbatim>\<open>common/src/netlink.rs\<close>, \<^verbatim>\<open>daemon/src/netns.rs\<close>, \<^verbatim>\<open>shim/src/netns.rs\<close>: messages as bytes,
    their parsers, the operations on links, addresses, routes and filters, work in a pod's name space. Well-formed messages, round
    trips, parsers without panics, the way back to the original name space.
  \<^item> \<open>Shadow\<close>: \<^verbatim>\<open>daemon/src/shadow.rs\<close>: the snapshot cache and the shadow VMs that fill it. Least recently used eviction; what a shadow does
    with its VM.
  \<^item> \<open>Api\<close>: \<^verbatim>\<open>daemon/src/api.rs\<close> and \<^verbatim>\<open>main.rs\<close>: the handlers, the dispatch, the start. The invariant of the whole
    daemon over all sequences of requests and tasks.
  \<^item> \<open>Registry\<close>, \<open>Answers\<close>, \<open>Supply\<close>, \<open>PoolRace\<close>: what the daemon promises. The refinement of the registry of active VMs, the types
    of the answers, how the pool stays filled, and replenishments that run concurrently.
  \<^item> \<open>AgentInit\<close>, \<open>AgentContainer\<close>, \<open>AgentServer\<close>: \<^verbatim>\<open>agent/src\<close>: the set-up as init, the container manager with its exit
    channels and log buffers, the RPC handlers, the server. The invariant of the agent over all sequences of requests,
    output and exits; the path of an exit code to the client; block devices, mounts, the adapted OCI specification, logs.
  \<^item> \<open>DaemonClient\<close>, \<open>ShimInstance\<close>: \<^verbatim>\<open>shim/src\<close>: the client of the daemon, the instances with their shared,
    reference-counted VM states. What the shim relies on is the locale \<open>sandbox_service\<close>; the life of a pod is proved in it.
  \<^item> \<open>System\<close>: shim and daemon together: \<open>sandbox_service\<close> is interpreted on the daemon's own dispatch, and with it the theorems about a pod's life hold
    of the two programs.
  \<^item> \<open>Protobuf\<close>, \<open>WireFormat\<close>: the runtime that generated message code calls, as a parameter (the record \<open>pb_runtime\<close>) with its laws as
    the locale \<open>protobuf_runtime\<close>, and the idioms of the generated code. In the locale: a loop over tags reads back the fields that
    were written, sizes count the bytes, a parse ends. \<open>WireFormat\<close> interprets the locale on the documented wire format, byte by byte, so the laws can hold together.
  \<^item> \<open>Messages\<close>, \<open>GuestMessages\<close>: \<^verbatim>\<open>generated/agent.rs\<close>: the two enums and the twenty-six messages, each with \<^verbatim>\<open>new\<close>, \<^verbatim>\<open>merge_from\<close>,
    \<^verbatim>\<open>compute_size\<close>, \<^verbatim>\<open>write_to_with_cached_sizes\<close>, \<^verbatim>\<open>clear\<close> and \<^verbatim>\<open>default_instance\<close>. For each message a round trip from the runtime's laws.
  \<^item> \<open>Ttrpc\<close>: \<^verbatim>\<open>generated/agent_ttrpc.rs\<close>: the traits with their default methods, the method handlers, the tables of a service, the clients. A call through a client equals
    the call of the service.
  \<^item> \<open>AgentWire\<close>: the agent's handlers as the service of \<open>Ttrpc\<close>, on messages: running, killing, deleting, waiting and configuring the network over the wire.
  \<^item> \<open>GuestLink\<close>: shim, daemon and agent together. What the shim asks for is what the agent does, and the process id and the exit status
    that it gets are those of the agent.
  \<^item> \<open>GuestNetwork\<close>: the address of a pod, from the report of the host's kernel through the daemon and the agent to the request to the guest's kernel.

  \<^bold>\<open>Interleaving.\<close> An operation that holds its lock, or that no other task can observe half-way, is one step. Spawned tasks are queued and run
  as steps of their own, in any order with the requests (\<open>daemon_step\<close>, \<open>agent_step\<close>); a wait of the agent, which gives up its lock,
  is two steps. A handler of the daemon is one step in \<open>daemon_step\<close>, although its awaits are points where others run: the theorems about reachable
  daemon states are about handlers that do not overlap. Where overlapping changes the result it is modelled separately: replenishments
  in \<open>PoolRace\<close>, the first containers of a sandbox in \<open>ShimInstance\<close>.

  \<^bold>\<open>Bounds and fuel.\<close> The theorems on reachable states assume that fewer than \<^verbatim>\<open>2^64\<close> identifiers have been drawn: a step of the daemon draws at
  most two. Loops of the source with a bound of their own recurse over it. Polling loops without one take \<open>loop_fuel\<close> rounds at most; the theorems that
  they return state the number of rounds that is enough, from the time-out of the source and a clock that runs (1001 rounds for the hypervisor's
  socket, 101 for a network device, 201 for a mount).

  The loop of \<^verbatim>\<open>merge_from\<close> takes at most one round more than there are bytes of input; since every round consumes at least one byte, this is always
  enough, and no message parser runs out of it.

  \<^bold>\<open>Not modelled.\<close> The protobuf runtime and the ttrpc crate, which are parameters with named laws, and the descriptors and reflection in the generated code,
  which the program does not use. Between daemon and agent a call of the model carries the fields of its messages; \<open>GuestLink\<close> ties each of the
  five calls that the daemon makes (run, kill, wait, delete, configure network) to the messages on the wire. Logging and timing output. The shim framework around \<^verbatim>\<open>Instance\<close> and its exit cell, which is a parameter. \<^verbatim>\<open>common/src/error.rs\<close>, which
  nothing uses. The scheduler and the memory model: atomics are sequentially consistent, as the source asks for. Closing of file
  descriptors. Build scripts, tests, benchmarks, packaging and the guest image.
\<close>

end
